(* ===== verification/Arco_Prelude.thy ===== *)
theory Arco_Prelude
  imports Main "HOL-Library.AList" "HOL-Library.Word" "HOL-Library.List_Lexorder" "HOL-Library.Product_Lexorder"
    "HOL-Library.Char_ord"
begin

text \<open>
  Shared vocabulary of the development: the machine integers, the string and the
  hash map of the Rust sources, decimal printing and parsing as \<^verbatim>\<open>format!\<close> and
  \<^verbatim>\<open>str::parse\<close> do them, \<^verbatim>\<open>str::split\<close>, and the generic lemmas the component
  theories use.

  A \<^verbatim>\<open>String\<close> is its sequence of UTF-8 bytes, a \<^typ>\<open>char\<close> list; Rust compares strings
  bytewise, which is the lexicographic order of \<^verbatim>\<open>List_Lexorder\<close> over \<^verbatim>\<open>Char_ord\<close>.

  A \<^verbatim>\<open>HashMap\<close> is an association list. Lookup, insertion, removal and in-place update are
  \<^term>\<open>map_of\<close>, \<^term>\<open>AList.update\<close>, \<^term>\<open>AList.delete\<close> and \<^term>\<open>AList.map_entry\<close>;
  iteration follows the list. The iteration order of the Rust type is unspecified, and no
  statement below fixes the order of the list.
\<close>

section \<open>Types\<close>

type_synonym u8 = "8 word"
type_synonym u32 = "32 word"
type_synonym u64 = "64 word"

text \<open>A UTC instant, as a count of nanoseconds since the epoch; the sources only compare
  instants and copy them.\<close>

type_synonym datetime = int

type_synonym ('k, 'v) hashmap = "('k \<times> 'v) list"

named_theorems hm_simps \<open>lookups in updated hash maps\<close>
named_theorems show_simps \<open>decimal printing and parsing\<close>

section \<open>Hash maps\<close>

abbreviation hm_get :: "('k, 'v) hashmap \<Rightarrow> 'k \<Rightarrow> 'v option" where
  "hm_get m k \<equiv> map_of m k"

abbreviation hm_insert :: "'k \<Rightarrow> 'v \<Rightarrow> ('k, 'v) hashmap \<Rightarrow> ('k, 'v) hashmap" where
  "hm_insert k v m \<equiv> AList.update k v m"

abbreviation hm_remove :: "'k \<Rightarrow> ('k, 'v) hashmap \<Rightarrow> ('k, 'v) hashmap" where
  "hm_remove k m \<equiv> AList.delete k m"

text \<open>\<^verbatim>\<open>get_mut\<close> followed by writes through the reference.\<close>

abbreviation hm_modify :: "'k \<Rightarrow> ('v \<Rightarrow> 'v) \<Rightarrow> ('k, 'v) hashmap \<Rightarrow> ('k, 'v) hashmap" where
  "hm_modify k f m \<equiv> AList.map_entry k f m"

text \<open>\<^verbatim>\<open>entry(k).or_insert(v)\<close>.\<close>

definition hm_or_insert :: "'k \<Rightarrow> 'v \<Rightarrow> ('k, 'v) hashmap \<Rightarrow> ('k, 'v) hashmap" where
  "hm_or_insert k v m = (case map_of m k of None \<Rightarrow> AList.update k v m | Some _ \<Rightarrow> m)"

abbreviation hm_keys :: "('k, 'v) hashmap \<Rightarrow> 'k list" where
  "hm_keys m \<equiv> map fst m"

abbreviation hm_values :: "('k, 'v) hashmap \<Rightarrow> 'v list" where
  "hm_values m \<equiv> map snd m"

text \<open>Each key occurs once: what makes an association list a hash map.\<close>

abbreviation hm_wf :: "('k, 'v) hashmap \<Rightarrow> bool" where
  "hm_wf m \<equiv> distinct (map fst m)"

lemma hm_get_insert [hm_simps]: "hm_get (hm_insert k v m) k' = (if k' = k then Some v else hm_get m k')"
  by (simp add: update_conv')

lemma hm_get_remove [hm_simps]: "hm_get (hm_remove k m) k' = (if k' = k then None else hm_get m k')"
  by (simp add: delete_conv')

lemma hm_get_modify [hm_simps]:
  "hm_get (hm_modify k f m) k' = (if k' = k then map_option f (hm_get m k) else hm_get m k')"
  by (induction m) auto

lemma hm_get_or_insert [hm_simps]:
  "hm_get (hm_or_insert k v m) k' =
     (if k' = k then Some (case hm_get m k of None \<Rightarrow> v | Some w \<Rightarrow> w) else hm_get m k')"
  by (auto simp: hm_or_insert_def hm_get_insert split: option.splits)

lemma hm_modify_same: "(\<And>v. hm_get m k = Some v \<Longrightarrow> f v = v) \<Longrightarrow> hm_modify k f m = m"
  by (induction m) auto

lemma hm_modify_none: "hm_get m k = None \<Longrightarrow> hm_modify k f m = m"
  by (rule hm_modify_same) simp

lemma hm_keys_modify [simp]: "hm_keys (hm_modify k f m) = hm_keys m"
  by (induction m) auto

lemma hm_wf_insert [simp]: "hm_wf m \<Longrightarrow> hm_wf (hm_insert k v m)"
  by (rule distinct_update)

lemma hm_wf_remove [simp]: "hm_wf m \<Longrightarrow> hm_wf (hm_remove k m)"
  by (rule distinct_delete)

lemma hm_wf_or_insert [simp]: "hm_wf m \<Longrightarrow> hm_wf (hm_or_insert k v m)"
  by (auto simp: hm_or_insert_def distinct_update split: option.splits)

lemma hm_keys_insert_new: "hm_get m k = None \<Longrightarrow> hm_insert k v m = m @ [(k, v)]"
  by (induction m) (auto split: if_splits)

lemma hm_keys_insert_old: "hm_get m k \<noteq> None \<Longrightarrow> hm_keys (hm_insert k v m) = hm_keys m"
  by (induction m) (auto split: if_splits)

lemma hm_in_keys: "k \<in> set (hm_keys m) \<longleftrightarrow> hm_get m k \<noteq> None"
  by (metis domIff dom_map_of_conv_image_fst list.set_map)

lemma hm_get_in_set: "hm_wf m \<Longrightarrow> hm_get m k = Some v \<longleftrightarrow> (k, v) \<in> set m"
  by simp

declare map_of_eq_Some_iff [simp del] Some_eq_map_of_iff [simp del]

section \<open>Strings\<close>

text \<open>\<^verbatim>\<open>str::split\<close> by a character: the pieces between the separators, at least one.\<close>

fun split_on :: "char \<Rightarrow> string \<Rightarrow> string list" where
  "split_on c [] = [[]]"
| "split_on c (x # xs) =
     (if x = c then [] # split_on c xs
      else (case split_on c xs of [] \<Rightarrow> [[x]] | p # ps \<Rightarrow> (x # p) # ps))"

text \<open>\<^verbatim>\<open>str::split_once\<close>.\<close>

fun split_once :: "char \<Rightarrow> string \<Rightarrow> (string \<times> string) option" where
  "split_once c [] = None"
| "split_once c (x # xs) =
     (if x = c then Some ([], xs)
      else map_option (\<lambda>(a, b). (x # a, b)) (split_once c xs))"

text \<open>\<^verbatim>\<open>str::strip_suffix\<close>.\<close>

definition strip_suffix :: "string \<Rightarrow> string \<Rightarrow> string option" where
  "strip_suffix suf s =
     (if length suf \<le> length s \<and> drop (length s - length suf) s = suf
      then Some (take (length s - length suf) s) else None)"

lemma split_on_nonempty [simp]: "split_on c s \<noteq> []"
  by (induction s) (auto split: list.splits)

lemma split_on_absent [simp]: "c \<notin> set s \<Longrightarrow> split_on c s = [s]"
  by (induction s) auto

lemma split_on_append [simp]: "c \<notin> set a \<Longrightarrow> split_on c (a @ c # b) = a # split_on c b"
  by (induction a) auto

lemma split_once_append: "c \<notin> set a \<Longrightarrow> split_once c (a @ c # b) = Some (a, b)"
  by (induction a) auto

lemma sep_first_eq:
  fixes a b a' b' :: string
  assumes "a @ c # b = a' @ c # b'" "c \<notin> set a" "c \<notin> set a'"
  shows "a = a' \<and> b = b'"
proof -
  have "Some (a, b) = Some (a', b')"
    using split_once_append [OF assms(2), of b] split_once_append [OF assms(3), of b']
    unfolding assms(1) by (rule trans [OF sym])
  then show ?thesis by simp
qed

lemma sep_last_eq:
  fixes a b a' b' :: string
  assumes "a @ c # b = a' @ c # b'" "c \<notin> set b" "c \<notin> set b'"
  shows "a = a' \<and> b = b'"
proof -
  have "rev (a @ c # b) = rev (a' @ c # b')" using assms(1) by (rule arg_cong)
  then have "rev b @ c # rev a = rev b' @ c # rev a'" by simp
  then show ?thesis using sep_first_eq [of "rev b" c "rev a" "rev b'" "rev a'"] assms(2,3) by simp
qed

lemma split_once_absent: "split_once c s = None \<longleftrightarrow> c \<notin> set s"
  by (induction s) auto

lemma strip_suffix_append [simp]: "strip_suffix suf (s @ suf) = Some s"
  by (simp add: strip_suffix_def)

section \<open>Decimal numbers\<close>

definition digit_char :: "nat \<Rightarrow> char" where
  "digit_char d = char_of (48 + d)"

fun show_nat :: "nat \<Rightarrow> string" where
  "show_nat n = (if n < 10 then [digit_char n] else show_nat (n div 10) @ [digit_char (n mod 10)])"

declare show_nat.simps [simp del]

definition show_int :: "int \<Rightarrow> string" where
  "show_int i = (if i < 0 then CHR ''-'' # show_nat (nat (- i)) else show_nat (nat i))"

abbreviation show_u32 :: "u32 \<Rightarrow> string" where
  "show_u32 w \<equiv> show_nat (unat w)"

definition digit_of :: "char \<Rightarrow> nat option" where
  "digit_of c = (let n = of_char c :: nat in if 48 \<le> n \<and> n \<le> 57 then Some (n - 48) else None)"

abbreviation is_digit :: "char \<Rightarrow> bool" where
  "is_digit c \<equiv> digit_of c \<noteq> None"

fun parse_digits :: "nat \<Rightarrow> string \<Rightarrow> nat option" where
  "parse_digits acc [] = Some acc"
| "parse_digits acc (c # cs) =
     (case digit_of c of None \<Rightarrow> None | Some d \<Rightarrow> parse_digits (10 * acc + d) cs)"

text \<open>\<^verbatim>\<open>str::parse::<u32>\<close>: an optional plus sign and at least one digit; out of range is an
  error.\<close>

definition parse_u32 :: "string \<Rightarrow> u32 option" where
  "parse_u32 s =
     (let ds = (case s of c # cs \<Rightarrow> if c = CHR ''+'' then cs else s | [] \<Rightarrow> s)
      in if ds = [] then None
         else (case parse_digits 0 ds of
                 None \<Rightarrow> None
               | Some n \<Rightarrow> if n < 2 ^ 32 then Some (of_nat n) else None))"

text \<open>\<^verbatim>\<open>str::parse::<i64>\<close>: an optional sign and at least one digit; out of range is an
  error.\<close>

definition parse_i64 :: "string \<Rightarrow> int option" where
  "parse_i64 s =
     (let (neg, ds) =
        (case s of
           c # cs \<Rightarrow> if c = CHR ''-'' then (True, cs) else if c = CHR ''+'' then (False, cs) else (False, s)
         | [] \<Rightarrow> (False, s))
      in if ds = [] then None
         else (case parse_digits 0 ds of
                 None \<Rightarrow> None
               | Some n \<Rightarrow>
                   (let v = (if neg then - int n else int n)
                    in if - (2 ^ 63) \<le> v \<and> v < 2 ^ 63 then Some v else None)))"

lemma digit_of_char [simp]: "d < 10 \<Longrightarrow> digit_of (digit_char d) = Some d"
  by (simp add: digit_of_def digit_char_def)

lemma show_nat_nonempty [simp]: "show_nat n \<noteq> []"
  by (subst show_nat.simps) simp

lemma show_nat_digits: "c \<in> set (show_nat n) \<Longrightarrow> is_digit c"
proof (induction n rule: show_nat.induct)
  case (1 n)
  then show ?case
    by (cases "n < 10") (auto simp: show_nat.simps [of n])
qed

lemma digit_of_sep [simp]:
  "digit_of CHR '':'' = None" "digit_of CHR ''-'' = None" "digit_of CHR ''+'' = None"
  "digit_of CHR ''/'' = None" "digit_of CHR ''.'' = None"
  by (simp_all add: digit_of_def)

lemma show_nat_no_sep [simp]:
  "CHR '':'' \<notin> set (show_nat n)" "CHR ''-'' \<notin> set (show_nat n)" "CHR ''+'' \<notin> set (show_nat n)"
  using show_nat_digits digit_of_sep by blast+

lemma show_int_no_colon [simp]: "CHR '':'' \<notin> set (show_int i)"
  by (simp add: show_int_def)

lemma parse_digits_append:
  "parse_digits acc (a @ b) = Option.bind (parse_digits acc a) (\<lambda>n. parse_digits n b)"
  by (induction a arbitrary: acc) (auto split: option.splits)

lemma parse_digits_show [simp]: "parse_digits 0 (show_nat n) = Some n"
proof (induction n rule: show_nat.induct)
  case (1 n)
  show ?case
  proof (cases "n < 10")
    case True
    then show ?thesis by (simp add: show_nat.simps [of n])
  next
    case False
    then have "parse_digits 0 (show_nat (n div 10)) = Some (n div 10)" by (rule "1.IH")
    with False show ?thesis
      by (simp add: show_nat.simps [of n] parse_digits_append)
  qed
qed

lemma show_nat_inj [simp]: "show_nat a = show_nat b \<longleftrightarrow> a = b"
  by (metis option.inject parse_digits_show)

lemma unat_u32_inj [simp]: "unat (a :: u32) = unat b \<longleftrightarrow> a = b"
  by (rule word_unat_eq_iff [symmetric])

lemma show_nat_hd: "\<exists>c cs. show_nat n = c # cs \<and> is_digit c"
  by (metis list.exhaust list.set_intros(1) show_nat_digits show_nat_nonempty)

lemma unat_lt_u32: "unat (w :: u32) < 2 ^ 32"
proof -
  have "unat w < 2 ^ LENGTH(32)" by (rule unsigned_less)
  then show ?thesis by simp
qed

lemma parse_u32_show [simp]: "parse_u32 (show_u32 w) = Some w"
proof -
  obtain c cs where cs: "show_u32 w = c # cs" "is_digit c"
    using show_nat_hd by blast
  then have "c \<noteq> CHR ''+''" by auto
  moreover have "parse_digits 0 (c # cs) = Some (unat w)"
    using parse_digits_show [of "unat w"] unfolding cs(1) .
  moreover have "unat w < 2 ^ 32" by (rule unat_lt_u32)
  ultimately show ?thesis by (simp add: parse_u32_def cs(1) del: parse_digits.simps)
qed

lemma parse_i64_show: "- (2 ^ 63) \<le> i \<Longrightarrow> i < 2 ^ 63 \<Longrightarrow> parse_i64 (show_int i) = Some i"
proof (cases "i < 0")
  case True
  assume "- (2 ^ 63) \<le> i" "i < 2 ^ 63"
  with True show ?thesis by (simp add: parse_i64_def show_int_def)
next
  case False
  assume r: "- (2 ^ 63) \<le> i" "i < 2 ^ 63"
  obtain c cs where cs: "show_nat (nat i) = c # cs" "is_digit c"
    using show_nat_hd by blast
  then have "c \<noteq> CHR ''+''" "c \<noteq> CHR ''-''" by auto
  moreover have "parse_digits 0 (c # cs) = Some (nat i)"
    using parse_digits_show [of "nat i"] unfolding cs(1) .
  ultimately show ?thesis using False r
    by (simp add: parse_i64_def show_int_def cs(1) del: parse_digits.simps)
qed

section \<open>Unsigned arithmetic\<close>

text \<open>\<^verbatim>\<open>u32::saturating_add\<close>, and \<^verbatim>\<open>u32::try_from(len).unwrap_or(u32::MAX)\<close>.\<close>

definition saturating_add :: "u32 \<Rightarrow> u32 \<Rightarrow> u32" where
  "saturating_add a b = (if unat a + unat b < 2 ^ 32 then a + b else - 1)"

definition u32_of_len :: "nat \<Rightarrow> u32" where
  "u32_of_len n = (if n < 2 ^ 32 then of_nat n else - 1)"

lemma saturating_add_1 [simp]: "unat a < 2 ^ 32 - 1 \<Longrightarrow> saturating_add a 1 = a + 1"
  by (simp add: saturating_add_def)

lemma u32_of_len_small [simp]: "n < 2 ^ 32 \<Longrightarrow> u32_of_len n = of_nat n"
  by (simp add: u32_of_len_def)

lemma unat_of_nat_u32: "n < 2 ^ 32 \<Longrightarrow> unat (of_nat n :: u32) = n"
  by (simp add: unat_of_nat)

lemma of_nat_u32_inj: "m < 2 ^ 32 \<Longrightarrow> n < 2 ^ 32 \<Longrightarrow> (of_nat m :: u32) = of_nat n \<longleftrightarrow> m = n"
  by (metis unat_of_nat_u32)

end
