(* ===== verification/Arco_Env.thy ===== *)
theory Arco_Env
  imports Arco_Prelude
begin

text \<open>
  The third-party functions the modelled code calls, gathered in one record that every
  definition using one of them takes as an argument: the clock and the timestamp conversions
  of \<^verbatim>\<open>chrono\<close>, SHA-256 (\<^verbatim>\<open>sha2\<close>), HMAC-SHA-256 (\<^verbatim>\<open>hmac\<close>), hexadecimal and base-32
  encoding (\<^verbatim>\<open>hex\<close>, \<^verbatim>\<open>base32\<close>) and the JSON writer (\<^verbatim>\<open>serde_json\<close>). Nothing is assumed
  about them unless a statement says so. The identifier helpers of
  \<^verbatim>\<open>orchestration/ids.rs\<close>, which are thin layers over them, follow.
\<close>

text \<open>The payload \<^verbatim>\<open>build_execution_lineage_ref\<close> serialises.\<close>

record execution_lineage_ref =
  lr_run_id :: string
  lr_task_key :: string
  lr_attempt :: u32
  lr_materialization_id :: "string option"
  lr_delta_table :: "string option"
  lr_delta_version :: "int option"
  lr_delta_partition :: "string option"

record lib_env =
  utc_now :: datetime
  from_timestamp :: "int \<Rightarrow> datetime option"
  timestamp_millis :: "datetime \<Rightarrow> int"
  sha256 :: "string \<Rightarrow> u8 list"
  hex_encode :: "u8 list \<Rightarrow> string"
  hmac_sha256 :: "u8 list \<Rightarrow> string \<Rightarrow> u8 list"
  base32_encode :: "u8 list \<Rightarrow> string"
  lineage_to_json :: "execution_lineage_ref \<Rightarrow> string option"

section \<open>Identifiers (orchestration/ids.rs)\<close>

definition sha256_hex :: "lib_env \<Rightarrow> string \<Rightarrow> string" where
  "sha256_hex env input = hex_encode env (sha256 env input)"

text \<open>\<^verbatim>\<open>s.get(..n).unwrap_or(&s)\<close>: the first \<open>n\<close> elements, or all of them.\<close>

definition get_prefix :: "nat \<Rightarrow> 'a list \<Rightarrow> 'a list" where
  "get_prefix n s = (if n \<le> length s then take n s else s)"

definition to_lowercase :: "string \<Rightarrow> string" where
  "to_lowercase s =
     map (\<lambda>c. let n = of_char c :: nat in if 65 \<le> n \<and> n \<le> 90 then char_of (n + 32) else c) s"

definition cloud_task_id :: "lib_env \<Rightarrow> string \<Rightarrow> string \<Rightarrow> string" where
  "cloud_task_id env prefix internal_id =
     (let encoded = base32_encode env (sha256 env internal_id);
          short = to_lowercase (get_prefix 26 encoded)
      in prefix @ ''_'' @ short)"

definition dispatch_internal_id :: "string \<Rightarrow> string \<Rightarrow> u32 \<Rightarrow> string" where
  "dispatch_internal_id run_id task_key attempt =
     ''dispatch:'' @ run_id @ '':'' @ task_key @ '':'' @ show_u32 attempt"

definition retry_timer_internal_id :: "string \<Rightarrow> string \<Rightarrow> u32 \<Rightarrow> int \<Rightarrow> string" where
  "retry_timer_internal_id run_id task_key attempt fire_epoch =
     ''timer:retry:'' @ run_id @ '':'' @ task_key @ '':'' @ show_u32 attempt @ '':'' @ show_int fire_epoch"

definition heartbeat_timer_internal_id :: "string \<Rightarrow> string \<Rightarrow> u32 \<Rightarrow> int \<Rightarrow> string" where
  "heartbeat_timer_internal_id run_id task_key attempt check_epoch =
     ''timer:heartbeat:'' @ run_id @ '':'' @ task_key @ '':'' @ show_u32 attempt @ '':'' @ show_int check_epoch"

definition cron_timer_internal_id :: "string \<Rightarrow> int \<Rightarrow> string" where
  "cron_timer_internal_id schedule_id fire_epoch =
     ''timer:cron:'' @ schedule_id @ '':'' @ show_int fire_epoch"

definition run_id_from_run_key :: "lib_env \<Rightarrow> string \<Rightarrow> string \<Rightarrow> string \<Rightarrow> u8 list \<Rightarrow> string" where
  "run_id_from_run_key env tenant_id workspace_id run_key tenant_secret =
     (let input = tenant_id @ '':'' @ workspace_id @ '':'' @ run_key;
          hash = hmac_sha256 env tenant_secret input;
          hash_prefix = get_prefix 16 hash;
          encoded = base32_encode env hash_prefix;
          short = to_lowercase (get_prefix 26 encoded)
      in ''run_'' @ short)"

lemma colon_triple_inj:
  assumes "r @ CHR '':'' # t @ CHR '':'' # show_u32 a = r' @ CHR '':'' # t' @ CHR '':'' # show_u32 a'"
    and "CHR '':'' \<notin> set r" "CHR '':'' \<notin> set r'"
  shows "r = r' \<and> t = t' \<and> a = a'"
  using sep_first_eq [OF assms] sep_last_eq [of t _ "show_u32 a" t' "show_u32 a'"] by auto

lemma dispatch_internal_id_no_clash:
  "dispatch_internal_id r t a = dispatch_internal_id r' t' a' \<Longrightarrow>
   CHR '':'' \<notin> set r \<Longrightarrow> CHR '':'' \<notin> set r' \<Longrightarrow> r = r' \<and> t = t' \<and> a = a'"
  by (rule colon_triple_inj) (simp_all add: dispatch_internal_id_def)

end
