(* ===== verification/Orch_Events.thy ===== *)
theory Orch_Events
  imports Arco_Env
begin

text \<open>
  The orchestration events (\<^verbatim>\<open>arco-flow/src/orchestration/events\<close>): the payload enum
  \<^verbatim>\<open>OrchestrationEventData\<close> with one constructor per variant and its fields in the source's
  order, the types they use, the envelope, and the functions on the payload (the type name,
  the idempotency key, the run an event belongs to). The two task completion variants share a
  record of their sixteen common fields.
\<close>

section \<open>Worker contract types (arco-worker-contract)\<close>

datatype task_output_visibility_state = TV_Pending | TV_Visible | TV_Failed

record task_output =
  out_materialization_id :: "string option"
  out_row_count :: "u64 option"
  out_byte_size :: "u64 option"
  out_output_path :: "string option"
  out_delta_table :: "string option"
  out_delta_version :: "int option"
  out_delta_partition :: "string option"
  out_visibility_state :: "task_output_visibility_state option"
  out_published_at :: "datetime option"
  out_publish_error :: "string option"

datatype error_category =
  EC_UserCode | EC_DataQuality | EC_Infrastructure | EC_Configuration | EC_Timeout | EC_Cancelled

definition default_retryable :: "error_category \<Rightarrow> bool" where
  "default_retryable c \<longleftrightarrow> c \<in> {EC_UserCode, EC_Infrastructure, EC_Timeout}"

record task_error =
  te_category :: error_category
  te_message :: string
  te_stack_trace :: "string option"
  te_retryable :: "bool option"

definition effective_retryable :: "task_error \<Rightarrow> bool" where
  "effective_retryable e =
     (case te_retryable e of Some b \<Rightarrow> b | None \<Rightarrow> default_retryable (te_category e))"

record task_metrics =
  tm_cpu_time_ms :: "u64 option"
  tm_peak_memory_bytes :: "u64 option"
  tm_io_read_bytes :: "u64 option"
  tm_io_write_bytes :: "u64 option"

section \<open>Automation and backfill types\<close>

datatype tick_status = Tick_Triggered | Tick_Skipped string | Tick_Failed string

datatype trigger_source = Push string | Poll int

datatype sensor_eval_status = SE_Triggered | SE_NoNewData | SE_Error string | SE_SkippedStaleCursor

record run_request =
  rq_run_key :: string
  rq_request_fingerprint :: string
  rq_asset_selection :: "string list"
  rq_partition_selection :: "string list option"
  rq_code_version :: "string option"

datatype source_ref =
  SR_Schedule string string
| SR_Sensor string string
| SR_Backfill string string
| SR_Manual string string

datatype sensor_status = SS_Active | SS_Paused | SS_Error

datatype backfill_state = BF_Pending | BF_Running | BF_Paused | BF_Succeeded | BF_Failed | BF_Cancelled

fun bf_is_terminal :: "backfill_state \<Rightarrow> bool" where
  "bf_is_terminal BF_Succeeded = True"
| "bf_is_terminal BF_Failed = True"
| "bf_is_terminal BF_Cancelled = True"
| "bf_is_terminal _ = False"

fun is_valid_transition :: "backfill_state \<Rightarrow> backfill_state \<Rightarrow> bool" where
  "is_valid_transition BF_Pending BF_Running = True"
| "is_valid_transition BF_Paused BF_Running = True"
| "is_valid_transition BF_Pending BF_Cancelled = True"
| "is_valid_transition BF_Running BF_Cancelled = True"
| "is_valid_transition BF_Paused BF_Cancelled = True"
| "is_valid_transition BF_Running BF_Paused = True"
| "is_valid_transition BF_Running BF_Succeeded = True"
| "is_valid_transition BF_Running BF_Failed = True"
| "is_valid_transition _ _ = False"

datatype partition_selector =
  PS_Range string string
| PS_Explicit "string list"
| PS_Filter "(string, string) hashmap"

datatype chunk_state = CK_Pending | CK_Planned | CK_Running | CK_Succeeded | CK_Failed

section \<open>Payload types\<close>

datatype trigger_info =
  TI_Cron string
| TI_Manual string
| TI_Materialization string
| TI_Webhook string
| TI_Sensor string string

record task_def =
  td_key :: string
  td_depends_on :: "string list"
  td_asset_key :: "string option"
  td_partition_key :: "string option"
  td_max_attempts :: u32
  td_heartbeat_timeout_sec :: u32
  td_requires_visible_output :: bool

datatype output_visibility_state = OV_Pending | OV_Visible | OV_Failed

fun as_idempotency_segment :: "output_visibility_state \<Rightarrow> string" where
  "as_idempotency_segment OV_Pending = ''pending''"
| "as_idempotency_segment OV_Visible = ''visible''"
| "as_idempotency_segment OV_Failed = ''failed''"

record output_visibility_update =
  ovu_visibility_state :: output_visibility_state
  ovu_published_at :: "datetime option"
  ovu_publish_error :: "string option"

datatype task_outcome = TO_Succeeded | TO_Failed | TO_Skipped | TO_Cancelled

datatype event_timer_type = ET_Retry | ET_HeartbeatCheck | ET_Cron | ET_SlaCheck

text \<open>The fields \<^verbatim>\<open>TaskFinished\<close> and \<^verbatim>\<open>TaskCompletionRecorded\<close> share.\<close>

record task_completion =
  tc_run_id :: string
  tc_task_key :: string
  tc_attempt :: u32
  tc_attempt_id :: string
  tc_worker_id :: string
  tc_outcome :: task_outcome
  tc_materialization_id :: "string option"
  tc_error_message :: "string option"
  tc_output :: "task_output option"
  tc_error :: "task_error option"
  tc_metrics :: "task_metrics option"
  tc_cancelled_during_phase :: "string option"
  tc_partial_progress_json :: "string option"
  tc_asset_key :: "string option"
  tc_partition_key :: "string option"
  tc_code_version :: "string option"

datatype orchestration_event_data =
  \<comment> \<open>run\_id, plan\_id, trigger, root\_assets, run\_key, labels, code\_version\<close>
  RunTriggered string string trigger_info "string list" "string option"
    "(string, string) hashmap" "string option"
  \<comment> \<open>run\_id, plan\_id, tasks\<close>
| PlanCreated string string "task_def list"
  \<comment> \<open>run\_id, reason, requested\_by\<close>
| RunCancelRequested string "string option" string
  \<comment> \<open>run\_id, task\_key, attempt, attempt\_id, worker\_id\<close>
| TaskStarted string string u32 string string
  \<comment> \<open>run\_id, task\_key, attempt, attempt\_id, worker\_id, heartbeat\_at, progress\_pct, message\<close>
| TaskHeartbeat string string u32 string string "datetime option" "u8 option" "string option"
| TaskFinished task_completion
| TaskCompletionRecorded task_completion "output_visibility_update option"
  \<comment> \<open>run\_id, task\_key, attempt, attempt\_id, visibility\_state, published\_at, publish\_error\<close>
| TaskOutputVisibilityChanged string string u32 string output_visibility_state
    "datetime option" "string option"
  \<comment> \<open>run\_id, task\_key, attempt, attempt\_id, worker\_queue, dispatch\_id\<close>
| DispatchRequested string string u32 string string string
  \<comment> \<open>timer\_id, timer\_type, run\_id, task\_key, attempt, fire\_at\<close>
| TimerRequested string event_timer_type "string option" "string option" "u32 option" datetime
  \<comment> \<open>dispatch\_id, run\_id, task\_key, attempt, cloud\_task\_id\<close>
| DispatchEnqueued string "string option" "string option" "u32 option" string
  \<comment> \<open>timer\_id, run\_id, task\_key, attempt, cloud\_task\_id\<close>
| TimerEnqueued string "string option" "string option" "u32 option" string
  \<comment> \<open>timer\_id, timer\_type, run\_id, task\_key, attempt\<close>
| TimerFired string event_timer_type "string option" "string option" "u32 option"
  \<comment> \<open>schedule\_id, cron\_expression, timezone, catchup\_window\_minutes, asset\_selection,
     code\_version, max\_catchup\_ticks, enabled\<close>
| ScheduleDefinitionUpserted string string string u32 "string list" "string option" u32 bool
  \<comment> \<open>schedule\_id, scheduled\_for, tick\_id, definition\_version, asset\_selection,
     partition\_selection, status, run\_key, request\_fingerprint\<close>
| ScheduleTicked string datetime string string "string list" "string list option" tick_status
    "string option" "string option"
  \<comment> \<open>sensor\_id, eval\_id, cursor\_before, cursor\_after, expected\_state\_version, trigger\_source,
     run\_requests, status\<close>
| SensorEvaluated string string "string option" "string option" "u32 option" trigger_source
    "run_request list" sensor_eval_status
  \<comment> \<open>run\_key, request\_fingerprint, asset\_selection, partition\_selection, trigger\_source\_ref,
     labels, code\_version\<close>
| RunRequested string string "string list" "string list option" source_ref
    "(string, string) hashmap" "string option"
  \<comment> \<open>backfill\_id, client\_request\_id, asset\_selection, code\_version, partition\_selector,
     total\_partitions, chunk\_size, max\_concurrent\_runs, parent\_backfill\_id\<close>
| BackfillCreated string string "string list" "string option" partition_selector u32 u32 u32
    "string option"
  \<comment> \<open>backfill\_id, chunk\_id, chunk\_index, partition\_keys, run\_key, request\_fingerprint\<close>
| BackfillChunkPlanned string string u32 "string list" string string
  \<comment> \<open>backfill\_id, from\_state, to\_state, state\_version, changed\_by\<close>
| BackfillStateChanged string backfill_state backfill_state u32 "string option"
| Unknown

record orchestration_event =
  ev_event_id :: string
  ev_event_type :: string
  ev_event_version :: u32
  ev_timestamp :: datetime
  ev_source :: string
  ev_tenant_id :: string
  ev_workspace_id :: string
  ev_idempotency_key :: string
  ev_correlation_id :: "string option"
  ev_causation_id :: "string option"
  ev_data :: orchestration_event_data

section \<open>Functions on payloads\<close>

fun event_type :: "orchestration_event_data \<Rightarrow> string" where
  "event_type (RunTriggered _ _ _ _ _ _ _) = ''RunTriggered''"
| "event_type (PlanCreated _ _ _) = ''PlanCreated''"
| "event_type (RunCancelRequested _ _ _) = ''RunCancelRequested''"
| "event_type (TaskStarted _ _ _ _ _) = ''TaskStarted''"
| "event_type (TaskHeartbeat _ _ _ _ _ _ _ _) = ''TaskHeartbeat''"
| "event_type (TaskFinished _) = ''TaskFinished''"
| "event_type (TaskCompletionRecorded _ _) = ''TaskCompletionRecorded''"
| "event_type (TaskOutputVisibilityChanged _ _ _ _ _ _ _) = ''TaskOutputVisibilityChanged''"
| "event_type (DispatchRequested _ _ _ _ _ _) = ''DispatchRequested''"
| "event_type (TimerRequested _ _ _ _ _ _) = ''TimerRequested''"
| "event_type (DispatchEnqueued _ _ _ _ _) = ''DispatchEnqueued''"
| "event_type (TimerEnqueued _ _ _ _ _) = ''TimerEnqueued''"
| "event_type (TimerFired _ _ _ _ _) = ''TimerFired''"
| "event_type (ScheduleDefinitionUpserted _ _ _ _ _ _ _ _) = ''ScheduleDefinitionUpserted''"
| "event_type (ScheduleTicked _ _ _ _ _ _ _ _ _) = ''ScheduleTicked''"
| "event_type (SensorEvaluated _ _ _ _ _ _ _ _) = ''SensorEvaluated''"
| "event_type (RunRequested _ _ _ _ _ _ _) = ''RunRequested''"
| "event_type (BackfillCreated _ _ _ _ _ _ _ _ _) = ''BackfillCreated''"
| "event_type (BackfillChunkPlanned _ _ _ _ _ _) = ''BackfillChunkPlanned''"
| "event_type (BackfillStateChanged _ _ _ _ _) = ''BackfillStateChanged''"
| "event_type Unknown = ''Unknown''"

definition task_heartbeat_idempotency_key ::
  "lib_env \<Rightarrow> string \<Rightarrow> string \<Rightarrow> u32 \<Rightarrow> string \<Rightarrow> datetime option \<Rightarrow> string" where
  "task_heartbeat_idempotency_key env run_id task_key attempt attempt_id heartbeat_at =
     (case heartbeat_at of
        None \<Rightarrow> ''heartbeat:'' @ run_id @ '':'' @ task_key @ '':'' @ show_u32 attempt @ '':'' @ attempt_id
      | Some ts \<Rightarrow> ''heartbeat:'' @ run_id @ '':'' @ task_key @ '':'' @ show_u32 attempt @ '':''
          @ attempt_id @ '':'' @ show_int (timestamp_millis env ts))"

fun join :: "string \<Rightarrow> string list \<Rightarrow> string" where
  "join sep [] = []"
| "join sep [x] = x"
| "join sep (x # xs) = x @ sep @ join sep xs"

definition show_bool :: "bool \<Rightarrow> string" where
  "show_bool b = (if b then ''true'' else ''false'')"

definition schedule_definition_idempotency_key ::
  "lib_env \<Rightarrow> string \<Rightarrow> string \<Rightarrow> string \<Rightarrow> u32 \<Rightarrow> string list \<Rightarrow> u32 \<Rightarrow> bool \<Rightarrow> string" where
  "schedule_definition_idempotency_key env schedule_id cron_expression timezone
       catchup_window_minutes asset_selection max_catchup_ticks enabled =
     (let assets = sort asset_selection;
          input = cron_expression @ ''|'' @ timezone @ ''|'' @ show_u32 catchup_window_minutes @ ''|''
            @ show_u32 max_catchup_ticks @ ''|'' @ show_bool enabled @ ''|'' @ join '','' assets;
          fp = sha256_hex env input
      in ''sched_def:'' @ schedule_id @ '':'' @ fp)"

definition sensor_evaluated_idempotency_key ::
  "lib_env \<Rightarrow> string \<Rightarrow> trigger_source \<Rightarrow> string option \<Rightarrow> string" where
  "sensor_evaluated_idempotency_key env sensor_id trigger_source cursor_before =
     (case trigger_source of
        Push message_id \<Rightarrow> ''sensor_eval:'' @ sensor_id @ '':msg:'' @ message_id
      | Poll poll_epoch \<Rightarrow>
          (let cursor_hash = (case cursor_before of None \<Rightarrow> ''none'' | Some c \<Rightarrow> sha256_hex env c)
           in ''sensor_eval:'' @ sensor_id @ '':poll:'' @ show_int poll_epoch @ '':'' @ cursor_hash))"

definition run_requested_idempotency_key :: "lib_env \<Rightarrow> string \<Rightarrow> string \<Rightarrow> string" where
  "run_requested_idempotency_key env run_key request_fingerprint =
     ''runreq:'' @ run_key @ '':'' @ sha256_hex env request_fingerprint"

fun backfill_state_label :: "backfill_state \<Rightarrow> string" where
  "backfill_state_label BF_Pending = ''PENDING''"
| "backfill_state_label BF_Running = ''RUNNING''"
| "backfill_state_label BF_Paused = ''PAUSED''"
| "backfill_state_label BF_Succeeded = ''SUCCEEDED''"
| "backfill_state_label BF_Failed = ''FAILED''"
| "backfill_state_label BF_Cancelled = ''CANCELLED''"

definition backfill_state_changed_idempotency_key ::
  "string \<Rightarrow> u32 \<Rightarrow> backfill_state \<Rightarrow> string" where
  "backfill_state_changed_idempotency_key backfill_id state_version to_state =
     ''backfill_state:'' @ backfill_id @ '':'' @ show_u32 state_version @ '':'' @ backfill_state_label to_state"

fun idempotency_key :: "lib_env \<Rightarrow> orchestration_event_data \<Rightarrow> string" where
  "idempotency_key env (RunTriggered run_id _ _ _ run_key _ _) =
     (case run_key of None \<Rightarrow> ''run:'' @ run_id | Some key \<Rightarrow> ''run:'' @ key)"
| "idempotency_key env (PlanCreated run_id _ _) = ''plan:'' @ run_id"
| "idempotency_key env (RunCancelRequested run_id _ _) = ''cancel_req:'' @ run_id"
| "idempotency_key env (TaskStarted run_id task_key attempt _ _) =
     ''started:'' @ run_id @ '':'' @ task_key @ '':'' @ show_u32 attempt"
| "idempotency_key env (TaskHeartbeat run_id task_key attempt attempt_id _ heartbeat_at _ _) =
     task_heartbeat_idempotency_key env run_id task_key attempt attempt_id heartbeat_at"
| "idempotency_key env (TaskFinished c) =
     ''finished:'' @ tc_run_id c @ '':'' @ tc_task_key c @ '':'' @ show_u32 (tc_attempt c)"
| "idempotency_key env (TaskCompletionRecorded c _) =
     ''finished:'' @ tc_run_id c @ '':'' @ tc_task_key c @ '':'' @ show_u32 (tc_attempt c)"
| "idempotency_key env (TaskOutputVisibilityChanged run_id task_key attempt _ visibility_state _ _) =
     ''output_visibility:'' @ run_id @ '':'' @ task_key @ '':'' @ show_u32 attempt @ '':''
       @ as_idempotency_segment visibility_state"
| "idempotency_key env (DispatchRequested _ _ _ _ _ dispatch_id) = ''dispatch_req:'' @ dispatch_id"
| "idempotency_key env (TimerRequested timer_id _ _ _ _ _) = ''timer_req:'' @ timer_id"
| "idempotency_key env (DispatchEnqueued dispatch_id _ _ _ _) = ''dispatch_ack:'' @ dispatch_id"
| "idempotency_key env (TimerEnqueued timer_id _ _ _ _) = ''timer_ack:'' @ timer_id"
| "idempotency_key env (TimerFired timer_id _ _ _ _) = ''timer_fired:'' @ timer_id"
| "idempotency_key env (ScheduleDefinitionUpserted schedule_id cron_expression timezone
       catchup_window_minutes asset_selection _ max_catchup_ticks enabled) =
     schedule_definition_idempotency_key env schedule_id cron_expression timezone
       catchup_window_minutes asset_selection max_catchup_ticks enabled"
| "idempotency_key env (ScheduleTicked _ _ tick_id _ _ _ _ _ _) = ''sched_tick:'' @ tick_id"
| "idempotency_key env (SensorEvaluated sensor_id _ cursor_before _ _ trigger_source _ _) =
     sensor_evaluated_idempotency_key env sensor_id trigger_source cursor_before"
| "idempotency_key env (RunRequested run_key request_fingerprint _ _ _ _ _) =
     run_requested_idempotency_key env run_key request_fingerprint"
| "idempotency_key env (BackfillCreated _ client_request_id _ _ _ _ _ _ _) =
     ''backfill_create:'' @ client_request_id"
| "idempotency_key env (BackfillChunkPlanned backfill_id _ chunk_index _ _ _) =
     ''backfill_chunk:'' @ backfill_id @ '':'' @ show_u32 chunk_index"
| "idempotency_key env (BackfillStateChanged backfill_id _ to_state state_version _) =
     backfill_state_changed_idempotency_key backfill_id state_version to_state"
| "idempotency_key env Unknown = ''unknown''"

fun event_run_id :: "orchestration_event_data \<Rightarrow> string option" where
  "event_run_id (RunTriggered run_id _ _ _ _ _ _) = Some run_id"
| "event_run_id (PlanCreated run_id _ _) = Some run_id"
| "event_run_id (RunCancelRequested run_id _ _) = Some run_id"
| "event_run_id (TaskStarted run_id _ _ _ _) = Some run_id"
| "event_run_id (TaskHeartbeat run_id _ _ _ _ _ _ _) = Some run_id"
| "event_run_id (TaskFinished c) = Some (tc_run_id c)"
| "event_run_id (TaskCompletionRecorded c _) = Some (tc_run_id c)"
| "event_run_id (TaskOutputVisibilityChanged run_id _ _ _ _ _ _) = Some run_id"
| "event_run_id (DispatchRequested run_id _ _ _ _ _) = Some run_id"
| "event_run_id (TimerRequested _ _ run_id _ _ _) = run_id"
| "event_run_id (DispatchEnqueued _ run_id _ _ _) = run_id"
| "event_run_id (TimerEnqueued _ run_id _ _ _) = run_id"
| "event_run_id (TimerFired _ _ run_id _ _) = run_id"
| "event_run_id _ = None"

text \<open>\<^verbatim>\<open>OrchestrationEvent::new_with_timestamp\<close>, with the generated ULID as an argument.\<close>

definition new_with_timestamp ::
  "lib_env \<Rightarrow> string \<Rightarrow> string \<Rightarrow> string \<Rightarrow> orchestration_event_data \<Rightarrow> datetime \<Rightarrow> orchestration_event" where
  "new_with_timestamp env event_id tenant workspace data timestamp =
     \<lparr>ev_event_id = event_id, ev_event_type = event_type data, ev_event_version = 1,
      ev_timestamp = timestamp, ev_source = ''arco-flow/'' @ tenant @ ''/'' @ workspace,
      ev_tenant_id = tenant, ev_workspace_id = workspace,
      ev_idempotency_key = idempotency_key env data, ev_correlation_id = event_run_id data,
      ev_causation_id = None, ev_data = data\<rparr>"

section \<open>Properties\<close>

lemma is_valid_transition_not_terminal: "is_valid_transition a b \<Longrightarrow> \<not> bf_is_terminal a"
  by (cases a; cases b) auto

lemma is_valid_transition_irrefl: "\<not> is_valid_transition a a"
  by (cases a) auto

end
