(* ===== verification/Orch_Rows.thy ===== *)
theory Orch_Rows
  imports Orch_Events
begin

text \<open>
  The rows of the orchestration projections (first part of
  \<^verbatim>\<open>arco-flow/src/orchestration/compactor/fold.rs\<close>): one record per row struct with its
  fields in the source's order, the state enums, the primary keys, the identifier formats of
  dispatches and timers with their parser, and the path parser of the ledger. The accumulator
  \<^verbatim>\<open>FoldState\<close> is the record \<open>fold_state\<close>.
\<close>

section \<open>Task states\<close>

datatype task_state =
  TS_Planned | TS_Blocked | TS_Ready | TS_Dispatched | TS_Running | TS_RetryWait
| TS_Skipped | TS_Cancelled | TS_Failed | TS_Succeeded

fun rank :: "task_state \<Rightarrow> u8" where
  "rank TS_Planned = 0"
| "rank TS_Blocked = 1"
| "rank TS_Ready = 2"
| "rank TS_Dispatched = 3"
| "rank TS_Running = 4"
| "rank TS_RetryWait = 5"
| "rank TS_Skipped = 10"
| "rank TS_Cancelled = 11"
| "rank TS_Failed = 12"
| "rank TS_Succeeded = 13"

fun is_terminal :: "task_state \<Rightarrow> bool" where
  "is_terminal TS_Succeeded = True"
| "is_terminal TS_Failed = True"
| "is_terminal TS_Skipped = True"
| "is_terminal TS_Cancelled = True"
| "is_terminal _ = False"

record execution_metadata =
  md_materialization_id :: "string option"
  md_delta_table :: "string option"
  md_delta_version :: "int option"
  md_delta_partition :: "string option"

section \<open>Ledger paths\<close>

definition is_iso8601_date_segment :: "string \<Rightarrow> bool" where
  "is_iso8601_date_segment segment \<longleftrightarrow>
     length segment = 10 \<and>
     list_all (\<lambda>(idx, byte). if idx = 4 \<or> idx = 7 then byte = CHR ''-'' else is_digit byte)
       (List.enumerate 0 segment)"

definition event_id_from_ledger_path :: "string \<Rightarrow> string option" where
  "event_id_from_ledger_path path =
     (case split_on CHR ''/'' path of
        p0 # p1 # date_segment # filename # rest \<Rightarrow>
          if p0 \<noteq> ''ledger'' \<or> p1 \<noteq> ''orchestration'' then None
          else if \<not> is_iso8601_date_segment date_segment then None
          else if rest \<noteq> [] then None
          else (case strip_suffix ''.json'' filename of
                  None \<Rightarrow> None
                | Some event_id \<Rightarrow> if event_id = [] then None else Some event_id)
      | _ \<Rightarrow> None)"

text \<open>\<^verbatim>\<open>FlowPaths::orchestration_event_path\<close>.\<close>

definition orchestration_event_path :: "string \<Rightarrow> string \<Rightarrow> string" where
  "orchestration_event_path date event_id = ''ledger/orchestration/'' @ date @ ''/'' @ event_id @ ''.json''"

section \<open>Dependency, dispatch and timer rows\<close>

datatype dep_resolution = DR_Success | DR_Failed | DR_Skipped | DR_Cancelled

datatype dispatch_status = DS_Pending | DS_Created

record dispatch_outbox_row =
  do_run_id :: string
  do_task_key :: string
  do_attempt :: u32
  do_dispatch_id :: string
  do_cloud_task_id :: "string option"
  do_status :: dispatch_status
  do_attempt_id :: string
  do_worker_queue :: string
  do_created_at :: datetime
  do_row_version :: string

definition dispatch_id :: "string \<Rightarrow> string \<Rightarrow> u32 \<Rightarrow> string" where
  "dispatch_id run_id task_key attempt =
     ''dispatch:'' @ run_id @ '':'' @ task_key @ '':'' @ show_u32 attempt"

datatype timer_type = TT_Retry | TT_HeartbeatCheck | TT_Cron | TT_SlaCheck

datatype timer_state = TM_Scheduled | TM_Fired | TM_Cancelled

fun map_timer_type :: "event_timer_type \<Rightarrow> timer_type" where
  "map_timer_type ET_Retry = TT_Retry"
| "map_timer_type ET_HeartbeatCheck = TT_HeartbeatCheck"
| "map_timer_type ET_Cron = TT_Cron"
| "map_timer_type ET_SlaCheck = TT_SlaCheck"

record timer_row =
  tmr_timer_id :: string
  tmr_cloud_task_id :: "string option"
  tmr_timer_type :: timer_type
  tmr_run_id :: "string option"
  tmr_task_key :: "string option"
  tmr_attempt :: "u32 option"
  tmr_fire_at :: datetime
  tmr_state :: timer_state
  tmr_payload :: "string option"
  tmr_row_version :: string

record parsed_timer_id =
  pti_timer_type :: timer_type
  pti_fire_epoch :: int
  pti_run_id :: "string option"
  pti_task_key :: "string option"
  pti_attempt :: "u32 option"

definition retry_timer_id :: "string \<Rightarrow> string \<Rightarrow> u32 \<Rightarrow> int \<Rightarrow> string" where
  "retry_timer_id run_id task_key attempt fire_epoch =
     ''timer:retry:'' @ run_id @ '':'' @ task_key @ '':'' @ show_u32 attempt @ '':'' @ show_int fire_epoch"

definition heartbeat_timer_id :: "string \<Rightarrow> string \<Rightarrow> u32 \<Rightarrow> int \<Rightarrow> string" where
  "heartbeat_timer_id run_id task_key attempt fire_epoch =
     ''timer:heartbeat:'' @ run_id @ '':'' @ task_key @ '':'' @ show_u32 attempt @ '':'' @ show_int fire_epoch"

definition cron_timer_id :: "string \<Rightarrow> int \<Rightarrow> string" where
  "cron_timer_id schedule_id fire_epoch = ''timer:cron:'' @ schedule_id @ '':'' @ show_int fire_epoch"

text \<open>\<^verbatim>\<open>slice::get\<close>.\<close>

definition nth_opt :: "'a list \<Rightarrow> nat \<Rightarrow> 'a option" where
  "nth_opt xs i = (if i < length xs then Some (xs ! i) else None)"

definition timer_type_of_segment :: "string \<Rightarrow> timer_type option" where
  "timer_type_of_segment s =
     (if s = ''retry'' then Some TT_Retry
      else if s = ''heartbeat'' then Some TT_HeartbeatCheck
      else if s = ''cron'' then Some TT_Cron
      else if s = ''sla'' then Some TT_SlaCheck
      else None)"

definition parse_timer_id :: "string \<Rightarrow> parsed_timer_id option" where
  "parse_timer_id timer_id =
     (let parts = split_on CHR '':'' timer_id in
      Option.bind (nth_opt parts 0) (\<lambda>prefix.
      if prefix \<noteq> ''timer'' then None
      else Option.bind (nth_opt parts 1) (\<lambda>kind.
      Option.bind (timer_type_of_segment kind) (\<lambda>timer_type.
      Option.bind (parse_i64 (last parts)) (\<lambda>fire_epoch.
      case timer_type of
        TT_Cron \<Rightarrow>
          Some \<lparr>pti_timer_type = timer_type, pti_fire_epoch = fire_epoch,
                pti_run_id = None, pti_task_key = None, pti_attempt = None\<rparr>
      | _ \<Rightarrow>
          Option.bind (nth_opt parts 2) (\<lambda>run_id.
          Option.bind (nth_opt parts 3) (\<lambda>task_key.
          Option.bind (nth_opt parts 4) (\<lambda>attempt_str.
          Option.bind (parse_u32 attempt_str) (\<lambda>attempt.
          Some \<lparr>pti_timer_type = timer_type, pti_fire_epoch = fire_epoch,
                pti_run_id = Some run_id, pti_task_key = Some task_key,
                pti_attempt = Some attempt\<rparr>)))))))))"

definition dispatch_cloud_task_id :: "lib_env \<Rightarrow> string \<Rightarrow> string \<Rightarrow> u32 \<Rightarrow> string" where
  "dispatch_cloud_task_id env run_id task_key attempt =
     cloud_task_id env ''d'' (dispatch_id run_id task_key attempt)"

definition timer_cloud_task_id :: "lib_env \<Rightarrow> string \<Rightarrow> string" where
  "timer_cloud_task_id env timer_id = cloud_task_id env ''t'' timer_id"

section \<open>Task and run rows\<close>

record task_row =
  tk_run_id :: string
  tk_task_key :: string
  tk_state :: task_state
  tk_attempt :: u32
  tk_attempt_id :: "string option"
  tk_started_at :: "datetime option"
  tk_completed_at :: "datetime option"
  tk_error_message :: "string option"
  tk_deps_total :: u32
  tk_deps_satisfied_count :: u32
  tk_max_attempts :: u32
  tk_heartbeat_timeout_sec :: u32
  tk_last_heartbeat_at :: "datetime option"
  tk_ready_at :: "datetime option"
  tk_asset_key :: "string option"
  tk_partition_key :: "string option"
  tk_requires_visible_output :: bool
  tk_materialization_id :: "string option"
  tk_output_visibility_state :: "output_visibility_state option"
  tk_published_at :: "datetime option"
  tk_publish_error :: "string option"
  tk_retry_not_before :: "datetime option"
  tk_delta_table :: "string option"
  tk_delta_version :: "int option"
  tk_delta_partition :: "string option"
  tk_execution_lineage_ref :: "string option"
  tk_row_version :: string

record dep_satisfaction_row =
  dp_run_id :: string
  dp_upstream_task_key :: string
  dp_downstream_task_key :: string
  dp_satisfied :: bool
  dp_resolution :: "dep_resolution option"
  dp_satisfied_at :: "datetime option"
  dp_satisfying_attempt :: "u32 option"
  dp_row_version :: string

datatype run_state = RS_Triggered | RS_Running | RS_Succeeded | RS_Failed | RS_Cancelled

fun run_is_terminal :: "run_state \<Rightarrow> bool" where
  "run_is_terminal RS_Succeeded = True"
| "run_is_terminal RS_Failed = True"
| "run_is_terminal RS_Cancelled = True"
| "run_is_terminal _ = False"

record run_row =
  rn_run_id :: string
  rn_plan_id :: string
  rn_state :: run_state
  rn_run_key :: "string option"
  rn_labels :: "(string, string) hashmap"
  rn_code_version :: "string option"
  rn_cancel_requested :: bool
  rn_tasks_total :: u32
  rn_tasks_completed :: u32
  rn_tasks_succeeded :: u32
  rn_tasks_failed :: u32
  rn_tasks_skipped :: u32
  rn_tasks_cancelled :: u32
  rn_triggered_at :: datetime
  rn_completed_at :: "datetime option"
  rn_row_version :: string

section \<open>Schedule rows\<close>

record schedule_definition_row =
  sd_tenant_id :: string
  sd_workspace_id :: string
  sd_schedule_id :: string
  sd_cron_expression :: string
  sd_timezone :: string
  sd_catchup_window_minutes :: u32
  sd_asset_selection :: "string list"
  sd_code_version :: "string option"
  sd_max_catchup_ticks :: u32
  sd_enabled :: bool
  sd_created_at :: datetime
  sd_row_version :: string

definition sd_primary_key :: "schedule_definition_row \<Rightarrow> string \<times> string \<times> string" where
  "sd_primary_key r = (sd_tenant_id r, sd_workspace_id r, sd_schedule_id r)"

record schedule_state_row =
  ss_tenant_id :: string
  ss_workspace_id :: string
  ss_schedule_id :: string
  ss_last_scheduled_for :: "datetime option"
  ss_last_tick_id :: "string option"
  ss_last_run_key :: "string option"
  ss_row_version :: string

definition ss_primary_key :: "schedule_state_row \<Rightarrow> string \<times> string \<times> string" where
  "ss_primary_key r = (ss_tenant_id r, ss_workspace_id r, ss_schedule_id r)"

record schedule_tick_row =
  st_tenant_id :: string
  st_workspace_id :: string
  st_tick_id :: string
  st_schedule_id :: string
  st_scheduled_for :: datetime
  st_definition_version :: string
  st_asset_selection :: "string list"
  st_partition_selection :: "string list option"
  st_status :: tick_status
  st_run_key :: "string option"
  st_run_id :: "string option"
  st_request_fingerprint :: "string option"
  st_row_version :: string

definition st_primary_key :: "schedule_tick_row \<Rightarrow> string \<times> string \<times> string" where
  "st_primary_key r = (st_tenant_id r, st_workspace_id r, st_tick_id r)"

section \<open>Sensor rows\<close>

record sensor_state_row =
  sn_tenant_id :: string
  sn_workspace_id :: string
  sn_sensor_id :: string
  sn_cursor :: "string option"
  sn_last_evaluation_at :: "datetime option"
  sn_last_eval_id :: "string option"
  sn_status :: sensor_status
  sn_state_version :: u32
  sn_row_version :: string

definition sn_primary_key :: "sensor_state_row \<Rightarrow> string \<times> string \<times> string" where
  "sn_primary_key r = (sn_tenant_id r, sn_workspace_id r, sn_sensor_id r)"

record sensor_eval_row =
  se_tenant_id :: string
  se_workspace_id :: string
  se_eval_id :: string
  se_sensor_id :: string
  se_cursor_before :: "string option"
  se_cursor_after :: "string option"
  se_expected_state_version :: "u32 option"
  se_trigger_source :: trigger_source
  se_run_requests :: "run_request list"
  se_status :: sensor_eval_status
  se_evaluated_at :: datetime
  se_row_version :: string

definition se_primary_key :: "sensor_eval_row \<Rightarrow> string \<times> string \<times> string" where
  "se_primary_key r = (se_tenant_id r, se_workspace_id r, se_eval_id r)"

section \<open>Backfill rows\<close>

record backfill_row =
  bf_tenant_id :: string
  bf_workspace_id :: string
  bf_backfill_id :: string
  bf_asset_selection :: "string list"
  bf_code_version :: "string option"
  bf_partition_selector :: partition_selector
  bf_chunk_size :: u32
  bf_max_concurrent_runs :: u32
  bf_state :: backfill_state
  bf_state_version :: u32
  bf_total_partitions :: u32
  bf_planned_chunks :: u32
  bf_completed_chunks :: u32
  bf_failed_chunks :: u32
  bf_parent_backfill_id :: "string option"
  bf_created_at :: datetime
  bf_row_version :: string

definition bf_primary_key :: "backfill_row \<Rightarrow> string \<times> string \<times> string" where
  "bf_primary_key r = (bf_tenant_id r, bf_workspace_id r, bf_backfill_id r)"

record backfill_chunk_row =
  bc_tenant_id :: string
  bc_workspace_id :: string
  bc_chunk_id :: string
  bc_backfill_id :: string
  bc_chunk_index :: u32
  bc_partition_keys :: "string list"
  bc_run_key :: string
  bc_run_id :: "string option"
  bc_state :: chunk_state
  bc_row_version :: string

definition bc_primary_key :: "backfill_chunk_row \<Rightarrow> string \<times> string \<times> string" where
  "bc_primary_key r = (bc_tenant_id r, bc_workspace_id r, bc_chunk_id r)"

section \<open>Partition status, run key, catalog and idempotency rows\<close>

datatype partition_materialization_status =
  PM_NeverMaterialized | PM_Materialized | PM_Stale | PM_MaterializedButLastAttemptFailed

definition is_materialized :: "partition_materialization_status \<Rightarrow> bool" where
  "is_materialized s \<longleftrightarrow> s \<noteq> PM_NeverMaterialized"

record partition_status_row =
  pt_tenant_id :: string
  pt_workspace_id :: string
  pt_asset_key :: string
  pt_partition_key :: string
  pt_last_materialization_run_id :: "string option"
  pt_last_materialization_at :: "datetime option"
  pt_last_materialization_code_version :: "string option"
  pt_last_attempt_run_id :: "string option"
  pt_last_attempt_at :: "datetime option"
  pt_last_attempt_outcome :: "task_outcome option"
  pt_stale_since :: "datetime option"
  pt_stale_reason_code :: "string option"
  pt_partition_values :: "(string, string) hashmap"
  pt_delta_table :: "string option"
  pt_delta_version :: "int option"
  pt_delta_partition :: "string option"
  pt_execution_lineage_ref :: "string option"
  pt_row_version :: string

definition pt_primary_key :: "partition_status_row \<Rightarrow> string \<times> string \<times> string \<times> string" where
  "pt_primary_key r = (pt_tenant_id r, pt_workspace_id r, pt_asset_key r, pt_partition_key r)"

record run_key_index_row =
  ri_tenant_id :: string
  ri_workspace_id :: string
  ri_run_key :: string
  ri_run_id :: string
  ri_request_fingerprint :: string
  ri_code_version :: "string option"
  ri_created_at :: datetime
  ri_row_version :: string

definition ri_primary_key :: "run_key_index_row \<Rightarrow> string \<times> string \<times> string" where
  "ri_primary_key r = (ri_tenant_id r, ri_workspace_id r, ri_run_key r)"

record run_key_conflict_row =
  rc_tenant_id :: string
  rc_workspace_id :: string
  rc_run_key :: string
  rc_existing_fingerprint :: string
  rc_conflicting_fingerprint :: string
  rc_conflicting_event_id :: string
  rc_detected_at :: datetime

definition rc_primary_key :: "run_key_conflict_row \<Rightarrow> string \<times> string \<times> string \<times> string" where
  "rc_primary_key r = (rc_tenant_id r, rc_workspace_id r, rc_run_key r, rc_conflicting_event_id r)"

type_synonym catalog_run_index_key = "string \<times> string \<times> string \<times> string"

record catalog_run_index_row =
  ci_schema_version :: u32
  ci_org_id :: string
  ci_workspace_id :: string
  ci_run_id :: string
  ci_task_key :: string
  ci_plan_id :: string
  ci_run_key :: "string option"
  ci_kind :: "string option"
  ci_reference_id :: "string option"
  ci_source_type :: "string option"
  ci_run_status :: run_state
  ci_cancel_requested :: bool
  ci_task_status :: task_state
  ci_asset_key :: "string option"
  ci_target_namespace :: "string option"
  ci_target_table :: "string option"
  ci_partition_key :: "string option"
  ci_attempt :: u32
  ci_attempt_id :: "string option"
  ci_requires_visible_output :: bool
  ci_materialization_id :: "string option"
  ci_output_visibility_state :: "output_visibility_state option"
  ci_published_at :: "datetime option"
  ci_publish_error :: "string option"
  ci_delta_table :: "string option"
  ci_delta_version :: "int option"
  ci_delta_partition :: "string option"
  ci_execution_lineage_ref :: "string option"
  ci_started_at :: "datetime option"
  ci_last_heartbeat_at :: "datetime option"
  ci_triggered_at :: datetime
  ci_completed_at :: "datetime option"
  ci_updated_at :: datetime
  ci_code_version :: "string option"
  ci_error_message :: "string option"
  ci_row_version :: string

definition ci_primary_key :: "catalog_run_index_row \<Rightarrow> catalog_run_index_key" where
  "ci_primary_key r = (ci_org_id r, ci_workspace_id r, ci_run_id r, ci_task_key r)"

record idempotency_key_row =
  ik_tenant_id :: string
  ik_workspace_id :: string
  ik_idempotency_key :: string
  ik_event_id :: string
  ik_event_type :: string
  ik_recorded_at :: datetime
  ik_row_version :: string

definition ik_primary_key :: "idempotency_key_row \<Rightarrow> string \<times> string \<times> string" where
  "ik_primary_key r = (ik_tenant_id r, ik_workspace_id r, ik_idempotency_key r)"

section \<open>The accumulator\<close>

record fold_state =
  fs_runs :: "(string, run_row) hashmap"
  fs_tasks :: "(string \<times> string, task_row) hashmap"
  fs_catalog_run_index :: "(catalog_run_index_key, catalog_run_index_row) hashmap"
  fs_dep_satisfaction :: "(string \<times> string \<times> string, dep_satisfaction_row) hashmap"
  fs_timers :: "(string, timer_row) hashmap"
  fs_dispatch_outbox :: "(string, dispatch_outbox_row) hashmap"
  fs_task_dependencies :: "(string \<times> string, string list) hashmap"
  fs_task_dependents :: "(string \<times> string, string list) hashmap"
  fs_schedule_definitions :: "(string, schedule_definition_row) hashmap"
  fs_schedule_state :: "(string, schedule_state_row) hashmap"
  fs_schedule_ticks :: "(string, schedule_tick_row) hashmap"
  fs_sensor_state :: "(string, sensor_state_row) hashmap"
  fs_sensor_evals :: "(string, sensor_eval_row) hashmap"
  fs_backfills :: "(string, backfill_row) hashmap"
  fs_backfill_chunks :: "(string, backfill_chunk_row) hashmap"
  fs_partition_status :: "(string \<times> string, partition_status_row) hashmap"
  fs_run_key_index :: "(string, run_key_index_row) hashmap"
  fs_run_key_conflicts :: "(string, run_key_conflict_row) hashmap"
  fs_idempotency_keys :: "(string, idempotency_key_row) hashmap"
  fs_tenant_secret :: "u8 list"

definition new_fold_state :: fold_state where
  "new_fold_state =
     \<lparr>fs_runs = [], fs_tasks = [], fs_catalog_run_index = [], fs_dep_satisfaction = [],
      fs_timers = [], fs_dispatch_outbox = [], fs_task_dependencies = [], fs_task_dependents = [],
      fs_schedule_definitions = [], fs_schedule_state = [], fs_schedule_ticks = [],
      fs_sensor_state = [], fs_sensor_evals = [], fs_backfills = [], fs_backfill_chunks = [],
      fs_partition_status = [], fs_run_key_index = [], fs_run_key_conflicts = [],
      fs_idempotency_keys = [], fs_tenant_secret = []\<rparr>"

end
