(* ===== verification/Fold_Tasks.thy ===== *)
theory Fold_Tasks
  imports Orch_Rows
begin

text \<open>
  The handlers of \<^verbatim>\<open>FoldState\<close> for runs and tasks
  (\<^verbatim>\<open>arco-flow/src/orchestration/compactor/fold.rs\<close>). A handler takes the accumulator and
  returns it updated together with the Rust function's result, whether it changed anything.
  Writing through \<^verbatim>\<open>get_mut\<close> is \<^term>\<open>hm_modify\<close>; a \<^verbatim>\<open>for\<close> loop is \<^term>\<open>fold\<close> of its body.
\<close>

section \<open>Dependency graph\<close>

text \<open>\<^verbatim>\<open>entry(k).or_default().push(x)\<close>, and the variant that pushes only what is missing.\<close>

definition push_dep :: "'k \<Rightarrow> 'v \<Rightarrow> ('k, 'v list) hashmap \<Rightarrow> ('k, 'v list) hashmap" where
  "push_dep k x m = hm_modify k (\<lambda>xs. xs @ [x]) (hm_or_insert k [] m)"

definition push_dep_new :: "'k \<Rightarrow> 'v \<Rightarrow> ('k, 'v list) hashmap \<Rightarrow> ('k, 'v list) hashmap" where
  "push_dep_new k x m =
     hm_modify k (\<lambda>xs. if x \<in> set xs then xs else xs @ [x]) (hm_or_insert k [] m)"

definition rebuild_dependency_graph :: "fold_state \<Rightarrow> fold_state" where
  "rebuild_dependency_graph s =
     (let deps0 = fold (\<lambda>key m. hm_or_insert key [] m) (hm_keys (fs_tasks s)) [];
          deps = fold (\<lambda>edge m. push_dep_new (dp_run_id edge, dp_downstream_task_key edge)
                                  (dp_upstream_task_key edge) m)
                   (hm_values (fs_dep_satisfaction s)) deps0;
          dependents = fold (\<lambda>edge m. push_dep_new (dp_run_id edge, dp_upstream_task_key edge)
                                        (dp_downstream_task_key edge) m)
                         (hm_values (fs_dep_satisfaction s)) []
      in s\<lparr>fs_task_dependencies := deps, fs_task_dependents := dependents\<rparr>)"

definition get_dependents :: "fold_state \<Rightarrow> string \<Rightarrow> string \<Rightarrow> string list" where
  "get_dependents s run_id task_key =
     (case hm_get (fs_task_dependents s) (run_id, task_key) of None \<Rightarrow> [] | Some ds \<Rightarrow> ds)"

definition ready_tasks :: "fold_state \<Rightarrow> task_row list" where
  "ready_tasks s = filter (\<lambda>t. tk_state t = TS_Ready) (hm_values (fs_tasks s))"

section \<open>Run cancellation\<close>

definition cancel_task :: "string \<Rightarrow> string \<Rightarrow> string \<times> string \<Rightarrow> fold_state \<Rightarrow> fold_state" where
  "cancel_task run_id event_id task_key s =
     s\<lparr>fs_tasks := hm_modify task_key
          (\<lambda>task. task\<lparr>tk_state := TS_Cancelled, tk_row_version := event_id\<rparr>) (fs_tasks s),
       fs_runs := hm_modify run_id
          (\<lambda>run. run\<lparr>rn_tasks_cancelled := rn_tasks_cancelled run + 1,
                      rn_tasks_completed := rn_tasks_completed run + 1,
                      rn_row_version := event_id\<rparr>) (fs_runs s)\<rparr>"

definition tasks_to_cancel :: "string \<Rightarrow> fold_state \<Rightarrow> (string \<times> string) list" where
  "tasks_to_cancel run_id s =
     map fst (filter (\<lambda>(key, task). fst key = run_id \<and> \<not> is_terminal (tk_state task)
                                     \<and> tk_state task \<noteq> TS_Running) (fs_tasks s))"

definition fold_run_cancel_requested ::
  "string \<Rightarrow> string \<Rightarrow> datetime \<Rightarrow> fold_state \<Rightarrow> fold_state \<times> bool" where
  "fold_run_cancel_requested run_id event_id timestamp s =
     (if (case hm_get (fs_runs s) run_id of None \<Rightarrow> False | Some r \<Rightarrow> run_is_terminal (rn_state r))
      then (s, False)
      else
        let s1 = s\<lparr>fs_runs := hm_modify run_id
                     (\<lambda>run. run\<lparr>rn_cancel_requested := True, rn_row_version := event_id\<rparr>) (fs_runs s)\<rparr>;
            keys = tasks_to_cancel run_id s1;
            changed = (hm_get (fs_runs s) run_id \<noteq> None \<or> keys \<noteq> []);
            s2 = fold (cancel_task run_id event_id) keys s1
        in (case hm_get (fs_runs s2) run_id of
              None \<Rightarrow> (s2, changed)
            | Some run \<Rightarrow>
                if rn_tasks_completed run = rn_tasks_total run
                then (s2\<lparr>fs_runs := hm_modify run_id
                           (\<lambda>run. run\<lparr>rn_state := RS_Cancelled, rn_completed_at := Some timestamp,
                                       rn_row_version := event_id\<rparr>) (fs_runs s2)\<rparr>, True)
                else (s2, changed)))"

section \<open>Run creation\<close>

record run_tally =
  ty_total :: u32
  ty_completed :: u32
  ty_succeeded :: u32
  ty_failed :: u32
  ty_skipped :: u32
  ty_cancelled :: u32
  ty_completed_at :: "datetime option"

definition tally_zero :: run_tally where
  "tally_zero = \<lparr>ty_total = 0, ty_completed = 0, ty_succeeded = 0, ty_failed = 0, ty_skipped = 0,
                  ty_cancelled = 0, ty_completed_at = None\<rparr>"

fun later_of :: "datetime option \<Rightarrow> datetime option \<Rightarrow> datetime option" where
  "later_of (Some current) (Some candidate) = Some (max current candidate)"
| "later_of None (Some candidate) = Some candidate"
| "later_of current None = current"

definition tally_task :: "task_row \<Rightarrow> run_tally \<Rightarrow> run_tally" where
  "tally_task task y =
     (let y1 = y\<lparr>ty_total := saturating_add (ty_total y) 1\<rparr> in
      if is_terminal (tk_state task) then
        let y2 = y1\<lparr>ty_completed := saturating_add (ty_completed y1) 1\<rparr>;
            y3 = (case tk_state task of
                    TS_Succeeded \<Rightarrow> y2\<lparr>ty_succeeded := saturating_add (ty_succeeded y2) 1\<rparr>
                  | TS_Failed \<Rightarrow> y2\<lparr>ty_failed := saturating_add (ty_failed y2) 1\<rparr>
                  | TS_Skipped \<Rightarrow> y2\<lparr>ty_skipped := saturating_add (ty_skipped y2) 1\<rparr>
                  | TS_Cancelled \<Rightarrow> y2\<lparr>ty_cancelled := saturating_add (ty_cancelled y2) 1\<rparr>
                  | _ \<Rightarrow> y2)
        in y3\<lparr>ty_completed_at := later_of (ty_completed_at y3) (tk_completed_at task)\<rparr>
      else y1)"

text \<open>The outcome of a run all of whose tasks are terminal; the same cascade of conditions
  closes runs in three handlers.\<close>

definition run_outcome :: "u32 \<Rightarrow> u32 \<Rightarrow> run_state" where
  "run_outcome cancelled failed =
     (if cancelled > 0 then RS_Cancelled else if failed > 0 then RS_Failed else RS_Succeeded)"

definition fold_run_triggered ::
  "string \<Rightarrow> string \<Rightarrow> string option \<Rightarrow> (string, string) hashmap \<Rightarrow> string option \<Rightarrow> string
     \<Rightarrow> datetime \<Rightarrow> fold_state \<Rightarrow> fold_state \<times> bool" where
  "fold_run_triggered run_id plan_id run_key labels code_version event_id timestamp s =
     (if hm_get (fs_runs s) run_id \<noteq> None then (s, False)
      else
        let y = fold tally_task (filter (\<lambda>task. tk_run_id task = run_id) (hm_values (fs_tasks s)))
                  tally_zero;
            state = (if ty_total y = 0 then RS_Triggered
                     else if ty_completed y = ty_total y
                       then run_outcome (ty_cancelled y) (ty_failed y)
                     else RS_Running)
        in (s\<lparr>fs_runs := hm_insert run_id
               \<lparr>rn_run_id = run_id, rn_plan_id = plan_id, rn_state = state, rn_run_key = run_key,
                rn_labels = labels, rn_code_version = code_version, rn_cancel_requested = False,
                rn_tasks_total = ty_total y, rn_tasks_completed = ty_completed y,
                rn_tasks_succeeded = ty_succeeded y, rn_tasks_failed = ty_failed y,
                rn_tasks_skipped = ty_skipped y, rn_tasks_cancelled = ty_cancelled y,
                rn_triggered_at = timestamp,
                rn_completed_at = (if run_is_terminal state then ty_completed_at y else None),
                rn_row_version = event_id\<rparr> (fs_runs s)\<rparr>, True))"

section \<open>Plan creation\<close>

definition plan_task_row :: "string \<Rightarrow> string \<Rightarrow> datetime \<Rightarrow> task_def \<Rightarrow> task_row" where
  "plan_task_row run_id event_id timestamp d =
     (let deps_total = u32_of_len (length (td_depends_on d));
          initial_state = (if deps_total = 0 then TS_Ready else TS_Blocked)
      in \<lparr>tk_run_id = run_id, tk_task_key = td_key d, tk_state = initial_state, tk_attempt = 0,
          tk_attempt_id = None, tk_started_at = None, tk_completed_at = None,
          tk_error_message = None, tk_deps_total = deps_total, tk_deps_satisfied_count = 0,
          tk_max_attempts = td_max_attempts d,
          tk_heartbeat_timeout_sec = td_heartbeat_timeout_sec d, tk_last_heartbeat_at = None,
          tk_ready_at = (if initial_state = TS_Ready then Some timestamp else None),
          tk_asset_key = td_asset_key d, tk_partition_key = td_partition_key d,
          tk_requires_visible_output = td_requires_visible_output d,
          tk_materialization_id = None, tk_output_visibility_state = None,
          tk_published_at = None, tk_publish_error = None, tk_retry_not_before = None,
          tk_delta_table = None, tk_delta_version = None, tk_delta_partition = None,
          tk_execution_lineage_ref = None, tk_row_version = event_id\<rparr>)"

definition plan_edge_row :: "string \<Rightarrow> string \<Rightarrow> string \<Rightarrow> string \<Rightarrow> dep_satisfaction_row" where
  "plan_edge_row run_id event_id upstream downstream =
     \<lparr>dp_run_id = run_id, dp_upstream_task_key = upstream, dp_downstream_task_key = downstream,
      dp_satisfied = False, dp_resolution = None, dp_satisfied_at = None,
      dp_satisfying_attempt = None, dp_row_version = event_id\<rparr>"

definition plan_graph_step :: "string \<Rightarrow> task_def \<Rightarrow> fold_state \<Rightarrow> fold_state" where
  "plan_graph_step run_id d s =
     s\<lparr>fs_task_dependencies := hm_insert (run_id, td_key d) (td_depends_on d) (fs_task_dependencies s),
       fs_task_dependents := fold (\<lambda>upstream m. push_dep (run_id, upstream) (td_key d) m)
          (td_depends_on d) (fs_task_dependents s)\<rparr>"

definition plan_rows_step :: "string \<Rightarrow> string \<Rightarrow> datetime \<Rightarrow> task_def \<Rightarrow> fold_state \<Rightarrow> fold_state" where
  "plan_rows_step run_id event_id timestamp d s =
     s\<lparr>fs_tasks := hm_insert (run_id, td_key d) (plan_task_row run_id event_id timestamp d) (fs_tasks s),
       fs_dep_satisfaction :=
         fold (\<lambda>upstream m. hm_insert (run_id, upstream, td_key d)
                               (plan_edge_row run_id event_id upstream (td_key d)) m)
           (td_depends_on d) (fs_dep_satisfaction s)\<rparr>"

definition fold_plan_created ::
  "string \<Rightarrow> task_def list \<Rightarrow> string \<Rightarrow> datetime \<Rightarrow> fold_state \<Rightarrow> fold_state \<times> bool" where
  "fold_plan_created run_id task_defs event_id timestamp s =
     (if list_ex (\<lambda>key. fst key = run_id) (hm_keys (fs_tasks s)) then (s, False)
      else
        let s1 = s\<lparr>fs_runs := hm_modify run_id
                     (\<lambda>run. run\<lparr>rn_tasks_total := u32_of_len (length task_defs),
                                 rn_state := RS_Running, rn_row_version := event_id\<rparr>) (fs_runs s)\<rparr>;
            s2 = fold (plan_graph_step run_id) task_defs s1;
            s3 = fold (plan_rows_step run_id event_id timestamp) task_defs s2
        in (s3, hm_get (fs_runs s) run_id \<noteq> None \<or> task_defs \<noteq> []))"

section \<open>Task start and heartbeat\<close>

definition prune_dispatch_outbox_row :: "string \<Rightarrow> string \<Rightarrow> u32 \<Rightarrow> fold_state \<Rightarrow> fold_state" where
  "prune_dispatch_outbox_row run_id task_key attempt s =
     s\<lparr>fs_dispatch_outbox := hm_remove (dispatch_id run_id task_key attempt) (fs_dispatch_outbox s)\<rparr>"

definition fold_task_started ::
  "string \<Rightarrow> string \<Rightarrow> u32 \<Rightarrow> string \<Rightarrow> datetime \<Rightarrow> string \<Rightarrow> fold_state \<Rightarrow> fold_state \<times> bool" where
  "fold_task_started run_id task_key attempt attempt_id timestamp event_id s =
     (case hm_get (fs_tasks s) (run_id, task_key) of
        None \<Rightarrow> (s, False)
      | Some task \<Rightarrow>
          if is_terminal (tk_state task) then (s, False)
          else if attempt \<ge> tk_attempt task then
            if attempt = tk_attempt task \<and> tk_attempt_id task \<noteq> None \<and> tk_attempt_id task \<noteq> Some attempt_id
            then (s, False)
            else (prune_dispatch_outbox_row run_id task_key attempt
                    (s\<lparr>fs_tasks := hm_modify (run_id, task_key)
                         (\<lambda>task. task\<lparr>tk_state := TS_Running, tk_attempt := attempt,
                                       tk_attempt_id := Some attempt_id,
                                       tk_started_at := Some timestamp,
                                       tk_row_version := event_id\<rparr>) (fs_tasks s)\<rparr>), True)
          else (s, False))"

definition fold_task_heartbeat ::
  "string \<Rightarrow> string \<Rightarrow> u32 \<Rightarrow> string \<Rightarrow> datetime \<Rightarrow> string \<Rightarrow> fold_state \<Rightarrow> fold_state \<times> bool" where
  "fold_task_heartbeat run_id task_key attempt attempt_id heartbeat_at event_id s =
     (case hm_get (fs_tasks s) (run_id, task_key) of
        None \<Rightarrow> (s, False)
      | Some task \<Rightarrow>
          if is_terminal (tk_state task) then (s, False)
          else if tk_attempt_id task = Some attempt_id \<and> tk_attempt task = attempt then
            (s\<lparr>fs_tasks := hm_modify (run_id, task_key)
                 (\<lambda>task. task\<lparr>tk_last_heartbeat_at := Some heartbeat_at,
                               tk_row_version := event_id\<rparr>) (fs_tasks s)\<rparr>, True)
          else (s, False))"

end
