(* ===== verification/Fold_Finish.thy ===== *)
theory Fold_Finish
  imports Fold_Tasks
begin

text \<open>
  Task completion: the handlers behind \<^verbatim>\<open>TaskFinished\<close>, \<^verbatim>\<open>TaskCompletionRecorded\<close> and
  \<^verbatim>\<open>TaskOutputVisibilityChanged\<close>, with the helpers they call: execution metadata and lineage,
  partition status, the satisfaction of downstream edges and the propagation of a failure
  through the dependents (\<^verbatim>\<open>arco-flow/src/orchestration/compactor/fold.rs\<close>). The work queue of
  \<^verbatim>\<open>propagate_failure\<close> is a recursion whose termination is proved: a task is queued only when it
  becomes terminal.
\<close>

section \<open>Execution metadata\<close>

definition extract_execution_metadata ::
  "string option \<Rightarrow> task_output option \<Rightarrow> string option \<Rightarrow> execution_metadata" where
  "extract_execution_metadata materialization_id output partition_key =
     (let m0 = \<lparr>md_materialization_id = materialization_id, md_delta_table = None,
                md_delta_version = None, md_delta_partition = None\<rparr>;
          m1 = (case output of
                  None \<Rightarrow> m0
                | Some output \<Rightarrow>
                    \<lparr>md_materialization_id =
                       (case md_materialization_id m0 of
                          None \<Rightarrow> out_materialization_id output | Some i \<Rightarrow> Some i),
                     md_delta_table = out_delta_table output,
                     md_delta_version = out_delta_version output,
                     md_delta_partition = out_delta_partition output\<rparr>)
      in (if md_delta_partition m1 = None then m1\<lparr>md_delta_partition := partition_key\<rparr> else m1))"

definition build_execution_lineage_ref ::
  "lib_env \<Rightarrow> string \<Rightarrow> string \<Rightarrow> u32 \<Rightarrow> execution_metadata \<Rightarrow> string" where
  "build_execution_lineage_ref env run_id task_key attempt metadata =
     (case lineage_to_json env
             \<lparr>lr_run_id = run_id, lr_task_key = task_key, lr_attempt = attempt,
              lr_materialization_id = md_materialization_id metadata,
              lr_delta_table = md_delta_table metadata,
              lr_delta_version = md_delta_version metadata,
              lr_delta_partition = md_delta_partition metadata\<rparr> of
        Some json \<Rightarrow> json
      | None \<Rightarrow>
          ''run='' @ run_id @ '';task='' @ task_key @ '';attempt='' @ show_u32 attempt
          @ '';delta_version='' @ (case md_delta_version metadata of None \<Rightarrow> ''null'' | Some v \<Rightarrow> show_int v)
          @ '';delta_partition='' @ (case md_delta_partition metadata of None \<Rightarrow> ''null'' | Some p \<Rightarrow> p))"

section \<open>Partition status\<close>

definition empty_partition_status :: "string \<Rightarrow> string \<Rightarrow> string \<Rightarrow> string \<Rightarrow> partition_status_row" where
  "empty_partition_status tenant_id workspace_id asset_key partition_key =
     \<lparr>pt_tenant_id = tenant_id, pt_workspace_id = workspace_id, pt_asset_key = asset_key,
      pt_partition_key = partition_key, pt_last_materialization_run_id = None,
      pt_last_materialization_at = None, pt_last_materialization_code_version = None,
      pt_last_attempt_run_id = None, pt_last_attempt_at = None, pt_last_attempt_outcome = None,
      pt_stale_since = None, pt_stale_reason_code = None, pt_partition_values = [],
      pt_delta_table = None, pt_delta_version = None, pt_delta_partition = None,
      pt_execution_lineage_ref = None, pt_row_version = ''''\<rparr>"

definition update_partition_materialization ::
  "string \<Rightarrow> string \<Rightarrow> string \<Rightarrow> string \<Rightarrow> string \<Rightarrow> string option \<Rightarrow> string option \<Rightarrow> int option
     \<Rightarrow> string option \<Rightarrow> string option \<Rightarrow> datetime \<Rightarrow> string \<Rightarrow> fold_state \<Rightarrow> fold_state" where
  "update_partition_materialization tenant_id workspace_id asset_key partition_key run_id
       code_version delta_table delta_version delta_partition execution_lineage_ref
       materialized_at event_id s =
     s\<lparr>fs_partition_status :=
         hm_modify (asset_key, partition_key)
           (\<lambda>row. if event_id < pt_row_version row then row
                   else row\<lparr>pt_last_materialization_run_id := Some run_id,
                            pt_last_materialization_at := Some materialized_at,
                            pt_last_materialization_code_version := code_version,
                            pt_delta_table := delta_table, pt_delta_version := delta_version,
                            pt_delta_partition := delta_partition,
                            pt_execution_lineage_ref := execution_lineage_ref,
                            pt_stale_since := None, pt_stale_reason_code := None,
                            pt_row_version := event_id\<rparr>)
           (hm_or_insert (asset_key, partition_key)
              (empty_partition_status tenant_id workspace_id asset_key partition_key)
              (fs_partition_status s))\<rparr>"

definition update_partition_attempt ::
  "string \<Rightarrow> string \<Rightarrow> string \<Rightarrow> string \<Rightarrow> string \<Rightarrow> task_outcome \<Rightarrow> datetime \<Rightarrow> string
     \<Rightarrow> fold_state \<Rightarrow> fold_state" where
  "update_partition_attempt tenant_id workspace_id asset_key partition_key run_id outcome
       attempted_at event_id s =
     s\<lparr>fs_partition_status :=
         hm_modify (asset_key, partition_key)
           (\<lambda>row. if event_id < pt_row_version row then row
                   else row\<lparr>pt_last_attempt_run_id := Some run_id,
                            pt_last_attempt_at := Some attempted_at,
                            pt_last_attempt_outcome := Some outcome,
                            pt_row_version := event_id\<rparr>)
           (hm_or_insert (asset_key, partition_key)
              (empty_partition_status tenant_id workspace_id asset_key partition_key)
              (fs_partition_status s))\<rparr>"

section \<open>Run counters\<close>

text \<open>The counter updates of a task that becomes terminal and the completion check that follows
  them, as they stand in \<^verbatim>\<open>fold_task_finished\<close> and \<^verbatim>\<open>propagate_failure\<close>.\<close>

definition count_terminal :: "task_state \<Rightarrow> run_row \<Rightarrow> run_row" where
  "count_terminal new_state run =
     (let run1 = run\<lparr>rn_tasks_completed := rn_tasks_completed run + 1\<rparr> in
      case new_state of
        TS_Succeeded \<Rightarrow> run1\<lparr>rn_tasks_succeeded := rn_tasks_succeeded run1 + 1\<rparr>
      | TS_Failed \<Rightarrow> run1\<lparr>rn_tasks_failed := rn_tasks_failed run1 + 1\<rparr>
      | TS_Skipped \<Rightarrow> run1\<lparr>rn_tasks_skipped := rn_tasks_skipped run1 + 1\<rparr>
      | TS_Cancelled \<Rightarrow> run1\<lparr>rn_tasks_cancelled := rn_tasks_cancelled run1 + 1\<rparr>
      | _ \<Rightarrow> run1)"

definition complete_run :: "datetime \<Rightarrow> run_row \<Rightarrow> run_row" where
  "complete_run timestamp run =
     (if rn_tasks_completed run = rn_tasks_total run
      then run\<lparr>rn_state := run_outcome (rn_tasks_cancelled run) (rn_tasks_failed run),
               rn_completed_at := Some timestamp\<rparr>
      else run)"

definition run_task_done :: "task_state \<Rightarrow> string \<Rightarrow> datetime \<Rightarrow> run_row \<Rightarrow> run_row" where
  "run_task_done new_state event_id timestamp run =
     complete_run timestamp ((count_terminal new_state run)\<lparr>rn_row_version := event_id\<rparr>)"

section \<open>Downstream edges\<close>

text \<open>One more satisfied dependency of a downstream task, which is released by the last one.\<close>

definition dep_satisfied_row :: "string \<Rightarrow> datetime \<Rightarrow> task_row \<Rightarrow> task_row" where
  "dep_satisfied_row event_id timestamp task =
     (let t1 = task\<lparr>tk_deps_satisfied_count := tk_deps_satisfied_count task + 1\<rparr> in
      if tk_deps_satisfied_count t1 = tk_deps_total t1 \<and> tk_state t1 = TS_Blocked
      then t1\<lparr>tk_state := TS_Ready, tk_ready_at := Some timestamp, tk_row_version := event_id\<rparr>
      else t1)"

definition satisfy_edge ::
  "string \<Rightarrow> string \<Rightarrow> dep_resolution \<Rightarrow> u32 \<Rightarrow> string \<Rightarrow> datetime \<Rightarrow> string \<Rightarrow> fold_state \<Rightarrow> fold_state" where
  "satisfy_edge run_id upstream_key resolution attempt event_id timestamp downstream_key s =
     (let edge_key = (run_id, upstream_key, downstream_key);
          was_satisfied = (case hm_get (fs_dep_satisfaction s) edge_key of
                             None \<Rightarrow> False | Some e \<Rightarrow> dp_satisfied e);
          s1 = s\<lparr>fs_dep_satisfaction := hm_insert edge_key
                   \<lparr>dp_run_id = run_id, dp_upstream_task_key = upstream_key,
                    dp_downstream_task_key = downstream_key, dp_satisfied = True,
                    dp_resolution = Some resolution, dp_satisfied_at = Some timestamp,
                    dp_satisfying_attempt = Some attempt, dp_row_version = event_id\<rparr>
                   (fs_dep_satisfaction s)\<rparr>
      in if was_satisfied then s1
         else s1\<lparr>fs_tasks := hm_modify (run_id, downstream_key) (dep_satisfied_row event_id timestamp)
                   (fs_tasks s1)\<rparr>)"

definition satisfy_downstream_edges ::
  "string \<Rightarrow> string \<Rightarrow> dep_resolution \<Rightarrow> u32 \<Rightarrow> string \<Rightarrow> datetime \<Rightarrow> fold_state \<Rightarrow> fold_state" where
  "satisfy_downstream_edges run_id upstream_key resolution attempt event_id timestamp s =
     fold (satisfy_edge run_id upstream_key resolution attempt event_id timestamp)
       (get_dependents s run_id upstream_key) s"

section \<open>Failure propagation\<close>

fun propagated :: "dep_resolution \<Rightarrow> task_state \<times> dep_resolution" where
  "propagated DR_Cancelled = (TS_Cancelled, DR_Cancelled)"
| "propagated _ = (TS_Skipped, DR_Skipped)"

text \<open>The body of the inner loop, on the accumulator and the queue.\<close>

definition propagate_edge ::
  "string \<Rightarrow> string \<Rightarrow> dep_resolution \<Rightarrow> string \<Rightarrow> datetime \<Rightarrow> string
     \<Rightarrow> fold_state \<times> (string \<times> dep_resolution) list \<Rightarrow> fold_state \<times> (string \<times> dep_resolution) list" where
  "propagate_edge run_id upstream_key edge_resolution event_id timestamp downstream_key sq =
     (let (s, q) = sq;
          s1 = s\<lparr>fs_dep_satisfaction := hm_insert (run_id, upstream_key, downstream_key)
                   \<lparr>dp_run_id = run_id, dp_upstream_task_key = upstream_key,
                    dp_downstream_task_key = downstream_key, dp_satisfied = False,
                    dp_resolution = Some edge_resolution, dp_satisfied_at = Some timestamp,
                    dp_satisfying_attempt = None, dp_row_version = event_id\<rparr>
                   (fs_dep_satisfaction s)\<rparr>
      in case hm_get (fs_tasks s1) (run_id, downstream_key) of
           None \<Rightarrow> (s1, q)
         | Some downstream_task \<Rightarrow>
             if is_terminal (tk_state downstream_task) then (s1, q)
             else
               let (new_state, next_resolution) = propagated edge_resolution
               in (s1\<lparr>fs_tasks := hm_modify (run_id, downstream_key)
                        (\<lambda>t. t\<lparr>tk_state := new_state, tk_row_version := event_id\<rparr>) (fs_tasks s1),
                      fs_runs := hm_modify run_id (run_task_done new_state event_id timestamp)
                        (fs_runs s1)\<rparr>,
                   q @ [(downstream_key, next_resolution)]))"

text \<open>Tasks not yet terminal; the queue grows only when this count shrinks.\<close>

definition open_tasks :: "fold_state \<Rightarrow> nat" where
  "open_tasks s = length (filter (\<lambda>kt. \<not> is_terminal (tk_state (snd kt))) (fs_tasks s))"

lemma hm_modify_split:
  assumes "hm_get m k = Some v"
  obtains xs ys where "m = xs @ (k, v) # ys" "k \<notin> fst ` set xs" "\<And>f. hm_modify k f m = xs @ (k, f v) # ys"
proof -
  have "\<exists>xs ys. m = xs @ (k, v) # ys \<and> k \<notin> fst ` set xs \<and> (\<forall>f. hm_modify k f m = xs @ (k, f v) # ys)"
    using assms
  proof (induction m)
    case (Cons p m)
    show ?case
    proof (cases "fst p = k")
      case True
      then show ?thesis using Cons.prems by (intro exI [of _ "[]"] exI [of _ m]) auto
    next
      case False
      then obtain xs ys where "m = xs @ (k, v) # ys" "k \<notin> fst ` set xs"
        "\<forall>f. hm_modify k f m = xs @ (k, f v) # ys"
        using Cons by auto
      with False show ?thesis by (intro exI [of _ "p # xs"] exI [of _ ys]) (cases p, auto)
    qed
  qed simp
  then show ?thesis using that by blast
qed

lemma propagated_terminal [simp]: "propagated r = (n, r') \<Longrightarrow> is_terminal n"
  by (cases r) auto

lemma propagate_edge_measure:
  assumes "propagate_edge r u e i ts d (s, q) = (s', q')"
  shows "2 * open_tasks s' + length q' \<le> 2 * open_tasks s + length q"
proof (cases "\<exists>t. hm_get (fs_tasks s) (r, d) = Some t \<and> \<not> is_terminal (tk_state t)")
  case False
  then have "fs_tasks s' = fs_tasks s \<and> q' = q"
    using assms by (auto simp: propagate_edge_def Let_def split: option.splits)
  then show ?thesis by (simp add: open_tasks_def)
next
  case True
  then obtain t where t: "hm_get (fs_tasks s) (r, d) = Some t" "\<not> is_terminal (tk_state t)"
    by blast
  obtain n r' where p: "propagated e = (n, r')" by fastforce
  obtain xs ys where xy: "fs_tasks s = xs @ ((r, d), t) # ys"
    "\<And>f. hm_modify (r, d) f (fs_tasks s) = xs @ ((r, d), f t) # ys"
    using hm_modify_split [OF t(1)] by metis
  have "length q' = length q + 1" "fs_tasks s' = xs @ ((r, d), t\<lparr>tk_state := n, tk_row_version := i\<rparr>) # ys"
    using assms t p xy by (auto simp: propagate_edge_def)
  moreover have "is_terminal n" using p by simp
  ultimately show ?thesis using xy(1) t(2) by (simp add: open_tasks_def)
qed

lemma propagate_edges_measure:
  "fold (propagate_edge r u e i ts) ds (s, q) = (s', q') \<Longrightarrow>
   2 * open_tasks s' + length q' \<le> 2 * open_tasks s + length q"
proof (induction ds arbitrary: s q)
  case (Cons d ds)
  obtain s1 q1 where "propagate_edge r u e i ts d (s, q) = (s1, q1)" by fastforce
  with Cons propagate_edge_measure show ?case by fastforce
qed simp

text \<open>The \<^verbatim>\<open>while let\<close> loop on the queue.\<close>

function propagate_loop ::
  "string \<Rightarrow> string \<Rightarrow> datetime \<Rightarrow> fold_state \<Rightarrow> (string \<times> dep_resolution) list \<Rightarrow> fold_state" where
  "propagate_loop run_id event_id timestamp s [] = s"
| "propagate_loop run_id event_id timestamp s ((upstream_key, edge_resolution) # q) =
     (let (s', q') = fold (propagate_edge run_id upstream_key edge_resolution event_id timestamp)
                       (get_dependents s run_id upstream_key) (s, q)
      in propagate_loop run_id event_id timestamp s' q')"
  by pat_completeness auto
termination
proof (relation "measure (\<lambda>(_, _, _, s, q). 2 * open_tasks s + length q)", goal_cases)
  case (2 r i ts s u e q x s' q')
  then have "2 * open_tasks s' + length q' \<le> 2 * open_tasks s + length q"
    using propagate_edges_measure by metis
  then show ?case by simp
qed simp

definition propagate_failure ::
  "string \<Rightarrow> string \<Rightarrow> dep_resolution \<Rightarrow> string \<Rightarrow> datetime \<Rightarrow> fold_state \<Rightarrow> fold_state" where
  "propagate_failure run_id failed_task_key initial_resolution event_id timestamp s =
     propagate_loop run_id event_id timestamp s [(failed_task_key, initial_resolution)]"

section \<open>Task completion\<close>

definition finished_state :: "task_outcome \<Rightarrow> task_row \<Rightarrow> task_state" where
  "finished_state outcome task =
     (case outcome of
        TO_Succeeded \<Rightarrow> TS_Succeeded
      | TO_Failed \<Rightarrow> (if tk_attempt task < tk_max_attempts task then TS_RetryWait else TS_Failed)
      | TO_Skipped \<Rightarrow> TS_Skipped
      | TO_Cancelled \<Rightarrow> TS_Cancelled)"

text \<open>The writes to the task row.\<close>

definition finished_task_row ::
  "lib_env \<Rightarrow> task_completion \<Rightarrow> execution_metadata \<Rightarrow> string option \<Rightarrow> string \<Rightarrow> datetime
     \<Rightarrow> task_row \<Rightarrow> task_row" where
  "finished_task_row env c metadata effective_partition_key event_id timestamp task =
     (let new_state = finished_state (tc_outcome c) task;
          t1 = task\<lparr>tk_state := new_state, tk_row_version := event_id\<rparr>;
          t2 = (if tk_asset_key t1 = None then t1\<lparr>tk_asset_key := tc_asset_key c\<rparr> else t1);
          t3 = (if tk_partition_key t2 = None then t2\<lparr>tk_partition_key := effective_partition_key\<rparr> else t2);
          t4 = (if is_terminal new_state then t3\<lparr>tk_completed_at := Some timestamp\<rparr> else t3);
          t5 = (case tc_outcome c of
                  TO_Succeeded \<Rightarrow> t4\<lparr>tk_error_message := None, tk_retry_not_before := None\<rparr>
                | _ \<Rightarrow> (let t = t4\<lparr>tk_error_message := tc_error_message c\<rparr> in
                        if new_state \<noteq> TS_RetryWait then t\<lparr>tk_retry_not_before := None\<rparr> else t))
      in if tc_outcome c = TO_Succeeded then
           let lineage_ref = build_execution_lineage_ref env (tc_run_id c) (tc_task_key c)
                               (tc_attempt c) metadata;
               t6 = t5\<lparr>tk_materialization_id := md_materialization_id metadata\<rparr>;
               t7 = (if tk_output_visibility_state t6 = None
                     then t6\<lparr>tk_published_at := None, tk_publish_error := None\<rparr> else t6)
           in t7\<lparr>tk_delta_table := md_delta_table metadata, tk_delta_version := md_delta_version metadata,
                 tk_delta_partition := md_delta_partition metadata,
                 tk_execution_lineage_ref := Some lineage_ref\<rparr>
         else t5\<lparr>tk_output_visibility_state := None, tk_published_at := None, tk_publish_error := None\<rparr>)"

text \<open>The downstream effects, by outcome.\<close>

definition finished_effects ::
  "lib_env \<Rightarrow> task_completion \<Rightarrow> execution_metadata \<Rightarrow> string option \<Rightarrow> task_state \<Rightarrow> string \<Rightarrow> datetime
     \<Rightarrow> string \<Rightarrow> string \<Rightarrow> fold_state \<Rightarrow> fold_state" where
  "finished_effects env c metadata effective_partition_key new_state event_id timestamp
       tenant_id workspace_id s =
     (if tc_outcome c = TO_Succeeded then
        let s1 = satisfy_downstream_edges (tc_run_id c) (tc_task_key c) DR_Success (tc_attempt c)
                   event_id timestamp s
        in (case (tc_asset_key c, effective_partition_key) of
              (Some asset_key, Some partition_key) \<Rightarrow>
                update_partition_materialization tenant_id workspace_id asset_key partition_key
                  (tc_run_id c) (tc_code_version c) (md_delta_table metadata)
                  (md_delta_version metadata) (md_delta_partition metadata)
                  (Some (build_execution_lineage_ref env (tc_run_id c) (tc_task_key c)
                           (tc_attempt c) metadata))
                  timestamp event_id s1
            | _ \<Rightarrow> s1)
      else if tc_outcome c = TO_Failed \<and> new_state = TS_Failed then
        propagate_failure (tc_run_id c) (tc_task_key c) DR_Failed event_id timestamp s
      else if tc_outcome c = TO_Skipped then
        propagate_failure (tc_run_id c) (tc_task_key c) DR_Skipped event_id timestamp s
      else if tc_outcome c = TO_Cancelled then
        propagate_failure (tc_run_id c) (tc_task_key c) DR_Cancelled event_id timestamp s
      else s)"

definition fold_task_finished ::
  "lib_env \<Rightarrow> task_completion \<Rightarrow> string \<Rightarrow> datetime \<Rightarrow> string \<Rightarrow> string \<Rightarrow> fold_state \<Rightarrow> fold_state \<times> bool" where
  "fold_task_finished env c event_id timestamp tenant_id workspace_id s =
     (case hm_get (fs_tasks s) (tc_run_id c, tc_task_key c) of
        None \<Rightarrow> (s, False)
      | Some task \<Rightarrow>
          if is_terminal (tk_state task) \<and> tk_attempt task = tc_attempt c
             \<and> tk_attempt_id task = Some (tc_attempt_id c)
          then (s, False)
          else if \<not> (tk_attempt_id task = Some (tc_attempt_id c) \<and> tk_attempt task = tc_attempt c)
          then (s, False)
          else
            let metadata = extract_execution_metadata (tc_materialization_id c) (tc_output c)
                             (tc_partition_key c);
                effective_partition_key =
                  (case tc_partition_key c of Some p \<Rightarrow> Some p | None \<Rightarrow> md_delta_partition metadata);
                new_state = finished_state (tc_outcome c) task;
                s1 = s\<lparr>fs_tasks := hm_modify (tc_run_id c, tc_task_key c)
                         (finished_task_row env c metadata effective_partition_key event_id timestamp)
                         (fs_tasks s)\<rparr>;
                s2 = (if is_terminal new_state
                      then s1\<lparr>fs_runs := hm_modify (tc_run_id c)
                                (run_task_done new_state event_id timestamp) (fs_runs s1)\<rparr>
                      else s1);
                s3 = finished_effects env c metadata effective_partition_key new_state event_id
                       timestamp tenant_id workspace_id s2;
                s4 = (case (tc_asset_key c, effective_partition_key) of
                        (Some asset_key, Some partition_key) \<Rightarrow>
                          update_partition_attempt tenant_id workspace_id asset_key partition_key
                            (tc_run_id c) (tc_outcome c) timestamp event_id s3
                      | _ \<Rightarrow> s3)
            in (s4, True))"

text \<open>The writes of a visibility update.\<close>

definition visibility_task_row ::
  "output_visibility_state \<Rightarrow> datetime option \<Rightarrow> string option \<Rightarrow> string \<Rightarrow> datetime \<Rightarrow> task_row \<Rightarrow> task_row" where
  "visibility_task_row visibility_state published_at publish_error event_id timestamp task =
     (let t1 = task\<lparr>tk_output_visibility_state := Some visibility_state, tk_row_version := event_id\<rparr>
      in case visibility_state of
           OV_Pending \<Rightarrow> t1\<lparr>tk_published_at := None, tk_publish_error := None\<rparr>
         | OV_Visible \<Rightarrow> t1\<lparr>tk_published_at := Some (case published_at of Some p \<Rightarrow> p | None \<Rightarrow> timestamp),
                            tk_publish_error := None\<rparr>
         | OV_Failed \<Rightarrow> t1\<lparr>tk_published_at := None, tk_publish_error := publish_error\<rparr>)"

definition fold_task_output_visibility_changed ::
  "string \<Rightarrow> string \<Rightarrow> u32 \<Rightarrow> string \<Rightarrow> output_visibility_state \<Rightarrow> datetime option \<Rightarrow> string option
     \<Rightarrow> string \<Rightarrow> datetime \<Rightarrow> fold_state \<Rightarrow> fold_state \<times> bool" where
  "fold_task_output_visibility_changed run_id task_key attempt attempt_id visibility_state
       published_at publish_error event_id timestamp s =
     (case hm_get (fs_tasks s) (run_id, task_key) of
        None \<Rightarrow> (s, False)
      | Some task \<Rightarrow>
          if \<not> (tk_attempt task = attempt \<and> tk_attempt_id task = Some attempt_id)
             \<or> tk_state task \<noteq> TS_Succeeded
          then (s, False)
          else if (tk_output_visibility_state task = Some OV_Visible
                   \<or> tk_output_visibility_state task = Some OV_Failed)
                  \<and> tk_output_visibility_state task \<noteq> Some visibility_state
          then (s, False)
          else (s\<lparr>fs_tasks := hm_modify (run_id, task_key)
                    (visibility_task_row visibility_state published_at publish_error event_id timestamp)
                    (fs_tasks s)\<rparr>, True))"

end
