(* ===== verification/Fold_Dispatch.thy ===== *)
theory Fold_Dispatch
  imports Fold_Tasks
begin

text \<open>
  The handlers for the dispatch outbox and the durable timers
  (\<^verbatim>\<open>arco-flow/src/orchestration/compactor/fold.rs\<close>). Each pair of events, the request and
  its acknowledgement, may arrive in either order.
\<close>

section \<open>Dispatch outbox\<close>

definition dispatch_attempt_consumed :: "string \<Rightarrow> string \<Rightarrow> u32 \<Rightarrow> fold_state \<Rightarrow> bool" where
  "dispatch_attempt_consumed run_id task_key attempt s =
     (case hm_get (fs_tasks s) (run_id, task_key) of
        None \<Rightarrow> False
      | Some task \<Rightarrow>
          tk_attempt task > attempt
          \<or> tk_attempt task = attempt
             \<and> ((tk_state task = TS_Running \<or> tk_state task = TS_RetryWait) \<or> is_terminal (tk_state task)))"

definition default_queue :: string where
  "default_queue = ''default-queue''"

text \<open>Filling in an outbox row that the acknowledgement created: the row and whether it changed.\<close>

definition fill_outbox_row :: "string \<Rightarrow> string \<Rightarrow> dispatch_outbox_row \<Rightarrow> dispatch_outbox_row \<times> bool" where
  "fill_outbox_row attempt_id worker_queue existing =
     (let (r1, c1) = (if do_attempt_id existing = [] then (existing\<lparr>do_attempt_id := attempt_id\<rparr>, True)
                      else (existing, False));
          (r2, c2) = (if do_worker_queue r1 = []
                         \<or> (do_worker_queue r1 = default_queue \<and> worker_queue \<noteq> default_queue)
                      then (r1\<lparr>do_worker_queue := worker_queue\<rparr>, True) else (r1, c1))
      in (r2, c2))"

definition dispatch_task_update :: "u32 \<Rightarrow> string \<Rightarrow> string \<Rightarrow> task_row \<Rightarrow> task_row \<times> bool" where
  "dispatch_task_update attempt desired_attempt_id event_id task =
     (if \<not> is_terminal (tk_state task)
         \<and> (tk_state task = TS_Ready \<or> tk_state task = TS_RetryWait \<or> tk_state task = TS_Dispatched)
         \<and> attempt \<ge> tk_attempt task
         \<and> (tk_state task \<noteq> TS_Dispatched \<or> tk_attempt task \<noteq> attempt
            \<or> tk_attempt_id task \<noteq> Some desired_attempt_id)
      then (task\<lparr>tk_state := TS_Dispatched, tk_attempt := attempt,
                 tk_attempt_id := Some desired_attempt_id, tk_retry_not_before := None,
                 tk_row_version := event_id\<rparr>, True)
      else (task, False))"

definition fold_dispatch_requested ::
  "string \<Rightarrow> string \<Rightarrow> u32 \<Rightarrow> string \<Rightarrow> string \<Rightarrow> string \<Rightarrow> string \<Rightarrow> datetime
     \<Rightarrow> fold_state \<Rightarrow> fold_state \<times> bool" where
  "fold_dispatch_requested run_id task_key attempt attempt_id worker_queue disp_id event_id
       timestamp s =
     (if dispatch_attempt_consumed run_id task_key attempt s
      then (prune_dispatch_outbox_row run_id task_key attempt s, False)
      else
        let existing = hm_get (fs_dispatch_outbox s) disp_id;
            filled = map_option (fill_outbox_row attempt_id worker_queue) existing;
            outbox_changed = (case filled of None \<Rightarrow> False | Some (_, c) \<Rightarrow> c);
            s1 = s\<lparr>fs_dispatch_outbox := hm_modify disp_id
                     (\<lambda>row. fst (fill_outbox_row attempt_id worker_queue row)) (fs_dispatch_outbox s)\<rparr>;
            desired_attempt_id =
              (case filled of None \<Rightarrow> attempt_id | Some (row, _) \<Rightarrow> do_attempt_id row);
            task_changed =
              (case hm_get (fs_tasks s1) (run_id, task_key) of
                 None \<Rightarrow> False
               | Some task \<Rightarrow> snd (dispatch_task_update attempt desired_attempt_id event_id task));
            s2 = s1\<lparr>fs_tasks := hm_modify (run_id, task_key)
                      (\<lambda>task. fst (dispatch_task_update attempt desired_attempt_id event_id task))
                      (fs_tasks s1)\<rparr>
        in if existing \<noteq> None then (s2, task_changed \<or> outbox_changed)
           else (s2\<lparr>fs_dispatch_outbox := hm_insert disp_id
                      \<lparr>do_run_id = run_id, do_task_key = task_key, do_attempt = attempt,
                       do_dispatch_id = disp_id, do_cloud_task_id = None, do_status = DS_Pending,
                       do_attempt_id = attempt_id, do_worker_queue = worker_queue,
                       do_created_at = timestamp, do_row_version = event_id\<rparr>
                      (fs_dispatch_outbox s2)\<rparr>, True))"

fun all_some :: "string option \<Rightarrow> string option \<Rightarrow> u32 option \<Rightarrow> (string \<times> string \<times> u32) option" where
  "all_some (Some run_id) (Some task_key) (Some attempt) = Some (run_id, task_key, attempt)"
| "all_some _ _ _ = None"

definition fold_dispatch_enqueued ::
  "string \<Rightarrow> string option \<Rightarrow> string option \<Rightarrow> u32 option \<Rightarrow> string \<Rightarrow> string \<Rightarrow> datetime
     \<Rightarrow> fold_state \<Rightarrow> fold_state \<times> bool" where
  "fold_dispatch_enqueued disp_id run_id task_key attempt cloud_id event_id timestamp s =
     (let proceed =
        (case hm_get (fs_dispatch_outbox s) disp_id of
           Some existing \<Rightarrow>
             if event_id \<le> do_row_version existing then (s, False)
             else (s\<lparr>fs_dispatch_outbox := hm_modify disp_id
                       (\<lambda>row. row\<lparr>do_status := DS_Created, do_cloud_task_id := Some cloud_id,
                                   do_created_at := timestamp, do_row_version := event_id\<rparr>)
                       (fs_dispatch_outbox s)\<rparr>, True)
         | None \<Rightarrow>
             (case all_some run_id task_key attempt of
                Some (run_id, task_key, attempt) \<Rightarrow>
                  (s\<lparr>fs_dispatch_outbox := hm_insert disp_id
                       \<lparr>do_run_id = run_id, do_task_key = task_key, do_attempt = attempt,
                        do_dispatch_id = disp_id, do_cloud_task_id = Some cloud_id,
                        do_status = DS_Created, do_attempt_id = [], do_worker_queue = default_queue,
                        do_created_at = timestamp, do_row_version = event_id\<rparr>
                       (fs_dispatch_outbox s)\<rparr>, True)
              | None \<Rightarrow> (s, False)))
      in case all_some run_id task_key attempt of
           Some (run_id, task_key, attempt) \<Rightarrow>
             if dispatch_attempt_consumed run_id task_key attempt s
             then (prune_dispatch_outbox_row run_id task_key attempt s, False)
             else proceed
         | None \<Rightarrow> proceed)"

section \<open>Timers\<close>

definition set_retry_not_before ::
  "string option \<Rightarrow> string option \<Rightarrow> u32 option \<Rightarrow> datetime \<Rightarrow> string \<Rightarrow> fold_state \<Rightarrow> fold_state \<times> bool" where
  "set_retry_not_before run_id task_key attempt fire_at event_id s =
     (case all_some run_id task_key attempt of
        None \<Rightarrow> (s, False)
      | Some (run_id, task_key, attempt) \<Rightarrow>
          (case hm_get (fs_tasks s) (run_id, task_key) of
             None \<Rightarrow> (s, False)
           | Some task \<Rightarrow>
               if tk_state task = TS_RetryWait \<and> tk_attempt task = attempt
               then (s\<lparr>fs_tasks := hm_modify (run_id, task_key)
                         (\<lambda>task. task\<lparr>tk_retry_not_before := Some fire_at,
                                       tk_row_version := event_id\<rparr>) (fs_tasks s)\<rparr>, True)
               else (s, False)))"

text \<open>Filling in a timer row that exists already: the row and whether it changed.\<close>

definition fill_timer_row ::
  "string option \<Rightarrow> string option \<Rightarrow> u32 option \<Rightarrow> datetime \<Rightarrow> timer_row \<Rightarrow> timer_row \<times> bool" where
  "fill_timer_row run_id task_key attempt fire_at existing =
     (let c0 = (tmr_fire_at existing \<noteq> fire_at);
          r0 = existing\<lparr>tmr_fire_at := fire_at\<rparr>;
          (r1, c1) = (if tmr_run_id r0 = None then (r0\<lparr>tmr_run_id := run_id\<rparr>, c0 \<or> run_id \<noteq> None)
                      else (r0, c0));
          (r2, c2) = (if tmr_task_key r1 = None then (r1\<lparr>tmr_task_key := task_key\<rparr>, c1 \<or> task_key \<noteq> None)
                      else (r1, c1))
      in (if tmr_attempt r2 = None then (r2\<lparr>tmr_attempt := attempt\<rparr>, c2 \<or> attempt \<noteq> None)
          else (r2, c2)))"

definition fold_timer_requested ::
  "string \<Rightarrow> event_timer_type \<Rightarrow> string option \<Rightarrow> string option \<Rightarrow> u32 option \<Rightarrow> datetime \<Rightarrow> string
     \<Rightarrow> fold_state \<Rightarrow> fold_state \<times> bool" where
  "fold_timer_requested timer_id timer_type run_id task_key attempt fire_at event_id s =
     (let (s1, changed) =
        (case hm_get (fs_timers s) timer_id of
           Some existing \<Rightarrow>
             (s\<lparr>fs_timers := hm_modify timer_id
                  (\<lambda>row. fst (fill_timer_row run_id task_key attempt fire_at row)) (fs_timers s)\<rparr>,
              snd (fill_timer_row run_id task_key attempt fire_at existing))
         | None \<Rightarrow>
             (s\<lparr>fs_timers := hm_insert timer_id
                  \<lparr>tmr_timer_id = timer_id, tmr_cloud_task_id = None,
                   tmr_timer_type = map_timer_type timer_type, tmr_run_id = run_id,
                   tmr_task_key = task_key, tmr_attempt = attempt, tmr_fire_at = fire_at,
                   tmr_state = TM_Scheduled, tmr_payload = None, tmr_row_version = event_id\<rparr>
                  (fs_timers s)\<rparr>, True))
      in if map_timer_type timer_type = TT_Retry
         then (let (s2, c2) = set_retry_not_before run_id task_key attempt fire_at event_id s1
               in (s2, changed \<or> c2))
         else (s1, changed))"

definition or_else :: "'a option \<Rightarrow> 'a option \<Rightarrow> 'a option" where
  "or_else x y = (case x of Some v \<Rightarrow> Some v | None \<Rightarrow> y)"

text \<open>The row made from the timer id alone when the event precedes \<^verbatim>\<open>TimerRequested\<close>.\<close>

definition timer_row_from_id ::
  "lib_env \<Rightarrow> string \<Rightarrow> parsed_timer_id \<Rightarrow> string option \<Rightarrow> string option \<Rightarrow> u32 option
     \<Rightarrow> string option \<Rightarrow> timer_state \<Rightarrow> string \<Rightarrow> timer_row" where
  "timer_row_from_id env timer_id parsed run_id task_key attempt cloud_id state event_id =
     \<lparr>tmr_timer_id = timer_id, tmr_cloud_task_id = cloud_id,
      tmr_timer_type = pti_timer_type parsed, tmr_run_id = or_else run_id (pti_run_id parsed),
      tmr_task_key = or_else task_key (pti_task_key parsed),
      tmr_attempt = or_else attempt (pti_attempt parsed),
      tmr_fire_at = (case from_timestamp env (pti_fire_epoch parsed) of
                       Some t \<Rightarrow> t | None \<Rightarrow> utc_now env),
      tmr_state = state, tmr_payload = None, tmr_row_version = event_id\<rparr>"

definition fold_timer_enqueued ::
  "lib_env \<Rightarrow> string \<Rightarrow> string option \<Rightarrow> string option \<Rightarrow> u32 option \<Rightarrow> string \<Rightarrow> string
     \<Rightarrow> fold_state \<Rightarrow> fold_state \<times> bool" where
  "fold_timer_enqueued env timer_id run_id task_key attempt cloud_id event_id s =
     (case hm_get (fs_timers s) timer_id of
        Some existing \<Rightarrow>
          if event_id \<le> tmr_row_version existing then (s, False)
          else (s\<lparr>fs_timers := hm_modify timer_id
                    (\<lambda>row. row\<lparr>tmr_cloud_task_id := Some cloud_id, tmr_row_version := event_id\<rparr>)
                    (fs_timers s)\<rparr>, True)
      | None \<Rightarrow>
          (case parse_timer_id timer_id of
             None \<Rightarrow> (s, False)
           | Some parsed \<Rightarrow>
               (s\<lparr>fs_timers := hm_insert timer_id
                    (timer_row_from_id env timer_id parsed run_id task_key attempt
                       (Some cloud_id) TM_Scheduled event_id) (fs_timers s)\<rparr>, True)))"

definition fold_timer_fired ::
  "lib_env \<Rightarrow> string \<Rightarrow> event_timer_type \<Rightarrow> string option \<Rightarrow> string option \<Rightarrow> u32 option \<Rightarrow> string
     \<Rightarrow> fold_state \<Rightarrow> fold_state \<times> bool" where
  "fold_timer_fired env timer_id timer_type run_id task_key attempt event_id s =
     (case hm_get (fs_timers s) timer_id of
        Some existing \<Rightarrow>
          if event_id \<le> tmr_row_version existing then (s, False)
          else (s\<lparr>fs_timers := hm_modify timer_id
                    (\<lambda>row. row\<lparr>tmr_state := TM_Fired, tmr_row_version := event_id\<rparr>)
                    (fs_timers s)\<rparr>, True)
      | None \<Rightarrow>
          (case parse_timer_id timer_id of
             None \<Rightarrow> (s, False)
           | Some parsed \<Rightarrow>
               (s\<lparr>fs_timers := hm_insert timer_id
                    (timer_row_from_id env timer_id parsed run_id task_key attempt
                       None TM_Fired event_id) (fs_timers s)\<rparr>, True)))"

end
