(* ===== verification/Fold_Automation.thy ===== *)
theory Fold_Automation
  imports Orch_Rows
begin

text \<open>
  The handlers for schedules, sensors, run requests and backfills
  (\<^verbatim>\<open>arco-flow/src/orchestration/compactor/fold.rs\<close>).
\<close>

section \<open>Schedules\<close>

definition fold_schedule_definition_upserted ::
  "string \<Rightarrow> string \<Rightarrow> string \<Rightarrow> string \<Rightarrow> string \<Rightarrow> u32 \<Rightarrow> string list \<Rightarrow> string option \<Rightarrow> u32 \<Rightarrow> bool
     \<Rightarrow> datetime \<Rightarrow> string \<Rightarrow> fold_state \<Rightarrow> fold_state \<times> bool" where
  "fold_schedule_definition_upserted tenant_id workspace_id schedule_id cron_expression timezone
       catchup_window_minutes asset_selection code_version max_catchup_ticks enabled timestamp
       event_id s =
     (let existing = hm_get (fs_schedule_definitions s) schedule_id;
          created_at = (case existing of None \<Rightarrow> timestamp | Some row \<Rightarrow> sd_created_at row)
      in if (case existing of None \<Rightarrow> False | Some row \<Rightarrow> event_id \<le> sd_row_version row)
         then (s, False)
         else (s\<lparr>fs_schedule_definitions := hm_insert schedule_id
                   \<lparr>sd_tenant_id = tenant_id, sd_workspace_id = workspace_id,
                    sd_schedule_id = schedule_id, sd_cron_expression = cron_expression,
                    sd_timezone = timezone, sd_catchup_window_minutes = catchup_window_minutes,
                    sd_asset_selection = asset_selection, sd_code_version = code_version,
                    sd_max_catchup_ticks = max_catchup_ticks, sd_enabled = enabled,
                    sd_created_at = created_at, sd_row_version = event_id\<rparr>
                   (fs_schedule_definitions s)\<rparr>, True))"

definition fold_schedule_ticked ::
  "lib_env \<Rightarrow> string \<Rightarrow> string \<Rightarrow> string \<Rightarrow> datetime \<Rightarrow> string \<Rightarrow> string \<Rightarrow> string list
     \<Rightarrow> string list option \<Rightarrow> tick_status \<Rightarrow> string option \<Rightarrow> string option \<Rightarrow> string
     \<Rightarrow> fold_state \<Rightarrow> fold_state \<times> bool" where
  "fold_schedule_ticked env tenant_id workspace_id schedule_id scheduled_for tick_id
       definition_version asset_selection partition_selection status run_key request_fingerprint
       event_id s =
     (let entry = hm_or_insert schedule_id
                    \<lparr>ss_tenant_id = tenant_id, ss_workspace_id = workspace_id,
                     ss_schedule_id = schedule_id, ss_last_scheduled_for = None,
                     ss_last_tick_id = None, ss_last_run_key = None, ss_row_version = ''''\<rparr>
                    (fs_schedule_state s);
          changed = (case hm_get entry schedule_id of
                       None \<Rightarrow> False | Some state \<Rightarrow> event_id > ss_row_version state);
          s1 = s\<lparr>fs_schedule_state := hm_modify schedule_id
                   (\<lambda>state. if event_id > ss_row_version state
                             then state\<lparr>ss_last_scheduled_for := Some scheduled_for,
                                        ss_last_tick_id := Some tick_id,
                                        ss_last_run_key := run_key,
                                        ss_row_version := event_id\<rparr>
                             else state) entry\<rparr>
      in if (case hm_get (fs_schedule_ticks s1) tick_id of
               None \<Rightarrow> False | Some existing \<Rightarrow> event_id \<le> st_row_version existing)
         then (s1, changed)
         else
           let run_id = map_option (\<lambda>run_key. run_id_from_run_key env tenant_id workspace_id run_key
                                                 (fs_tenant_secret s1)) run_key
           in (s1\<lparr>fs_schedule_ticks := hm_insert tick_id
                    \<lparr>st_tenant_id = tenant_id, st_workspace_id = workspace_id, st_tick_id = tick_id,
                     st_schedule_id = schedule_id, st_scheduled_for = scheduled_for,
                     st_definition_version = definition_version,
                     st_asset_selection = asset_selection,
                     st_partition_selection = partition_selection, st_status = status,
                     st_run_key = run_key, st_run_id = run_id,
                     st_request_fingerprint = request_fingerprint, st_row_version = event_id\<rparr>
                    (fs_schedule_ticks s1)\<rparr>, True))"

section \<open>Sensors\<close>

definition upsert_sensor_eval :: "sensor_eval_row \<Rightarrow> fold_state \<Rightarrow> fold_state \<times> bool" where
  "upsert_sensor_eval row s =
     (if (case hm_get (fs_sensor_evals s) (se_eval_id row) of
            None \<Rightarrow> False | Some existing \<Rightarrow> se_row_version row \<le> se_row_version existing)
      then (s, False)
      else (s\<lparr>fs_sensor_evals := hm_insert (se_eval_id row) row (fs_sensor_evals s)\<rparr>, True))"

definition new_sensor_state :: "string \<Rightarrow> string \<Rightarrow> string \<Rightarrow> sensor_state_row" where
  "new_sensor_state tenant_id workspace_id sensor_id =
     \<lparr>sn_tenant_id = tenant_id, sn_workspace_id = workspace_id, sn_sensor_id = sensor_id,
      sn_cursor = None, sn_last_evaluation_at = None, sn_last_eval_id = None,
      sn_status = SS_Active, sn_state_version = 0, sn_row_version = ''''\<rparr>"

definition fold_sensor_evaluated ::
  "string \<Rightarrow> string \<Rightarrow> string \<Rightarrow> string \<Rightarrow> string option \<Rightarrow> string option \<Rightarrow> u32 option
     \<Rightarrow> trigger_source \<Rightarrow> run_request list \<Rightarrow> sensor_eval_status \<Rightarrow> datetime \<Rightarrow> string
     \<Rightarrow> fold_state \<Rightarrow> fold_state \<times> bool" where
  "fold_sensor_evaluated tenant_id workspace_id sensor_id eval_id cursor_before cursor_after
       expected_state_version trigger_source run_requests status timestamp event_id s =
     (let s1 = s\<lparr>fs_sensor_state := hm_or_insert sensor_id
                   (new_sensor_state tenant_id workspace_id sensor_id) (fs_sensor_state s)\<rparr>;
          state = (case hm_get (fs_sensor_state s1) sensor_id of
                     Some state \<Rightarrow> state | None \<Rightarrow> new_sensor_state tenant_id workspace_id sensor_id);
          is_stale = (case expected_state_version of
                        None \<Rightarrow> False | Some expected \<Rightarrow> sn_state_version state \<noteq> expected);
          eval_status = (if is_stale then SE_SkippedStaleCursor else status);
          (s2, changed) = upsert_sensor_eval
            \<lparr>se_tenant_id = tenant_id, se_workspace_id = workspace_id, se_eval_id = eval_id,
             se_sensor_id = sensor_id, se_cursor_before = cursor_before,
             se_cursor_after = cursor_after, se_expected_state_version = expected_state_version,
             se_trigger_source = trigger_source, se_run_requests = run_requests,
             se_status = eval_status, se_evaluated_at = timestamp, se_row_version = event_id\<rparr> s1
      in if is_stale then (s2, changed)
         else if event_id \<le> sn_row_version state then (s2, changed)
         else (s2\<lparr>fs_sensor_state := hm_modify sensor_id
                    (\<lambda>state. state\<lparr>sn_cursor := cursor_after,
                                    sn_last_evaluation_at := Some timestamp,
                                    sn_last_eval_id := Some eval_id,
                                    sn_row_version := event_id,
                                    sn_state_version := sn_state_version state + 1\<rparr>)
                    (fs_sensor_state s2)\<rparr>, True))"

fun should_drop_run_requested_for_stale_sensor_eval :: "source_ref \<Rightarrow> fold_state \<Rightarrow> bool" where
  "should_drop_run_requested_for_stale_sensor_eval (SR_Sensor _ eval_id) s =
     (case hm_get (fs_sensor_evals s) eval_id of
        None \<Rightarrow> False | Some e \<Rightarrow> se_status e = SE_SkippedStaleCursor)"
| "should_drop_run_requested_for_stale_sensor_eval _ s = False"

section \<open>Run requests\<close>

text \<open>The sensor case of the source looks the evaluation up and leaves it alone.\<close>

fun correlate_run_to_source :: "string \<Rightarrow> source_ref \<Rightarrow> fold_state \<Rightarrow> fold_state" where
  "correlate_run_to_source run_id (SR_Schedule _ tick_id) s =
     s\<lparr>fs_schedule_ticks := hm_modify tick_id (\<lambda>tick. tick\<lparr>st_run_id := Some run_id\<rparr>)
         (fs_schedule_ticks s)\<rparr>"
| "correlate_run_to_source run_id (SR_Backfill _ chunk_id) s =
     s\<lparr>fs_backfill_chunks := hm_modify chunk_id (\<lambda>chunk. chunk\<lparr>bc_run_id := Some run_id\<rparr>)
         (fs_backfill_chunks s)\<rparr>"
| "correlate_run_to_source run_id (SR_Sensor _ _) s = s"
| "correlate_run_to_source run_id (SR_Manual _ _) s = s"

definition fold_run_requested ::
  "lib_env \<Rightarrow> string \<Rightarrow> string \<Rightarrow> string \<Rightarrow> string \<Rightarrow> source_ref \<Rightarrow> string option \<Rightarrow> datetime \<Rightarrow> string
     \<Rightarrow> fold_state \<Rightarrow> fold_state \<times> bool" where
  "fold_run_requested env tenant_id workspace_id run_key request_fingerprint trigger_source_ref
       code_version timestamp event_id s =
     (case hm_get (fs_run_key_index s) run_key of
        Some existing \<Rightarrow>
          if ri_request_fingerprint existing \<noteq> request_fingerprint
          then (s\<lparr>fs_run_key_conflicts := hm_insert (''conflict:'' @ run_key @ '':'' @ event_id)
                    \<lparr>rc_tenant_id = tenant_id, rc_workspace_id = workspace_id, rc_run_key = run_key,
                     rc_existing_fingerprint = ri_request_fingerprint existing,
                     rc_conflicting_fingerprint = request_fingerprint,
                     rc_conflicting_event_id = event_id, rc_detected_at = timestamp\<rparr>
                    (fs_run_key_conflicts s)\<rparr>, True)
          else (s, True)
      | None \<Rightarrow>
          let run_id = run_id_from_run_key env tenant_id workspace_id run_key (fs_tenant_secret s);
              s1 = s\<lparr>fs_run_key_index := hm_insert run_key
                       \<lparr>ri_tenant_id = tenant_id, ri_workspace_id = workspace_id, ri_run_key = run_key,
                        ri_run_id = run_id, ri_request_fingerprint = request_fingerprint,
                        ri_code_version = code_version, ri_created_at = timestamp,
                        ri_row_version = event_id\<rparr> (fs_run_key_index s)\<rparr>
          in (correlate_run_to_source run_id trigger_source_ref s1, True))"

section \<open>Backfills\<close>

text \<open>The id of a chunk, as the two counting loops format it.\<close>

definition chunk_key :: "string \<Rightarrow> u32 \<Rightarrow> string" where
  "chunk_key backfill_id i = backfill_id @ '':'' @ show_u32 i"

text \<open>The loop that advances over the contiguous chunks. Each round but the last finds another
  chunk, so one round more than there are chunks is enough (\<open>contiguous_chunks_stops\<close>).\<close>

fun contiguous_chunks :: "nat \<Rightarrow> string \<Rightarrow> (string, backfill_chunk_row) hashmap \<Rightarrow> u32 \<Rightarrow> u32" where
  "contiguous_chunks 0 backfill_id chunks i = i"
| "contiguous_chunks (Suc fuel) backfill_id chunks i =
     (if hm_get chunks (chunk_key backfill_id i) \<noteq> None
      then contiguous_chunks fuel backfill_id chunks (i + 1) else i)"

definition count_contiguous :: "string \<Rightarrow> (string, backfill_chunk_row) hashmap \<Rightarrow> u32 \<Rightarrow> u32" where
  "count_contiguous backfill_id chunks i = contiguous_chunks (length chunks + 1) backfill_id chunks i"

definition fold_backfill_created ::
  "string \<Rightarrow> string \<Rightarrow> string \<Rightarrow> string list \<Rightarrow> string option \<Rightarrow> partition_selector \<Rightarrow> u32 \<Rightarrow> u32
     \<Rightarrow> u32 \<Rightarrow> string option \<Rightarrow> datetime \<Rightarrow> string \<Rightarrow> fold_state \<Rightarrow> fold_state \<times> bool" where
  "fold_backfill_created tenant_id workspace_id backfill_id asset_selection code_version
       partition_selector total_partitions chunk_size max_concurrent_runs parent_backfill_id
       timestamp event_id s =
     (if hm_get (fs_backfills s) backfill_id \<noteq> None then (s, False)
      else
        let planned_chunks = (if chunk_size > 0
                              then count_contiguous backfill_id (fs_backfill_chunks s) 0 else 0)
        in (s\<lparr>fs_backfills := hm_insert backfill_id
                \<lparr>bf_tenant_id = tenant_id, bf_workspace_id = workspace_id,
                 bf_backfill_id = backfill_id, bf_asset_selection = asset_selection,
                 bf_code_version = code_version, bf_partition_selector = partition_selector,
                 bf_chunk_size = chunk_size, bf_max_concurrent_runs = max_concurrent_runs,
                 bf_state = BF_Running, bf_state_version = 1,
                 bf_total_partitions = total_partitions, bf_planned_chunks = planned_chunks,
                 bf_completed_chunks = 0, bf_failed_chunks = 0,
                 bf_parent_backfill_id = parent_backfill_id, bf_created_at = timestamp,
                 bf_row_version = event_id\<rparr> (fs_backfills s)\<rparr>, True))"

definition fold_backfill_chunk_planned ::
  "string \<Rightarrow> string \<Rightarrow> string \<Rightarrow> string \<Rightarrow> u32 \<Rightarrow> string list \<Rightarrow> string \<Rightarrow> string
     \<Rightarrow> fold_state \<Rightarrow> fold_state \<times> bool" where
  "fold_backfill_chunk_planned tenant_id workspace_id backfill_id chunk_id chunk_index
       partition_keys run_key event_id s =
     (let existing = hm_get (fs_backfill_chunks s) chunk_id;
          existing_run_id = Option.bind existing bc_run_id
      in if (case existing of None \<Rightarrow> False | Some row \<Rightarrow> event_id \<le> bc_row_version row)
         then (s, False)
         else
           let s1 = s\<lparr>fs_backfill_chunks := hm_insert chunk_id
                        \<lparr>bc_tenant_id = tenant_id, bc_workspace_id = workspace_id,
                         bc_chunk_id = chunk_id, bc_backfill_id = backfill_id,
                         bc_chunk_index = chunk_index, bc_partition_keys = partition_keys,
                         bc_run_key = run_key, bc_run_id = existing_run_id, bc_state = CK_Planned,
                         bc_row_version = event_id\<rparr> (fs_backfill_chunks s)\<rparr>
           in (s1\<lparr>fs_backfills := hm_modify backfill_id
                    (\<lambda>backfill.
                      let next_index = count_contiguous backfill_id (fs_backfill_chunks s1)
                                         (bf_planned_chunks backfill)
                      in if next_index \<noteq> bf_planned_chunks backfill
                         then backfill\<lparr>bf_planned_chunks := next_index, bf_row_version := event_id\<rparr>
                         else backfill) (fs_backfills s1)\<rparr>, True))"

definition fold_backfill_state_changed ::
  "string \<Rightarrow> backfill_state \<Rightarrow> backfill_state \<Rightarrow> u32 \<Rightarrow> string \<Rightarrow> fold_state \<Rightarrow> fold_state \<times> bool" where
  "fold_backfill_state_changed backfill_id from_state to_state state_version event_id s =
     (case hm_get (fs_backfills s) backfill_id of
        None \<Rightarrow> (s, False)
      | Some backfill \<Rightarrow>
          if event_id \<le> bf_row_version backfill then (s, False)
          else if bf_state backfill \<noteq> from_state then (s, False)
          else if \<not> is_valid_transition (bf_state backfill) to_state then (s, False)
          else if state_version \<noteq> saturating_add (bf_state_version backfill) 1 then (s, False)
          else (s\<lparr>fs_backfills := hm_modify backfill_id
                    (\<lambda>backfill. backfill\<lparr>bf_state := to_state, bf_state_version := state_version,
                                          bf_row_version := event_id\<rparr>) (fs_backfills s)\<rparr>, True))"

section \<open>The counting loop ends\<close>

text \<open>With fewer than \<^term>\<open>2 ^ 32 :: nat\<close> chunks, the loop ends at the first index that has none.\<close>

lemma contiguous_chunks_found:
  "hm_get chunks (chunk_key b (contiguous_chunks fuel b chunks i)) \<noteq> None \<Longrightarrow> k < fuel \<Longrightarrow>
   hm_get chunks (chunk_key b (i + of_nat k)) \<noteq> None"
proof (induction fuel arbitrary: i k)
  case (Suc fuel)
  with Suc.IH [of "i + 1"] show ?case
    by (cases k) (simp_all add: add.assoc split: if_splits)
qed simp

lemma contiguous_chunks_stops:
  assumes "length chunks < 2 ^ 32"
  shows "hm_get chunks (chunk_key b (count_contiguous b chunks i)) = None"
proof (rule ccontr)
  let ?f = "\<lambda>k. chunk_key b (i + of_nat k)"
  assume "hm_get chunks (chunk_key b (count_contiguous b chunks i)) \<noteq> None"
  then have "?f k \<in> fst ` set chunks" if "k < length chunks + 1" for k
    using contiguous_chunks_found [of chunks b "length chunks + 1" i k] that
    by (simp add: count_contiguous_def map_of_eq_None_iff del: contiguous_chunks.simps)
  then have "?f ` {..<length chunks + 1} \<subseteq> fst ` set chunks" by auto
  then have "card (?f ` {..<length chunks + 1}) \<le> length chunks"
    using card_mono [of "fst ` set chunks"] card_image_le [of "set chunks" fst] card_length [of chunks]
    by (meson List.finite_set finite_imageI le_trans)
  moreover have "inj_on ?f {..<length chunks + 1}"
    using assms by (auto simp: inj_on_def chunk_key_def unsigned_of_nat take_bit_nat_eq_self dest!: arg_cong [of "of_nat _ :: u32" _ unat])
  ultimately show False by (simp add: card_image)
qed
end
