(* ===== verification/Fold_Event.thy ===== *)
theory Fold_Event
  imports Fold_Finish Fold_Dispatch Fold_Automation
begin

text \<open>
  The catalog run index, the idempotency index and the dispatcher \<^verbatim>\<open>fold_event\<close>
  (\<^verbatim>\<open>arco-flow/src/orchestration/compactor/fold.rs\<close>). \<open>fold_events\<close> folds a whole ledger.
\<close>

section \<open>Catalog run index\<close>

fun label_value :: "(string, string) hashmap \<Rightarrow> string list \<Rightarrow> string option" where
  "label_value labels [] = None"
| "label_value labels (key # keys) =
     (case hm_get labels key of Some v \<Rightarrow> Some v | None \<Rightarrow> label_value labels keys)"

definition non_empty :: "string \<Rightarrow> string option" where
  "non_empty s = (if s = [] then None else Some s)"

definition parse_catalog_asset_key :: "string \<Rightarrow> string option \<times> string option" where
  "parse_catalog_asset_key asset_key =
     (case split_once CHR ''/'' asset_key of
        Some (namespace, table) \<Rightarrow> (non_empty namespace, non_empty table)
      | None \<Rightarrow>
          (case split_once CHR ''.'' asset_key of
             Some (namespace, table) \<Rightarrow> (non_empty namespace, non_empty table)
           | None \<Rightarrow> (None, Some asset_key)))"

definition catalog_row ::
  "string \<Rightarrow> string \<Rightarrow> run_row \<Rightarrow> task_row \<Rightarrow> string \<Rightarrow> string \<Rightarrow> datetime \<Rightarrow> catalog_run_index_row" where
  "catalog_row org_id workspace_id run task asset_key row_version row_updated_at =
     \<lparr>ci_schema_version = 1, ci_org_id = org_id, ci_workspace_id = workspace_id,
      ci_run_id = rn_run_id run, ci_task_key = tk_task_key task, ci_plan_id = rn_plan_id run,
      ci_run_key = rn_run_key run,
      ci_kind = label_value (rn_labels run) [''kind'', ''run_kind''],
      ci_reference_id = label_value (rn_labels run) [''reference_id'', ''referenceId''],
      ci_source_type = label_value (rn_labels run) [''source_type'', ''sourceType''],
      ci_run_status = rn_state run, ci_cancel_requested = rn_cancel_requested run,
      ci_task_status = tk_state task, ci_asset_key = Some asset_key,
      ci_target_namespace = fst (parse_catalog_asset_key asset_key),
      ci_target_table = snd (parse_catalog_asset_key asset_key),
      ci_partition_key = tk_partition_key task, ci_attempt = tk_attempt task,
      ci_attempt_id = tk_attempt_id task,
      ci_requires_visible_output = tk_requires_visible_output task,
      ci_materialization_id = tk_materialization_id task,
      ci_output_visibility_state = tk_output_visibility_state task,
      ci_published_at = tk_published_at task, ci_publish_error = tk_publish_error task,
      ci_delta_table = tk_delta_table task, ci_delta_version = tk_delta_version task,
      ci_delta_partition = tk_delta_partition task,
      ci_execution_lineage_ref = tk_execution_lineage_ref task,
      ci_started_at = tk_started_at task, ci_last_heartbeat_at = tk_last_heartbeat_at task,
      ci_triggered_at = rn_triggered_at run, ci_completed_at = rn_completed_at run,
      ci_updated_at = row_updated_at, ci_code_version = rn_code_version run,
      ci_error_message = tk_error_message task, ci_row_version = row_version\<rparr>"

text \<open>The loop body, for one task of the run.\<close>

definition refresh_catalog_row ::
  "string \<Rightarrow> string \<Rightarrow> datetime \<Rightarrow> run_row \<Rightarrow> task_row
     \<Rightarrow> (catalog_run_index_key, catalog_run_index_row) hashmap
     \<Rightarrow> (catalog_run_index_key, catalog_run_index_row) hashmap" where
  "refresh_catalog_row org_id workspace_id updated_at run task index =
     (case tk_asset_key task of
        None \<Rightarrow> index
      | Some asset_key \<Rightarrow>
          let row_version = (if tk_row_version task \<ge> rn_row_version run
                             then tk_row_version task else rn_row_version run);
              primary_key = (org_id, workspace_id, rn_run_id run, tk_task_key task);
              row_updated_at =
                (case hm_get index primary_key of
                   Some existing \<Rightarrow>
                     if ci_row_version existing = row_version then ci_updated_at existing else updated_at
                 | None \<Rightarrow> updated_at)
          in hm_insert primary_key
               (catalog_row org_id workspace_id run task asset_key row_version row_updated_at) index)"

definition refresh_catalog_run_index_for_run ::
  "string \<Rightarrow> string \<Rightarrow> string \<Rightarrow> datetime \<Rightarrow> fold_state \<Rightarrow> fold_state" where
  "refresh_catalog_run_index_for_run org_id workspace_id run_id updated_at s =
     (case hm_get (fs_runs s) run_id of
        None \<Rightarrow> s
      | Some run \<Rightarrow>
          let tasks = map snd (filter (\<lambda>(key, task). fst key = run_id \<and> tk_asset_key task \<noteq> None)
                                 (fs_tasks s))
          in s\<lparr>fs_catalog_run_index :=
                 fold (refresh_catalog_row org_id workspace_id updated_at run) tasks
                   (fs_catalog_run_index s)\<rparr>)"

section \<open>Dispatch\<close>

definition record_idempotency_key :: "orchestration_event \<Rightarrow> fold_state \<Rightarrow> fold_state" where
  "record_idempotency_key e s =
     s\<lparr>fs_idempotency_keys := hm_or_insert (ev_idempotency_key e)
         \<lparr>ik_tenant_id = ev_tenant_id e, ik_workspace_id = ev_workspace_id e,
          ik_idempotency_key = ev_idempotency_key e, ik_event_id = ev_event_id e,
          ik_event_type = ev_event_type e, ik_recorded_at = ev_timestamp e,
          ik_row_version = ev_event_id e\<rparr> (fs_idempotency_keys s)\<rparr>"

text \<open>\<^verbatim>\<open>if changed { self.refresh_catalog_run_index_for_run(..) }\<close>, which follows the handlers of
  the events of a run.\<close>

definition refresh_if_changed ::
  "orchestration_event \<Rightarrow> string \<Rightarrow> fold_state \<times> bool \<Rightarrow> fold_state \<times> bool" where
  "refresh_if_changed e run_id r =
     (if snd r
      then (refresh_catalog_run_index_for_run (ev_tenant_id e) (ev_workspace_id e) run_id
              (ev_timestamp e) (fst r), True)
      else r)"

text \<open>\<^verbatim>\<open>TaskCompletionRecorded\<close> applies the completion and, on success, the visibility update the
  event carries.\<close>

definition fold_task_completion_recorded ::
  "lib_env \<Rightarrow> task_completion \<Rightarrow> output_visibility_update option \<Rightarrow> orchestration_event
     \<Rightarrow> fold_state \<Rightarrow> fold_state \<times> bool" where
  "fold_task_completion_recorded env c output_visibility e s =
     (let (s1, completion_applied) =
            fold_task_finished env c (ev_event_id e) (ev_timestamp e) (ev_tenant_id e)
              (ev_workspace_id e) s;
          (s2, visibility_applied) =
            (if completion_applied \<and> tc_outcome c = TO_Succeeded
             then (case output_visibility of
                     None \<Rightarrow> (s1, False)
                   | Some update \<Rightarrow>
                       fold_task_output_visibility_changed (tc_run_id c) (tc_task_key c)
                         (tc_attempt c) (tc_attempt_id c) (ovu_visibility_state update)
                         (ovu_published_at update) (ovu_publish_error update) (ev_event_id e)
                         (ev_timestamp e) s1)
             else (s1, False))
      in (s2, completion_applied \<or> visibility_applied))"

fun fold_data ::
  "lib_env \<Rightarrow> orchestration_event \<Rightarrow> orchestration_event_data \<Rightarrow> fold_state \<Rightarrow> fold_state \<times> bool" where
  "fold_data env e (RunTriggered run_id plan_id _ _ run_key labels code_version) s =
     refresh_if_changed e run_id
       (fold_run_triggered run_id plan_id run_key labels code_version (ev_event_id e)
          (ev_timestamp e) s)"
| "fold_data env e (PlanCreated run_id _ tasks) s =
     refresh_if_changed e run_id (fold_plan_created run_id tasks (ev_event_id e) (ev_timestamp e) s)"
| "fold_data env e (TaskStarted run_id task_key attempt attempt_id _) s =
     refresh_if_changed e run_id
       (fold_task_started run_id task_key attempt attempt_id (ev_timestamp e) (ev_event_id e) s)"
| "fold_data env e (TaskHeartbeat run_id task_key attempt attempt_id _ heartbeat_at _ _) s =
     refresh_if_changed e run_id
       (fold_task_heartbeat run_id task_key attempt attempt_id
          (case heartbeat_at of Some t \<Rightarrow> t | None \<Rightarrow> ev_timestamp e) (ev_event_id e) s)"
| "fold_data env e (TaskFinished c) s =
     refresh_if_changed e (tc_run_id c)
       (fold_task_finished env c (ev_event_id e) (ev_timestamp e) (ev_tenant_id e)
          (ev_workspace_id e) s)"
| "fold_data env e (TaskCompletionRecorded c output_visibility) s =
     refresh_if_changed e (tc_run_id c) (fold_task_completion_recorded env c output_visibility e s)"
| "fold_data env e (TaskOutputVisibilityChanged run_id task_key attempt attempt_id
       visibility_state published_at publish_error) s =
     refresh_if_changed e run_id
       (fold_task_output_visibility_changed run_id task_key attempt attempt_id visibility_state
          published_at publish_error (ev_event_id e) (ev_timestamp e) s)"
| "fold_data env e (DispatchRequested run_id task_key attempt attempt_id worker_queue
       disp_id) s =
     refresh_if_changed e run_id
       (fold_dispatch_requested run_id task_key attempt attempt_id worker_queue disp_id
          (ev_event_id e) (ev_timestamp e) s)"
| "fold_data env e (DispatchEnqueued disp_id run_id task_key attempt cloud_id) s =
     fold_dispatch_enqueued disp_id run_id task_key attempt cloud_id (ev_event_id e)
       (ev_timestamp e) s"
| "fold_data env e (TimerRequested timer_id timer_type run_id task_key attempt fire_at) s =
     fold_timer_requested timer_id timer_type run_id task_key attempt fire_at (ev_event_id e) s"
| "fold_data env e (TimerEnqueued timer_id run_id task_key attempt cloud_id) s =
     fold_timer_enqueued env timer_id run_id task_key attempt cloud_id (ev_event_id e) s"
| "fold_data env e (TimerFired timer_id timer_type run_id task_key attempt) s =
     fold_timer_fired env timer_id timer_type run_id task_key attempt (ev_event_id e) s"
| "fold_data env e (RunCancelRequested run_id _ _) s =
     refresh_if_changed e run_id
       (fold_run_cancel_requested run_id (ev_event_id e) (ev_timestamp e) s)"
| "fold_data env e (ScheduleDefinitionUpserted schedule_id cron_expression timezone
       catchup_window_minutes asset_selection code_version max_catchup_ticks enabled) s =
     fold_schedule_definition_upserted (ev_tenant_id e) (ev_workspace_id e) schedule_id
       cron_expression timezone catchup_window_minutes asset_selection code_version
       max_catchup_ticks enabled (ev_timestamp e) (ev_event_id e) s"
| "fold_data env e (ScheduleTicked schedule_id scheduled_for tick_id definition_version
       asset_selection partition_selection status run_key request_fingerprint) s =
     fold_schedule_ticked env (ev_tenant_id e) (ev_workspace_id e) schedule_id scheduled_for
       tick_id definition_version asset_selection partition_selection status run_key
       request_fingerprint (ev_event_id e) s"
| "fold_data env e (SensorEvaluated sensor_id eval_id cursor_before cursor_after
       expected_state_version trigger_source run_requests status) s =
     fold_sensor_evaluated (ev_tenant_id e) (ev_workspace_id e) sensor_id eval_id cursor_before
       cursor_after expected_state_version trigger_source run_requests status (ev_timestamp e)
       (ev_event_id e) s"
| "fold_data env e (RunRequested run_key request_fingerprint _ _ trigger_source_ref _
       code_version) s =
     (if should_drop_run_requested_for_stale_sensor_eval trigger_source_ref s then (s, False)
      else fold_run_requested env (ev_tenant_id e) (ev_workspace_id e) run_key
             request_fingerprint trigger_source_ref code_version (ev_timestamp e) (ev_event_id e) s)"
| "fold_data env e (BackfillCreated backfill_id _ asset_selection code_version partition_selector
       total_partitions chunk_size max_concurrent_runs parent_backfill_id) s =
     fold_backfill_created (ev_tenant_id e) (ev_workspace_id e) backfill_id asset_selection
       code_version partition_selector total_partitions chunk_size max_concurrent_runs
       parent_backfill_id (ev_timestamp e) (ev_event_id e) s"
| "fold_data env e (BackfillChunkPlanned backfill_id chunk_id chunk_index partition_keys
       run_key _) s =
     fold_backfill_chunk_planned (ev_tenant_id e) (ev_workspace_id e) backfill_id chunk_id
       chunk_index partition_keys run_key (ev_event_id e) s"
| "fold_data env e (BackfillStateChanged backfill_id from_state to_state state_version _) s =
     fold_backfill_state_changed backfill_id from_state to_state state_version (ev_event_id e) s"
| "fold_data env e Unknown s = (s, False)"

definition fold_event :: "lib_env \<Rightarrow> orchestration_event \<Rightarrow> fold_state \<Rightarrow> fold_state" where
  "fold_event env e s =
     (if hm_get (fs_idempotency_keys s) (ev_idempotency_key e) \<noteq> None then s
      else
        let (s', applied) = fold_data env e (ev_data e) s
        in if applied then record_idempotency_key e s' else s')"

definition fold_events :: "lib_env \<Rightarrow> orchestration_event list \<Rightarrow> fold_state \<Rightarrow> fold_state" where
  "fold_events env es s = fold (fold_event env) es s"

end
