(* ===== verification/Fold_Core.thy ===== *)
theory Fold_Core
  imports Fold_Event
begin

text \<open>
  What the fold does to runs and tasks, as a step relation. \<open>core_step\<close> lists the ways a handler
  may change the run rows, the task rows, the dependency graph and the dependency edges;
  \<open>fold_event_core_steps\<close> shows that one event is a sequence of such steps, whatever the event is
  and whatever the state. Invariants of the core are then proved once per kind of step.
\<close>

section \<open>Changes of a task row\<close>

text \<open>What a terminal row keeps for ever: everything but its visibility, the count of satisfied
  edges and the version, which \<open>task_results\<close> blanks out. A final visibility stays as well.\<close>

definition task_results :: "task_row \<Rightarrow> task_row" where
  "task_results t =
     t\<lparr>tk_deps_satisfied_count := 0, tk_output_visibility_state := None, tk_published_at := None,
       tk_publish_error := None, tk_row_version := []\<rparr>"

definition task_frozen :: "task_row \<Rightarrow> task_row \<Rightarrow> bool" where
  "task_frozen t t' \<longleftrightarrow>
     task_results t' = task_results t
     \<and> (tk_output_visibility_state t = Some OV_Visible \<or> tk_output_visibility_state t = Some OV_Failed
        \<longrightarrow> tk_output_visibility_state t' = tk_output_visibility_state t)"

text \<open>What every row keeps: its identity, its plan and its dependency counts.\<close>

definition task_same_plan :: "task_row \<Rightarrow> task_row \<Rightarrow> bool" where
  "task_same_plan t t' \<longleftrightarrow>
     tk_run_id t' = tk_run_id t \<and> tk_task_key t' = tk_task_key t \<and> tk_deps_total t' = tk_deps_total t
     \<and> tk_deps_satisfied_count t' = tk_deps_satisfied_count t
     \<and> tk_max_attempts t' = tk_max_attempts t \<and> tk_attempt t \<le> tk_attempt t'"

text \<open>A change that neither ends the task nor releases it.\<close>

definition task_quiet :: "task_row \<Rightarrow> task_row \<Rightarrow> bool" where
  "task_quiet t t' \<longleftrightarrow>
     task_same_plan t t' \<and> (is_terminal (tk_state t') \<longleftrightarrow> is_terminal (tk_state t))
     \<and> (is_terminal (tk_state t) \<longrightarrow> task_frozen t t')
     \<and> (tk_state t' \<in> {TS_Planned, TS_Blocked, TS_Ready} \<longrightarrow> tk_state t' = tk_state t)"

text \<open>A change that ends the task.\<close>

definition task_ends :: "task_row \<Rightarrow> task_row \<Rightarrow> bool" where
  "task_ends t t' \<longleftrightarrow>
     task_same_plan t t' \<and> tk_attempt t' = tk_attempt t \<and> \<not> is_terminal (tk_state t)
     \<and> is_terminal (tk_state t')"

section \<open>The step relation\<close>

definition core_eq :: "fold_state \<Rightarrow> fold_state \<Rightarrow> bool" where
  "core_eq s s' \<longleftrightarrow>
     fs_runs s' = fs_runs s \<and> fs_tasks s' = fs_tasks s
     \<and> fs_dep_satisfaction s' = fs_dep_satisfaction s
     \<and> fs_task_dependencies s' = fs_task_dependencies s
     \<and> fs_task_dependents s' = fs_task_dependents s"

text \<open>An edge row that names the edge it is stored under.\<close>

definition edge_names :: "string \<Rightarrow> string \<Rightarrow> string \<Rightarrow> dep_satisfaction_row \<Rightarrow> bool" where
  "edge_names r u d e \<longleftrightarrow> dp_run_id e = r \<and> dp_upstream_task_key e = u \<and> dp_downstream_task_key e = d"

text \<open>The second parameter says whether the steps of a task completion are among those allowed.\<close>

inductive core_step :: "(task_def list \<Rightarrow> bool) \<Rightarrow> bool \<Rightarrow> fold_state \<Rightarrow> fold_state \<Rightarrow> bool"
  for plan_ok :: "task_def list \<Rightarrow> bool" and completing :: bool where
  CS_frame: "core_eq s s' \<Longrightarrow> core_step plan_ok completing s s'"
| CS_quiet: "(\<And>t. hm_get (fs_tasks s) k = Some t \<Longrightarrow> task_quiet t (f t)) \<Longrightarrow>
    core_step plan_ok completing s (s\<lparr>fs_tasks := hm_modify k f (fs_tasks s)\<rparr>)"
| CS_end: "completing \<Longrightarrow> hm_get (fs_tasks s) (r, k) = Some t \<Longrightarrow> task_ends t (f t) \<Longrightarrow>
    core_step plan_ok completing s
      (s\<lparr>fs_tasks := hm_modify (r, k) f (fs_tasks s),
         fs_runs := hm_modify r (run_task_done (tk_state (f t)) i ts) (fs_runs s)\<rparr>)"
| CS_satisfy: "completing \<Longrightarrow> hm_get (fs_tasks s) (r, u) = Some t \<Longrightarrow> tk_state t = TS_Succeeded \<Longrightarrow>
    d \<in> set (get_dependents s r u) \<Longrightarrow>
    core_step plan_ok completing s (satisfy_edge r u DR_Success a i ts d s)"
| CS_unsatisfied: "completing \<Longrightarrow> hm_get (fs_tasks s) (r, u) = Some t \<Longrightarrow> is_terminal (tk_state t) \<Longrightarrow>
    tk_state t \<noteq> TS_Succeeded \<Longrightarrow> d \<in> set (get_dependents s r u) \<Longrightarrow> \<not> dp_satisfied e \<Longrightarrow> edge_names r u d e \<Longrightarrow>
    core_step plan_ok completing s
      (s\<lparr>fs_dep_satisfaction := hm_insert (r, u, d) e (fs_dep_satisfaction s)\<rparr>)"
| CS_cancel: "core_step plan_ok completing s (fst (fold_run_cancel_requested r i ts s))"
| CS_trigger: "core_step plan_ok completing s (fst (fold_run_triggered r p rk ls cv i ts s))"
| CS_plan: "plan_ok ds \<Longrightarrow> core_step plan_ok completing s (fst (fold_plan_created r ds i ts s))"

abbreviation core_steps :: "(task_def list \<Rightarrow> bool) \<Rightarrow> bool \<Rightarrow> fold_state \<Rightarrow> fold_state \<Rightarrow> bool" where
  "core_steps plan_ok completing \<equiv> (core_step plan_ok completing)\<^sup>*\<^sup>*"

named_theorems core_frame \<open>handlers that leave runs, tasks and dependencies alone\<close>

lemma core_eq_refl [simp, intro]: "core_eq s s"
  by (simp add: core_eq_def)

lemma core_eq_steps: "core_eq s s' \<Longrightarrow> core_steps P b s s'"
  by (rule r_into_rtranclp) (rule CS_frame)

lemma core_eq_trans: "core_eq s s' \<Longrightarrow> core_eq s' s'' \<Longrightarrow> core_eq s s''"
  by (simp add: core_eq_def)

lemma core_quiet_steps:
  "(\<And>t. hm_get (fs_tasks s) k = Some t \<Longrightarrow> task_quiet t (f t)) \<Longrightarrow>
   core_eq (s\<lparr>fs_tasks := hm_modify k f (fs_tasks s)\<rparr>) s' \<Longrightarrow> core_steps P b s s'"
  by (rule converse_rtranclp_into_rtranclp [OF CS_quiet core_eq_steps])

section \<open>Handlers outside the core\<close>

lemma refresh_core_eq [core_frame]: "core_eq s (refresh_catalog_run_index_for_run og w r ts s)"
  by (simp add: refresh_catalog_run_index_for_run_def core_eq_def Let_def split: option.splits)

lemma record_key_core_eq [core_frame]: "core_eq s (record_idempotency_key e s)"
  by (simp add: record_idempotency_key_def core_eq_def)

lemma prune_core_eq [core_frame]: "core_eq s (prune_dispatch_outbox_row r k a s)"
  by (simp add: prune_dispatch_outbox_row_def core_eq_def)

lemma dispatch_enqueued_core_eq [core_frame]: "core_eq s (fst (fold_dispatch_enqueued d r k a c i ts s))"
  by (simp add: fold_dispatch_enqueued_def core_eq_def prune_dispatch_outbox_row_def Let_def
      split: option.splits)

lemma timer_enqueued_core_eq [core_frame]: "core_eq s (fst (fold_timer_enqueued env tid r k a c i s))"
  by (simp add: fold_timer_enqueued_def core_eq_def split: option.splits)

lemma timer_fired_core_eq [core_frame]: "core_eq s (fst (fold_timer_fired env tid ty r k a i s))"
  by (simp add: fold_timer_fired_def core_eq_def split: option.splits)

lemma schedule_definition_core_eq [core_frame]:
  "core_eq s (fst (fold_schedule_definition_upserted t w sid ce tz cw as cv mt en ts i s))"
  by (simp add: fold_schedule_definition_upserted_def core_eq_def Let_def)

lemma schedule_ticked_core_eq [core_frame]:
  "core_eq s (fst (fold_schedule_ticked env t w sid sf tid dv as ps st rk rf i s))"
  by (simp add: fold_schedule_ticked_def core_eq_def Let_def)

lemma sensor_evaluated_core_eq [core_frame]:
  "core_eq s (fst (fold_sensor_evaluated t w sid eid cb ca ev tr rr st ts i s))"
  by (simp add: fold_sensor_evaluated_def upsert_sensor_eval_def core_eq_def Let_def split: prod.splits)

lemma correlate_core_eq [core_frame]: "core_eq s (correlate_run_to_source r src s)"
  by (cases src) (simp_all add: core_eq_def)

lemma run_requested_core_eq [core_frame]:
  "core_eq s (fst (fold_run_requested env t w rk rf src cv ts i s))"
  by (cases src) (simp_all add: fold_run_requested_def core_eq_def Let_def split: option.splits)

lemma backfill_core_eq [core_frame]:
  "core_eq s (fst (fold_backfill_created t w b as cv ps tp cs mc pb ts i s))"
  "core_eq s (fst (fold_backfill_chunk_planned t w b c ix pk rk i s))"
  "core_eq s (fst (fold_backfill_state_changed b f g v i s))"
  by (simp_all add: fold_backfill_created_def fold_backfill_chunk_planned_def
      fold_backfill_state_changed_def core_eq_def Let_def split: option.splits)

section \<open>Quiet handlers\<close>

lemma task_same_plan_refl [simp]: "task_same_plan t t"
  by (simp add: task_same_plan_def)

lemma task_quiet_refl [simp]: "task_quiet t t"
  by (simp add: task_quiet_def task_frozen_def)

lemma task_started_steps: "core_steps P b s (fst (fold_task_started r k a aid ts i s))"
proof (cases "fst (fold_task_started r k a aid ts i s) = s")
  case False
  let ?f = "\<lambda>task. task\<lparr>tk_state := TS_Running, tk_attempt := a, tk_attempt_id := Some aid,
                 tk_started_at := Some ts, tk_row_version := i\<rparr>"
  obtain t where t: "hm_get (fs_tasks s) (r, k) = Some t" "\<not> is_terminal (tk_state t)" "tk_attempt t \<le> a"
    "fst (fold_task_started r k a aid ts i s)
       = prune_dispatch_outbox_row r k a (s\<lparr>fs_tasks := hm_modify (r, k) ?f (fs_tasks s)\<rparr>)"
    using False by (auto simp: fold_task_started_def split: option.splits if_splits)
  show ?thesis unfolding t(4)
    by (rule core_quiet_steps [where f = ?f and k = "(r, k)"])
      (use t in \<open>auto simp: task_quiet_def task_same_plan_def intro: core_frame\<close>)
qed simp

lemma task_heartbeat_steps: "core_steps P b s (fst (fold_task_heartbeat r k a aid ts i s))"
proof (cases "fst (fold_task_heartbeat r k a aid ts i s) = s")
  case False
  let ?f = "\<lambda>task. task\<lparr>tk_last_heartbeat_at := Some ts, tk_row_version := i\<rparr>"
  obtain t where t: "hm_get (fs_tasks s) (r, k) = Some t" "\<not> is_terminal (tk_state t)"
    "fst (fold_task_heartbeat r k a aid ts i s) = s\<lparr>fs_tasks := hm_modify (r, k) ?f (fs_tasks s)\<rparr>"
    using False by (auto simp: fold_task_heartbeat_def split: option.splits if_splits)
  show ?thesis unfolding t(3)
    by (rule core_quiet_steps [where f = ?f and k = "(r, k)"])
      (use t in \<open>auto simp: task_quiet_def task_same_plan_def\<close>)
qed simp

lemma visibility_row_quiet:
  assumes "tk_state t = TS_Succeeded"
    and "\<not> ((tk_output_visibility_state t = Some OV_Visible \<or> tk_output_visibility_state t = Some OV_Failed)
           \<and> tk_output_visibility_state t \<noteq> Some v)"
  shows "task_quiet t (visibility_task_row v pa pe i ts t)"
  using assms by (cases v) (auto simp: visibility_task_row_def task_quiet_def task_same_plan_def task_frozen_def task_results_def)

lemma visibility_steps:
  "core_steps P b s (fst (fold_task_output_visibility_changed r k a aid v pa pe i ts s))"
proof (cases "fst (fold_task_output_visibility_changed r k a aid v pa pe i ts s) = s")
  case False
  then obtain t where t: "hm_get (fs_tasks s) (r, k) = Some t"
    "task_quiet t (visibility_task_row v pa pe i ts t)"
    "fst (fold_task_output_visibility_changed r k a aid v pa pe i ts s)
       = s\<lparr>fs_tasks := hm_modify (r, k) (visibility_task_row v pa pe i ts) (fs_tasks s)\<rparr>"
    using visibility_row_quiet [of _ v pa pe i ts]
    by (fastforce simp: fold_task_output_visibility_changed_def split: option.splits if_splits)
  show ?thesis unfolding t(3) by (rule core_quiet_steps) (use t in auto)
qed simp

lemma dispatch_task_update_quiet: "task_quiet t (fst (dispatch_task_update a aid i t))"
  by (auto simp: dispatch_task_update_def task_quiet_def task_same_plan_def task_frozen_def task_results_def)

lemma dispatch_requested_steps:
  "core_steps P b s (fst (fold_dispatch_requested r k a aid wq d i ts s))"
proof (cases "dispatch_attempt_consumed r k a s")
  case True
  then show ?thesis by (simp add: fold_dispatch_requested_def core_eq_steps prune_core_eq)
next
  case False
  let ?aid = "case hm_get (fs_dispatch_outbox s) d of
      None \<Rightarrow> aid | Some row \<Rightarrow> do_attempt_id (fst (fill_outbox_row aid wq row))"
  have "core_eq (s\<lparr>fs_tasks := hm_modify (r, k)
      (\<lambda>t. fst (dispatch_task_update a ?aid i t)) (fs_tasks s)\<rparr>)
      (fst (fold_dispatch_requested r k a aid wq d i ts s))"
    using False
    by (cases "hm_get (fs_dispatch_outbox s) d")
      (simp_all add: fold_dispatch_requested_def core_eq_def Let_def split: prod.splits)
  then show ?thesis
    by (rule core_quiet_steps [rotated]) (rule dispatch_task_update_quiet)
qed

lemma set_retry_steps: "core_steps P b s (fst (set_retry_not_before r k a f i s))"
proof (cases "fst (set_retry_not_before r k a f i s) = s")
  case False
  let ?g = "\<lambda>task. task\<lparr>tk_retry_not_before := Some f, tk_row_version := i\<rparr>"
  obtain key t where t: "hm_get (fs_tasks s) key = Some t" "tk_state t = TS_RetryWait"
    "fst (set_retry_not_before r k a f i s) = s\<lparr>fs_tasks := hm_modify key ?g (fs_tasks s)\<rparr>"
    using False by (auto simp: set_retry_not_before_def split: option.splits if_splits)
  show ?thesis unfolding t(3)
    by (rule core_quiet_steps [where f = ?g and k = key])
      (use t in \<open>auto simp: task_quiet_def task_same_plan_def\<close>)
qed simp

lemma timer_requested_steps: "core_steps P b s (fst (fold_timer_requested tid ty r k a f i s))"
proof -
  define s1 where "s1 = (case hm_get (fs_timers s) tid of
      Some e \<Rightarrow> s\<lparr>fs_timers := hm_modify tid (\<lambda>row. fst (fill_timer_row r k a f row)) (fs_timers s)\<rparr>
    | None \<Rightarrow> s\<lparr>fs_timers := hm_insert tid
        \<lparr>tmr_timer_id = tid, tmr_cloud_task_id = None, tmr_timer_type = map_timer_type ty,
         tmr_run_id = r, tmr_task_key = k, tmr_attempt = a, tmr_fire_at = f,
         tmr_state = TM_Scheduled, tmr_payload = None, tmr_row_version = i\<rparr> (fs_timers s)\<rparr>)"
  have "core_eq s s1" by (simp add: s1_def core_eq_def split: option.splits)
  moreover have "fst (fold_timer_requested tid ty r k a f i s) = s1
      \<or> fst (fold_timer_requested tid ty r k a f i s) = fst (set_retry_not_before r k a f i s1)"
    by (simp add: s1_def fold_timer_requested_def Let_def split: option.splits prod.splits) 
  ultimately show ?thesis
    using set_retry_steps [of P b s1] core_eq_steps [of s s1 P b] by (metis rtranclp_trans)
qed

section \<open>Completion\<close>

text \<open>A task that ended without success.\<close>

definition task_dead :: "fold_state \<Rightarrow> string \<Rightarrow> string \<Rightarrow> bool" where
  "task_dead s r u \<longleftrightarrow>
     (\<exists>t. hm_get (fs_tasks s) (r, u) = Some t \<and> is_terminal (tk_state t) \<and> tk_state t \<noteq> TS_Succeeded)"

lemma get_dependents_cong: "fs_task_dependents s' = fs_task_dependents s \<Longrightarrow> get_dependents s' = get_dependents s"
  by (intro ext) (simp add: get_dependents_def)

lemma satisfy_edge_dependents [simp]:
  "fs_task_dependents (satisfy_edge r u res a i ts d s) = fs_task_dependents s"
  by (simp add: satisfy_edge_def Let_def)

lemma dep_satisfied_row_state [simp]:
  "tk_state t \<noteq> TS_Blocked \<Longrightarrow> tk_state (dep_satisfied_row i ts t) = tk_state t"
  by (simp add: dep_satisfied_row_def Let_def)

lemma satisfy_edge_keeps_succeeded:
  assumes "hm_get (fs_tasks s) k = Some t" "tk_state t = TS_Succeeded"
  shows "\<exists>t'. hm_get (fs_tasks (satisfy_edge r u res a i ts d s)) k = Some t' \<and> tk_state t' = TS_Succeeded"
  using assms by (auto simp: satisfy_edge_def Let_def hm_simps)

lemma satisfy_edges_steps:
  assumes "hm_get (fs_tasks s) (r, u) = Some t" "tk_state t = TS_Succeeded"
    and "set ds \<subseteq> set (get_dependents s r u)"
  shows "core_steps P True s (fold (satisfy_edge r u DR_Success a i ts) ds s)"
  using assms
proof (induction ds arbitrary: s t)
  case (Cons d ds)
  let ?s = "satisfy_edge r u DR_Success a i ts d s"
  obtain t' where t': "hm_get (fs_tasks ?s) (r, u) = Some t'" "tk_state t' = TS_Succeeded"
    using satisfy_edge_keeps_succeeded [OF Cons.prems(1,2)] by blast
  have "get_dependents ?s = get_dependents s" by (rule get_dependents_cong) simp
  then have "core_steps P True ?s (fold (satisfy_edge r u DR_Success a i ts) ds ?s)"
    using Cons.IH [OF t'] Cons.prems(3) by simp
  moreover have "core_step P True s ?s"
    by (rule CS_satisfy [OF TrueI Cons.prems(1,2)]) (use Cons.prems(3) in simp)
  ultimately show ?case by (simp add: converse_rtranclp_into_rtranclp)
qed simp

lemma propagate_edge_cases:
  assumes "propagate_edge r u e i ts d (s, q) = (s', q')"
  obtains (skip) row where "\<not> dp_satisfied row" "q' = q"
      "s' = s\<lparr>fs_dep_satisfaction := hm_insert (r, u, d) row (fs_dep_satisfaction s)\<rparr>"
      "\<And>t. hm_get (fs_tasks s) (r, d) = Some t \<Longrightarrow> is_terminal (tk_state t)" "edge_names r u d row"
  | (hit) row n e' t where "\<not> dp_satisfied row" "propagated e = (n, e')" "q' = q @ [(d, e')]"
      "hm_get (fs_tasks s) (r, d) = Some t" "\<not> is_terminal (tk_state t)"
      "s' = s\<lparr>fs_dep_satisfaction := hm_insert (r, u, d) row (fs_dep_satisfaction s),
              fs_tasks := hm_modify (r, d) (\<lambda>t. t\<lparr>tk_state := n, tk_row_version := i\<rparr>) (fs_tasks s),
              fs_runs := hm_modify r (run_task_done n i ts) (fs_runs s)\<rparr>" "edge_names r u d row"
proof -
  let ?row = "\<lparr>dp_run_id = r, dp_upstream_task_key = u, dp_downstream_task_key = d,
    dp_satisfied = False, dp_resolution = Some e, dp_satisfied_at = Some ts,
    dp_satisfying_attempt = None, dp_row_version = i\<rparr>"
  show ?thesis
  proof (cases "\<exists>t. hm_get (fs_tasks s) (r, d) = Some t \<and> \<not> is_terminal (tk_state t)")
    case True
    then obtain t where t: "hm_get (fs_tasks s) (r, d) = Some t" "\<not> is_terminal (tk_state t)" by blast
    obtain n e' where "propagated e = (n, e')" by fastforce
    with t show ?thesis using assms by (intro hit [of ?row n e' t]) (auto simp: propagate_edge_def edge_names_def)
  next
    case False
    then show ?thesis using assms
      by (intro skip [of ?row]) (auto simp: propagate_edge_def edge_names_def Let_def split: option.splits)
  qed
qed

lemma propagated_state: "propagated e = (n, e') \<Longrightarrow> is_terminal n \<and> n \<noteq> TS_Succeeded"
  by (cases e) auto

lemma propagate_edge_dead:
  assumes "propagate_edge r u e i ts d (s, q) = (s', q')"
  shows "fs_task_dependents s' = fs_task_dependents s"
    and "task_dead s r v \<Longrightarrow> task_dead s' r v"
    and "(v, e'') \<in> set q' \<Longrightarrow> (v, e'') \<in> set q \<or> task_dead s' r v"
  using assms propagated_state
  by (auto elim!: propagate_edge_cases simp: task_dead_def hm_simps)

lemma propagate_edge_steps:
  assumes "propagate_edge r u e i ts d (s, q) = (s', q')" "task_dead s r u"
    and "d \<in> set (get_dependents s r u)"
  shows "core_steps P True s s'"
proof -
  obtain t where t: "hm_get (fs_tasks s) (r, u) = Some t" "is_terminal (tk_state t)"
    "tk_state t \<noteq> TS_Succeeded" using assms(2) by (auto simp: task_dead_def)
  note unsat = CS_unsatisfied [OF TrueI t assms(3), of _ P]
  from assms(1) show ?thesis
  proof (cases rule: propagate_edge_cases)
    case (skip row)
    then show ?thesis using unsat [of row] by (simp add: r_into_rtranclp)
  next
    case (hit row n e' t')
    let ?s1 = "s\<lparr>fs_dep_satisfaction := hm_insert (r, u, d) row (fs_dep_satisfaction s)\<rparr>"
    let ?f = "\<lambda>t. t\<lparr>tk_state := n, tk_row_version := i\<rparr>"
    have "task_ends t' (?f t')"
      using hit propagated_state by (auto simp: task_ends_def task_same_plan_def)
    then have "core_step P True ?s1 s'"
      using CS_end [of True ?s1 r d t' ?f P i ts] hit by simp
    then show ?thesis using unsat [of row] hit(1,7) by (meson converse_rtranclp_into_rtranclp rtranclp.rtrancl_refl)
  qed
qed

lemma propagate_edges_steps:
  assumes "fold (propagate_edge r u e i ts) ds (s, q) = (s', q')" "task_dead s r u"
    and "set ds \<subseteq> set (get_dependents s r u)" "\<And>v e'. (v, e') \<in> set q \<Longrightarrow> task_dead s r v"
  shows "core_steps P True s s'
    \<and> fs_task_dependents s' = fs_task_dependents s \<and> (\<forall>v e'. (v, e') \<in> set q' \<longrightarrow> task_dead s' r v)"
  using assms
proof (induction ds arbitrary: s q)
  case (Cons d ds)
  obtain s1 q1 where 1: "propagate_edge r u e i ts d (s, q) = (s1, q1)" by fastforce
  note dead = propagate_edge_dead [OF 1]
  have g: "get_dependents s1 = get_dependents s" by (rule get_dependents_cong) (rule dead(1))
  have "core_steps P True s1 s' \<and> fs_task_dependents s' = fs_task_dependents s1
      \<and> (\<forall>v e'. (v, e') \<in> set q' \<longrightarrow> task_dead s' r v)"
    by (rule Cons.IH [where q = q1]) (use Cons.prems 1 dead g in \<open>auto dest: dead(3)\<close>)
  moreover have "core_steps P True s s1"
    by (rule propagate_edge_steps [OF 1 Cons.prems(2)]) (use Cons.prems(3) in simp)
  ultimately show ?case using dead(1) by (auto intro: rtranclp_trans)
qed auto

lemma propagate_loop_steps:
  "(\<And>v e. (v, e) \<in> set q \<Longrightarrow> task_dead s r v) \<Longrightarrow> core_steps P True s (propagate_loop r i ts s q)"
proof (induction r i ts s q rule: propagate_loop.induct)
  case (2 r i ts s u e q)
  obtain s' q' where f: "fold (propagate_edge r u e i ts) (get_dependents s r u) (s, q) = (s', q')"
    by fastforce
  have "core_steps P True s s' \<and> fs_task_dependents s' = fs_task_dependents s
      \<and> (\<forall>v e'. (v, e') \<in> set q' \<longrightarrow> task_dead s' r v)"
    by (rule propagate_edges_steps [OF f]) (use 2(2) in auto)
  then show ?case using 2(1) [OF f [symmetric] refl] f by (auto intro: rtranclp_trans)
qed simp

lemma finished_row_facts:
  "tk_state (finished_task_row env c m p i ts t) = finished_state (tc_outcome c) t"
  "task_same_plan t (finished_task_row env c m p i ts t)"
  "tk_attempt (finished_task_row env c m p i ts t) = tk_attempt t"
  by (cases "tc_outcome c"; simp add: finished_task_row_def Let_def task_same_plan_def)+

lemma update_partition_core_eq [core_frame]:
  "core_eq s (update_partition_attempt te w as p r o' ts i s)"
  "core_eq s (update_partition_materialization te w as p r cv dt dv dp el ts i s)"
  by (simp_all add: update_partition_attempt_def update_partition_materialization_def core_eq_def)

text \<open>The state after the writes to the task and its run.\<close>

definition finished_task_done :: "lib_env \<Rightarrow> task_completion \<Rightarrow> string \<Rightarrow> datetime \<Rightarrow> task_row \<Rightarrow> fold_state \<Rightarrow> fold_state" where
  "finished_task_done env c i ts t s =
     (let m = extract_execution_metadata (tc_materialization_id c) (tc_output c) (tc_partition_key c);
          p = (case tc_partition_key c of Some p \<Rightarrow> Some p | None \<Rightarrow> md_delta_partition m);
          n = finished_state (tc_outcome c) t;
          s1 = s\<lparr>fs_tasks := hm_modify (tc_run_id c, tc_task_key c)
                   (finished_task_row env c m p i ts) (fs_tasks s)\<rparr>
      in if is_terminal n
         then s1\<lparr>fs_runs := hm_modify (tc_run_id c) (run_task_done n i ts) (fs_runs s1)\<rparr>
         else s1)"

text \<open>What follows them, as far as the core is concerned.\<close>

definition finished_downstream :: "task_completion \<Rightarrow> task_state \<Rightarrow> string \<Rightarrow> datetime \<Rightarrow> fold_state \<Rightarrow> fold_state" where
  "finished_downstream c n i ts s =
     (case n of
        TS_Succeeded \<Rightarrow> satisfy_downstream_edges (tc_run_id c) (tc_task_key c) DR_Success (tc_attempt c) i ts s
      | TS_Failed \<Rightarrow> propagate_failure (tc_run_id c) (tc_task_key c) DR_Failed i ts s
      | TS_Skipped \<Rightarrow> propagate_failure (tc_run_id c) (tc_task_key c) DR_Skipped i ts s
      | TS_Cancelled \<Rightarrow> propagate_failure (tc_run_id c) (tc_task_key c) DR_Cancelled i ts s
      | _ \<Rightarrow> s)"

lemma finished_effects_core:
  "core_eq (finished_downstream c (finished_state (tc_outcome c) t) i ts s)
     (finished_effects env c m p (finished_state (tc_outcome c) t) i ts te w s)"
  by (cases "tc_outcome c")
    (auto simp: finished_effects_def finished_downstream_def finished_state_def core_frame Let_def
      split: option.splits)

lemma fold_task_finished_cases:
  obtains (drop) "fold_task_finished env c i ts te w s = (s, False)"
  | (applied) t where "hm_get (fs_tasks s) (tc_run_id c, tc_task_key c) = Some t"
      "\<not> is_terminal (tk_state t)" "tk_attempt t = tc_attempt c" "tk_attempt_id t = Some (tc_attempt_id c)"
      "snd (fold_task_finished env c i ts te w s)"
      "core_eq (finished_downstream c (finished_state (tc_outcome c) t) i ts (finished_task_done env c i ts t s))
         (fst (fold_task_finished env c i ts te w s))"
proof (cases "snd (fold_task_finished env c i ts te w s)")
  case True
  then obtain t where t: "hm_get (fs_tasks s) (tc_run_id c, tc_task_key c) = Some t"
    "\<not> is_terminal (tk_state t)" "tk_attempt t = tc_attempt c" "tk_attempt_id t = Some (tc_attempt_id c)"
    by (auto simp: fold_task_finished_def split: option.splits if_splits)
  show ?thesis
  proof (rule applied [OF t True])
    show "core_eq (finished_downstream c (finished_state (tc_outcome c) t) i ts (finished_task_done env c i ts t s))
         (fst (fold_task_finished env c i ts te w s))"
      using t
      by (auto simp: fold_task_finished_def finished_task_done_def Let_def
          intro: core_eq_trans core_frame finished_effects_core split: option.splits)
  qed
next
  case False
  then show ?thesis
    by (intro drop) (auto simp: fold_task_finished_def Let_def split: option.splits if_splits)
qed

lemma finished_downstream_steps:
  assumes "hm_get (fs_tasks s) (tc_run_id c, tc_task_key c) = Some t" "tk_state t = n"
  shows "core_steps P True s (finished_downstream c n i ts s)"
proof (cases "n = TS_Succeeded \<or> \<not> is_terminal n")
  case True
  then show ?thesis
    using satisfy_edges_steps [OF assms(1), of "get_dependents s (tc_run_id c) (tc_task_key c)" P "tc_attempt c" i ts] assms
    by (cases n) (auto simp: finished_downstream_def satisfy_downstream_edges_def)
next
  case False
  then have "core_steps P True s (propagate_loop (tc_run_id c) i ts s [(tc_task_key c, e)])" for e
    using assms by (intro propagate_loop_steps) (auto simp: task_dead_def)
  with False show ?thesis by (cases n) (auto simp: finished_downstream_def propagate_failure_def)
qed

lemma finished_done_steps:
  assumes t: "hm_get (fs_tasks s) (tc_run_id c, tc_task_key c) = Some t" "\<not> is_terminal (tk_state t)"
  shows "core_steps P True s (finished_task_done env c i ts t s)"
proof -
  define f where "f = finished_task_row env c
    (extract_execution_metadata (tc_materialization_id c) (tc_output c) (tc_partition_key c))
    (case tc_partition_key c of Some p \<Rightarrow> Some p | None \<Rightarrow> md_delta_partition
       (extract_execution_metadata (tc_materialization_id c) (tc_output c) (tc_partition_key c))) i ts"
  have f: "tk_state (f u) = finished_state (tc_outcome c) u" "task_same_plan u (f u)"
    "tk_attempt (f u) = tk_attempt u" for u
    by (simp_all add: f_def finished_row_facts)
  show ?thesis
  proof (cases "is_terminal (finished_state (tc_outcome c) t)")
    case True
    then have "task_ends t (f t)" using f t(2) by (simp add: task_ends_def)
    from CS_end [where f = f, OF TrueI t(1) this] True show ?thesis
      by (simp add: finished_task_done_def f_def [symmetric] Let_def f r_into_rtranclp)
  next
    case False
    then have "finished_state (tc_outcome c) t = TS_RetryWait"
      by (auto simp: finished_state_def split: task_outcome.splits if_splits)
    then have "task_quiet t (f t)" using f t(2) by (simp add: task_quiet_def)
    then have "core_step P True s (s\<lparr>fs_tasks := hm_modify (tc_run_id c, tc_task_key c) f (fs_tasks s)\<rparr>)"
      using t(1) by (intro CS_quiet) auto
    with False show ?thesis by (simp add: finished_task_done_def f_def [symmetric] Let_def r_into_rtranclp)
  qed
qed

lemma finished_task_done_get:
  "hm_get (fs_tasks s) (tc_run_id c, tc_task_key c) = Some t \<Longrightarrow>
   \<exists>t'. hm_get (fs_tasks (finished_task_done env c i ts t s)) (tc_run_id c, tc_task_key c) = Some t'
     \<and> tk_state t' = finished_state (tc_outcome c) t"
  by (simp add: finished_task_done_def Let_def hm_simps finished_row_facts)

lemma task_finished_steps: "core_steps P True s (fst (fold_task_finished env c i ts te w s))"
proof (cases rule: fold_task_finished_cases [of env c i ts te w s])
  case (applied t)
  let ?s1 = "finished_task_done env c i ts t s"
  let ?s2 = "finished_downstream c (finished_state (tc_outcome c) t) i ts ?s1"
  have "core_steps P True s ?s1" using applied by (intro finished_done_steps)
  also have "core_steps P True ?s1 ?s2"
    using finished_task_done_get [OF applied(1), of env i ts] finished_downstream_steps by blast
  also have "core_steps P True ?s2 (fst (fold_task_finished env c i ts te w s))"
    using applied(6) by (rule core_eq_steps)
  finally show ?thesis .
qed simp

lemma completion_recorded_steps: "core_steps P True s (fst (fold_task_completion_recorded env c v e s))"
proof -
  obtain s1 a where 1: "fold_task_finished env c (ev_event_id e) (ev_timestamp e) (ev_tenant_id e)
      (ev_workspace_id e) s = (s1, a)" by fastforce
  then have "core_steps P True s s1" by (metis fst_conv task_finished_steps)
  moreover have "core_steps P True s1 (fst (fold_task_completion_recorded env c v e s))"
    using 1 visibility_steps [of P True s1]
    by (auto simp: fold_task_completion_recorded_def split: option.splits prod.splits if_splits)
      (metis fst_conv)
  ultimately show ?thesis by (rule rtranclp_trans)
qed

section \<open>Events\<close>

definition plans_ok :: "(task_def list \<Rightarrow> bool) \<Rightarrow> orchestration_event_data \<Rightarrow> bool" where
  "plans_ok P d = (case d of PlanCreated _ _ tasks \<Rightarrow> P tasks | _ \<Rightarrow> True)"

definition is_completion :: "orchestration_event_data \<Rightarrow> bool" where
  "is_completion d = (case d of TaskFinished _ \<Rightarrow> True | TaskCompletionRecorded _ _ \<Rightarrow> True | _ \<Rightarrow> False)"

lemma refresh_if_changed_steps:
  "core_steps P b s (fst r) \<Longrightarrow> core_steps P b s (fst (refresh_if_changed e run_id r))"
  using refresh_core_eq core_eq_steps
  by (auto simp: refresh_if_changed_def intro: rtranclp_trans)

lemmas core_frame_steps = core_frame [THEN core_eq_steps]

lemma whole_handler_steps:
  "core_steps P b s (fst (fold_run_cancel_requested r i ts s))"
  "core_steps P b s (fst (fold_run_triggered r p rk ls cv i ts s))"
  "P ds \<Longrightarrow> core_steps P b s (fst (fold_plan_created r ds i ts s))"
  by (rule r_into_rtranclp, rule core_step.intros, assumption?)+

lemma fold_data_calm_steps:
  assumes "plans_ok P d" "\<not> is_completion d"
  shows "core_steps P b s (fst (fold_data env e d s))"
  using assms
  by (cases d)
    (auto simp: plans_ok_def is_completion_def intro!: refresh_if_changed_steps task_started_steps
      task_heartbeat_steps visibility_steps dispatch_requested_steps timer_requested_steps
      whole_handler_steps core_frame_steps)

lemma fold_data_core_steps:
  assumes "plans_ok P d"
  shows "core_steps P True s (fst (fold_data env e d s))"
proof (cases "is_completion d")
  case True
  then show ?thesis
    by (cases d)
      (auto simp: is_completion_def intro!: refresh_if_changed_steps task_finished_steps
        completion_recorded_steps)
qed (rule fold_data_calm_steps [OF assms])

lemma fold_event_core_steps:
  assumes "plans_ok P (ev_data e)"
  shows "core_steps P True s (fold_event env e s)"
proof (cases "hm_get (fs_idempotency_keys s) (ev_idempotency_key e)")
  case None
  obtain s' b where 1: "fold_data env e (ev_data e) s = (s', b)" by fastforce
  then have "core_steps P True s s'" using fold_data_core_steps [OF assms, of s env e] by simp
  moreover have "core_steps P True s' (record_idempotency_key e s')"
    by (rule core_eq_steps) (rule record_key_core_eq)
  ultimately show ?thesis using None 1 by (auto simp: fold_event_def intro: rtranclp_trans)
qed (simp add: fold_event_def)

section \<open>What to prove of a whole ledger\<close>

text \<open>A property of the state that every handler keeps holds of the state a ledger folds to.\<close>

locale fold_invariant =
  fixes env :: lib_env and ok :: "orchestration_event \<Rightarrow> bool" and Inv :: "fold_state \<Rightarrow> bool"
  assumes handler: "Inv s \<Longrightarrow> ok e \<Longrightarrow> Inv (fst (fold_data env e (ev_data e) s))"
    and recorded: "Inv s \<Longrightarrow> ok e \<Longrightarrow> Inv (record_idempotency_key e s)"
begin

lemma event: "Inv s \<Longrightarrow> ok e \<Longrightarrow> Inv (fold_event env e s)"
  using handler [of s e] recorded
  by (auto simp: fold_event_def split: prod.splits)

lemma events: "Inv s \<Longrightarrow> (\<And>e. e \<in> set es \<Longrightarrow> ok e) \<Longrightarrow> Inv (fold_events env es s)"
  by (induction es arbitrary: s) (simp_all add: fold_events_def event)

end

text \<open>A preorder that every handler moves along relates the state before a ledger to the state
  after it.\<close>

locale fold_monotone =
  fixes env :: lib_env and ok :: "orchestration_event \<Rightarrow> bool"
    and R :: "fold_state \<Rightarrow> fold_state \<Rightarrow> bool"
  assumes R_refl: "R s s" and R_trans: "R s s' \<Longrightarrow> R s' s'' \<Longrightarrow> R s s''"
    and R_handler: "ok e \<Longrightarrow> R s (fst (fold_data env e (ev_data e) s))"
    and R_recorded: "R s (record_idempotency_key e s)"

sublocale fold_monotone \<subseteq> from_start: fold_invariant env ok "R s0" for s0
  by unfold_locales (blast intro: R_trans R_handler R_recorded)+

context fold_monotone
begin

lemma monotone: "(\<And>e. e \<in> set es \<Longrightarrow> ok e) \<Longrightarrow> R s (fold_events env es s)"
  by (rule from_start.events [OF R_refl])

end

text \<open>The same two shapes for the core, where the obligation is one case per kind of step.\<close>

locale core_monotone =
  fixes plan_ok :: "task_def list \<Rightarrow> bool" and R :: "fold_state \<Rightarrow> fold_state \<Rightarrow> bool"
  assumes R_refl: "R s s" and R_trans: "R s s' \<Longrightarrow> R s' s'' \<Longrightarrow> R s s''"
    and R_step: "core_step plan_ok True s s' \<Longrightarrow> R s s'"
begin

lemma R_steps: "core_steps plan_ok True s s' \<Longrightarrow> R s s'"
  by (induction rule: rtranclp_induct) (blast intro: R_refl R_trans R_step)+

end

sublocale core_monotone \<subseteq> ledger: fold_monotone env "\<lambda>e. plans_ok plan_ok (ev_data e)" R for env
  by unfold_locales
    (blast intro: R_refl R_trans R_steps fold_data_core_steps core_eq_steps [OF record_key_core_eq])+

locale core_invariant =
  fixes plan_ok :: "task_def list \<Rightarrow> bool" and Inv :: "fold_state \<Rightarrow> bool"
  assumes Inv_step: "core_step plan_ok True s s' \<Longrightarrow> Inv s \<Longrightarrow> Inv s'"
begin

lemma Inv_steps: "core_steps plan_ok True s s' \<Longrightarrow> Inv s \<Longrightarrow> Inv s'"
  by (induction rule: rtranclp_induct) (auto intro: Inv_step)

end

sublocale core_invariant \<subseteq> ledger: fold_invariant env "\<lambda>e. plans_ok plan_ok (ev_data e)" Inv for env
  by unfold_locales
    (blast intro: Inv_steps fold_data_core_steps core_eq_steps [OF record_key_core_eq])+

end
