(* ===== verification/Fold_Example.thy ===== *)
theory Fold_Example
  imports Fold_Event
begin

text \<open>
  A small ledger for the witnesses: a run of two tasks, of which \<^verbatim>\<open>b\<close> depends on \<^verbatim>\<open>a\<close>, with
  concrete library functions. The collection \<open>fold_eval\<close> unfolds the fold on such inputs.
\<close>

definition ex_env :: lib_env where
  "ex_env =
     \<lparr>utc_now = 0, from_timestamp = (\<lambda>n. Some (n * 1000000000)),
      timestamp_millis = (\<lambda>t. t div 1000000), sha256 = (\<lambda>s. map (\<lambda>c. of_nat (of_char c)) s),
      hex_encode = (\<lambda>bs. concat (map (\<lambda>b. show_nat (unat b)) bs)),
      hmac_sha256 = (\<lambda>k s. k @ map (\<lambda>c. of_nat (of_char c)) s),
      base32_encode = (\<lambda>bs. concat (map (\<lambda>b. show_nat (unat b)) bs)),
      lineage_to_json = (\<lambda>r. Some (lr_run_id r @ lr_task_key r))\<rparr>"

definition ex_event :: "string \<Rightarrow> orchestration_event_data \<Rightarrow> orchestration_event" where
  "ex_event i d = new_with_timestamp ex_env i ''t'' ''w'' d 7"

definition ex_task :: "string \<Rightarrow> string list \<Rightarrow> task_def" where
  "ex_task k ds =
     \<lparr>td_key = k, td_depends_on = ds, td_asset_key = None, td_partition_key = None,
      td_max_attempts = 1, td_heartbeat_timeout_sec = 60, td_requires_visible_output = False\<rparr>"

definition ex_done :: "string \<Rightarrow> task_outcome \<Rightarrow> task_completion" where
  "ex_done k outcome =
     \<lparr>tc_run_id = ''r'', tc_task_key = k, tc_attempt = 1, tc_attempt_id = ''x'',
      tc_worker_id = ''w'', tc_outcome = outcome, tc_materialization_id = None,
      tc_error_message = None, tc_output = None, tc_error = None, tc_metrics = None,
      tc_cancelled_during_phase = None, tc_partial_progress_json = None, tc_asset_key = None,
      tc_partition_key = None, tc_code_version = None\<rparr>"

definition ex_trigger :: orchestration_event where
  "ex_trigger = ex_event ''1'' (RunTriggered ''r'' ''p'' (TI_Manual ''u'') [] None [] None)"

definition ex_plan :: orchestration_event where
  "ex_plan = ex_event ''2'' (PlanCreated ''r'' ''p'' [ex_task ''a'' [], ex_task ''b'' [''a'']])"

definition ex_start :: orchestration_event where
  "ex_start = ex_event ''3'' (TaskStarted ''r'' ''a'' 1 ''x'' ''w'')"

definition ex_success :: orchestration_event where
  "ex_success = ex_event ''4'' (TaskFinished (ex_done ''a'' TO_Succeeded))"

definition ex_failure :: orchestration_event where
  "ex_failure = ex_event ''4'' (TaskFinished (ex_done ''a'' TO_Failed))"

named_theorems fold_eval \<open>definitions of the fold, for evaluation on concrete ledgers\<close>

lemmas ex_defs [fold_eval] =
  ex_env_def ex_event_def ex_task_def ex_done_def ex_trigger_def ex_plan_def ex_start_def
  ex_success_def ex_failure_def new_with_timestamp_def

lemmas handler_defs [fold_eval] =
  fold_events_def fold_event_def refresh_if_changed_def record_idempotency_key_def
  hm_or_insert_def Let_def refresh_catalog_run_index_for_run_def refresh_catalog_row_def
  new_fold_state_def fold_run_triggered_def tally_zero_def fold_plan_created_def
  plan_graph_step_def plan_rows_step_def push_dep_def plan_task_row_def plan_edge_row_def
  fold_task_started_def fold_task_finished_def finished_task_row_def finished_effects_def
  prune_dispatch_outbox_row_def dispatch_id_def run_task_done_def count_terminal_def
  complete_run_def run_outcome_def satisfy_downstream_edges_def satisfy_edge_def
  dep_satisfied_row_def get_dependents_def extract_execution_metadata_def
  build_execution_lineage_ref_def finished_state_def propagate_failure_def propagate_edge_def

lemma show_one [fold_eval]: "show_nat (Suc 0) = ''1''" "show_nat 1 = ''1''"
  by (simp_all add: show_nat.simps digit_char_def) code_simp+

end
