(* ===== verification/Fold_Monotone.thy ===== *)
theory Fold_Monotone
  imports Fold_Core Fold_Example
begin

text \<open>
  Monotonicity of the core: what an event, whatever it is and whenever it arrives, cannot take
  back. A terminal task keeps its state, its attempt and its results; attempts only grow; a run
  keeps its identity, and a requested cancellation stays requested.
\<close>

section \<open>Effect of the handlers that rewrite many rows\<close>

definition cancelled_row :: "string \<Rightarrow> task_row \<Rightarrow> task_row" where
  "cancelled_row i t = t\<lparr>tk_state := TS_Cancelled, tk_row_version := i\<rparr>"

lemma cancelled_row_facts [simp]:
  "cancelled_row i (cancelled_row j t) = cancelled_row i t"
  "tk_state (cancelled_row i t) = TS_Cancelled"
  by (simp_all add: cancelled_row_def)

lemma cancel_task_tasks: "fs_tasks (cancel_task r i k s) = hm_modify k (cancelled_row i) (fs_tasks s)"
  by (simp add: cancel_task_def cancelled_row_def [abs_def])

lemma cancel_tasks_get:
  "hm_get (fs_tasks (fold (cancel_task r i) ks s)) k =
     (if k \<in> set ks then map_option (cancelled_row i) (hm_get (fs_tasks s) k) else hm_get (fs_tasks s) k)"
  by (induction ks arbitrary: s)
    (auto simp: cancel_task_tasks hm_simps option.map_comp comp_def)

lemma cancel_tasks_keys: "hm_keys (fs_tasks (fold (cancel_task r i) ks s)) = hm_keys (fs_tasks s)"
  by (induction ks arbitrary: s) (simp_all add: cancel_task_tasks)

lemma tasks_to_cancel_iff:
  "hm_wf (fs_tasks s) \<Longrightarrow> k \<in> set (tasks_to_cancel r s) \<longleftrightarrow>
     (\<exists>t. hm_get (fs_tasks s) k = Some t \<and> fst k = r \<and> \<not> is_terminal (tk_state t) \<and> tk_state t \<noteq> TS_Running)"
  by (simp add: tasks_to_cancel_def hm_get_in_set) force

lemma tasks_to_cancel_cong: "fs_tasks s = fs_tasks s' \<Longrightarrow> tasks_to_cancel r s = tasks_to_cancel r s'"
  by (simp add: tasks_to_cancel_def)

lemma cancel_run_tasks:
  "fs_tasks (fst (fold_run_cancel_requested r i ts s)) =
     (if (case hm_get (fs_runs s) r of None \<Rightarrow> False | Some run \<Rightarrow> run_is_terminal (rn_state run))
      then fs_tasks s else fs_tasks (fold (cancel_task r i) (tasks_to_cancel r s)
        (s\<lparr>fs_runs := hm_modify r (\<lambda>run. run\<lparr>rn_cancel_requested := True, rn_row_version := i\<rparr>) (fs_runs s)\<rparr>)))"
  unfolding fold_run_cancel_requested_def Let_def
  by (simp add: tasks_to_cancel_cong [of "s\<lparr>fs_runs := _\<rparr>" s] split: option.split)

lemma plan_rows_get_other:
  "fst k \<noteq> r \<Longrightarrow> hm_get (fs_tasks (fold (plan_rows_step r i ts) ds s)) k = hm_get (fs_tasks s) k"
  by (induction ds arbitrary: s) (auto simp: plan_rows_step_def hm_simps)

lemma plan_rows_wf: "hm_wf (fs_tasks s) \<Longrightarrow> hm_wf (fs_tasks (fold (plan_rows_step r i ts) ds s))"
  by (induction ds arbitrary: s) (simp_all add: plan_rows_step_def)

lemma plan_graph_frame [simp]:
  "fs_tasks (fold (plan_graph_step r) ds s) = fs_tasks s"
  "fs_runs (fold (plan_graph_step r) ds s) = fs_runs s"
  "fs_dep_satisfaction (fold (plan_graph_step r) ds s) = fs_dep_satisfaction s"
  by (induction ds arbitrary: s) (simp_all add: plan_graph_step_def)

lemma plan_rows_frame [simp]:
  "fs_runs (fold (plan_rows_step r i ts) ds s) = fs_runs s"
  "fs_task_dependencies (fold (plan_rows_step r i ts) ds s) = fs_task_dependencies s"
  "fs_task_dependents (fold (plan_rows_step r i ts) ds s) = fs_task_dependents s"
  by (induction ds arbitrary: s) (simp_all add: plan_rows_step_def)

text \<open>A plan is taken only by a run without tasks.\<close>

lemma plan_created_cases:
  obtains (drop) "fold_plan_created r ds i ts s = (s, False)"
      "\<exists>k. fst k = r \<and> hm_get (fs_tasks s) k \<noteq> None"
  | (planned) "\<And>k. fst k = r \<Longrightarrow> hm_get (fs_tasks s) k = None"
      "fst (fold_plan_created r ds i ts s) = fold (plan_rows_step r i ts) ds
         (fold (plan_graph_step r) ds
           (s\<lparr>fs_runs := hm_modify r (\<lambda>run. run\<lparr>rn_tasks_total := u32_of_len (length ds),
                                 rn_state := RS_Running, rn_row_version := i\<rparr>) (fs_runs s)\<rparr>))"
proof (cases "\<exists>k \<in> set (hm_keys (fs_tasks s)). fst k = r")
  case True
  then obtain k where k: "k \<in> set (hm_keys (fs_tasks s))" "fst k = r" by blast
  then have "hm_get (fs_tasks s) k \<noteq> None" by (simp only: hm_in_keys not_False_eq_True)
  then have "\<exists>k. fst k = r \<and> hm_get (fs_tasks s) k \<noteq> None" using k(2) by blast
  moreover have "fold_plan_created r ds i ts s = (s, False)"
    using True by (simp add: fold_plan_created_def list_ex_iff)
  ultimately show ?thesis by (intro drop)
next
  case False
  then have "hm_get (fs_tasks s) k = None" if "fst k = r" for k
    using that hm_in_keys [of k "fs_tasks s"] by blast
  with False show ?thesis by (intro planned) (auto simp: fold_plan_created_def list_ex_iff Let_def)
qed

section \<open>The preorder\<close>

definition task_le :: "task_row \<Rightarrow> task_row \<Rightarrow> bool" where
  "task_le t t' \<longleftrightarrow>
     tk_run_id t' = tk_run_id t \<and> tk_task_key t' = tk_task_key t \<and> tk_max_attempts t' = tk_max_attempts t
     \<and> tk_attempt t \<le> tk_attempt t' \<and> (is_terminal (tk_state t) \<longrightarrow> task_frozen t t')"

definition run_le :: "run_row \<Rightarrow> run_row \<Rightarrow> bool" where
  "run_le r r' \<longleftrightarrow>
     rn_run_id r' = rn_run_id r \<and> rn_plan_id r' = rn_plan_id r \<and> rn_run_key r' = rn_run_key r
     \<and> rn_labels r' = rn_labels r \<and> rn_code_version r' = rn_code_version r
     \<and> rn_triggered_at r' = rn_triggered_at r \<and> (rn_cancel_requested r \<longrightarrow> rn_cancel_requested r')"

text \<open>A map grows along a relation on its rows: no row goes away and each one moves along it.\<close>

definition map_le :: "('v \<Rightarrow> 'v \<Rightarrow> bool) \<Rightarrow> ('k, 'v) hashmap \<Rightarrow> ('k, 'v) hashmap \<Rightarrow> bool" where
  "map_le le m m' \<longleftrightarrow> (\<forall>k v. hm_get m k = Some v \<longrightarrow> (\<exists>v'. hm_get m' k = Some v' \<and> le v v'))"

lemma map_le_refl: "(\<And>v. le v v) \<Longrightarrow> map_le le m m"
  by (simp add: map_le_def)

lemma map_le_trans:
  "map_le le m m' \<Longrightarrow> map_le le m' m'' \<Longrightarrow> (\<And>a b c. le a b \<Longrightarrow> le b c \<Longrightarrow> le a c) \<Longrightarrow> map_le le m m''"
  unfolding map_le_def by blast

lemma map_le_modify:
  "(\<And>v. hm_get m k = Some v \<Longrightarrow> le v (f v)) \<Longrightarrow> (\<And>v. le v v) \<Longrightarrow> map_le le m (hm_modify k f m)"
  by (auto simp: map_le_def hm_simps)

lemma map_le_insert_new: "hm_get m k = None \<Longrightarrow> (\<And>v. le v v) \<Longrightarrow> map_le le m (hm_insert k v m)"
  by (auto simp: map_le_def hm_simps)

lemma map_le_or_insert: "(\<And>v. le v v) \<Longrightarrow> map_le le m (hm_or_insert k v m)"
  by (auto simp: map_le_def hm_simps)

lemma task_frozen_refl [simp]: "task_frozen t t"
  by (simp add: task_frozen_def)

lemma task_results_get [simp]:
  "tk_state (task_results t) = tk_state t" "tk_attempt (task_results t) = tk_attempt t"
  "tk_attempt_id (task_results t) = tk_attempt_id t" "tk_completed_at (task_results t) = tk_completed_at t"
  "tk_error_message (task_results t) = tk_error_message t"
  "tk_materialization_id (task_results t) = tk_materialization_id t"
  by (simp_all add: task_results_def)

lemma task_frozen_state: "task_frozen t t' \<Longrightarrow> tk_state t' = tk_state t"
  unfolding task_frozen_def by (metis task_results_get(1))

lemma task_frozen_trans: "task_frozen t t' \<Longrightarrow> task_frozen t' t'' \<Longrightarrow> task_frozen t t''"
  by (simp add: task_frozen_def)

lemma task_le_refl [simp]: "task_le t t"
  by (simp add: task_le_def)

lemma task_le_trans: "task_le t t' \<Longrightarrow> task_le t' t'' \<Longrightarrow> task_le t t''"
  using task_frozen_state [of t t'] task_frozen_trans [of t t' t''] by (auto simp: task_le_def)

lemma run_le_refl [simp]: "run_le r r"
  by (simp add: run_le_def)

lemma run_le_trans: "run_le r r' \<Longrightarrow> run_le r' r'' \<Longrightarrow> run_le r r''"
  by (auto simp: run_le_def)

text \<open>The whole statement: the task map stays a map, and tasks and runs only move up.\<close>

definition core_le :: "fold_state \<Rightarrow> fold_state \<Rightarrow> bool" where
  "core_le s s' \<longleftrightarrow>
     (hm_wf (fs_tasks s) \<longrightarrow> hm_wf (fs_tasks s') \<and> map_le task_le (fs_tasks s) (fs_tasks s'))
     \<and> map_le run_le (fs_runs s) (fs_runs s')"

lemma task_quiet_le: "task_quiet t t' \<Longrightarrow> task_le t t'"
  by (simp add: task_quiet_def task_same_plan_def task_le_def)

lemma task_ends_le: "task_ends t t' \<Longrightarrow> task_le t t'"
  by (simp add: task_ends_def task_same_plan_def task_le_def)

lemma dep_satisfied_row_le: "task_le t (dep_satisfied_row i ts t)"
  by (auto simp: dep_satisfied_row_def Let_def task_le_def task_frozen_def task_results_def)

lemma run_task_done_le: "run_le run (run_task_done n i ts run)"
  by (simp add: run_task_done_def complete_run_def count_terminal_def run_le_def Let_def
      split: task_state.split)

lemma cancel_tasks_runs:
  "map_le run_le (fs_runs s) (fs_runs (fold (cancel_task r i) ks s))"
proof (induction ks arbitrary: s)
  case (Cons k ks)
  have "map_le run_le (fs_runs s) (fs_runs (cancel_task r i k s))"
    by (auto simp: cancel_task_def run_le_def intro: map_le_modify)
  with Cons show ?case by (auto intro: map_le_trans run_le_trans)
qed (simp add: map_le_refl)

lemma cancel_core_le: "core_le s (fst (fold_run_cancel_requested r i ts s))"
proof -
  let ?s1 = "s\<lparr>fs_runs := hm_modify r (\<lambda>run. run\<lparr>rn_cancel_requested := True, rn_row_version := i\<rparr>) (fs_runs s)\<rparr>"
  let ?s2 = "fold (cancel_task r i) (tasks_to_cancel r s) ?s1"
  have 1: "map_le run_le (fs_runs s) (fs_runs ?s1)"
    by (auto simp: run_le_def intro: map_le_modify)
  have 2: "map_le run_le (fs_runs s) (fs_runs ?s2)"
    by (rule map_le_trans [OF 1 cancel_tasks_runs]) (rule run_le_trans)
  have "map_le run_le (fs_runs ?s2)
      (hm_modify r (\<lambda>run. run\<lparr>rn_state := RS_Cancelled, rn_completed_at := Some ts, rn_row_version := i\<rparr>) (fs_runs ?s2))"
    by (auto simp: run_le_def intro: map_le_modify)
  with 2 have 3: "map_le run_le (fs_runs s)
      (hm_modify r (\<lambda>run. run\<lparr>rn_state := RS_Cancelled, rn_completed_at := Some ts, rn_row_version := i\<rparr>) (fs_runs ?s2))"
    by (rule map_le_trans) (rule run_le_trans)
  have "map_le run_le (fs_runs s) (fs_runs (fst (fold_run_cancel_requested r i ts s)))"
    using 2 3 unfolding fold_run_cancel_requested_def Let_def
    by (simp add: tasks_to_cancel_cong [of "s\<lparr>fs_runs := _\<rparr>" s] map_le_refl split: option.split)
  moreover have "map_le task_le (fs_tasks s) (fs_tasks ?s2)" if "hm_wf (fs_tasks s)"
    using that
    by (auto simp: map_le_def cancel_tasks_get tasks_to_cancel_iff task_le_def cancelled_row_def)
  ultimately show ?thesis
    by (auto simp: core_le_def cancel_run_tasks cancel_tasks_keys map_le_refl)
qed

lemma plan_core_le: "core_le s (fst (fold_plan_created r ds i ts s))"
proof (cases rule: plan_created_cases [of r ds i ts s])
  case drop
  then show ?thesis by (simp add: core_le_def map_le_refl)
next
  case planned
  have "map_le task_le (fs_tasks s) (fs_tasks (fst (fold_plan_created r ds i ts s)))"
    unfolding map_le_def planned(2)
  proof (intro allI impI)
    fix k t assume "hm_get (fs_tasks s) k = Some t"
    moreover from this planned(1) have "fst k \<noteq> r" by fastforce
    ultimately show "\<exists>t'. hm_get (fs_tasks (fold (plan_rows_step r i ts) ds
         (fold (plan_graph_step r) ds
           (s\<lparr>fs_runs := hm_modify r (\<lambda>run. run\<lparr>rn_tasks_total := u32_of_len (length ds),
                                 rn_state := RS_Running, rn_row_version := i\<rparr>) (fs_runs s)\<rparr>)))) k = Some t'
         \<and> task_le t t'"
      by (simp add: plan_rows_get_other)
  qed
  then show ?thesis unfolding core_le_def planned(2)
    by (auto simp: plan_rows_wf run_le_def intro!: map_le_modify)
qed

lemma core_step_le: "core_step P b s s' \<Longrightarrow> core_le s s'"
proof (induction rule: core_step.induct)
  case (CS_quiet s k f)
  then show ?case by (auto simp: core_le_def map_le_refl intro!: map_le_modify intro: task_quiet_le)
next
  case (CS_end s r k t f i ts)
  then show ?case by (auto simp: core_le_def intro!: map_le_modify run_task_done_le intro: task_ends_le)
next
  case (CS_satisfy s r u t d a i ts)
  then show ?case
    by (auto simp: core_le_def satisfy_edge_def Let_def map_le_refl intro!: map_le_modify dep_satisfied_row_le)
next
  case (CS_trigger s r p rk ls cv i ts)
  then show ?case
    by (auto simp: core_le_def fold_run_triggered_def Let_def map_le_refl intro!: map_le_insert_new)
qed (simp_all add: cancel_core_le plan_core_le, simp_all add: core_le_def core_eq_def map_le_refl)

interpretation core_le: core_monotone "\<lambda>_. True" core_le
proof (unfold_locales, goal_cases)
  case (1 s) show ?case by (simp add: core_le_def map_le_refl)
next
  case (2 s s' s'') then show ?case
    unfolding core_le_def
    by (auto intro: map_le_trans [OF _ _ task_le_trans] map_le_trans [OF _ _ run_le_trans])
next
  case (3 s s') then show ?case by (rule core_step_le)
qed

lemma plans_ok_True [simp]: "plans_ok (\<lambda>_. True) d"
  by (simp add: plans_ok_def split: orchestration_event_data.split)

lemma ledger_core_le: "core_le s (fold_events env es s)"
  by (rule core_le.ledger.monotone) simp

lemma map_leD: "map_le le m m' \<Longrightarrow> hm_get m k = Some v \<Longrightarrow> \<exists>v'. hm_get m' k = Some v' \<and> le v v'"
  unfolding map_le_def by blast

lemma ledger_task_le:
  "hm_wf (fs_tasks s) \<Longrightarrow> hm_get (fs_tasks s) k = Some t \<Longrightarrow>
   \<exists>t'. hm_get (fs_tasks (fold_events env es s)) k = Some t' \<and> task_le t t'"
  using ledger_core_le [of s env es] unfolding core_le_def by (blast dest: map_leD)

lemma ledger_run_le:
  "hm_get (fs_runs s) r = Some run \<Longrightarrow> \<exists>run'. hm_get (fs_runs (fold_events env es s)) r = Some run' \<and> run_le run run'"
  using ledger_core_le [of s env es] unfolding core_le_def by (blast dest: map_leD)

section \<open>Properties\<close>

text \<open>C11: No event takes a task out of a terminal state. Whatever is folded after a task has succeeded,
  failed, been skipped or cancelled, its row stays, with the same state, attempt, times and
  results; an output that became visible, or failed to, keeps that visibility.\<close>

theorem terminal_task_final:
  assumes "hm_wf (fs_tasks s)" "hm_get (fs_tasks s) k = Some t" "is_terminal (tk_state t)"
  shows "\<exists>t'. hm_get (fs_tasks (fold_events env es s)) k = Some t' \<and> tk_state t' = tk_state t
    \<and> task_results t' = task_results t
    \<and> (tk_output_visibility_state t = Some OV_Visible \<or> tk_output_visibility_state t = Some OV_Failed
       \<longrightarrow> tk_output_visibility_state t' = tk_output_visibility_state t)"
proof -
  obtain t' where t': "hm_get (fs_tasks (fold_events env es s)) k = Some t'" "task_le t t'"
    using ledger_task_le [OF assms(1,2)] by blast
  then have "task_frozen t t'" using assms(3) by (simp add: task_le_def)
  then have "tk_state t' = tk_state t \<and> task_results t' = task_results t
      \<and> (tk_output_visibility_state t = Some OV_Visible \<or> tk_output_visibility_state t = Some OV_Failed
         \<longrightarrow> tk_output_visibility_state t' = tk_output_visibility_state t)"
    using task_frozen_state [of t t'] unfolding task_frozen_def by blast
  with t' show ?thesis by blast
qed

definition ex_failed :: fold_state where
  "ex_failed = fold_events ex_env [ex_trigger, ex_plan, ex_start, ex_failure] new_fold_state"

definition ex_late_start :: orchestration_event where
  "ex_late_start = ex_event ''5'' (TaskStarted ''r'' ''b'' 1 ''y'' ''w'')"

theorem terminal_task_final_witness:
  "\<exists>t t'. hm_get (fs_tasks ex_failed) (''r'', ''b'') = Some t \<and> tk_state t = TS_Skipped
     \<and> hm_get (fs_tasks (fold_events ex_env [ex_late_start] ex_failed)) (''r'', ''b'') = Some t'
     \<and> tk_state t' = TS_Skipped"
proof -
  obtain t where t: "hm_get (fs_tasks ex_failed) (''r'', ''b'') = Some t" "tk_state t = TS_Skipped"
    by (simp add: ex_failed_def fold_eval)
  have "hm_wf (fs_tasks ex_failed)" by (simp add: ex_failed_def fold_eval)
  from terminal_task_final [OF this t(1), of ex_env "[ex_late_start]"] t show ?thesis by auto
qed

text \<open>C14: A task never goes back to an earlier attempt, and no event removes a task or changes which
  task it is.\<close>

theorem task_attempt_monotone:
  assumes "hm_wf (fs_tasks s)" "hm_get (fs_tasks s) k = Some t"
  shows "\<exists>t'. hm_get (fs_tasks (fold_events env es s)) k = Some t' \<and> tk_attempt t \<le> tk_attempt t'
    \<and> tk_run_id t' = tk_run_id t \<and> tk_task_key t' = tk_task_key t \<and> tk_max_attempts t' = tk_max_attempts t"
  using ledger_task_le [OF assms, of env es] unfolding task_le_def by blast

theorem task_attempt_monotone_witness:
  "\<exists>t t'. hm_get (fs_tasks ex_failed) (''r'', ''a'') = Some t \<and> tk_attempt t = 1
     \<and> hm_get (fs_tasks (fold_events ex_env [ex_late_start] ex_failed)) (''r'', ''a'') = Some t'
     \<and> 1 \<le> tk_attempt t'"
proof -
  obtain t where t: "hm_get (fs_tasks ex_failed) (''r'', ''a'') = Some t" "tk_attempt t = 1"
    by (simp add: ex_failed_def fold_eval)
  have "hm_wf (fs_tasks ex_failed)" by (simp add: ex_failed_def fold_eval)
  from task_attempt_monotone [OF this t(1), of ex_env "[ex_late_start]"] t show ?thesis by auto
qed

text \<open>C15: A run keeps its identity (plan, run key, labels, code version, trigger time), and a
  cancellation once requested stays requested, whatever events follow.\<close>

theorem run_identity_kept:
  assumes "hm_get (fs_runs s) r = Some run"
  shows "\<exists>run'. hm_get (fs_runs (fold_events env es s)) r = Some run' \<and> rn_run_id run' = rn_run_id run
    \<and> rn_plan_id run' = rn_plan_id run \<and> rn_run_key run' = rn_run_key run \<and> rn_labels run' = rn_labels run
    \<and> rn_code_version run' = rn_code_version run \<and> rn_triggered_at run' = rn_triggered_at run
    \<and> (rn_cancel_requested run \<longrightarrow> rn_cancel_requested run')"
  using ledger_run_le [OF assms, of env es] unfolding run_le_def by blast

theorem run_identity_kept_witness:
  "\<exists>run run'. hm_get (fs_runs ex_failed) ''r'' = Some run \<and> rn_plan_id run = ''p''
     \<and> hm_get (fs_runs (fold_events ex_env [ex_late_start] ex_failed)) ''r'' = Some run' \<and> rn_plan_id run' = ''p''"
proof -
  obtain run where run: "hm_get (fs_runs ex_failed) ''r'' = Some run" "rn_plan_id run = ''p''"
    by (simp add: ex_failed_def fold_eval)
  from run_identity_kept [OF run(1), of ex_env "[ex_late_start]"] run show ?thesis by auto
qed

end
