(* ===== verification/Fold_Counters.thy ===== *)
theory Fold_Counters
  imports Fold_Monotone
begin

text \<open>
  The run row as a summary of the task rows. After any ledger whose plans name each task once, the
  six counters of a run are the numbers of its tasks in the corresponding states, and the state of
  a run that has tasks is the outcome those tasks determine. The specification (\<open>run_counts_spec\<close>,
  \<open>run_state_spec\<close>) reads the task table only; the code keeps the run row incrementally, in four
  handlers.
\<close>

section \<open>Specification\<close>

definition count_tasks :: "string \<Rightarrow> (task_state \<Rightarrow> bool) \<Rightarrow> (string \<times> string, task_row) hashmap \<Rightarrow> nat" where
  "count_tasks r P m = length (filter (\<lambda>kt. fst (fst kt) = r \<and> P (tk_state (snd kt))) m)"

text \<open>Total, completed, succeeded, failed, skipped, cancelled.\<close>

type_synonym run_counts = "u32 \<times> u32 \<times> u32 \<times> u32 \<times> u32 \<times> u32"

definition run_counts_spec :: "string \<Rightarrow> (string \<times> string, task_row) hashmap \<Rightarrow> run_counts" where
  "run_counts_spec r m =
     (of_nat (count_tasks r (\<lambda>_. True) m), of_nat (count_tasks r is_terminal m),
      of_nat (count_tasks r ((=) TS_Succeeded) m), of_nat (count_tasks r ((=) TS_Failed) m),
      of_nat (count_tasks r ((=) TS_Skipped) m), of_nat (count_tasks r ((=) TS_Cancelled) m))"

definition run_counts :: "run_row \<Rightarrow> run_counts" where
  "run_counts run =
     (rn_tasks_total run, rn_tasks_completed run, rn_tasks_succeeded run, rn_tasks_failed run,
      rn_tasks_skipped run, rn_tasks_cancelled run)"

definition run_state_spec :: "string \<Rightarrow> (string \<times> string, task_row) hashmap \<Rightarrow> run_state" where
  "run_state_spec r m =
     (if \<exists>kt \<in> set m. fst (fst kt) = r \<and> \<not> is_terminal (tk_state (snd kt)) then RS_Running
      else if \<exists>kt \<in> set m. fst (fst kt) = r \<and> tk_state (snd kt) = TS_Cancelled then RS_Cancelled
      else if \<exists>kt \<in> set m. fst (fst kt) = r \<and> tk_state (snd kt) = TS_Failed then RS_Failed
      else RS_Succeeded)"

definition distinct_plan :: "task_def list \<Rightarrow> bool" where
  "distinct_plan ds \<longleftrightarrow> distinct (map td_key ds)"

section \<open>Counting\<close>

lemma is_terminal_iff: "is_terminal n \<longleftrightarrow> n = TS_Succeeded \<or> n = TS_Failed \<or> n = TS_Skipped \<or> n = TS_Cancelled"
  by (cases n) auto

lemma count_tasks_modify:
  assumes "hm_get m k = Some t"
  shows "count_tasks r P (hm_modify k f m) + of_bool (fst k = r \<and> P (tk_state t))
       = count_tasks r P m + of_bool (fst k = r \<and> P (tk_state (f t)))"
proof -
  obtain xs ys where "m = xs @ (k, t) # ys" "\<And>f. hm_modify k f m = xs @ (k, f t) # ys"
    using hm_modify_split [OF assms] by metis
  then show ?thesis by (simp add: count_tasks_def)
qed

lemma count_tasks_le: "count_tasks r P m \<le> length m"
  by (simp add: count_tasks_def)

lemma count_tasks_mono: "(\<And>x. P x \<Longrightarrow> Q x) \<Longrightarrow> count_tasks r P m \<le> count_tasks r Q m"
  unfolding count_tasks_def by (induction m) auto

lemma count_tasks_all:
  "count_tasks r P m = count_tasks r (\<lambda>_. True) m \<longleftrightarrow>
     \<not> (\<exists>kt \<in> set m. fst (fst kt) = r \<and> \<not> P (tk_state (snd kt)))"
proof (induction m)
  case (Cons x m)
  have "count_tasks r P m \<le> count_tasks r (\<lambda>_. True) m" by (rule count_tasks_mono) simp
  with Cons show ?case by (auto simp: count_tasks_def)
qed (simp add: count_tasks_def)

lemma count_tasks_pos: "count_tasks r P m > 0 \<longleftrightarrow> (\<exists>kt \<in> set m. fst (fst kt) = r \<and> P (tk_state (snd kt)))"
  by (auto simp: count_tasks_def filter_empty_conv)

text \<open>The effect on the counters of one more task in a terminal state.\<close>

definition bump :: "task_state \<Rightarrow> run_counts \<Rightarrow> run_counts" where
  "bump n = (\<lambda>(t, c, su, fa, sk, ca).
     (t, c + 1, su + of_bool (n = TS_Succeeded), fa + of_bool (n = TS_Failed),
      sk + of_bool (n = TS_Skipped), ca + of_bool (n = TS_Cancelled)))"

lemma run_counts_spec_end:
  assumes "hm_get m k = Some t" "\<not> is_terminal (tk_state t)" "is_terminal (tk_state (f t))"
  shows "run_counts_spec r (hm_modify k f m) =
     (if fst k = r then bump (tk_state (f t)) (run_counts_spec r m) else run_counts_spec r m)"
proof -
  note c = count_tasks_modify [OF assms(1), of r _ f]
  have "tk_state t \<notin> {TS_Succeeded, TS_Failed, TS_Skipped, TS_Cancelled}" using assms(2) by auto
  with c [of "\<lambda>_. True"] c [of is_terminal] c [of "(=) TS_Succeeded"] c [of "(=) TS_Failed"]
    c [of "(=) TS_Skipped"] c [of "(=) TS_Cancelled"] assms(2,3)
  show ?thesis by (auto simp: run_counts_spec_def bump_def)
qed

lemma run_counts_spec_same:
  assumes "\<And>t. hm_get m k = Some t \<Longrightarrow> is_terminal (tk_state (f t)) = is_terminal (tk_state t)"
    and "\<And>t. hm_get m k = Some t \<Longrightarrow> is_terminal (tk_state t) \<Longrightarrow> tk_state (f t) = tk_state t"
  shows "run_counts_spec r (hm_modify k f m) = run_counts_spec r m"
proof (cases "hm_get m k")
  case (Some t)
  note c = count_tasks_modify [OF Some, of r _ f]
  have "count_tasks r P (hm_modify k f m) = count_tasks r P m"
    if "P \<in> {\<lambda>_. True, is_terminal, (=) TS_Succeeded, (=) TS_Failed, (=) TS_Skipped, (=) TS_Cancelled}" for P
    using that assms(1,2) [OF Some] c [of P] by (cases "is_terminal (tk_state t)") (auto simp: is_terminal_iff)
  then show ?thesis by (simp add: run_counts_spec_def)
qed (simp add: hm_modify_none)

text \<open>Counts below \<open>2 ^ 32\<close> are read back from the words, so the two specifications agree.\<close>

lemma run_state_spec_counts:
  assumes "length m < 2 ^ 32" "run_counts_spec r m = (t, c, su, fa, sk, ca)"
  shows "run_state_spec r m = (if c \<noteq> t then RS_Running else run_outcome ca fa)"
proof -
  have lt: "count_tasks r P m < 2 ^ 32" for P
    using count_tasks_le [of r P m] assms(1) by simp
  have "c = t \<longleftrightarrow> count_tasks r is_terminal m = count_tasks r (\<lambda>_. True) m"
    using assms(2) of_nat_u32_inj [OF lt lt] by (auto simp: run_counts_spec_def)
  moreover have "ca > 0 \<longleftrightarrow> count_tasks r ((=) TS_Cancelled) m > 0"
    "fa > 0 \<longleftrightarrow> count_tasks r ((=) TS_Failed) m > 0"
    using assms(2) of_nat_u32_inj [OF lt, of 0] by (auto simp: run_counts_spec_def word_gt_0)
  ultimately show ?thesis
    unfolding run_state_spec_def run_outcome_def count_tasks_all count_tasks_pos by auto
qed

section \<open>The invariant\<close>

definition task_ids_ok :: "fold_state \<Rightarrow> bool" where
  "task_ids_ok s \<longleftrightarrow> hm_wf (fs_tasks s) \<and> (\<forall>kt \<in> set (fs_tasks s). tk_run_id (snd kt) = fst (fst kt))"

definition counts_ok :: "fold_state \<Rightarrow> bool" where
  "counts_ok s \<longleftrightarrow>
     (\<forall>r run. hm_get (fs_runs s) r = Some run \<longrightarrow> run_counts run = run_counts_spec r (fs_tasks s))"

definition states_ok :: "fold_state \<Rightarrow> bool" where
  "states_ok s \<longleftrightarrow>
     (\<forall>r run. hm_get (fs_runs s) r = Some run \<longrightarrow> (\<exists>kt \<in> set (fs_tasks s). fst (fst kt) = r) \<longrightarrow>
        rn_state run = run_state_spec r (fs_tasks s))"

definition runs_ok :: "fold_state \<Rightarrow> bool" where
  "runs_ok s \<longleftrightarrow> task_ids_ok s \<and> (length (fs_tasks s) < 2 ^ 32 \<longrightarrow> counts_ok s \<and> states_ok s)"

lemma run_counts_task_done:
  "is_terminal n \<Longrightarrow> run_counts (run_task_done n i ts run) = bump n (run_counts run)"
  by (cases n) (simp_all add: run_task_done_def complete_run_def count_terminal_def run_counts_def
      bump_def Let_def)

lemma run_state_task_done:
  assumes "run_counts (run_task_done n i ts run) = (t, c, su, fa, sk, ca)"
  shows "rn_state (run_task_done n i ts run) = (if c = t then run_outcome ca fa else rn_state run)"
  using assms
  by (cases n) (auto simp: run_task_done_def complete_run_def count_terminal_def run_counts_def Let_def)

lemma task_ids_modify:
  assumes "task_ids_ok s" "\<And>t. hm_get (fs_tasks s) k = Some t \<Longrightarrow> tk_run_id (f t) = tk_run_id t"
    "fs_tasks s' = hm_modify k f (fs_tasks s)"
  shows "task_ids_ok s'"
proof (cases "hm_get (fs_tasks s) k")
  case None
  then show ?thesis using assms by (simp add: task_ids_ok_def hm_modify_none)
next
  case (Some t)
  obtain xs ys where "fs_tasks s = xs @ (k, t) # ys" "\<And>f. hm_modify k f (fs_tasks s) = xs @ (k, f t) # ys"
    using hm_modify_split [OF Some] by metis
  with assms Some show ?thesis by (simp add: task_ids_ok_def)
qed

lemma has_tasks_iff: "(\<exists>kt \<in> set m. fst (fst kt) = r) \<longleftrightarrow> r \<in> fst ` set (hm_keys m)"
  by force

lemma has_tasks_keys:
  "hm_keys m' = hm_keys m \<Longrightarrow> (\<exists>kt \<in> set m'. fst (fst kt) = r) \<longleftrightarrow> (\<exists>kt \<in> set m. fst (fst kt) = r)"
  by (simp only: has_tasks_iff)

lemma has_tasks_modify:
  "(\<exists>kt \<in> set (hm_modify k f m). fst (fst kt) = r) \<longleftrightarrow> (\<exists>kt \<in> set m. fst (fst kt) = r)"
  by (rule has_tasks_keys) simp

lemma length_modify [simp]: "length (hm_modify k f m) = length m"
  by (metis hm_keys_modify length_map)

lemma runs_ok_same:
  assumes "runs_ok s" "fs_runs s' = fs_runs s" "fs_tasks s' = hm_modify k f (fs_tasks s)"
    and f: "\<And>t. hm_get (fs_tasks s) k = Some t \<Longrightarrow> is_terminal (tk_state (f t)) = is_terminal (tk_state t)"
      "\<And>t. hm_get (fs_tasks s) k = Some t \<Longrightarrow> is_terminal (tk_state t) \<Longrightarrow> tk_state (f t) = tk_state t"
      "\<And>t. hm_get (fs_tasks s) k = Some t \<Longrightarrow> tk_run_id (f t) = tk_run_id t"
  shows "runs_ok s'"
proof -
  have c: "run_counts_spec r (hm_modify k f (fs_tasks s)) = run_counts_spec r (fs_tasks s)" for r
    by (rule run_counts_spec_same [OF f(1,2)])
  have "length (fs_tasks s) < 2 ^ 32 \<Longrightarrow>
      run_state_spec r (hm_modify k f (fs_tasks s)) = run_state_spec r (fs_tasks s)" for r
    using c [of r] run_state_spec_counts [where m = "fs_tasks s" and r = r]
      run_state_spec_counts [where m = "hm_modify k f (fs_tasks s)" and r = r]
    by (metis length_modify prod_cases6)
  with assms c task_ids_modify [of s k f s'] show ?thesis
    by (simp add: runs_ok_def counts_ok_def states_ok_def has_tasks_modify)
qed

text \<open>A task ends and its run counts it.\<close>

lemma counts_ok_end:
  assumes "counts_ok s" "hm_get (fs_tasks s) (r, k) = Some t" "\<not> is_terminal (tk_state t)"
    and "is_terminal (tk_state (f t))" "fs_tasks s' = hm_modify (r, k) f (fs_tasks s)"
    and "fs_runs s' = hm_modify r g (fs_runs s)" "\<And>run. run_counts (g run) = bump (tk_state (f t)) (run_counts run)"
  shows "counts_ok s'"
  using assms run_counts_spec_end [where f = f, OF assms(2-4)] by (auto simp: counts_ok_def hm_simps)

lemma runs_ok_end:
  assumes "runs_ok s" "hm_get (fs_tasks s) (r, k) = Some t" "task_ends t (f t)"
    and s': "s' = s\<lparr>fs_tasks := hm_modify (r, k) f (fs_tasks s),
              fs_runs := hm_modify r (run_task_done (tk_state (f t)) i ts) (fs_runs s)\<rparr>"
  shows "runs_ok s'"
proof -
  have t: "\<not> is_terminal (tk_state t)" "is_terminal (tk_state (f t))" "tk_run_id (f t) = tk_run_id t"
    using assms(3) by (auto simp: task_ends_def task_same_plan_def)
  have ids: "task_ids_ok s'"
    by (rule task_ids_modify [of s "(r, k)" f]) (use assms t in \<open>auto simp: runs_ok_def\<close>)
  have "counts_ok s' \<and> states_ok s'" if lt: "length (fs_tasks s) < 2 ^ 32"
  proof
    have c: "counts_ok s" "states_ok s" using assms(1) lt by (auto simp: runs_ok_def)
    show c': "counts_ok s'"
      by (rule counts_ok_end [where f = f, OF c(1) assms(2) t(1,2)]) (use t(2) in \<open>auto simp: s' intro: run_counts_task_done\<close>)
    show "states_ok s'" unfolding states_ok_def
    proof (intro allI impI)
      fix r' run' assume run': "hm_get (fs_runs s') r' = Some run'" "\<exists>kt \<in> set (fs_tasks s'). fst (fst kt) = r'"
      obtain to co su fa sk ca where rc: "run_counts_spec r' (fs_tasks s') = (to, co, su, fa, sk, ca)"
        by (metis prod_cases6)
      have sp: "run_state_spec r' (fs_tasks s') = (if co \<noteq> to then RS_Running else run_outcome ca fa)"
        by (rule run_state_spec_counts [OF _ rc]) (use lt in \<open>simp add: s'\<close>)
      show "rn_state run' = run_state_spec r' (fs_tasks s')"
      proof (cases "r' = r")
        case True
        then obtain run where run: "hm_get (fs_runs s) r = Some run" "run' = run_task_done (tk_state (f t)) i ts run"
          using run'(1) by (auto simp: s' hm_simps)
        have "run_state_spec r (fs_tasks s) = RS_Running"
          using hm_get_in_set [of "fs_tasks s" "(r, k)" t] assms(1,2) t(1)
          by (force simp: run_state_spec_def runs_ok_def task_ids_ok_def)
        then have "rn_state run = RS_Running"
          using c(2) run run'(2) True by (simp add: states_ok_def s' has_tasks_modify)
        moreover have "run_counts run' = (to, co, su, fa, sk, ca)"
          using c' run'(1) rc by (simp add: counts_ok_def)
        ultimately show ?thesis using run_state_task_done run(2) sp by auto
      next
        case False
        then have "run_counts_spec r' (fs_tasks s') = run_counts_spec r' (fs_tasks s)"
          using run_counts_spec_end [where f = f, OF assms(2) t(1,2), of r'] by (simp add: s')
        then have "run_counts_spec r' (fs_tasks s) = (to, co, su, fa, sk, ca)" using rc by simp
        then have "run_state_spec r' (fs_tasks s') = run_state_spec r' (fs_tasks s)"
          using run_state_spec_counts [OF lt] sp by simp
        then show ?thesis using c(2) run' False by (simp add: states_ok_def s' has_tasks_modify hm_simps)
      qed
    qed
  qed
  with ids show ?thesis by (simp add: runs_ok_def s')
qed

section \<open>Cancellation\<close>

lemma tasks_to_cancel_distinct: "hm_wf (fs_tasks s) \<Longrightarrow> distinct (tasks_to_cancel r s)"
  unfolding tasks_to_cancel_def by (rule distinct_map_filter)

lemma cancel_tasks_counts:
  assumes "counts_ok s" "distinct ks"
    and "\<And>k. k \<in> set ks \<Longrightarrow> fst k = r \<and> (\<exists>t. hm_get (fs_tasks s) k = Some t \<and> \<not> is_terminal (tk_state t))"
  shows "counts_ok (fold (cancel_task r i) ks s)"
  using assms
proof (induction ks arbitrary: s)
  case (Cons k ks)
  obtain k' t where k: "k = (r, k')" "hm_get (fs_tasks s) (r, k') = Some t" "\<not> is_terminal (tk_state t)"
    using Cons.prems(3) [of k] by (cases k) auto
  have "counts_ok (cancel_task r i k s)"
    by (rule counts_ok_end [where f = "cancelled_row i" and g = "\<lambda>run. run\<lparr>rn_tasks_cancelled := rn_tasks_cancelled run + 1,
            rn_tasks_completed := rn_tasks_completed run + 1, rn_row_version := i\<rparr>", OF Cons.prems(1) k(2,3)])
      (simp_all add: cancel_task_tasks k(1), simp_all add: cancel_task_def run_counts_def bump_def)
  moreover have "hm_get (fs_tasks (cancel_task r i k s)) k2 = hm_get (fs_tasks s) k2" if "k2 \<in> set ks" for k2
    using that Cons.prems(2) by (auto simp: cancel_task_tasks hm_simps)
  ultimately show ?case using Cons.prems Cons.IH [of "cancel_task r i k s"] by auto
qed simp

lemma cancel_tasks_states: 
  "map_option rn_state (hm_get (fs_runs (fold (cancel_task r i) ks s)) r') = map_option rn_state (hm_get (fs_runs s) r')"
  by (induction ks arbitrary: s) (auto simp: cancel_task_def hm_simps option.map_comp comp_def)

lemma ex_task_get:
  assumes "hm_wf m"
  shows "(\<exists>kt \<in> set m. fst (fst kt) = r \<and> P (snd kt)) \<longleftrightarrow> (\<exists>k t. hm_get m (r, k) = Some t \<and> P t)"
  unfolding hm_get_in_set [OF assms] by force

lemma run_state_spec_get:
  "hm_wf m \<Longrightarrow> run_state_spec r m =
     (if \<exists>k t. hm_get m (r, k) = Some t \<and> \<not> is_terminal (tk_state t) then RS_Running
      else if \<exists>k t. hm_get m (r, k) = Some t \<and> tk_state t = TS_Cancelled then RS_Cancelled
      else if \<exists>k t. hm_get m (r, k) = Some t \<and> tk_state t = TS_Failed then RS_Failed
      else RS_Succeeded)"
  by (simp add: run_state_spec_def ex_task_get [of m r "\<lambda>t. \<not> is_terminal (tk_state t)"]
      ex_task_get [of m r "\<lambda>t. tk_state t = TS_Cancelled"] ex_task_get [of m r "\<lambda>t. tk_state t = TS_Failed"])

lemma run_state_spec_cong:
  "(\<And>k. hm_get m' (r, k) = hm_get m (r, k)) \<Longrightarrow> hm_wf m \<Longrightarrow> hm_wf m' \<Longrightarrow>
   run_state_spec r m' = run_state_spec r m"
  by (simp add: run_state_spec_get)

lemma cancel_tasks_ids: "task_ids_ok s \<Longrightarrow> task_ids_ok (fold (cancel_task r i) ks s)"
proof (induction ks arbitrary: s)
  case (Cons k ks)
  have "task_ids_ok (cancel_task r i k s)"
    by (rule task_ids_modify [OF Cons.prems _ cancel_task_tasks]) (simp add: cancelled_row_def)
  with Cons show ?case by simp
qed simp

lemma run_state_spec_running:
  "run_state_spec r m = RS_Running \<longleftrightarrow> (\<exists>kt \<in> set m. fst (fst kt) = r \<and> \<not> is_terminal (tk_state (snd kt)))"
  by (simp add: run_state_spec_def)

lemma run_state_spec_nonterminal: "\<not> run_is_terminal (run_state_spec r m) \<Longrightarrow> run_state_spec r m = RS_Running"
  by (auto simp: run_state_spec_def split: if_splits)

text \<open>A run that had an open task and has none after the cancellation is cancelled.\<close>

lemma cancelled_run_state:
  assumes wf: "hm_wf m" "hm_wf m'" and open_before: "run_state_spec r m = RS_Running"
    and get: "\<And>k. hm_get m' k = (if k \<in> K then map_option (cancelled_row i) (hm_get m k) else hm_get m k)"
    and closed: "run_state_spec r m' \<noteq> RS_Running"
  shows "run_state_spec r m' = RS_Cancelled"
proof -
  obtain k t where k: "hm_get m (r, k) = Some t" "\<not> is_terminal (tk_state t)"
    using open_before wf(1) by (auto simp: run_state_spec_get split: if_splits)
  then have "(r, k) \<in> K" using closed get [of "(r, k)"] wf(2) by (auto simp: run_state_spec_get split: if_splits)
  then have "hm_get m' (r, k) = Some (cancelled_row i t)" using get [of "(r, k)"] k by simp
  then have "\<exists>k t. hm_get m' (r, k) = Some t \<and> tk_state t = TS_Cancelled" using cancelled_row_facts(2) by blast
  with closed wf(2) show ?thesis by (simp add: run_state_spec_get split: if_splits)
qed

lemma runs_ok_cancel:
  assumes "runs_ok s"
  shows "runs_ok (fst (fold_run_cancel_requested r i ts s))"
proof (cases "case hm_get (fs_runs s) r of None \<Rightarrow> False | Some run \<Rightarrow> run_is_terminal (rn_state run)")
  case True
  then show ?thesis using assms by (simp add: fold_run_cancel_requested_def)
next
  case False
  let ?g = "\<lambda>run. run\<lparr>rn_cancel_requested := True, rn_row_version := i\<rparr>"
  let ?h = "\<lambda>run. run\<lparr>rn_state := RS_Cancelled, rn_completed_at := Some ts, rn_row_version := i\<rparr>"
  define s1 where "s1 = s\<lparr>fs_runs := hm_modify r ?g (fs_runs s)\<rparr>"
  define ks where "ks = tasks_to_cancel r s"
  define s2 where "s2 = fold (cancel_task r i) ks s1"
  define s' where "s' = fst (fold_run_cancel_requested r i ts s)"
  have s': "s' = (case hm_get (fs_runs s2) r of None \<Rightarrow> s2
      | Some run \<Rightarrow> if rn_tasks_completed run = rn_tasks_total run
          then s2\<lparr>fs_runs := hm_modify r ?h (fs_runs s2)\<rparr> else s2)"
    using False tasks_to_cancel_cong [of s1 s r]
    by (simp add: s'_def s2_def s1_def ks_def fold_run_cancel_requested_def Let_def split: option.split)
  have t2: "fs_tasks s' = fs_tasks s2" by (simp add: s' split: option.split)
  have ids: "task_ids_ok s1" "task_ids_ok s2" "hm_wf (fs_tasks s)"
    using assms cancel_tasks_ids [of s1 r i ks] by (simp_all add: s2_def s1_def runs_ok_def task_ids_ok_def)
  have get: "hm_get (fs_tasks s2) k = (if k \<in> set ks then map_option (cancelled_row i) (hm_get (fs_tasks s) k)
      else hm_get (fs_tasks s) k)" for k
    by (simp add: s2_def s1_def cancel_tasks_get)
  have keys: "hm_keys (fs_tasks s2) = hm_keys (fs_tasks s)"
    using cancel_tasks_keys [of r i ks s1] by (simp add: s2_def s1_def)
  have "counts_ok s' \<and> states_ok s'" if lt: "length (fs_tasks s) < 2 ^ 32"
  proof
    have c: "counts_ok s1" "states_ok s"
      using assms lt by (auto simp: runs_ok_def s1_def counts_ok_def run_counts_def hm_simps)
    have c2: "counts_ok s2"
      unfolding s2_def
      by (rule cancel_tasks_counts [OF c(1)])
        (use ids(3) in \<open>auto simp: ks_def s1_def tasks_to_cancel_distinct tasks_to_cancel_iff\<close>)
    have "run_counts (?h run) = run_counts run" for run by (simp add: run_counts_def)
    with c2 show "counts_ok s'"
      by (auto simp: s' counts_ok_def hm_simps split: option.splits if_splits)
    show "states_ok s'" unfolding states_ok_def
    proof (intro allI impI)
      fix r' run' assume run': "hm_get (fs_runs s') r' = Some run'" "\<exists>kt \<in> set (fs_tasks s'). fst (fst kt) = r'"
      then have has: "\<exists>kt \<in> set (fs_tasks s). fst (fst kt) = r'"
        using has_tasks_keys [OF keys, of r'] t2 by simp
      obtain run2 where run2: "hm_get (fs_runs s2) r' = Some run2"
        using run'(1) by (auto simp: s' hm_simps split: option.splits if_splits)
      have "map_option rn_state (hm_get (fs_runs s) r') = Some (rn_state run2)"
        using cancel_tasks_states [of r i ks s1 r'] run2
        by (simp add: s2_def s1_def hm_simps option.map_comp comp_def split: if_splits)
      then obtain run where run: "hm_get (fs_runs s) r' = Some run" "rn_state run2 = rn_state run" by auto
      have st: "rn_state run = run_state_spec r' (fs_tasks s)"
        using c(2) run has by (simp add: states_ok_def)
      show "rn_state run' = run_state_spec r' (fs_tasks s')"
      proof (cases "r' = r")
        case False
        have "run_state_spec r' (fs_tasks s2) = run_state_spec r' (fs_tasks s)"
          by (rule run_state_spec_cong)
            (use False ids get in \<open>auto simp: ks_def tasks_to_cancel_iff task_ids_ok_def\<close>)
        moreover have "run' = run2" using run' run2 False by (auto simp: s' hm_simps split: option.splits if_splits)
        ultimately show ?thesis using st run by (simp add: t2)
      next
        case True
        have running: "run_state_spec r (fs_tasks s) = RS_Running"
          by (rule run_state_spec_nonterminal) (use False run st True in simp)
        obtain to co su fa sk ca where rc: "run_counts_spec r (fs_tasks s2) = (to, co, su, fa, sk, ca)"
          by (metis prod_cases6)
        have "length (fs_tasks s2) < 2 ^ 32" using lt arg_cong [OF keys, of length] by simp
        from run_state_spec_counts [OF this rc]
        have sp: "run_state_spec r (fs_tasks s2) = RS_Running \<longleftrightarrow> co \<noteq> to" by (auto simp: run_outcome_def)
        have "run_counts run2 = (to, co, su, fa, sk, ca)" using c2 run2 True rc by (simp add: counts_ok_def)
        then have "run' = (if co = to then ?h run2 else run2)"
          using run' run2 True by (auto simp: s' run_counts_def hm_simps)
        moreover have "run_state_spec r (fs_tasks s2) = RS_Cancelled" if "co = to"
          by (rule cancelled_run_state [OF ids(3) _ running get])
            (use ids(2) sp that in \<open>auto simp: task_ids_ok_def\<close>)
        ultimately show ?thesis using sp run st running True by (auto simp: t2)
      qed
    qed
  qed
  moreover have "length (fs_tasks s') = length (fs_tasks s)" using t2 arg_cong [OF keys, of length] by simp
  moreover have "task_ids_ok s'" using ids(2) t2 by (simp add: task_ids_ok_def)
  ultimately show ?thesis unfolding s'_def [symmetric] by (simp add: runs_ok_def)
qed

section \<open>Creation\<close>

text \<open>The tally of \<^verbatim>\<open>fold_run_triggered\<close> counts without saturating.\<close>

definition count_rows :: "(task_state \<Rightarrow> bool) \<Rightarrow> task_row list \<Rightarrow> nat" where
  "count_rows P ts = length (filter (\<lambda>t. P (tk_state t)) ts)"

lemma count_rows_append [simp]: "count_rows P (ts @ [t]) = count_rows P ts + of_bool (P (tk_state t))"
  by (simp add: count_rows_def)

lemma count_rows_le: "count_rows P ts \<le> length ts"
  by (simp add: count_rows_def)

lemma tally_counts:
  assumes "length ts < 2 ^ 32"
  shows "ty_total (fold tally_task ts tally_zero) = of_nat (length ts)"
    and "ty_completed (fold tally_task ts tally_zero) = of_nat (count_rows is_terminal ts)"
    and "ty_succeeded (fold tally_task ts tally_zero) = of_nat (count_rows ((=) TS_Succeeded) ts)"
    and "ty_failed (fold tally_task ts tally_zero) = of_nat (count_rows ((=) TS_Failed) ts)"
    and "ty_skipped (fold tally_task ts tally_zero) = of_nat (count_rows ((=) TS_Skipped) ts)"
    and "ty_cancelled (fold tally_task ts tally_zero) = of_nat (count_rows ((=) TS_Cancelled) ts)"
  using assms
proof (induction ts rule: rev_induct)
  case Nil
  {case 1 show ?case by (simp add: tally_zero_def)}
  {case 2 show ?case by (simp add: tally_zero_def count_rows_def)}
  {case 3 show ?case by (simp add: tally_zero_def count_rows_def)}
  {case 4 show ?case by (simp add: tally_zero_def count_rows_def)}
  {case 5 show ?case by (simp add: tally_zero_def count_rows_def)}
  {case 6 show ?case by (simp add: tally_zero_def count_rows_def)}
next
  case (snoc t ts)
  have sat: "length (ts @ [t]) < 2 ^ 32 \<Longrightarrow> n \<le> length ts \<Longrightarrow> saturating_add (of_nat n) 1 = (of_nat (n + 1) :: u32)" for n
    by (subst saturating_add_1) (simp_all add: unat_of_nat_u32)
  note c = count_rows_le [of _ ts]
  {case 1 then show ?case using snoc sat [OF 1, of "length ts"]
      by (auto simp: tally_task_def Let_def split: task_state.split)}
  {case 2 then show ?case using snoc sat [OF 2 c, of is_terminal]
      by (auto simp: tally_task_def Let_def split: task_state.split)}
  {case 3 then show ?case using snoc sat [OF 3 c, of "(=) TS_Succeeded"]
      by (auto simp: tally_task_def Let_def split: task_state.split)}
  {case 4 then show ?case using snoc sat [OF 4 c, of "(=) TS_Failed"]
      by (auto simp: tally_task_def Let_def split: task_state.split)}
  {case 5 then show ?case using snoc sat [OF 5 c, of "(=) TS_Skipped"]
      by (auto simp: tally_task_def Let_def split: task_state.split)}
  {case 6 then show ?case using snoc sat [OF 6 c, of "(=) TS_Cancelled"]
      by (auto simp: tally_task_def Let_def split: task_state.split)}
qed

lemma count_rows_run:
  "task_ids_ok s \<Longrightarrow> count_rows P (filter (\<lambda>t. tk_run_id t = r) (hm_values (fs_tasks s))) = count_tasks r P (fs_tasks s)"
  unfolding task_ids_ok_def count_rows_def count_tasks_def
  by (auto simp: filter_map comp_def intro!: arg_cong [where f = length] filter_cong)

lemma runs_ok_trigger:
  assumes "runs_ok s"
  shows "runs_ok (fst (fold_run_triggered r p rk ls cv i ts s))"
proof (cases "hm_get (fs_runs s) r")
  case None
  define rows where "rows = filter (\<lambda>t. tk_run_id t = r) (hm_values (fs_tasks s))"
  define s' where "s' = fst (fold_run_triggered r p rk ls cv i ts s)"
  have tasks: "fs_tasks s' = fs_tasks s" by (simp add: s'_def fold_run_triggered_def Let_def)
  obtain run where s': "fs_runs s' = hm_insert r run (fs_runs s)"
    and run: "run_counts run = (let y = fold tally_task rows tally_zero in
        (ty_total y, ty_completed y, ty_succeeded y, ty_failed y, ty_skipped y, ty_cancelled y))"
      "rn_state run = (let y = fold tally_task rows tally_zero in
        if ty_total y = 0 then RS_Triggered else if ty_completed y = ty_total y
        then run_outcome (ty_cancelled y) (ty_failed y) else RS_Running)"
    using None by (simp add: s'_def fold_run_triggered_def Let_def run_counts_def rows_def)
  have ids: "task_ids_ok s" using assms by (simp add: runs_ok_def)
  have "counts_ok s' \<and> states_ok s'" if lt: "length (fs_tasks s) < 2 ^ 32"
  proof -
    have c: "counts_ok s" "states_ok s" using assms lt by (auto simp: runs_ok_def)
    have rows: "length rows < 2 ^ 32"
      using lt by (metis length_filter_le length_map order.strict_trans1 rows_def)
    have len: "length rows = count_tasks r (\<lambda>_. True) (fs_tasks s)"
      using count_rows_run [OF ids, of "\<lambda>_. True" r] by (simp add: count_rows_def rows_def)
    have counts: "run_counts run = run_counts_spec r (fs_tasks s)"
      using run(1) tally_counts [OF rows] count_rows_run [OF ids, of _ r] len
      by (simp add: run_counts_spec_def rows_def [symmetric])
    have "rn_state run = run_state_spec r (fs_tasks s)" if "\<exists>kt \<in> set (fs_tasks s). fst (fst kt) = r"
    proof -
      have "count_tasks r (\<lambda>_. True) (fs_tasks s) > 0" using that by (simp add: count_tasks_pos)
      then have "ty_total (fold tally_task rows tally_zero) \<noteq> 0"
        using tally_counts(1) [OF rows] len rows of_nat_u32_inj [of "length rows" 0] by auto
      then show ?thesis
        using run_state_spec_counts [OF lt counts [symmetric, unfolded run(1) Let_def]] run(2)
        by (auto simp: Let_def)
    qed
    with c counts show ?thesis by (auto simp: counts_ok_def states_ok_def s' tasks hm_simps)
  qed
  with ids show ?thesis unfolding s'_def [symmetric] by (simp add: runs_ok_def tasks task_ids_ok_def)
qed (use assms in \<open>simp add: fold_run_triggered_def\<close>)

lemma plan_rows_append:
  assumes "distinct_plan ds" "\<And>d. d \<in> set ds \<Longrightarrow> hm_get (fs_tasks s) (r, td_key d) = None"
  shows "fs_tasks (fold (plan_rows_step r i ts) ds s)
       = fs_tasks s @ map (\<lambda>d. ((r, td_key d), plan_task_row r i ts d)) ds"
  using assms
proof (induction ds arbitrary: s)
  case (Cons d ds)
  let ?s = "plan_rows_step r i ts d s"
  have "fs_tasks ?s = fs_tasks s @ [((r, td_key d), plan_task_row r i ts d)]"
    using Cons.prems(2) [of d] by (simp add: plan_rows_step_def hm_keys_insert_new)
  moreover have "hm_get (fs_tasks ?s) (r, td_key d') = None" if "d' \<in> set ds" for d'
    using that Cons.prems by (auto simp: plan_rows_step_def hm_simps distinct_plan_def image_iff)
  ultimately show ?case using Cons.IH [of ?s] Cons.prems(1) by (simp add: distinct_plan_def)
qed simp

lemma plan_row_open: "\<not> is_terminal (tk_state (plan_task_row r i ts d))" "tk_run_id (plan_task_row r i ts d) = r"
  by (simp_all add: plan_task_row_def Let_def)

lemma no_task_in:
  assumes "\<And>k. hm_get m (r, k) = None" "kt \<in> set m"
  shows "fst (fst kt) \<noteq> r"
proof
  assume "fst (fst kt) = r"
  then have "hm_get m (fst kt) = None" using assms(1) by (cases "fst kt") simp
  with assms(2) show False by (simp add: map_of_eq_None_iff)
qed

lemma count_tasks_none:
  assumes "\<And>k. hm_get m (r, k) = None"
  shows "count_tasks r P m = 0"
  using no_task_in [OF assms] by (simp add: count_tasks_def filter_empty_conv)

lemma count_tasks_plan:
  assumes "\<And>k. hm_get m (r, k) = None"
  shows "count_tasks r' P (m @ map (\<lambda>d. ((r, td_key d), plan_task_row r i ts d)) ds) =
     (if r' = r then length (filter (\<lambda>d. P (tk_state (plan_task_row r i ts d))) ds) else count_tasks r' P m)"
  using count_tasks_none [OF assms, of P] by (simp add: count_tasks_def filter_map comp_def)

lemma runs_ok_plan:
  assumes "runs_ok s" "distinct_plan ds"
  shows "runs_ok (fst (fold_plan_created r ds i ts s))"
proof (cases rule: plan_created_cases [of r ds i ts s])
  case drop
  then show ?thesis using assms by simp
next
  case planned
  let ?g = "\<lambda>run. run\<lparr>rn_tasks_total := u32_of_len (length ds), rn_state := RS_Running, rn_row_version := i\<rparr>"
  define s' where "s' = fst (fold_plan_created r ds i ts s)"
  have none: "hm_get (fs_tasks s) (r, k) = None" for k using planned(1) by simp
  have wf: "hm_wf (fs_tasks s)" using assms(1) by (simp add: runs_ok_def task_ids_ok_def)
  have tasks: "fs_tasks s' = fs_tasks s @ map (\<lambda>d. ((r, td_key d), plan_task_row r i ts d)) ds"
    unfolding s'_def planned(2) by (subst plan_rows_append) (simp_all add: assms(2) none)
  have runs: "fs_runs s' = hm_modify r ?g (fs_runs s)" by (simp add: s'_def planned(2))
  have "hm_wf (fs_tasks s')" using wf unfolding s'_def planned(2) by (intro plan_rows_wf) simp
  then have ids: "task_ids_ok s'"
    using assms(1) tasks by (auto simp: task_ids_ok_def runs_ok_def plan_row_open)
  have nt: "n \<noteq> tk_state (plan_task_row r i ts d)" if "is_terminal n" for d n
    using plan_row_open(1) [of r i ts d] that by auto
  note z = count_tasks_none [OF none]
  have spec: "run_counts_spec r' (fs_tasks s') =
      (if r' = r then (of_nat (length ds), 0, 0, 0, 0, 0) else run_counts_spec r' (fs_tasks s))" for r'
    by (simp add: run_counts_spec_def tasks count_tasks_plan [OF none] nt plan_row_open)
  have "counts_ok s' \<and> states_ok s'" if lt: "length (fs_tasks s') < 2 ^ 32"
  proof
    have lts: "length (fs_tasks s) < 2 ^ 32" "length ds < 2 ^ 32" using lt by (simp_all add: tasks)
    have c: "counts_ok s" "states_ok s" using assms(1) lts(1) by (auto simp: runs_ok_def)
    have g: "run_counts (?g run) = (of_nat (length ds), 0, 0, 0, 0, 0)"
      if "hm_get (fs_runs s) r = Some run" for run
      using c(1) that z lts(2) by (auto simp: counts_ok_def run_counts_def run_counts_spec_def)
    with c(1) spec show "counts_ok s'" by (auto simp: counts_ok_def runs hm_simps)
    show "states_ok s'" unfolding states_ok_def
    proof (intro allI impI)
      fix r' run' assume run': "hm_get (fs_runs s') r' = Some run'" "\<exists>kt \<in> set (fs_tasks s'). fst (fst kt) = r'"
      show "rn_state run' = run_state_spec r' (fs_tasks s')"
      proof (cases "r' = r")
        case True
        have "ds \<noteq> []" using run'(2) True no_task_in [OF none] by (auto simp: tasks)
        then have "run_state_spec r (fs_tasks s') = RS_Running"
          using plan_row_open(1) by (cases ds) (auto simp: run_state_spec_running tasks)
        then show ?thesis using run'(1) True by (auto simp: runs hm_simps)
      next
        case False
        then have "run_state_spec r' (fs_tasks s') = run_state_spec r' (fs_tasks s)"
          by (auto simp: run_state_spec_def tasks)
        moreover have "\<exists>kt \<in> set (fs_tasks s). fst (fst kt) = r'" using run'(2) False by (auto simp: tasks)
        ultimately show ?thesis using c(2) run' False by (auto simp: states_ok_def runs hm_simps)
      qed
    qed
  qed
  with ids show ?thesis unfolding s'_def [symmetric] by (simp add: runs_ok_def)
qed

lemma runs_ok_cong: "runs_ok s \<Longrightarrow> fs_runs s' = fs_runs s \<Longrightarrow> fs_tasks s' = fs_tasks s \<Longrightarrow> runs_ok s'"
  by (simp add: runs_ok_def task_ids_ok_def counts_ok_def states_ok_def)

lemma task_quietD:
  assumes "task_quiet t t'"
  shows "is_terminal (tk_state t') = is_terminal (tk_state t)" "tk_run_id t' = tk_run_id t"
    "is_terminal (tk_state t) \<Longrightarrow> tk_state t' = tk_state t"
  using assms task_frozen_state unfolding task_quiet_def task_same_plan_def by blast+

lemma dep_satisfied_rowD:
  "is_terminal (tk_state (dep_satisfied_row i ts t)) = is_terminal (tk_state t)"
  "tk_run_id (dep_satisfied_row i ts t) = tk_run_id t"
  "is_terminal (tk_state t) \<Longrightarrow> tk_state (dep_satisfied_row i ts t) = tk_state t"
  by (auto simp: dep_satisfied_row_def Let_def)

lemma runs_ok_step: "core_step distinct_plan True s s' \<Longrightarrow> runs_ok s \<Longrightarrow> runs_ok s'"
proof (induction rule: core_step.induct)
  case (CS_quiet s k f)
  show ?case
  proof (rule runs_ok_same [OF CS_quiet.prems, of _ k f])
    fix t assume "hm_get (fs_tasks s) k = Some t"
    then have q: "task_quiet t (f t)" by (rule CS_quiet.hyps)
    show "is_terminal (tk_state (f t)) = is_terminal (tk_state t)" "tk_run_id (f t) = tk_run_id t"
      by (rule task_quietD [OF q])+
    show "tk_state (f t) = tk_state t" if "is_terminal (tk_state t)" by (rule task_quietD(3) [OF q that])
  qed simp_all
next
  case (CS_end s r k t f i ts)
  show ?case by (rule runs_ok_end [where f = f, OF CS_end.prems CS_end.hyps(2,3) refl])
next
  case (CS_satisfy s r u t d a i ts)
  show ?case
  proof (cases "case hm_get (fs_dep_satisfaction s) (r, u, d) of None \<Rightarrow> False | Some e \<Rightarrow> dp_satisfied e")
    case True
    show ?thesis by (rule runs_ok_cong [OF CS_satisfy.prems]) (simp_all add: satisfy_edge_def True)
  next
    case False
    show ?thesis
      by (rule runs_ok_same [where k = "(r, d)" and f = "dep_satisfied_row i ts", OF CS_satisfy.prems])
        (simp_all add: satisfy_edge_def False dep_satisfied_rowD)
  qed
next
  case (CS_frame s s')
  show ?case by (rule runs_ok_cong [OF CS_frame.prems]) (use CS_frame.hyps in \<open>simp_all add: core_eq_def\<close>)
next
  case (CS_unsatisfied s r u t d e)
  show ?case by (rule runs_ok_cong [OF CS_unsatisfied.prems]) simp_all
qed (rule runs_ok_cancel runs_ok_trigger runs_ok_plan; assumption)+

interpretation runs_ok: core_invariant distinct_plan runs_ok
  by unfold_locales (rule runs_ok_step)

lemma runs_ok_new: "runs_ok new_fold_state"
  by (simp add: runs_ok_def task_ids_ok_def counts_ok_def states_ok_def new_fold_state_def)

lemma runs_ok_ledger:
  "(\<And>e. e \<in> set es \<Longrightarrow> plans_ok distinct_plan (ev_data e)) \<Longrightarrow> runs_ok (fold_events env es new_fold_state)"
  by (rule runs_ok.ledger.events [OF runs_ok_new])

section \<open>Properties\<close>

text \<open>C2: The counters of a run are exact. After any ledger, in any order and with any duplicates,
  whose plans name each task once, the total, completed, succeeded, failed, skipped and cancelled
  counters of every run are the numbers of its tasks in those states, as long as there are fewer
  than \<open>2 ^ 32\<close> tasks.\<close>

theorem run_counters_exact:
  assumes "list_all (\<lambda>e. plans_ok distinct_plan (ev_data e)) es"
    and "S = fold_events env es new_fold_state" "length (fs_tasks S) < 2 ^ 32"
    and "hm_get (fs_runs S) r = Some run"
  shows "unat (rn_tasks_total run) = count_tasks r (\<lambda>_. True) (fs_tasks S)
    \<and> unat (rn_tasks_completed run) = count_tasks r is_terminal (fs_tasks S)
    \<and> unat (rn_tasks_succeeded run) = count_tasks r ((=) TS_Succeeded) (fs_tasks S)
    \<and> unat (rn_tasks_failed run) = count_tasks r ((=) TS_Failed) (fs_tasks S)
    \<and> unat (rn_tasks_skipped run) = count_tasks r ((=) TS_Skipped) (fs_tasks S)
    \<and> unat (rn_tasks_cancelled run) = count_tasks r ((=) TS_Cancelled) (fs_tasks S)"
proof -
  have "runs_ok S" using runs_ok_ledger [of es env] assms(1,2) by (simp add: list_all_iff)
  then have c: "run_counts run = run_counts_spec r (fs_tasks S)"
    using assms(3,4) by (auto simp: runs_ok_def counts_ok_def)
  have "unat (of_nat (count_tasks r P (fs_tasks S)) :: u32) = count_tasks r P (fs_tasks S)" for P
    using le_less_trans [OF count_tasks_le assms(3)] by (rule unat_of_nat_u32)
  with c show ?thesis by (simp add: run_counts_def run_counts_spec_def)
qed

definition ex_failed_ledger :: "orchestration_event list" where
  "ex_failed_ledger = [ex_trigger, ex_plan, ex_start, ex_failure, ex_failure]"

theorem run_counters_exact_witness:
  "\<exists>run. hm_get (fs_runs (fold_events ex_env ex_failed_ledger new_fold_state)) ''r'' = Some run
     \<and> unat (rn_tasks_skipped run) = 1 \<and> unat (rn_tasks_total run) = 2"
proof -
  let ?S = "fold_events ex_env ex_failed_ledger new_fold_state"
  have ok: "list_all (\<lambda>e. plans_ok distinct_plan (ev_data e)) ex_failed_ledger" "length (fs_tasks ?S) < 2 ^ 32"
    by (simp_all add: ex_failed_ledger_def fold_eval plans_ok_def distinct_plan_def)
  have count: "count_tasks ''r'' ((=) TS_Skipped) (fs_tasks ?S) = 1" "count_tasks ''r'' (\<lambda>_. True) (fs_tasks ?S) = 2"
    by (simp_all add: ex_failed_ledger_def fold_eval count_tasks_def)
  obtain run where "hm_get (fs_runs ?S) ''r'' = Some run" by (simp add: ex_failed_ledger_def fold_eval)
  with run_counters_exact [OF ok(1) refl ok(2) this] count show ?thesis by auto
qed

text \<open>C1: The state of a run is the outcome its tasks determine. After any ledger whose plans name
  each task once, a run that has tasks is \<^verbatim>\<open>RUNNING\<close> exactly while one of them is not terminal;
  after that it is \<^verbatim>\<open>CANCELLED\<close> if a task was cancelled, otherwise \<^verbatim>\<open>FAILED\<close> if a task failed,
  otherwise \<^verbatim>\<open>SUCCEEDED\<close>.\<close>

theorem run_state_exact:
  assumes "list_all (\<lambda>e. plans_ok distinct_plan (ev_data e)) es"
    and "S = fold_events env es new_fold_state" "length (fs_tasks S) < 2 ^ 32"
    and "hm_get (fs_runs S) r = Some run" "hm_get (fs_tasks S) (r, k) = Some t"
  shows "rn_state run = run_state_spec r (fs_tasks S)"
proof -
  have "runs_ok S" using runs_ok_ledger [of es env] assms(1,2) by (simp add: list_all_iff)
  moreover have "((r, k), t) \<in> set (fs_tasks S)" using assms(5) by (rule map_of_SomeD)
  then have "\<exists>kt \<in> set (fs_tasks S). fst (fst kt) = r" by force
  ultimately show ?thesis using assms(3,4) by (auto simp: runs_ok_def states_ok_def)
qed

theorem run_state_exact_witness:
  "\<exists>run. hm_get (fs_runs (fold_events ex_env ex_failed_ledger new_fold_state)) ''r'' = Some run
     \<and> rn_state run = RS_Failed"
proof -
  let ?S = "fold_events ex_env ex_failed_ledger new_fold_state"
  have ok: "list_all (\<lambda>e. plans_ok distinct_plan (ev_data e)) ex_failed_ledger" "length (fs_tasks ?S) < 2 ^ 32"
    by (simp_all add: ex_failed_ledger_def fold_eval plans_ok_def distinct_plan_def)
  have spec: "run_state_spec ''r'' (fs_tasks ?S) = RS_Failed"
    by (simp add: ex_failed_ledger_def fold_eval run_state_spec_def)
  obtain t where t: "hm_get (fs_tasks ?S) (''r'', ''a'') = Some t" by (simp add: ex_failed_ledger_def fold_eval)
  obtain run where "hm_get (fs_runs ?S) ''r'' = Some run" by (simp add: ex_failed_ledger_def fold_eval)
  with run_state_exact [OF ok(1) refl ok(2) this t] spec show ?thesis by auto
qed

end
