(* ===== verification/Fold_Deps.thy ===== *)
theory Fold_Deps
  imports Fold_Counters
begin

text \<open>
  Dependencies. A task is released, that is becomes \<^verbatim>\<open>READY\<close>, only when every task it depends on
  has succeeded, and a task that is still \<^verbatim>\<open>BLOCKED\<close> has a dependency that has not. The code
  tracks this through a counter per task and a row per edge; the invariant \<open>deps_ok\<close> ties both to
  the plan and to the states of the upstream tasks.
\<close>

section \<open>The invariant\<close>

definition edge_sat :: "fold_state \<Rightarrow> string \<Rightarrow> string \<Rightarrow> string \<Rightarrow> bool" where
  "edge_sat s r u d = (case hm_get (fs_dep_satisfaction s) (r, u, d) of None \<Rightarrow> False | Some e \<Rightarrow> dp_satisfied e)"

definition succeeded :: "fold_state \<Rightarrow> string \<Rightarrow> string \<Rightarrow> bool" where
  "succeeded s r u = (case hm_get (fs_tasks s) (r, u) of None \<Rightarrow> False | Some t \<Rightarrow> tk_state t = TS_Succeeded)"

text \<open>A plan that names each task once and each dependency of a task once.\<close>

definition simple_plan :: "task_def list \<Rightarrow> bool" where
  "simple_plan ds \<longleftrightarrow>
     distinct (map td_key ds)
     \<and> (\<forall>d \<in> set ds. distinct (td_depends_on d) \<and> length (td_depends_on d) < 2 ^ 32)"

text \<open>The dependency bookkeeping of one task whose dependencies are \<open>D\<close>.\<close>

definition deps_row_ok :: "(string \<Rightarrow> bool) \<Rightarrow> string list \<Rightarrow> task_row \<Rightarrow> bool" where
  "deps_row_ok sat D t \<longleftrightarrow>
     distinct D \<and> length D < 2 ^ 32 \<and> tk_deps_total t = of_nat (length D)
     \<and> tk_deps_satisfied_count t = of_nat (length (filter sat D))
     \<and> (tk_state t = TS_Ready \<longrightarrow> list_all sat D) \<and> (tk_state t = TS_Blocked \<longrightarrow> \<not> list_all sat D)
     \<and> tk_state t \<noteq> TS_Planned"

definition deps_ok :: "fold_state \<Rightarrow> bool" where
  "deps_ok s \<longleftrightarrow>
     hm_wf (fs_tasks s)
     \<and> (\<forall>r u d. d \<in> set (get_dependents s r u) \<longleftrightarrow>
          (\<exists>D. hm_get (fs_task_dependencies s) (r, d) = Some D \<and> u \<in> set D))
     \<and> (\<forall>r d. hm_get (fs_task_dependencies s) (r, d) \<noteq> None \<longrightarrow> hm_get (fs_tasks s) (r, d) \<noteq> None)
     \<and> (\<forall>r d t. hm_get (fs_tasks s) (r, d) = Some t \<longrightarrow>
          (\<exists>D. hm_get (fs_task_dependencies s) (r, d) = Some D \<and> deps_row_ok (\<lambda>u. edge_sat s r u d) D t))
     \<and> (\<forall>r u d. edge_sat s r u d \<longrightarrow> succeeded s r u)"

lemma succeeded_iff: "succeeded s r u \<longleftrightarrow> (\<exists>t. hm_get (fs_tasks s) (r, u) = Some t \<and> tk_state t = TS_Succeeded)"
  by (simp add: succeeded_def split: option.split)

lemma deps_ok_wf: "deps_ok s \<Longrightarrow> hm_wf (fs_tasks s)"
  unfolding deps_ok_def by blast

lemma deps_ok_dependents:
  "deps_ok s \<Longrightarrow> d \<in> set (get_dependents s r u) \<longleftrightarrow>
     (\<exists>D. hm_get (fs_task_dependencies s) (r, d) = Some D \<and> u \<in> set D)"
  unfolding deps_ok_def by blast

lemma deps_ok_row:
  "deps_ok s \<Longrightarrow> hm_get (fs_tasks s) (r, d) = Some t \<Longrightarrow>
     \<exists>D. hm_get (fs_task_dependencies s) (r, d) = Some D \<and> deps_row_ok (\<lambda>u. edge_sat s r u d) D t"
  unfolding deps_ok_def by blast

lemma deps_ok_planned:
  "deps_ok s \<Longrightarrow> hm_get (fs_task_dependencies s) (r, d) \<noteq> None \<Longrightarrow> hm_get (fs_tasks s) (r, d) \<noteq> None"
  unfolding deps_ok_def by blast

lemma deps_ok_sat: "deps_ok s \<Longrightarrow> edge_sat s r u d \<Longrightarrow> succeeded s r u"
  unfolding deps_ok_def by blast

text \<open>Rows may change as long as their dependency bookkeeping stays right and successes stay.\<close>

lemma deps_ok_rows:
  assumes "deps_ok s" "hm_wf (fs_tasks s')"
    and graph: "fs_task_dependents s' = fs_task_dependents s" "fs_task_dependencies s' = fs_task_dependencies s"
    and dom: "\<And>k. hm_get (fs_tasks s') k = None \<longleftrightarrow> hm_get (fs_tasks s) k = None"
    and rows: "\<And>r d t t' D. hm_get (fs_tasks s) (r, d) = Some t \<Longrightarrow> hm_get (fs_tasks s') (r, d) = Some t' \<Longrightarrow>
        hm_get (fs_task_dependencies s) (r, d) = Some D \<Longrightarrow>
        deps_row_ok (\<lambda>u. edge_sat s r u d) D t \<Longrightarrow> deps_row_ok (\<lambda>u. edge_sat s' r u d) D t'"
    and sat: "\<And>r u d. edge_sat s' r u d \<Longrightarrow> succeeded s' r u"
  shows "deps_ok s'"
  unfolding deps_ok_def
proof (intro conjI allI impI)
  show "hm_wf (fs_tasks s')" by (rule assms(2))
  show "d \<in> set (get_dependents s' r u) \<longleftrightarrow>
      (\<exists>D. hm_get (fs_task_dependencies s') (r, d) = Some D \<and> u \<in> set D)" for r u d
    using deps_ok_dependents [OF assms(1)] get_dependents_cong [OF graph(1)] graph(2) by simp
  show "hm_get (fs_tasks s') (r, d) \<noteq> None" if "hm_get (fs_task_dependencies s') (r, d) \<noteq> None" for r d
    using deps_ok_planned [OF assms(1), of r d] that graph(2) dom by simp
  show "\<exists>D. hm_get (fs_task_dependencies s') (r, d) = Some D \<and> deps_row_ok (\<lambda>u. edge_sat s' r u d) D t'"
    if t': "hm_get (fs_tasks s') (r, d) = Some t'" for r d t'
  proof -
    obtain t where t: "hm_get (fs_tasks s) (r, d) = Some t" using dom [of "(r, d)"] t' by fastforce
    from deps_ok_row [OF assms(1) t] obtain D
      where D: "hm_get (fs_task_dependencies s) (r, d) = Some D" "deps_row_ok (\<lambda>u. edge_sat s r u d) D t" by blast
    with rows [OF t t' D] graph(2) show ?thesis by auto
  qed
qed (rule sat)

section \<open>Steps\<close>

lemma deps_row_ok_state:
  assumes "deps_row_ok sat D t" "task_same_plan t t'"
    and "tk_state t' \<in> {TS_Planned, TS_Blocked, TS_Ready} \<Longrightarrow> tk_state t' = tk_state t"
  shows "deps_row_ok sat D t'"
  using assms unfolding deps_row_ok_def task_same_plan_def by auto

lemma edge_sat_cong: "fs_dep_satisfaction s' = fs_dep_satisfaction s \<Longrightarrow> edge_sat s' = edge_sat s"
  by (intro ext) (simp add: edge_sat_def)

lemma deps_ok_modify:
  assumes "deps_ok s"
    and f: "\<And>t. hm_get (fs_tasks s) k = Some t \<Longrightarrow> task_same_plan t (f t)"
      "\<And>t. hm_get (fs_tasks s) k = Some t \<Longrightarrow>
         tk_state (f t) \<in> {TS_Planned, TS_Blocked, TS_Ready} \<Longrightarrow> tk_state (f t) = tk_state t"
      "\<And>t. hm_get (fs_tasks s) k = Some t \<Longrightarrow> tk_state t = TS_Succeeded \<Longrightarrow> tk_state (f t) = TS_Succeeded"
    and s': "fs_tasks s' = hm_modify k f (fs_tasks s)" "fs_dep_satisfaction s' = fs_dep_satisfaction s"
      "fs_task_dependents s' = fs_task_dependents s" "fs_task_dependencies s' = fs_task_dependencies s"
  shows "deps_ok s'"
proof (rule deps_ok_rows [OF assms(1) _ s'(3,4)])
  note sat = edge_sat_cong [OF s'(2)]
  show "hm_wf (fs_tasks s')" using deps_ok_wf [OF assms(1)] by (simp add: s'(1))
  show "hm_get (fs_tasks s') k' = None \<longleftrightarrow> hm_get (fs_tasks s) k' = None" for k' by (simp add: s'(1) hm_simps)
  show "deps_row_ok (\<lambda>u. edge_sat s' r u d) D t'"
    if "hm_get (fs_tasks s) (r, d) = Some t" "hm_get (fs_tasks s') (r, d) = Some t'"
      "deps_row_ok (\<lambda>u. edge_sat s r u d) D t" for r d t t' D
  proof (cases "k = (r, d)")
    case True
    then have "t' = f t" using that by (simp add: s'(1) hm_simps)
    then show ?thesis using f(1,2) [of t] that True deps_row_ok_state by (simp add: sat)
  next
    case False
    then show ?thesis using that by (simp add: s'(1) hm_simps sat)
  qed
  show "succeeded s' r u" if "edge_sat s' r u d" for r u d
  proof -
    from deps_ok_sat [OF assms(1), of r u d] that
    obtain t where "hm_get (fs_tasks s) (r, u) = Some t" "tk_state t = TS_Succeeded"
      by (auto simp: sat succeeded_iff)
    then show ?thesis using f(3) [of t] by (auto simp: succeeded_def s'(1) hm_simps)
  qed
qed

lemma deps_ok_cong:
  "deps_ok s \<Longrightarrow> fs_tasks s' = fs_tasks s \<Longrightarrow> edge_sat s' = edge_sat s \<Longrightarrow>
   fs_task_dependents s' = fs_task_dependents s \<Longrightarrow> fs_task_dependencies s' = fs_task_dependencies s \<Longrightarrow> deps_ok s'"
  using get_dependents_cong [of s' s] by (simp add: deps_ok_def succeeded_def)

text \<open>One more satisfied edge.\<close>

lemma length_filter_insert:
  "distinct D \<Longrightarrow> u \<in> set D \<Longrightarrow> \<not> P u \<Longrightarrow>
   length (filter (\<lambda>x. x = u \<or> P x) D) = length (filter P D) + 1"
proof (induction D)
  case (Cons a D)
  show ?case
  proof (cases "a = u")
    case True
    then have "filter (\<lambda>x. x = u \<or> P x) D = filter P D" using Cons.prems by (intro filter_cong) auto
    with True Cons.prems show ?thesis by simp
  next
    case False
    then show ?thesis using Cons by simp
  qed
qed simp

lemma list_all_length_filter: "list_all P D \<longleftrightarrow> length (filter P D) = length D"
proof (induction D)
  case (Cons a D)
  have "length (filter P D) \<noteq> Suc (length D)" using length_filter_le [of P D] by (metis Suc_n_not_le_n)
  with Cons show ?case by auto
qed simp

lemma deps_row_ok_satisfied:
  assumes "deps_row_ok sat D t" "u \<in> set D" "\<not> sat u"
  shows "deps_row_ok (\<lambda>x. x = u \<or> sat x) D (dep_satisfied_row i ts t)"
proof -
  let ?sat = "\<lambda>x. x = u \<or> sat x"
  have D: "distinct D" "length D < 2 ^ 32" "tk_deps_total t = of_nat (length D)"
    "tk_deps_satisfied_count t = of_nat (length (filter sat D))"
    using assms(1) by (auto simp: deps_row_ok_def)
  have n: "length (filter ?sat D) = length (filter sat D) + 1"
    by (rule length_filter_insert) (use D(1) assms in auto)
  have c: "tk_deps_satisfied_count t + 1 = of_nat (length (filter ?sat D))"
    using n by (simp add: D(4))
  have released: "tk_deps_satisfied_count t + 1 = tk_deps_total t \<longleftrightarrow> list_all ?sat D"
    unfolding c D(3) list_all_length_filter by (rule of_nat_u32_inj [OF le_less_trans [OF length_filter_le D(2)] D(2)])
  have "tk_state t \<noteq> TS_Ready" "tk_state t \<noteq> TS_Planned"
    using assms by (auto simp: deps_row_ok_def list_all_iff)
  then show ?thesis
    unfolding deps_row_ok_def dep_satisfied_row_def Let_def
    using D(2) by (auto simp: D(1,3) c [symmetric] released [symmetric])
qed

lemma deps_ok_satisfy:
  assumes "deps_ok s" "succeeded s r u" "d \<in> set (get_dependents s r u)"
  shows "deps_ok (satisfy_edge r u res a i ts d s)"
proof -
  define s' where "s' = satisfy_edge r u res a i ts d s"
  have sat: "edge_sat s' r' u' d' \<longleftrightarrow> (r' = r \<and> u' = u \<and> d' = d) \<or> edge_sat s r' u' d'" for r' u' d'
    by (auto simp: s'_def edge_sat_def satisfy_edge_def Let_def hm_simps)
  have graph: "fs_task_dependents s' = fs_task_dependents s" "fs_task_dependencies s' = fs_task_dependencies s"
    by (simp_all add: s'_def satisfy_edge_def Let_def)
  have tasks: "fs_tasks s' = (if edge_sat s r u d then fs_tasks s
      else hm_modify (r, d) (dep_satisfied_row i ts) (fs_tasks s))"
    by (simp add: s'_def satisfy_edge_def edge_sat_def Let_def)
  have "deps_ok s'"
  proof (cases "edge_sat s r u d")
    case True
    then have "edge_sat s' = edge_sat s" using sat by (intro ext) auto
    with True show ?thesis by (intro deps_ok_cong [OF assms(1) _ _ graph]) (simp_all add: tasks)
  next
    case False
    with tasks have tasks: "fs_tasks s' = hm_modify (r, d) (dep_satisfied_row i ts) (fs_tasks s)" by simp
    obtain D where D: "hm_get (fs_task_dependencies s) (r, d) = Some D" "u \<in> set D"
      using deps_ok_dependents [OF assms(1)] assms(3) by blast
    show ?thesis
    proof (rule deps_ok_rows [OF assms(1) _ graph])
      show "hm_wf (fs_tasks s')" using deps_ok_wf [OF assms(1)] by (simp add: tasks)
      show "hm_get (fs_tasks s') k = None \<longleftrightarrow> hm_get (fs_tasks s) k = None" for k by (simp add: tasks hm_simps)
      show "deps_row_ok (\<lambda>u. edge_sat s' r' u d') D' t'"
        if t: "hm_get (fs_tasks s) (r', d') = Some t" "hm_get (fs_tasks s') (r', d') = Some t'"
          "hm_get (fs_task_dependencies s) (r', d') = Some D'" "deps_row_ok (\<lambda>u. edge_sat s r' u d') D' t"
        for r' d' t t' D'
      proof (cases "(r', d') = (r, d)")
        case True
        then have "D' = D" "t' = dep_satisfied_row i ts t" using t D by (simp_all add: tasks hm_simps)
        moreover have "(\<lambda>x. edge_sat s' r x d) = (\<lambda>x. x = u \<or> edge_sat s r x d)" using sat by auto
        ultimately show ?thesis
          using deps_row_ok_satisfied [OF t(4), of u i ts] D(2) False True by simp
      next
        case False
        then have "t' = t" "(\<lambda>u. edge_sat s' r' u d') = (\<lambda>u. edge_sat s r' u d')"
          using t sat by (auto simp: tasks hm_simps)
        then show ?thesis using t(4) by simp
      qed
      show "succeeded s' r' u'" if "edge_sat s' r' u' d'" for r' u' d'
      proof -
        have "succeeded s r' u'" using that sat [of r' u' d'] assms(2) deps_ok_sat [OF assms(1), of r' u' d'] by auto
        then show ?thesis by (auto simp: succeeded_iff tasks hm_simps)
      qed
    qed
  qed
  then show ?thesis by (simp add: s'_def)
qed

lemma deps_ok_unsatisfied:
  assumes "deps_ok s" "\<not> succeeded s r u" "\<not> dp_satisfied e"
  shows "deps_ok (s\<lparr>fs_dep_satisfaction := hm_insert (r, u, d) e (fs_dep_satisfaction s)\<rparr>)"
proof (rule deps_ok_cong [OF assms(1)])
  have "\<not> edge_sat s r u d" using assms(2) deps_ok_sat [OF assms(1)] by blast
  then show "edge_sat (s\<lparr>fs_dep_satisfaction := hm_insert (r, u, d) e (fs_dep_satisfaction s)\<rparr>) = edge_sat s"
    using assms(3) by (intro ext) (auto simp: edge_sat_def hm_simps)
qed simp_all

lemma cancelled_row_plan [simp]: "task_same_plan t (cancelled_row i t)"
  by (simp add: task_same_plan_def cancelled_row_def)

lemma cancel_run_frame:
  "fs_dep_satisfaction (fst (fold_run_cancel_requested r i ts s)) = fs_dep_satisfaction s"
  "fs_task_dependencies (fst (fold_run_cancel_requested r i ts s)) = fs_task_dependencies s"
  "fs_task_dependents (fst (fold_run_cancel_requested r i ts s)) = fs_task_dependents s"
proof -
  have "fs_dep_satisfaction (fold (cancel_task r i) ks s) = fs_dep_satisfaction s"
    "fs_task_dependencies (fold (cancel_task r i) ks s) = fs_task_dependencies s"
    "fs_task_dependents (fold (cancel_task r i) ks s) = fs_task_dependents s" for ks s
    by (induction ks arbitrary: s) (simp_all add: cancel_task_def)
  then show "fs_dep_satisfaction (fst (fold_run_cancel_requested r i ts s)) = fs_dep_satisfaction s"
    "fs_task_dependencies (fst (fold_run_cancel_requested r i ts s)) = fs_task_dependencies s"
    "fs_task_dependents (fst (fold_run_cancel_requested r i ts s)) = fs_task_dependents s"
    unfolding fold_run_cancel_requested_def Let_def by (simp_all split: option.split)
qed

text \<open>Which tasks a cancellation ends, as a function of the row.\<close>

lemma cancel_run_get:
  assumes "hm_wf (fs_tasks s)"
  obtains "fs_tasks (fst (fold_run_cancel_requested r i ts s)) = fs_tasks s"
      "\<exists>run. hm_get (fs_runs s) r = Some run \<and> run_is_terminal (rn_state run)"
  | "\<And>k. hm_get (fs_tasks (fst (fold_run_cancel_requested r i ts s))) k =
       map_option (\<lambda>t. if fst k = r \<and> \<not> is_terminal (tk_state t) \<and> tk_state t \<noteq> TS_Running
                         then cancelled_row i t else t) (hm_get (fs_tasks s) k)"
proof (cases "case hm_get (fs_runs s) r of None \<Rightarrow> False | Some run \<Rightarrow> run_is_terminal (rn_state run)")
  case True
  then show ?thesis by (intro that(1)) (auto simp: cancel_run_tasks split: option.splits)
next
  case False
  have "hm_get (fs_tasks (fst (fold_run_cancel_requested r i ts s))) k =
       map_option (\<lambda>t. if fst k = r \<and> \<not> is_terminal (tk_state t) \<and> tk_state t \<noteq> TS_Running
                         then cancelled_row i t else t) (hm_get (fs_tasks s) k)" for k
    using False tasks_to_cancel_iff [OF assms, of k r]
    by (cases "hm_get (fs_tasks s) k") (simp_all add: cancel_run_tasks cancel_tasks_get)
  then show ?thesis by (rule that(2))
qed

lemma cancel_run_wf: "hm_wf (fs_tasks s) \<Longrightarrow> hm_wf (fs_tasks (fst (fold_run_cancel_requested r i ts s)))"
  by (simp add: cancel_run_tasks cancel_tasks_keys)

lemma deps_ok_cancel:
  assumes "deps_ok s"
  shows "deps_ok (fst (fold_run_cancel_requested r i ts s))"
proof (rule cancel_run_get [OF deps_ok_wf [OF assms], of r i ts])
  assume "fs_tasks (fst (fold_run_cancel_requested r i ts s)) = fs_tasks s"
  then show ?thesis
    by (rule deps_ok_cong [OF assms _ edge_sat_cong [OF cancel_run_frame(1)] cancel_run_frame(3,2)])
next
  assume get: "hm_get (fs_tasks (fst (fold_run_cancel_requested r i ts s))) k =
       map_option (\<lambda>t. if fst k = r \<and> \<not> is_terminal (tk_state t) \<and> tk_state t \<noteq> TS_Running
                         then cancelled_row i t else t) (hm_get (fs_tasks s) k)" for k
  note sat = edge_sat_cong [OF cancel_run_frame(1), of r i ts s]
  show ?thesis
  proof (rule deps_ok_rows [OF assms cancel_run_wf [OF deps_ok_wf [OF assms]] cancel_run_frame(3,2)], goal_cases)
    case (1 k)
    then show ?case by (simp add: get)
  next
    case (2 r' d t t' D)
    then have "t' = t \<or> t' = cancelled_row i t" by (auto simp: get split: if_splits)
    then show ?case using 2(4) deps_row_ok_state [OF 2(4), of "cancelled_row i t"] unfolding sat by auto
  next
    case (3 r' u d)
    then have "succeeded s r' u" using deps_ok_sat [OF assms] by (simp add: sat)
    then obtain t where "hm_get (fs_tasks s) (r', u) = Some t" "tk_state t = TS_Succeeded"
      by (auto simp: succeeded_iff)
    then show ?case by (simp add: succeeded_def get)
  qed
qed

section \<open>Plans\<close>

lemma push_dep_get:
  "hm_get (push_dep k x m) k' = (if k' = k then Some ((case hm_get m k of None \<Rightarrow> [] | Some xs \<Rightarrow> xs) @ [x]) else hm_get m k')"
  by (simp add: push_dep_def hm_simps split: option.split)

definition vals :: "('k, 'v list) hashmap \<Rightarrow> 'k \<Rightarrow> 'v set" where
  "vals m k = set (case hm_get m k of None \<Rightarrow> [] | Some xs \<Rightarrow> xs)"

lemma get_dependents_vals: "set (get_dependents s r u) = vals (fs_task_dependents s) (r, u)"
  by (simp add: get_dependents_def vals_def)

lemma push_deps_vals:
  "x \<in> vals (fold (\<lambda>u m. push_dep (r, u) k m) us m) (r', u') \<longleftrightarrow>
     x \<in> vals m (r', u') \<or> (x = k \<and> r' = r \<and> u' \<in> set us)"
  by (induction us arbitrary: m) (auto simp: vals_def push_dep_get)

lemma plan_graph_vals:
  "x \<in> vals (fs_task_dependents (fold (plan_graph_step r) ds s)) (r', u) \<longleftrightarrow>
     x \<in> vals (fs_task_dependents s) (r', u) \<or> (r' = r \<and> (\<exists>d \<in> set ds. x = td_key d \<and> u \<in> set (td_depends_on d)))"
  by (induction ds arbitrary: s) (auto simp: plan_graph_step_def push_deps_vals)

lemma plan_graph_deps:
  assumes "distinct (map td_key ds)"
  shows "hm_get (fs_task_dependencies (fold (plan_graph_step r) ds s)) (r', k) =
     (case find (\<lambda>d. r' = r \<and> td_key d = k) ds of
        None \<Rightarrow> hm_get (fs_task_dependencies s) (r', k) | Some d \<Rightarrow> Some (td_depends_on d))"
  using assms
proof (induction ds arbitrary: s)
  case (Cons d ds)
  have "find (\<lambda>d. r' = r \<and> td_key d = k) ds = None" if "td_key d = k"
    using Cons.prems that by (auto simp: find_None_iff image_iff)
  with Cons show ?case by (auto simp: plan_graph_step_def hm_simps split: option.split)
qed simp

lemma plan_rows_edges:
  "hm_get (fs_dep_satisfaction (fold (plan_rows_step r i ts) ds s)) (r', u, k) =
     (if r' = r \<and> (\<exists>d \<in> set ds. td_key d = k \<and> u \<in> set (td_depends_on d)) then Some (plan_edge_row r i u k)
      else hm_get (fs_dep_satisfaction s) (r', u, k))"
proof (induction ds arbitrary: s)
  case (Cons d ds)
  have "hm_get (fold (\<lambda>u m. hm_insert (r, u, k') (plan_edge_row r i u k') m) us m) (r', u, k) =
      (if r' = r \<and> k = k' \<and> u \<in> set us then Some (plan_edge_row r i u k) else hm_get m (r', u, k))" for us m k'
    by (induction us arbitrary: m) (auto simp: hm_simps)
  with Cons show ?case by (auto simp: plan_rows_step_def)
qed simp

lemma plan_rows_get:
  assumes "distinct (map td_key ds)"
  shows "hm_get (fs_tasks (fold (plan_rows_step r i ts) ds s)) (r', k) =
     (case find (\<lambda>d. r' = r \<and> td_key d = k) ds of
        None \<Rightarrow> hm_get (fs_tasks s) (r', k) | Some d \<Rightarrow> Some (plan_task_row r i ts d))"
  using assms
proof (induction ds arbitrary: s)
  case (Cons d ds)
  have "find (\<lambda>d. r' = r \<and> td_key d = k) ds = None" if "td_key d = k"
    using Cons.prems that by (auto simp: find_None_iff image_iff)
  with Cons show ?case by (auto simp: plan_rows_step_def hm_simps split: option.split)
qed simp

lemma plan_row_deps_ok:
  assumes "distinct (td_depends_on d)" "length (td_depends_on d) < 2 ^ 32"
  shows "deps_row_ok (\<lambda>_. False) (td_depends_on d) (plan_task_row r i ts d)"
proof -
  have "(of_nat (length (td_depends_on d)) :: u32) = 0 \<longleftrightarrow> td_depends_on d = []"
    using of_nat_u32_inj [OF assms(2), of 0] by simp
  moreover have "list_all (\<lambda>_. False) (td_depends_on d) \<longleftrightarrow> td_depends_on d = []"
    by (cases "td_depends_on d") auto
  ultimately show ?thesis using assms by (simp add: deps_row_ok_def plan_task_row_def Let_def)
qed

lemma find_key_iff:
  "distinct (map f ds) \<Longrightarrow> find (\<lambda>d. f d = k) ds = Some d \<longleftrightarrow> d \<in> set ds \<and> f d = k"
  by (induction ds) (auto simp: image_iff)

lemma find_key_none: "find (\<lambda>d. r' = r \<and> f d = k) ds = (if r' = r then find (\<lambda>d. f d = k) ds else None)"
  by (simp add: find_None_iff)

text \<open>What planning a run without tasks leaves in the four tables.\<close>

lemma plan_created_tables:
  assumes "simple_plan ds" and none: "\<And>k. hm_get (fs_tasks s) (r, k) = None"
    and s': "s' = fold (plan_rows_step r i ts) ds (fold (plan_graph_step r) ds (s\<lparr>fs_runs := x\<rparr>))"
  shows "hm_get (fs_tasks s') (r', k) = (if r' = r then
        map_option (plan_task_row r i ts) (find (\<lambda>d. td_key d = k) ds) else hm_get (fs_tasks s) (r', k))"
    and "deps_ok s \<Longrightarrow> hm_get (fs_task_dependencies s') (r', k) = (if r' = r then
        map_option td_depends_on (find (\<lambda>d. td_key d = k) ds) else hm_get (fs_task_dependencies s) (r', k))"
    and "deps_ok s \<Longrightarrow> k \<in> set (get_dependents s' r' u) \<longleftrightarrow> (if r' = r
        then \<exists>d \<in> set ds. k = td_key d \<and> u \<in> set (td_depends_on d) else k \<in> set (get_dependents s r' u))"
    and "deps_ok s \<Longrightarrow> edge_sat s' r' u k \<longleftrightarrow> r' \<noteq> r \<and> edge_sat s r' u k"
proof -
  have ds: "distinct (map td_key ds)" using assms(1) by (simp add: simple_plan_def)
  show "hm_get (fs_tasks s') (r', k) = (if r' = r then
        map_option (plan_task_row r i ts) (find (\<lambda>d. td_key d = k) ds) else hm_get (fs_tasks s) (r', k))"
    by (simp add: s' plan_rows_get [OF ds] find_key_none none split: option.split)
  assume ok: "deps_ok s"
  have nodeps: "hm_get (fs_task_dependencies s) (r, k) = None" for k
    using deps_ok_planned [OF ok, of r k] none [of k] by (cases "hm_get (fs_task_dependencies s) (r, k)") simp_all
  show "hm_get (fs_task_dependencies s') (r', k) = (if r' = r then
        map_option td_depends_on (find (\<lambda>d. td_key d = k) ds) else hm_get (fs_task_dependencies s) (r', k))"
    by (simp add: s' plan_graph_deps [OF ds] find_key_none nodeps split: option.split)
  have "k \<notin> vals (fs_task_dependents s) (r, u)" for u
    using deps_ok_dependents [OF ok, of k r u] nodeps by (simp add: get_dependents_vals)
  then show "k \<in> set (get_dependents s' r' u) \<longleftrightarrow> (if r' = r
        then \<exists>d \<in> set ds. k = td_key d \<and> u \<in> set (td_depends_on d) else k \<in> set (get_dependents s r' u))"
    by (simp add: get_dependents_vals s' plan_graph_vals)
  have "\<not> edge_sat s r u k" using deps_ok_sat [OF ok, of r u k] none [of u] by (auto simp: succeeded_def)
  then show "edge_sat s' r' u k \<longleftrightarrow> r' \<noteq> r \<and> edge_sat s r' u k"
    by (auto simp: edge_sat_def s' plan_rows_edges plan_edge_row_def)
qed

lemma deps_ok_plan:
  assumes "deps_ok s" "simple_plan ds"
  shows "deps_ok (fst (fold_plan_created r ds i ts s))"
proof (cases rule: plan_created_cases [of r ds i ts s])
  case drop
  then show ?thesis using assms by simp
next
  case planned
  define s' where "s' = fst (fold_plan_created r ds i ts s)"
  have none: "hm_get (fs_tasks s) (r, k) = None" for k using planned(1) by simp
  note t = plan_created_tables(1) [OF assms(2) none planned(2) [folded s'_def]]
    plan_created_tables(2-4) [OF assms(2) none planned(2) [folded s'_def] assms(1)]
  have ds: "distinct (map td_key ds)" using assms(2) by (simp add: simple_plan_def)
  note find = find_key_iff [OF ds]
  have "deps_ok s'" unfolding deps_ok_def
  proof (intro conjI allI impI)
    show "hm_wf (fs_tasks s')"
      using deps_ok_wf [OF assms(1)] unfolding s'_def planned(2) by (intro plan_rows_wf) simp
    show "k \<in> set (get_dependents s' r' u) \<longleftrightarrow>
        (\<exists>D. hm_get (fs_task_dependencies s') (r', k) = Some D \<and> u \<in> set D)" for r' u k
      using deps_ok_dependents [OF assms(1), of k r' u] by (auto simp: t find)
    show "hm_get (fs_tasks s') (r', k) \<noteq> None" if "hm_get (fs_task_dependencies s') (r', k) \<noteq> None" for r' k
      using deps_ok_planned [OF assms(1), of r' k] that by (simp add: t split: if_splits)
    show "\<exists>D. hm_get (fs_task_dependencies s') (r', k) = Some D \<and> deps_row_ok (\<lambda>u. edge_sat s' r' u k) D x"
      if x: "hm_get (fs_tasks s') (r', k) = Some x" for r' k x
    proof (cases "r' = r")
      case True
      then obtain d where d: "find (\<lambda>d. td_key d = k) ds = Some d" "x = plan_task_row r i ts d"
        using x by (auto simp: t)
      then have "d \<in> set ds" by (simp add: find)
      then have "deps_row_ok (\<lambda>_. False) (td_depends_on d) x"
        using assms(2) unfolding d(2) by (intro plan_row_deps_ok) (auto simp: simple_plan_def)
      then show ?thesis using True d by (simp add: t)
    next
      case False
      then show ?thesis using deps_ok_row [OF assms(1), of r' k x] x by (simp add: t)
    qed
    show "succeeded s' r' u" if "edge_sat s' r' u k" for r' u k
      using deps_ok_sat [OF assms(1), of r' u k] that by (simp add: t succeeded_def)
  qed
  then show ?thesis by (simp add: s'_def)
qed

lemma deps_ok_step: "core_step simple_plan True s s' \<Longrightarrow> deps_ok s \<Longrightarrow> deps_ok s'"
proof (induction rule: core_step.induct)
  case (CS_frame s s')
  then show ?case by (intro deps_ok_cong [of s s'] edge_sat_cong) (simp_all add: core_eq_def)
next
  case (CS_quiet s k f)
  have q: "task_quiet t (f t)" if "hm_get (fs_tasks s) k = Some t" for t by (rule CS_quiet.hyps [OF that])
  show ?case
  proof (rule deps_ok_modify [OF CS_quiet.prems, of k f], goal_cases)
    case (1 t) with q show ?case by (simp add: task_quiet_def)
  next
    case (2 t) with q show ?case by (auto simp: task_quiet_def)
  next
    case (3 t) with task_quietD(3) [OF q] show ?case by simp
  qed simp_all
next
  case (CS_end s r k t f i ts)
  show ?case
    by (rule deps_ok_modify [OF CS_end.prems, of "(r, k)" f])
      (use CS_end.hyps in \<open>auto simp: task_ends_def\<close>)
next
  case (CS_satisfy s r u t d a i ts)
  then show ?case by (intro deps_ok_satisfy) (auto simp: succeeded_def)
next
  case (CS_unsatisfied s r u t d e)
  then show ?case by (intro deps_ok_unsatisfied) (auto simp: succeeded_def)
next
  case (CS_cancel s r i ts)
  then show ?case by (rule deps_ok_cancel)
next
  case (CS_trigger s r p rk ls cv i ts)
  show ?case
    by (rule deps_ok_cong [OF CS_trigger.prems _ edge_sat_cong]) (simp_all add: fold_run_triggered_def Let_def)
next
  case (CS_plan ds s r i ts)
  then show ?case by (intro deps_ok_plan)
qed

interpretation deps_ok: core_invariant simple_plan deps_ok
  by unfold_locales (rule deps_ok_step)

lemma deps_ok_new: "deps_ok new_fold_state"
  by (simp add: deps_ok_def new_fold_state_def get_dependents_def edge_sat_def)

lemma deps_ok_ledger:
  "(\<And>e. e \<in> set es \<Longrightarrow> plans_ok simple_plan (ev_data e)) \<Longrightarrow> deps_ok (fold_events env es new_fold_state)"
  by (rule deps_ok.ledger.events [OF deps_ok_new])

section \<open>Properties\<close>

text \<open>C3: A task is released only after its dependencies. After any ledger whose plans name each task
  and each dependency of a task once, every task that a \<^verbatim>\<open>READY\<close> task depends on has succeeded.\<close>

theorem ready_after_dependencies:
  assumes "list_all (\<lambda>e. plans_ok simple_plan (ev_data e)) es"
    and "S = fold_events env es new_fold_state"
    and "hm_get (fs_tasks S) (r, d) = Some t" "tk_state t = TS_Ready"
    and "hm_get (fs_task_dependencies S) (r, d) = Some D" "u \<in> set D"
  shows "succeeded S r u"
proof -
  have ok: "deps_ok S" using deps_ok_ledger [of es env] assms(1,2) by (simp add: list_all_iff)
  from deps_ok_row [OF ok assms(3)] assms(4-6) have "edge_sat S r u d"
    by (auto simp: deps_row_ok_def list_all_iff)
  then show ?thesis by (rule deps_ok_sat [OF ok])
qed

definition ex_release :: "orchestration_event list" where
  "ex_release = [ex_trigger, ex_plan, ex_start, ex_success]"

theorem ready_after_dependencies_witness:
  "ready_tasks (fold_events ex_env ex_release new_fold_state) \<noteq> []
   \<and> succeeded (fold_events ex_env ex_release new_fold_state) ''r'' ''a''"
proof -
  let ?S = "fold_events ex_env ex_release new_fold_state"
  have ok: "list_all (\<lambda>e. plans_ok simple_plan (ev_data e)) ex_release"
    by (simp add: ex_release_def fold_eval plans_ok_def simple_plan_def)
  obtain t where t: "hm_get (fs_tasks ?S) (''r'', ''b'') = Some t" "tk_state t = TS_Ready"
    by (simp add: ex_release_def fold_eval)
  have "hm_get (fs_task_dependencies ?S) (''r'', ''b'') = Some [''a'']"
    by (simp add: ex_release_def fold_eval)
  from ready_after_dependencies [OF ok refl t this, of "''a''"] have "succeeded ?S ''r'' ''a''" by simp
  moreover have "ready_tasks ?S \<noteq> []" by (simp add: ready_tasks_def ex_release_def fold_eval)
  ultimately show ?thesis by blast
qed

end
