(* ===== verification/Fold_Progress.thy ===== *)
theory Fold_Progress
  imports Fold_Deps
begin

text \<open>
  Progress. A task is \<^verbatim>\<open>BLOCKED\<close> only while something it waits for is still being worked on: a
  success satisfies the edges of every dependent at once, and a failure, skip or cancellation ends
  every dependent, transitively, in the same event. So no ledger leaves a task waiting for a task
  that will never move again, and an unfinished run always has a task to work on.
\<close>

section \<open>The invariant\<close>

text \<open>\<open>settled Q s\<close>: a blocked task has no dead dependency and no success it has not been told of,
  except for the upstream tasks in \<open>Q\<close>, whose dependents are still to be visited.\<close>

definition settled :: "(string \<times> string) set \<Rightarrow> fold_state \<Rightarrow> bool" where
  "settled Q s \<longleftrightarrow>
     (\<forall>r d t D u. hm_get (fs_tasks s) (r, d) = Some t \<longrightarrow> tk_state t = TS_Blocked \<longrightarrow>
        hm_get (fs_task_dependencies s) (r, d) = Some D \<longrightarrow> u \<in> set D \<longrightarrow> (r, u) \<notin> Q \<longrightarrow>
        \<not> task_dead s r u \<and> (succeeded s r u \<longrightarrow> edge_sat s r u d))"

lemma settledI:
  assumes "\<And>r d t D u. hm_get (fs_tasks s) (r, d) = Some t \<Longrightarrow> tk_state t = TS_Blocked \<Longrightarrow>
        hm_get (fs_task_dependencies s) (r, d) = Some D \<Longrightarrow> u \<in> set D \<Longrightarrow> (r, u) \<notin> Q \<Longrightarrow>
        \<not> task_dead s r u \<and> (succeeded s r u \<longrightarrow> edge_sat s r u d)"
  shows "settled Q s"
  using assms unfolding settled_def by blast

lemma settledD:
  "settled Q s \<Longrightarrow> hm_get (fs_tasks s) (r, d) = Some t \<Longrightarrow> tk_state t = TS_Blocked \<Longrightarrow>
   hm_get (fs_task_dependencies s) (r, d) = Some D \<Longrightarrow> u \<in> set D \<Longrightarrow> (r, u) \<notin> Q \<Longrightarrow>
   \<not> task_dead s r u \<and> (succeeded s r u \<longrightarrow> edge_sat s r u d)"
  unfolding settled_def by blast

text \<open>The general step: no task becomes blocked, and outside \<open>Q'\<close> no task ends and no edge is
  lost.\<close>

lemma settled_mono:
  assumes "settled Q s" "fs_task_dependencies s' = fs_task_dependencies s" "Q \<subseteq> Q'"
    and blocked: "\<And>k t'. hm_get (fs_tasks s') k = Some t' \<Longrightarrow> tk_state t' = TS_Blocked \<Longrightarrow>
        \<exists>t. hm_get (fs_tasks s) k = Some t \<and> tk_state t = TS_Blocked"
    and ends: "\<And>r u. (r, u) \<notin> Q' \<Longrightarrow> (task_dead s' r u \<longrightarrow> task_dead s r u) \<and> (succeeded s' r u \<longrightarrow> succeeded s r u)"
    and edges: "\<And>r u d. (r, u) \<notin> Q' \<Longrightarrow> succeeded s' r u \<Longrightarrow> edge_sat s r u d \<Longrightarrow> edge_sat s' r u d"
  shows "settled Q' s'"
proof (rule settledI)
  fix r d t' D u
  assume 1: "hm_get (fs_tasks s') (r, d) = Some t'" "tk_state t' = TS_Blocked"
    "hm_get (fs_task_dependencies s') (r, d) = Some D" "u \<in> set D" "(r, u) \<notin> Q'"
  obtain t where t: "hm_get (fs_tasks s) (r, d) = Some t" "tk_state t = TS_Blocked"
    using blocked [OF 1(1,2)] by blast
  have "(r, u) \<notin> Q" using assms(3) 1(5) by blast
  from settledD [OF assms(1) t 1(3) [unfolded assms(2)] 1(4) this]
  show "\<not> task_dead s' r u \<and> (succeeded s' r u \<longrightarrow> edge_sat s' r u d)"
    using ends [OF 1(5)] edges [OF 1(5), of d] by blast
qed

section \<open>Events that complete no task\<close>

lemma task_quiet_state:
  assumes "task_quiet t t'"
  shows "tk_state t' = tk_state t \<or>
     \<not> is_terminal (tk_state t') \<and> \<not> is_terminal (tk_state t) \<and> tk_state t' \<noteq> TS_Blocked"
proof (cases "is_terminal (tk_state t)")
  case True
  then show ?thesis using task_quietD(3) [OF assms] by simp
next
  case False
  then show ?thesis using assms unfolding task_quiet_def by blast
qed

lemma settled_quiet:
  assumes "settled Q s" and q: "\<And>t. hm_get (fs_tasks s) k = Some t \<Longrightarrow> task_quiet t (f t)"
    and s': "fs_tasks s' = hm_modify k f (fs_tasks s)" "fs_dep_satisfaction s' = fs_dep_satisfaction s"
      "fs_task_dependencies s' = fs_task_dependencies s"
  shows "settled Q s'"
proof (rule settled_mono [OF assms(1) s'(3) order_refl])
  have same: "\<exists>t. hm_get (fs_tasks s) k' = Some t \<and> (tk_state t' = tk_state t \<or>
       \<not> is_terminal (tk_state t') \<and> \<not> is_terminal (tk_state t) \<and> tk_state t' \<noteq> TS_Blocked)"
    if t': "hm_get (fs_tasks s') k' = Some t'" for k' t'
  proof (cases "k' = k")
    case True
    then obtain t where t: "hm_get (fs_tasks s) k = Some t" "t' = f t" using t' by (auto simp: s'(1) hm_simps)
    show ?thesis unfolding True t(2) using t(1) task_quiet_state [OF q [OF t(1)]] by blast
  next
    case False
    then show ?thesis using t' by (simp add: s'(1) hm_simps)
  qed
  show "\<exists>t. hm_get (fs_tasks s) k' = Some t \<and> tk_state t = TS_Blocked"
    if "hm_get (fs_tasks s') k' = Some t'" "tk_state t' = TS_Blocked" for k' t'
    using same [OF that(1)] that(2) by auto
  show "(task_dead s' r u \<longrightarrow> task_dead s r u) \<and> (succeeded s' r u \<longrightarrow> succeeded s r u)" for r u
    unfolding task_dead_def succeeded_iff
  proof (intro conjI impI; elim exE conjE)
    fix t' assume t': "hm_get (fs_tasks s') (r, u) = Some t'" "is_terminal (tk_state t')"
      "tk_state t' \<noteq> TS_Succeeded"
    with same [OF t'(1)]
    show "\<exists>t. hm_get (fs_tasks s) (r, u) = Some t \<and> is_terminal (tk_state t) \<and> tk_state t \<noteq> TS_Succeeded" by auto
  next
    fix t' assume t': "hm_get (fs_tasks s') (r, u) = Some t'" "tk_state t' = TS_Succeeded"
    with same [OF t'(1)] show "\<exists>t. hm_get (fs_tasks s) (r, u) = Some t \<and> tk_state t = TS_Succeeded" by auto
  qed
  show "edge_sat s' r u d" if "edge_sat s r u d" for r u d
    using that edge_sat_cong [OF s'(2)] by simp
qed

lemma settled_cancel:
  assumes "settled {} s" "deps_ok s"
  shows "settled {} (fst (fold_run_cancel_requested r i ts s))"
proof (rule cancel_run_get [OF deps_ok_wf [OF assms(2)], of r i ts])
  note sat = edge_sat_cong [OF cancel_run_frame(1), of r i ts s]
  assume "fs_tasks (fst (fold_run_cancel_requested r i ts s)) = fs_tasks s"
  then show ?thesis
    by (intro settled_mono [OF assms(1) cancel_run_frame(2)]) (simp_all add: task_dead_def succeeded_def sat)
next
  note sat = edge_sat_cong [OF cancel_run_frame(1), of r i ts s]
  assume get: "hm_get (fs_tasks (fst (fold_run_cancel_requested r i ts s))) k =
       map_option (\<lambda>t. if fst k = r \<and> \<not> is_terminal (tk_state t) \<and> tk_state t \<noteq> TS_Running
                         then cancelled_row i t else t) (hm_get (fs_tasks s) k)" for k
  show ?thesis
  proof (rule settledI)
    fix r' d t' D u
    assume 1: "hm_get (fs_tasks (fst (fold_run_cancel_requested r i ts s))) (r', d) = Some t'"
      "tk_state t' = TS_Blocked" "hm_get (fs_task_dependencies (fst (fold_run_cancel_requested r i ts s))) (r', d) = Some D"
      "u \<in> set D" "(r', u) \<notin> {}"
    then obtain t where t: "hm_get (fs_tasks s) (r', d) = Some t"
      "t' = (if r' = r \<and> \<not> is_terminal (tk_state t) \<and> tk_state t \<noteq> TS_Running then cancelled_row i t else t)"
      by (auto simp: get)
    have "tk_state (cancelled_row i t) = TS_Cancelled" by (simp add: cancelled_row_def)
    then have "r' \<noteq> r" "t' = t" using t(2) 1(2) by (auto split: if_splits)
    then have old: "hm_get (fs_tasks (fst (fold_run_cancel_requested r i ts s))) (r', k) = hm_get (fs_tasks s) (r', k)" for k
      by (simp add: get option.map_ident)
    show "\<not> task_dead (fst (fold_run_cancel_requested r i ts s)) r' u \<and>
      (succeeded (fst (fold_run_cancel_requested r i ts s)) r' u \<longrightarrow> edge_sat (fst (fold_run_cancel_requested r i ts s)) r' u d)"
      using settledD [OF assms(1) t(1) _ 1(3) [unfolded cancel_run_frame(2)] 1(4)] 1(2) \<open>t' = t\<close>
      unfolding task_dead_def succeeded_def old sat by simp
  qed
qed

lemma settled_plan:
  assumes "settled {} s" "deps_ok s" "simple_plan ds"
  shows "settled {} (fst (fold_plan_created r ds i ts s))"
proof (cases rule: plan_created_cases [of r ds i ts s])
  case drop
  then show ?thesis using assms by simp
next
  case planned
  define s' where "s' = fst (fold_plan_created r ds i ts s)"
  have none: "hm_get (fs_tasks s) (r, k) = None" for k using planned(1) by simp
  note t = plan_created_tables(1) [OF assms(3) none planned(2) [folded s'_def]]
    plan_created_tables(2-4) [OF assms(3) none planned(2) [folded s'_def] assms(2)]
  have fresh: "\<not> is_terminal (tk_state (plan_task_row r i ts d))" for d
    by (simp add: plan_task_row_def Let_def)
  have "settled {} s'"
  proof (rule settledI)
    fix r' d t' D u
    assume 1: "hm_get (fs_tasks s') (r', d) = Some t'" "tk_state t' = TS_Blocked"
      "hm_get (fs_task_dependencies s') (r', d) = Some D" "u \<in> set D" "(r', u) \<notin> {}"
    show "\<not> task_dead s' r' u \<and> (succeeded s' r' u \<longrightarrow> edge_sat s' r' u d)"
    proof (cases "r' = r")
      case True
      have "tk_state (plan_task_row r i ts x) \<noteq> TS_Succeeded" for x using fresh [of x] by auto
      with True fresh show ?thesis by (auto simp: task_dead_def succeeded_iff t)
    next
      case False
      with 1 settledD [OF assms(1), of r' d t' D u] show ?thesis
        by (simp add: t task_dead_def succeeded_def)
    qed
  qed
  then show ?thesis by (simp add: s'_def)
qed

lemma settled_calm_step: "core_step simple_plan False s s' \<Longrightarrow> deps_ok s \<Longrightarrow> settled {} s \<Longrightarrow> settled {} s'"
proof (induction rule: core_step.induct)
  case (CS_frame s s')
  then show ?case
    by (intro settled_mono [OF CS_frame.prems(2)])
      (simp_all add: core_eq_def task_dead_def succeeded_def edge_sat_def)
next
  case (CS_quiet s k f)
  show ?case by (rule settled_quiet [OF CS_quiet.prems(2) CS_quiet.hyps]) simp_all
next
  case (CS_cancel s r i ts)
  then show ?case by (intro settled_cancel)
next
  case (CS_trigger s r p rk ls cv i ts)
  let ?s = "fst (fold_run_triggered r p rk ls cv i ts s)"
  have "fs_tasks ?s = fs_tasks s" "fs_task_dependencies ?s = fs_task_dependencies s"
    "fs_dep_satisfaction ?s = fs_dep_satisfaction s"
    by (simp_all add: fold_run_triggered_def Let_def)
  then show ?case
    by (intro settled_mono [OF CS_trigger.prems(2)]) (simp_all add: task_dead_def succeeded_def edge_sat_def)
next
  case (CS_plan ds s r i ts)
  then show ?case by (intro settled_plan)
qed simp_all

lemma core_step_weaken: "core_step P False s s' \<Longrightarrow> core_step P True s s'"
  by (induction rule: core_step.induct) (auto intro: core_step.intros)

lemma settled_calm_steps:
  "core_steps simple_plan False s s' \<Longrightarrow> deps_ok s \<Longrightarrow> settled {} s \<Longrightarrow> deps_ok s' \<and> settled {} s'"
  by (induction rule: rtranclp_induct)
    (blast intro: settled_calm_step deps_ok_step core_step_weaken)+

section \<open>Successes\<close>

lemma satisfy_edge_sat:
  "edge_sat (satisfy_edge r u res a i ts d s) r' u' d' \<longleftrightarrow> (r' = r \<and> u' = u \<and> d' = d) \<or> edge_sat s r' u' d'"
  by (auto simp: edge_sat_def satisfy_edge_def Let_def hm_simps)

lemma satisfy_edge_get:
  "hm_get (fs_tasks (satisfy_edge r u res a i ts d s)) k =
     (if k = (r, d) \<and> \<not> edge_sat s r u d then map_option (dep_satisfied_row i ts) (hm_get (fs_tasks s) k)
      else hm_get (fs_tasks s) k)"
  by (simp add: satisfy_edge_def edge_sat_def Let_def hm_simps)

lemma satisfy_edge_deps [simp]:
  "fs_task_dependencies (satisfy_edge r u res a i ts d s) = fs_task_dependencies s"
  by (simp add: satisfy_edge_def Let_def)

lemma dep_satisfied_row_kinds:
  "is_terminal (tk_state (dep_satisfied_row i ts t)) \<longleftrightarrow> is_terminal (tk_state t)"
  "tk_state (dep_satisfied_row i ts t) = TS_Succeeded \<longleftrightarrow> tk_state t = TS_Succeeded"
  by (simp_all add: dep_satisfied_row_def Let_def)

lemma dep_satisfied_row_blocked: "tk_state (dep_satisfied_row i ts t) = TS_Blocked \<Longrightarrow> tk_state t = TS_Blocked"
  by (simp add: dep_satisfied_row_def Let_def split: if_splits)

lemma satisfy_edge_ends:
  "task_dead (satisfy_edge r u res a i ts d s) r' v \<longleftrightarrow> task_dead s r' v"
  "succeeded (satisfy_edge r u res a i ts d s) r' v \<longleftrightarrow> succeeded s r' v"
  by (auto simp: task_dead_def succeeded_iff satisfy_edge_get dep_satisfied_row_kinds)

lemma settled_satisfy_edge:
  assumes "settled Q s"
  shows "settled Q (satisfy_edge r u res a i ts d s)"
proof (rule settled_mono [OF assms _ order_refl])
  show "\<exists>t. hm_get (fs_tasks s) k = Some t \<and> tk_state t = TS_Blocked"
    if "hm_get (fs_tasks (satisfy_edge r u res a i ts d s)) k = Some t'" "tk_state t' = TS_Blocked" for k t'
    using that by (auto simp: satisfy_edge_get split: if_splits dest: dep_satisfied_row_blocked)
qed (simp_all add: satisfy_edge_ends satisfy_edge_sat)

lemma settled_satisfy_edges:
  "settled Q s \<Longrightarrow> settled Q (fold (satisfy_edge r u res a i ts) ds s)"
  by (induction ds arbitrary: s) (simp_all add: settled_satisfy_edge)

lemma satisfy_edges_sat:
  "edge_sat (fold (satisfy_edge r u res a i ts) ds s) r' u' d' \<longleftrightarrow>
     (r' = r \<and> u' = u \<and> d' \<in> set ds) \<or> edge_sat s r' u' d'"
  by (induction ds arbitrary: s) (auto simp: satisfy_edge_sat)

lemma satisfy_edges_frame:
  "fs_task_dependencies (fold (satisfy_edge r u res a i ts) ds s) = fs_task_dependencies s"
  "task_dead (fold (satisfy_edge r u res a i ts) ds s) r' v \<longleftrightarrow> task_dead s r' v"
  by (induction ds arbitrary: s) (simp_all add: satisfy_edge_ends)

lemma settled_satisfy_downstream:
  assumes "settled {(r, u)} s" "deps_ok s" "\<not> task_dead s r u"
  shows "settled {} (satisfy_downstream_edges r u res a i ts s)"
proof (rule settledI)
  let ?s = "fold (satisfy_edge r u res a i ts) (get_dependents s r u) s"
  have eq: "satisfy_downstream_edges r u res a i ts s = ?s" by (simp add: satisfy_downstream_edges_def)
  fix r' d t D v
  assume 1: "hm_get (fs_tasks (satisfy_downstream_edges r u res a i ts s)) (r', d) = Some t"
    "tk_state t = TS_Blocked"
    "hm_get (fs_task_dependencies (satisfy_downstream_edges r u res a i ts s)) (r', d) = Some D" "v \<in> set D"
  show "\<not> task_dead (satisfy_downstream_edges r u res a i ts s) r' v \<and>
     (succeeded (satisfy_downstream_edges r u res a i ts s) r' v \<longrightarrow>
      edge_sat (satisfy_downstream_edges r u res a i ts s) r' v d)"
  proof (cases "(r', v) = (r, u)")
    case True
    then have "d \<in> set (get_dependents s r u)"
      using 1(3,4) deps_ok_dependents [OF assms(2), of d r u] by (auto simp: eq satisfy_edges_frame)
    with True assms(3) show ?thesis by (simp add: eq satisfy_edges_frame satisfy_edges_sat)
  next
    case False
    then show ?thesis
      using settledD [OF settled_satisfy_edges [OF assms(1)] 1(1-3) [unfolded eq] 1(4)] by (simp add: eq)
  qed
qed

section \<open>Failures, skips and cancellations\<close>

text \<open>One dependent visited: it is not blocked afterwards, and if it ended just now it is queued.\<close>

lemma propagate_edge_get:
  assumes "propagate_edge r u e i ts d (s, q) = (s', q')"
  shows "fs_task_dependencies s' = fs_task_dependencies s" "fs_task_dependents s' = fs_task_dependents s"
    and "set q \<subseteq> set q'"
    and "k \<noteq> (r, d) \<Longrightarrow> hm_get (fs_tasks s') k = hm_get (fs_tasks s) k"
    and "hm_get (fs_tasks s') (r, d) = Some t' \<Longrightarrow> tk_state t' \<noteq> TS_Blocked"
    and "hm_get (fs_tasks s') (r, d) = hm_get (fs_tasks s) (r, d)
      \<or> (\<exists>e'. (d, e') \<in> set q') \<and> task_dead s' r d"
    and "(r', u', d') \<noteq> (r, u, d) \<Longrightarrow> edge_sat s' r' u' d' = edge_sat s r' u' d'"
  using assms
  by (cases rule: propagate_edge_cases;
      auto simp: hm_simps edge_sat_def task_dead_def dest: propagated_state)+

lemma settled_propagate_edge:
  assumes p: "propagate_edge r u e i ts d (s, q) = (s', q')" and "\<not> succeeded s r u"
    and "settled ({r} \<times> insert u (fst ` set q)) s"
  shows "settled ({r} \<times> insert u (fst ` set q')) s'" "\<not> succeeded s' r u"
proof -
  note g = propagate_edge_get [OF p]
  have dead: "task_dead s r' v" if "task_dead s' r' v" "(r', v) \<notin> {r} \<times> insert u (fst ` set q')" for r' v
    using that g(4) [of "(r', v)"] g(6) by (cases "(r', v) = (r, d)") (auto simp: task_dead_def image_iff)
  have succ: "succeeded s r' v" if "succeeded s' r' v" for r' v
    using that g(4) [of "(r', v)"] g(6) by (cases "(r', v) = (r, d)") (auto simp: task_dead_def succeeded_iff)
  show "\<not> succeeded s' r u" using succ assms(2) by blast
  show "settled ({r} \<times> insert u (fst ` set q')) s'"
  proof (rule settled_mono [OF assms(3) g(1)])
    show "{r} \<times> insert u (fst ` set q) \<subseteq> {r} \<times> insert u (fst ` set q')" using g(3) by auto
    show "\<exists>t. hm_get (fs_tasks s) k = Some t \<and> tk_state t = TS_Blocked"
      if "hm_get (fs_tasks s') k = Some t'" "tk_state t' = TS_Blocked" for k t'
      using that g(4) [of k] g(5) [of t'] by (cases "k = (r, d)") auto
    show "(task_dead s' r' v \<longrightarrow> task_dead s r' v) \<and> (succeeded s' r' v \<longrightarrow> succeeded s r' v)"
      if "(r', v) \<notin> {r} \<times> insert u (fst ` set q')" for r' v
      using dead succ that by blast
    show "edge_sat s' r' v d'" if "(r', v) \<notin> {r} \<times> insert u (fst ` set q')" "edge_sat s r' v d'" for r' v d'
      using that g(7) [of r' v d'] by auto
  qed
qed

lemma settled_propagate_edges:
  assumes "fold (propagate_edge r u e i ts) ds (s, q) = (s', q')" "\<not> succeeded s r u"
    and "settled ({r} \<times> insert u (fst ` set q)) s"
  shows "settled ({r} \<times> insert u (fst ` set q')) s'
    \<and> fs_task_dependencies s' = fs_task_dependencies s \<and> fs_task_dependents s' = fs_task_dependents s"
  using assms
proof (induction ds arbitrary: s q)
  case (Cons d ds)
  obtain s1 q1 where 1: "propagate_edge r u e i ts d (s, q) = (s1, q1)" by fastforce
  have f: "fold (propagate_edge r u e i ts) ds (s1, q1) = (s', q')" using Cons.prems(1) 1 by simp
  from Cons.IH [OF f settled_propagate_edge(2,1) [OF 1 Cons.prems(2,3)]]
  show ?case using propagate_edge_get(1,2) [OF 1] by simp
qed simp

definition not_blocked :: "fold_state \<Rightarrow> string \<Rightarrow> string \<Rightarrow> bool" where
  "not_blocked s r d \<longleftrightarrow> (case hm_get (fs_tasks s) (r, d) of None \<Rightarrow> True | Some t \<Rightarrow> tk_state t \<noteq> TS_Blocked)"

lemma propagate_edge_not_blocked:
  assumes "propagate_edge r u e i ts d (s, q) = (s', q')"
  shows "not_blocked s' r d" "not_blocked s r d' \<Longrightarrow> not_blocked s' r d'"
proof -
  show "not_blocked s' r d" using propagate_edge_get(5) [OF assms] by (simp add: not_blocked_def split: option.split)
  then show "not_blocked s' r d'" if "not_blocked s r d'"
    using that propagate_edge_get(4) [OF assms, of "(r, d')"] by (cases "d' = d") (simp_all add: not_blocked_def)
qed

lemma propagate_edges_not_blocked:
  "fold (propagate_edge r u e i ts) ds (s, q) = (s', q') \<Longrightarrow> d \<in> set ds \<or> not_blocked s r d \<Longrightarrow> not_blocked s' r d"
proof (induction ds arbitrary: s q)
  case (Cons x ds)
  obtain s1 q1 where 1: "propagate_edge r u e i ts x (s, q) = (s1, q1)" by fastforce
  have f: "fold (propagate_edge r u e i ts) ds (s1, q1) = (s', q')" using Cons.prems(1) 1 by simp
  have "d \<in> set ds \<or> not_blocked s1 r d"
    using Cons.prems(2) propagate_edge_not_blocked(1) [OF 1] propagate_edge_not_blocked(2) [OF 1, of d] by auto
  then show ?case by (rule Cons.IH [OF f])
qed simp

lemma settled_propagate_loop:
  assumes "\<And>d r u. d \<in> set (get_dependents s r u) \<longleftrightarrow>
      (\<exists>D. hm_get (fs_task_dependencies s) (r, d) = Some D \<and> u \<in> set D)"
    and "settled ({r} \<times> fst ` set q) s" "\<And>v e. (v, e) \<in> set q \<Longrightarrow> task_dead s r v"
  shows "settled {} (propagate_loop r i ts s q)"
  using assms
proof (induction r i ts s q rule: propagate_loop.induct)
  case (2 r i ts s u e q)
  obtain s' q' where f: "fold (propagate_edge r u e i ts) (get_dependents s r u) (s, q) = (s', q')"
    by fastforce
  have "task_dead s r u" using "2.prems"(3) by auto
  then have ns: "\<not> succeeded s r u" by (auto simp: task_dead_def succeeded_iff)
  have st: "settled ({r} \<times> insert u (fst ` set q)) s" using "2.prems"(2) by simp
  note p = settled_propagate_edges [OF f ns st]
  have dead: "\<forall>v e'. (v, e') \<in> set q' \<longrightarrow> task_dead s' r v"
    using propagate_edges_steps [OF f \<open>task_dead s r u\<close>] "2.prems"(3) by auto
  have dep: "get_dependents s' = get_dependents s" using p get_dependents_cong by blast
  have "settled ({r} \<times> fst ` set q') s'"
  proof (rule settledI)
    fix r' d t D v
    assume 1: "hm_get (fs_tasks s') (r', d) = Some t" "tk_state t = TS_Blocked"
      "hm_get (fs_task_dependencies s') (r', d) = Some D" "v \<in> set D" "(r', v) \<notin> {r} \<times> fst ` set q'"
    have "(r', v) \<noteq> (r, u)"
    proof
      assume "(r', v) = (r, u)"
      then have "d \<in> set (get_dependents s r u)" using 1(3,4) "2.prems"(1) [of d r u] p by auto
      then have "not_blocked s' r d" by (intro propagate_edges_not_blocked [OF f] disjI1)
      then show False using 1(1,2) \<open>(r', v) = (r, u)\<close> by (simp add: not_blocked_def)
    qed
    then show "\<not> task_dead s' r' v \<and> (succeeded s' r' v \<longrightarrow> edge_sat s' r' v d)"
      using settledD [OF conjunct1 [OF p] 1(1-4)] 1(5) by auto
  qed
  with "2.IH" [OF f [symmetric] refl] dep dead "2.prems"(1) p show ?case by (simp add: f)
qed simp

section \<open>Completions\<close>

lemma settled_core_eq: "core_eq s s' \<Longrightarrow> settled Q s \<Longrightarrow> settled Q s'"
  by (erule settled_mono) (simp_all add: core_eq_def task_dead_def succeeded_def edge_sat_def)

lemma finished_done_tables:
  "fs_task_dependencies (finished_task_done env c i ts t s) = fs_task_dependencies s"
  "fs_dep_satisfaction (finished_task_done env c i ts t s) = fs_dep_satisfaction s"
  "k \<noteq> (tc_run_id c, tc_task_key c) \<Longrightarrow> hm_get (fs_tasks (finished_task_done env c i ts t s)) k = hm_get (fs_tasks s) k"
  by (simp_all add: finished_task_done_def Let_def hm_simps)

lemma finished_state_kinds: "is_terminal (finished_state o' t) \<or> finished_state o' t = TS_RetryWait"
  by (simp add: finished_state_def split: task_outcome.split)

lemma settled_finished_done:
  assumes "settled {} s" and t: "hm_get (fs_tasks s) (tc_run_id c, tc_task_key c) = Some t"
  shows "settled {(tc_run_id c, tc_task_key c)} (finished_task_done env c i ts t s)"
proof (rule settled_mono [OF assms(1) finished_done_tables(1)])
  let ?s = "finished_task_done env c i ts t s" and ?k = "(tc_run_id c, tc_task_key c)"
  obtain t' where t': "hm_get (fs_tasks ?s) ?k = Some t'" "tk_state t' = finished_state (tc_outcome c) t"
    using finished_task_done_get [OF t] by blast
  show "\<exists>t. hm_get (fs_tasks s) k = Some t \<and> tk_state t = TS_Blocked"
    if "hm_get (fs_tasks ?s) k = Some x" "tk_state x = TS_Blocked" for k x
  proof (cases "k = ?k")
    case True
    then show ?thesis using that t' finished_state_kinds [of "tc_outcome c" t] by auto
  next
    case False
    then show ?thesis using that finished_done_tables(3) [OF False] by simp
  qed
  show "(task_dead ?s r u \<longrightarrow> task_dead s r u) \<and> (succeeded ?s r u \<longrightarrow> succeeded s r u)"
    if "(r, u) \<notin> {?k}" for r u
    using finished_done_tables(3) [of "(r, u)" c env i ts t s] that by (simp add: task_dead_def succeeded_def)
  show "edge_sat ?s r u d" if "edge_sat s r u d" for r u d
    using that edge_sat_cong [OF finished_done_tables(2)] by simp
qed simp

lemma settled_shrink:
  assumes "settled {(r, u)} s" "\<not> task_dead s r u" "\<not> succeeded s r u"
  shows "settled {} s"
proof (rule settledI)
  fix r' d t D v
  assume 1: "hm_get (fs_tasks s) (r', d) = Some t" "tk_state t = TS_Blocked"
    "hm_get (fs_task_dependencies s) (r', d) = Some D" "v \<in> set D"
  show "\<not> task_dead s r' v \<and> (succeeded s r' v \<longrightarrow> edge_sat s r' v d)"
    using settledD [OF assms(1) 1] assms(2,3) by (cases "(r', v) = (r, u)") auto
qed

lemma settled_propagate_failure:
  assumes "settled {(r, u)} s" "deps_ok s" "task_dead s r u"
  shows "settled {} (propagate_failure r u e i ts s)"
  unfolding propagate_failure_def
  using assms deps_ok_dependents [OF assms(2)] by (intro settled_propagate_loop) auto

lemma settled_finished_downstream:
  assumes s: "settled {(tc_run_id c, tc_task_key c)} s" "deps_ok s"
    and t: "hm_get (fs_tasks s) (tc_run_id c, tc_task_key c) = Some t" "tk_state t = n"
    and n: "is_terminal n \<or> n = TS_RetryWait"
  shows "settled {} (finished_downstream c n i ts s)"
proof (cases "n = TS_Succeeded \<or> n = TS_RetryWait")
  case True
  then have "\<not> task_dead s (tc_run_id c) (tc_task_key c)" using t by (auto simp: task_dead_def)
  then show ?thesis
    using True settled_satisfy_downstream [OF s] settled_shrink [OF s(1)] t
    by (auto simp: finished_downstream_def succeeded_def)
next
  case False
  then have "task_dead s (tc_run_id c) (tc_task_key c)" using t n by (auto simp: task_dead_def)
  then show ?thesis
    using False n settled_propagate_failure [OF s] by (cases n) (auto simp: finished_downstream_def)
qed

lemma deps_ok_finished:
  "deps_ok s \<Longrightarrow> deps_ok (fst (fold_task_finished env c i ts te w s))"
  by (rule deps_ok.Inv_steps [OF task_finished_steps])

lemma settled_finished:
  assumes "settled {} s" "deps_ok s"
  shows "settled {} (fst (fold_task_finished env c i ts te w s))"
proof (cases rule: fold_task_finished_cases [of env c i ts te w s])
  case drop
  then show ?thesis using assms by simp
next
  case (applied t)
  let ?s1 = "finished_task_done env c i ts t s"
  obtain t' where t': "hm_get (fs_tasks ?s1) (tc_run_id c, tc_task_key c) = Some t'"
      "tk_state t' = finished_state (tc_outcome c) t"
    using finished_task_done_get [OF applied(1)] by blast
  have ok: "deps_ok ?s1"
    by (rule deps_ok.Inv_steps [OF finished_done_steps [OF applied(1,2)] assms(2)])
  have "settled {} (finished_downstream c (finished_state (tc_outcome c) t) i ts ?s1)"
    by (rule settled_finished_downstream [OF settled_finished_done [OF assms(1) applied(1)] ok t' finished_state_kinds])
  then show ?thesis by (rule settled_core_eq [OF applied(6)])
qed

lemma refresh_core: "core_eq (fst r) (fst (refresh_if_changed e run_id r))"
  by (cases r) (simp add: refresh_if_changed_def refresh_core_eq)

lemma settled_completion_recorded:
  assumes "settled {} s" "deps_ok s"
  shows "settled {} (fst (fold_task_completion_recorded env c v e s))"
proof -
  obtain s1 a where 1: "fold_task_finished env c (ev_event_id e) (ev_timestamp e) (ev_tenant_id e)
      (ev_workspace_id e) s = (s1, a)" by fastforce
  have s1: "settled {} s1" "deps_ok s1"
    using settled_finished [OF assms, of env c "ev_event_id e" "ev_timestamp e" "ev_tenant_id e" "ev_workspace_id e"]
      deps_ok_finished [OF assms(2), of env c "ev_event_id e" "ev_timestamp e" "ev_tenant_id e" "ev_workspace_id e"] 1 by simp_all
  have "settled {} (fst (fold_task_output_visibility_changed (tc_run_id c) (tc_task_key c) (tc_attempt c)
      (tc_attempt_id c) (ovu_visibility_state u) (ovu_published_at u) (ovu_publish_error u)
      (ev_event_id e) (ev_timestamp e) s1))" for u :: output_visibility_update
    using settled_calm_steps [OF visibility_steps s1(2,1)] by blast
  then show ?thesis
    using s1 1
    by (auto simp: fold_task_completion_recorded_def split: option.splits prod.splits if_splits) (metis fst_conv)
qed

section \<open>The graph of a run\<close>

definition dep_edges :: "fold_state \<Rightarrow> string \<Rightarrow> (string \<times> string) set" where
  "dep_edges s r = {(u, d). \<exists>D. hm_get (fs_task_dependencies s) (r, d) = Some D \<and> u \<in> set D}"

definition plan_edges :: "task_def list \<Rightarrow> (string \<times> string) set" where
  "plan_edges ds = set (concat (map (\<lambda>d. map (\<lambda>u. (u, td_key d)) (td_depends_on d)) ds))"

text \<open>A plan that can be run: it also names only its own tasks as dependencies and has no cycle.\<close>

definition live_plan :: "task_def list \<Rightarrow> bool" where
  "live_plan ds \<longleftrightarrow>
     simple_plan ds \<and> (\<forall>d \<in> set ds. set (td_depends_on d) \<subseteq> td_key ` set ds) \<and> acyclic (plan_edges ds)"

definition graph_ok :: "fold_state \<Rightarrow> bool" where
  "graph_ok s \<longleftrightarrow>
     (\<forall>r. acyclic (dep_edges s r) \<and> (\<forall>u d. (u, d) \<in> dep_edges s r \<longrightarrow> hm_get (fs_tasks s) (r, u) \<noteq> None))"

lemma finite_dep_edges: "finite (dep_edges s r)"
proof -
  have "dep_edges s r \<subseteq> (\<Union>(k, D) \<in> set (fs_task_dependencies s). set D \<times> {snd k})"
    by (auto simp: dep_edges_def dest: map_of_SomeD)
  then show ?thesis by (rule finite_subset) auto
qed

lemma core_step_deps:
  "core_step P b s s' \<Longrightarrow>
   fs_task_dependencies s' = fs_task_dependencies s \<or> (\<exists>r ds i ts. P ds \<and> s' = fst (fold_plan_created r ds i ts s))"
  by (induction rule: core_step.induct)
    (auto simp: core_eq_def cancel_run_frame fold_run_triggered_def Let_def)

lemma core_step_mono: "core_step P b s s' \<Longrightarrow> (\<And>ds. P ds \<Longrightarrow> Q ds) \<Longrightarrow> core_step Q b s s'"
  by (induction rule: core_step.induct) (auto intro: core_step.intros)

lemma core_steps_mono: "core_steps P b s s' \<Longrightarrow> (\<And>ds. P ds \<Longrightarrow> Q ds) \<Longrightarrow> core_steps Q b s s'"
  by (erule rtranclp_induct) (auto intro: core_step_mono rtranclp.rtrancl_into_rtrancl)

lemma graph_ok_plan:
  assumes "graph_ok s" "deps_ok s" "live_plan ds"
  shows "graph_ok (fst (fold_plan_created r ds i ts s))"
proof (cases rule: plan_created_cases [of r ds i ts s])
  case drop
  then show ?thesis using assms by simp
next
  case planned
  define s' where "s' = fst (fold_plan_created r ds i ts s)"
  have simple: "simple_plan ds" using assms(3) by (simp add: live_plan_def)
  have none: "hm_get (fs_tasks s) (r, k) = None" for k using planned(1) by simp
  note t = plan_created_tables(1) [OF simple none planned(2) [folded s'_def]]
    plan_created_tables(2) [OF simple none planned(2) [folded s'_def] assms(2)]
  have ds: "distinct (map td_key ds)" using simple by (simp add: simple_plan_def)
  note find = find_key_iff [OF ds]
  have new: "dep_edges s' r = plan_edges ds" by (auto simp: dep_edges_def plan_edges_def t find)
  have old: "dep_edges s' r' = dep_edges s r'" if "r' \<noteq> r" for r' using that by (simp add: dep_edges_def t)
  have named: "hm_get (fs_tasks s') (r, u) \<noteq> None" if "(u, d) \<in> plan_edges ds" for u d
  proof -
    from that assms(3) obtain x where "x \<in> set ds" "td_key x = u"
      by (auto simp: plan_edges_def live_plan_def)
    then have "find (\<lambda>d. td_key d = u) ds = Some x" by (simp add: find)
    then show ?thesis by (simp add: t)
  qed
  have "graph_ok s'" unfolding graph_ok_def
  proof (intro allI conjI impI)
    show "acyclic (dep_edges s' r')" for r'
      using assms(1,3) new old by (cases "r' = r") (auto simp: graph_ok_def live_plan_def)
    show "hm_get (fs_tasks s') (r', u) \<noteq> None" if "(u, d) \<in> dep_edges s' r'" for r' u d
      using that named new old [of r'] assms(1) by (cases "r' = r") (fastforce simp: graph_ok_def t)+
  qed
  then show ?thesis by (simp add: s'_def)
qed

lemma graph_ok_step:
  assumes "core_step live_plan True s s'" "deps_ok s" "graph_ok s"
  shows "graph_ok s'"
  using core_step_deps [OF assms(1)]
proof
  assume same: "fs_task_dependencies s' = fs_task_dependencies s"
  have "map_le task_le (fs_tasks s) (fs_tasks s')"
    using core_step_le [OF assms(1)] deps_ok_wf [OF assms(2)] by (simp add: core_le_def)
  then have "hm_get (fs_tasks s') k \<noteq> None" if "hm_get (fs_tasks s) k \<noteq> None" for k
    using that by (fastforce dest: map_leD)
  then show ?thesis using assms(3) same by (simp add: graph_ok_def dep_edges_def)
next
  assume "\<exists>r ds i ts. live_plan ds \<and> s' = fst (fold_plan_created r ds i ts s)"
  then show ?thesis using graph_ok_plan [OF assms(3,2)] by blast
qed

interpretation graph_ok: core_invariant live_plan "\<lambda>s. deps_ok s \<and> graph_ok s"
proof
  fix s s' assume "core_step live_plan True s s'" "deps_ok s \<and> graph_ok s"
  then show "deps_ok s' \<and> graph_ok s'"
    using core_step_mono [of live_plan True s s' simple_plan] deps_ok_step graph_ok_step
    by (auto simp: live_plan_def)
qed

interpretation live: fold_invariant env "\<lambda>e. plans_ok live_plan (ev_data e)" "\<lambda>s. deps_ok s \<and> graph_ok s \<and> settled {} s" for env
proof
  fix s and e :: orchestration_event assume s: "deps_ok s \<and> graph_ok s \<and> settled {} s" and e: "plans_ok live_plan (ev_data e)"
  let ?s = "fst (fold_data env e (ev_data e) s)"
  have "deps_ok ?s \<and> graph_ok ?s" using graph_ok.Inv_steps [OF fold_data_core_steps [OF e]] s by blast
  moreover have "settled {} ?s"
  proof (cases "is_completion (ev_data e)")
    case True
    then show ?thesis
      using s settled_core_eq [OF refresh_core] settled_finished settled_completion_recorded
      by (cases "ev_data e") (auto simp: is_completion_def)
  next
    case False
    then have "core_steps live_plan False s ?s" by (rule fold_data_calm_steps [OF e])
    then have "core_steps simple_plan False s ?s" by (rule core_steps_mono) (simp add: live_plan_def)
    then show ?thesis using settled_calm_steps s by blast
  qed
  ultimately show "deps_ok ?s \<and> graph_ok ?s \<and> settled {} ?s" by blast
next
  fix s and e :: orchestration_event assume "deps_ok s \<and> graph_ok s \<and> settled {} s"
  moreover have "core_steps live_plan True s (record_idempotency_key e s)"
    by (rule core_eq_steps) (rule record_key_core_eq)
  ultimately show "deps_ok (record_idempotency_key e s) \<and> graph_ok (record_idempotency_key e s)
      \<and> settled {} (record_idempotency_key e s)"
    using graph_ok.Inv_steps settled_core_eq [OF record_key_core_eq] by blast
qed

section \<open>Properties\<close>

text \<open>A task that may still move on its own: it is not waiting for another task.\<close>

definition active :: "fold_state \<Rightarrow> string \<Rightarrow> string \<Rightarrow> bool" where
  "active s r k =
     (case hm_get (fs_tasks s) (r, k) of
        None \<Rightarrow> False | Some t \<Rightarrow> tk_state t \<in> {TS_Ready, TS_Dispatched, TS_Running, TS_RetryWait})"

lemma live_ledger:
  assumes "list_all (\<lambda>e. plans_ok live_plan (ev_data e)) es"
  shows "deps_ok (fold_events env es new_fold_state) \<and> graph_ok (fold_events env es new_fold_state)
    \<and> settled {} (fold_events env es new_fold_state)"
proof (rule live.events)
  show "deps_ok new_fold_state \<and> graph_ok new_fold_state \<and> settled {} new_fold_state"
    using deps_ok_new by (simp add: graph_ok_def settled_def dep_edges_def new_fold_state_def acyclic_def)
qed (use assms in \<open>simp add: list_all_iff\<close>)

lemma task_state_cases:
  assumes "tk_state t \<noteq> TS_Planned"
  obtains "tk_state t \<in> {TS_Ready, TS_Dispatched, TS_Running, TS_RetryWait}" | "tk_state t = TS_Blocked"
  | "tk_state t = TS_Succeeded" | "is_terminal (tk_state t)" "tk_state t \<noteq> TS_Succeeded"
  using assms by (cases "tk_state t") auto

lemma blocked_has_active:
  assumes ok: "deps_ok s" "graph_ok s" "settled {} s"
  shows "hm_get (fs_tasks s) (r, d) = Some t \<Longrightarrow> tk_state t = TS_Blocked \<Longrightarrow>
    \<exists>u. (u, d) \<in> (dep_edges s r)\<^sup>+ \<and> active s r u"
proof (induction d arbitrary: t rule: wf_induct_rule [OF finite_acyclic_wf [OF finite_dep_edges [of s r]]])
  case 1
  then show ?case using ok(2) by (simp add: graph_ok_def)
next
  case (2 d)
  obtain D where D: "hm_get (fs_task_dependencies s) (r, d) = Some D" "deps_row_ok (\<lambda>u. edge_sat s r u d) D t"
    using deps_ok_row [OF ok(1) "2.prems"(1)] by blast
  then obtain u where u: "u \<in> set D" "\<not> edge_sat s r u d"
    using "2.prems"(2) by (auto simp: deps_row_ok_def list_all_iff)
  have e: "(u, d) \<in> dep_edges s r" using D(1) u(1) by (auto simp: dep_edges_def)
  then obtain t' where t': "hm_get (fs_tasks s) (r, u) = Some t'" using ok(2) by (force simp: graph_ok_def)
  have "tk_state t' \<noteq> TS_Planned" using deps_ok_row [OF ok(1) t'] by (auto simp: deps_row_ok_def)
  then show ?case
  proof (cases rule: task_state_cases)
    case 1
    then have "active s r u" using t' by (simp add: active_def)
    then show ?thesis using e by blast
  next
    case 2
    from "2.IH" [OF e t' this] show ?thesis using e by (blast intro: trancl_into_trancl)
  qed (use settledD [OF ok(3) "2.prems" D(1) u(1)] u(2) t' in \<open>auto simp: task_dead_def succeeded_def\<close>)
qed

text \<open>C5: No task waits for nothing. After any ledger whose plans have distinct task names, distinct
  dependencies that are tasks of the plan, and no cycle, every \<^verbatim>\<open>BLOCKED\<close> task depends, directly or
  through other tasks, on a task that is ready, dispatched, running or waiting to be retried.\<close>

theorem blocked_task_waits_for_active:
  assumes "list_all (\<lambda>e. plans_ok live_plan (ev_data e)) es"
    and "S = fold_events env es new_fold_state"
    and "hm_get (fs_tasks S) (r, d) = Some t" "tk_state t = TS_Blocked"
  shows "\<exists>u. (u, d) \<in> (dep_edges S r)\<^sup>+ \<and> active S r u"
  using live_ledger [OF assms(1), of env] assms(2-4) blocked_has_active by blast

lemma ex_plan_live: "live_plan [ex_task ''a'' [], ex_task ''b'' [''a'']]"
proof -
  have "acyclic ({} :: (string \<times> string) set)" by (simp add: acyclic_def)
  then show ?thesis by (simp add: live_plan_def simple_plan_def plan_edges_def ex_task_def acyclic_insert)
qed

theorem blocked_task_waits_for_active_witness:
  "\<exists>t. hm_get (fs_tasks (fold_events ex_env [ex_trigger, ex_plan, ex_start] new_fold_state)) (''r'', ''b'') = Some t
    \<and> tk_state t = TS_Blocked
    \<and> (\<exists>u. (u, ''b'') \<in> (dep_edges (fold_events ex_env [ex_trigger, ex_plan, ex_start] new_fold_state) ''r'')\<^sup>+
        \<and> active (fold_events ex_env [ex_trigger, ex_plan, ex_start] new_fold_state) ''r'' u)"
proof -
  let ?S = "fold_events ex_env [ex_trigger, ex_plan, ex_start] new_fold_state"
  have ok: "list_all (\<lambda>e. plans_ok live_plan (ev_data e)) [ex_trigger, ex_plan, ex_start]"
    using ex_plan_live by (simp add: ex_trigger_def ex_plan_def ex_start_def ex_event_def new_with_timestamp_def plans_ok_def)
  obtain t where t: "hm_get (fs_tasks ?S) (''r'', ''b'') = Some t" "tk_state t = TS_Blocked"
    by (simp add: fold_eval)
  from blocked_task_waits_for_active [OF ok refl t] t show ?thesis by blast
qed

text \<open>C4: An unfinished run is never stuck. After any ledger with such plans and fewer than \<open>2 ^ 32\<close>
  tasks, a run that has tasks and is still \<^verbatim>\<open>RUNNING\<close> has a task that is ready, dispatched, running
  or waiting to be retried.\<close>

theorem run_never_stuck:
  assumes "list_all (\<lambda>e. plans_ok live_plan (ev_data e)) es"
    and "S = fold_events env es new_fold_state" "length (fs_tasks S) < 2 ^ 32"
    and "hm_get (fs_runs S) r = Some run" "hm_get (fs_tasks S) (r, k) = Some t" "rn_state run = RS_Running"
  shows "\<exists>u. active S r u"
proof -
  have S: "deps_ok S" "graph_ok S" "settled {} S" using live_ledger [OF assms(1), of env] assms(2) by auto
  have "plans_ok distinct_plan (ev_data e)" if "e \<in> set es" for e
    using that assms(1) by (auto simp: list_all_iff plans_ok_def live_plan_def simple_plan_def distinct_plan_def
        split: orchestration_event_data.splits)
  then have "runs_ok S" using runs_ok_ledger [of es env] assms(2) by simp
  moreover have "\<exists>kt \<in> set (fs_tasks S). fst (fst kt) = r" using map_of_SomeD [OF assms(5)] by force
  ultimately have "run_state_spec r (fs_tasks S) = RS_Running"
    using assms(3,4,6) by (auto simp: runs_ok_def states_ok_def)
  then obtain kt where kt: "kt \<in> set (fs_tasks S)" "fst (fst kt) = r" "\<not> is_terminal (tk_state (snd kt))"
    by (auto simp: run_state_spec_def split: if_splits)
  then have get: "hm_get (fs_tasks S) (r, snd (fst kt)) = Some (snd kt)"
    using hm_get_in_set [OF deps_ok_wf [OF S(1)]] by (cases kt) auto
  have "tk_state (snd kt) \<noteq> TS_Planned" using deps_ok_row [OF S(1) get] by (auto simp: deps_row_ok_def)
  then show ?thesis
  proof (cases rule: task_state_cases)
    case 1
    then have "active S r (snd (fst kt))" using get by (simp add: active_def)
    then show ?thesis by blast
  next
    case 2
    with blocked_has_active [OF S get] show ?thesis by blast
  qed (use kt(3) in auto)
qed

theorem run_never_stuck_witness:
  "\<exists>run u. hm_get (fs_runs (fold_events ex_env [ex_trigger, ex_plan, ex_start] new_fold_state)) ''r'' = Some run
    \<and> rn_state run = RS_Running \<and> active (fold_events ex_env [ex_trigger, ex_plan, ex_start] new_fold_state) ''r'' u"
proof -
  let ?S = "fold_events ex_env [ex_trigger, ex_plan, ex_start] new_fold_state"
  have ok: "list_all (\<lambda>e. plans_ok live_plan (ev_data e)) [ex_trigger, ex_plan, ex_start]"
    using ex_plan_live by (simp add: ex_trigger_def ex_plan_def ex_start_def ex_event_def new_with_timestamp_def plans_ok_def)
  have len: "length (fs_tasks ?S) < 2 ^ 32" by (simp add: fold_eval)
  obtain run where run: "hm_get (fs_runs ?S) ''r'' = Some run" "rn_state run = RS_Running" by (simp add: fold_eval)
  obtain t where t: "hm_get (fs_tasks ?S) (''r'', ''b'') = Some t" by (simp add: fold_eval)
  from run_never_stuck [OF ok refl len run(1) t run(2)] run show ?thesis by blast
qed

end
