(* ===== verification/Fold_Index.thy ===== *)
theory Fold_Index
  imports Fold_Monotone
begin

text \<open>
  The write-once indexes. The idempotency index makes the fold apply each event once; the run key
  index gives a run key to the first request that names it. Both rest on the frame facts of this
  theory: the handlers of runs, tasks, dispatches and timers leave the automation tables alone.
\<close>

section \<open>Frame facts\<close>

definition automation where
  "automation s =
     (fs_schedule_definitions s, fs_schedule_state s, fs_schedule_ticks s, fs_sensor_state s,
      fs_sensor_evals s, fs_backfills s, fs_backfill_chunks s, fs_run_key_index s,
      fs_run_key_conflicts s, fs_idempotency_keys s, fs_tenant_secret s)"

named_theorems automation_frame \<open>updates and handlers that leave the automation tables alone\<close>

lemma automation_update [automation_frame]:
  "automation (s\<lparr>fs_runs := a\<rparr>) = automation s"
  "automation (s\<lparr>fs_tasks := b\<rparr>) = automation s"
  "automation (s\<lparr>fs_catalog_run_index := c\<rparr>) = automation s"
  "automation (s\<lparr>fs_dep_satisfaction := d\<rparr>) = automation s"
  "automation (s\<lparr>fs_timers := f\<rparr>) = automation s"
  "automation (s\<lparr>fs_dispatch_outbox := g\<rparr>) = automation s"
  "automation (s\<lparr>fs_task_dependencies := h\<rparr>) = automation s"
  "automation (s\<lparr>fs_task_dependents := k\<rparr>) = automation s"
  "automation (s\<lparr>fs_partition_status := l\<rparr>) = automation s"
  by (simp_all add: automation_def)

lemma automation_fold: "(\<And>x s. automation (f x s) = automation s) \<Longrightarrow> automation (fold f xs s) = automation s"
  by (induction xs arbitrary: s) auto

lemma prune_automation [automation_frame]: "automation (prune_dispatch_outbox_row r k a s) = automation s"
  by (simp add: prune_dispatch_outbox_row_def automation_frame)

lemma refresh_automation [automation_frame]:
  "automation (refresh_catalog_run_index_for_run og w r ts s) = automation s"
  by (simp add: refresh_catalog_run_index_for_run_def automation_frame Let_def split: option.splits)

lemma satisfy_automation [automation_frame]:
  "automation (satisfy_downstream_edges r u res a i ts s) = automation s"
  unfolding satisfy_downstream_edges_def
  by (rule automation_fold) (simp add: satisfy_edge_def automation_frame Let_def)

lemma propagate_edges_automation:
  "automation (fst (fold (propagate_edge r u e i ts) ds (s, q))) = automation s"
proof (induction ds arbitrary: s q)
  case (Cons d ds)
  obtain s1 q1 where 1: "propagate_edge r u e i ts d (s, q) = (s1, q1)" by fastforce
  then have "automation s1 = automation s" by (rule propagate_edge_cases) (simp_all add: automation_frame)
  with Cons [of s1 q1] 1 show ?case by simp
qed simp

lemma propagate_automation [automation_frame]: "automation (propagate_failure r u e i ts s) = automation s"
proof -
  have "automation (propagate_loop r i ts s q) = automation s" for q
  proof (induction r i ts s q rule: propagate_loop.induct)
    case (2 r i ts s u e q)
    then show ?case
      using propagate_edges_automation [of r u e i ts "get_dependents s r u" s q]
      by (auto split: prod.splits)
  qed simp
  then show ?thesis unfolding propagate_failure_def .
qed

lemma update_partition_automation [automation_frame]:
  "automation (update_partition_attempt te w as p r o' ts i s) = automation s"
  "automation (update_partition_materialization te w as p r cv dt dv dp el ts i s) = automation s"
  by (simp_all add: update_partition_attempt_def update_partition_materialization_def automation_frame)

lemma finished_effects_automation [automation_frame]:
  "automation (finished_effects env c m p n i ts te w s) = automation s"
  by (simp add: finished_effects_def Let_def automation_frame split: option.splits)

lemma task_finished_automation [automation_frame]:
  "automation (fst (fold_task_finished env c i ts te w s)) = automation s"
  by (simp add: fold_task_finished_def Let_def automation_frame split: option.splits)

lemma visibility_automation [automation_frame]:
  "automation (fst (fold_task_output_visibility_changed r k a aid v pa pe i ts s)) = automation s"
  by (simp add: fold_task_output_visibility_changed_def automation_frame split: option.splits)

lemma completion_automation [automation_frame]:
  "automation (fst (fold_task_completion_recorded env c v e s)) = automation s"
proof -
  obtain s1 a where 1: "fold_task_finished env c (ev_event_id e) (ev_timestamp e) (ev_tenant_id e)
      (ev_workspace_id e) s = (s1, a)" by fastforce
  then have "automation s1 = automation s" by (metis fst_conv task_finished_automation)
  then show ?thesis
    using 1 by (simp add: fold_task_completion_recorded_def case_prod_beta automation_frame split: option.split)
qed

lemma cancel_automation [automation_frame]:
  "automation (fst (fold_run_cancel_requested r i ts s)) = automation s"
proof -
  have "automation (fold (cancel_task r i) ks s) = automation s" for ks s
    by (rule automation_fold) (simp add: cancel_task_def automation_frame)
  then show ?thesis
    unfolding fold_run_cancel_requested_def Let_def by (simp add: automation_frame split: option.split)
qed

lemma plan_automation [automation_frame]: "automation (fst (fold_plan_created r ds i ts s)) = automation s"
proof -
  have "automation (fold (plan_graph_step r) ds s) = automation s" for s
    by (rule automation_fold) (simp add: plan_graph_step_def automation_frame)
  moreover have "automation (fold (plan_rows_step r i ts) ds s) = automation s" for s
    by (rule automation_fold) (simp add: plan_rows_step_def automation_frame)
  ultimately show ?thesis by (simp add: fold_plan_created_def Let_def automation_frame)
qed

lemma small_handlers_automation [automation_frame]:
  "automation (fst (fold_run_triggered r p rk ls cv i ts s)) = automation s"
  "automation (fst (fold_task_started r k a aid ts i s)) = automation s"
  "automation (fst (fold_task_heartbeat r k a aid ts i s)) = automation s"
  "automation (fst (fold_dispatch_requested r k a aid wq d i ts s)) = automation s"
  "automation (fst (set_retry_not_before ro ko ao f i s)) = automation s"
  "automation (fst (fold_dispatch_enqueued d ro ko ao cl i ts s)) = automation s"
  "automation (fst (fold_timer_enqueued env tid ro ko ao cl i s)) = automation s"
  "automation (fst (fold_timer_fired env tid ty ro ko ao i s)) = automation s"
  by (simp_all add: fold_run_triggered_def fold_task_started_def fold_task_heartbeat_def
      fold_dispatch_requested_def fold_dispatch_enqueued_def fold_timer_enqueued_def
      fold_timer_fired_def set_retry_not_before_def automation_frame Let_def split: option.split)

lemma timer_requested_automation [automation_frame]:
  "automation (fst (fold_timer_requested tid ty ro ko ao f i s)) = automation s"
  by (simp add: fold_timer_requested_def Let_def case_prod_beta automation_frame split: option.split)

lemma refresh_if_changed_automation [automation_frame]:
  "automation (fst (refresh_if_changed e run_id r)) = automation (fst r)"
  by (simp add: refresh_if_changed_def automation_frame)

text \<open>The events that touch the automation tables.\<close>

fun is_automation :: "orchestration_event_data \<Rightarrow> bool" where
  "is_automation (ScheduleDefinitionUpserted _ _ _ _ _ _ _ _) = True"
| "is_automation (ScheduleTicked _ _ _ _ _ _ _ _ _) = True"
| "is_automation (SensorEvaluated _ _ _ _ _ _ _ _) = True"
| "is_automation (RunRequested _ _ _ _ _ _ _) = True"
| "is_automation (BackfillCreated _ _ _ _ _ _ _ _ _) = True"
| "is_automation (BackfillChunkPlanned _ _ _ _ _ _) = True"
| "is_automation (BackfillStateChanged _ _ _ _ _) = True"
| "is_automation _ = False"

lemma fold_data_automation: "\<not> is_automation d \<Longrightarrow> automation (fst (fold_data env e d s)) = automation s"
  by (cases d) (simp_all add: automation_frame)

lemma automation_eqD:
  assumes "automation s' = automation s"
  shows "fs_run_key_index s' = fs_run_key_index s" "fs_idempotency_keys s' = fs_idempotency_keys s"
    "fs_run_key_conflicts s' = fs_run_key_conflicts s" "fs_sensor_state s' = fs_sensor_state s"
    "fs_sensor_evals s' = fs_sensor_evals s" "fs_backfills s' = fs_backfills s"
    "fs_backfill_chunks s' = fs_backfill_chunks s" "fs_schedule_definitions s' = fs_schedule_definitions s"
    "fs_schedule_state s' = fs_schedule_state s" "fs_schedule_ticks s' = fs_schedule_ticks s"
    "fs_tenant_secret s' = fs_tenant_secret s"
  using assms by (simp_all add: automation_def)

section \<open>The idempotency index\<close>

lemma correlate_keys [simp]:
  "fs_idempotency_keys (correlate_run_to_source r src s) = fs_idempotency_keys s"
  "fs_run_key_index (correlate_run_to_source r src s) = fs_run_key_index s"
  "fs_sensor_state (correlate_run_to_source r src s) = fs_sensor_state s"
  "fs_sensor_evals (correlate_run_to_source r src s) = fs_sensor_evals s"
  "fs_backfills (correlate_run_to_source r src s) = fs_backfills s"
  by (cases src; simp)+

lemma schedule_definition_frame [simp]:
  "fs_idempotency_keys (fst (fold_schedule_definition_upserted t w sid ce tz cw as cv mt en ts i s)) = fs_idempotency_keys s"
  "fs_run_key_index (fst (fold_schedule_definition_upserted t w sid ce tz cw as cv mt en ts i s)) = fs_run_key_index s"
  "fs_sensor_state (fst (fold_schedule_definition_upserted t w sid ce tz cw as cv mt en ts i s)) = fs_sensor_state s"
  "fs_sensor_evals (fst (fold_schedule_definition_upserted t w sid ce tz cw as cv mt en ts i s)) = fs_sensor_evals s"
  "fs_backfills (fst (fold_schedule_definition_upserted t w sid ce tz cw as cv mt en ts i s)) = fs_backfills s"
  "fs_backfill_chunks (fst (fold_schedule_definition_upserted t w sid ce tz cw as cv mt en ts i s)) = fs_backfill_chunks s"
  by (simp_all add: fold_schedule_definition_upserted_def Let_def)

lemma schedule_ticked_frame [simp]:
  "fs_idempotency_keys (fst (fold_schedule_ticked env t w sid sf tid dv as ps st rk rf i s)) = fs_idempotency_keys s"
  "fs_run_key_index (fst (fold_schedule_ticked env t w sid sf tid dv as ps st rk rf i s)) = fs_run_key_index s"
  "fs_sensor_state (fst (fold_schedule_ticked env t w sid sf tid dv as ps st rk rf i s)) = fs_sensor_state s"
  "fs_sensor_evals (fst (fold_schedule_ticked env t w sid sf tid dv as ps st rk rf i s)) = fs_sensor_evals s"
  "fs_backfills (fst (fold_schedule_ticked env t w sid sf tid dv as ps st rk rf i s)) = fs_backfills s"
  "fs_backfill_chunks (fst (fold_schedule_ticked env t w sid sf tid dv as ps st rk rf i s)) = fs_backfill_chunks s"
  by (simp_all add: fold_schedule_ticked_def Let_def)

lemma upsert_sensor_eval_frame [simp]:
  "fs_idempotency_keys (fst (upsert_sensor_eval r s)) = fs_idempotency_keys s"
  "fs_run_key_index (fst (upsert_sensor_eval r s)) = fs_run_key_index s"
  "fs_sensor_state (fst (upsert_sensor_eval r s)) = fs_sensor_state s"
  "fs_backfills (fst (upsert_sensor_eval r s)) = fs_backfills s"
  "fs_backfill_chunks (fst (upsert_sensor_eval r s)) = fs_backfill_chunks s"
  by (simp_all add: upsert_sensor_eval_def)

lemma sensor_evaluated_frame [simp]:
  "fs_idempotency_keys (fst (fold_sensor_evaluated t w sid eid cb ca ev tr rr st ts i s)) = fs_idempotency_keys s"
  "fs_run_key_index (fst (fold_sensor_evaluated t w sid eid cb ca ev tr rr st ts i s)) = fs_run_key_index s"
  "fs_backfills (fst (fold_sensor_evaluated t w sid eid cb ca ev tr rr st ts i s)) = fs_backfills s"
  "fs_backfill_chunks (fst (fold_sensor_evaluated t w sid eid cb ca ev tr rr st ts i s)) = fs_backfill_chunks s"
  unfolding fold_sensor_evaluated_def Let_def case_prod_beta by simp_all

lemma run_requested_frame [simp]:
  "fs_idempotency_keys (fst (fold_run_requested env t w rk rf src cv ts i s)) = fs_idempotency_keys s"
  "fs_sensor_state (fst (fold_run_requested env t w rk rf src cv ts i s)) = fs_sensor_state s"
  "fs_sensor_evals (fst (fold_run_requested env t w rk rf src cv ts i s)) = fs_sensor_evals s"
  "fs_backfills (fst (fold_run_requested env t w rk rf src cv ts i s)) = fs_backfills s"
  by (simp_all add: fold_run_requested_def Let_def split: option.split)

lemma backfill_frame [simp]:
  "fs_idempotency_keys (fst (fold_backfill_created t w b as cv ps tp cs mc pb ts i s)) = fs_idempotency_keys s"
  "fs_run_key_index (fst (fold_backfill_created t w b as cv ps tp cs mc pb ts i s)) = fs_run_key_index s"
  "fs_sensor_state (fst (fold_backfill_created t w b as cv ps tp cs mc pb ts i s)) = fs_sensor_state s"
  "fs_backfill_chunks (fst (fold_backfill_created t w b as cv ps tp cs mc pb ts i s)) = fs_backfill_chunks s"
  "fs_idempotency_keys (fst (fold_backfill_chunk_planned t w b c ix pk rk i s)) = fs_idempotency_keys s"
  "fs_run_key_index (fst (fold_backfill_chunk_planned t w b c ix pk rk i s)) = fs_run_key_index s"
  "fs_sensor_state (fst (fold_backfill_chunk_planned t w b c ix pk rk i s)) = fs_sensor_state s"
  "fs_idempotency_keys (fst (fold_backfill_state_changed b f g v i s)) = fs_idempotency_keys s"
  "fs_run_key_index (fst (fold_backfill_state_changed b f g v i s)) = fs_run_key_index s"
  "fs_sensor_state (fst (fold_backfill_state_changed b f g v i s)) = fs_sensor_state s"
  "fs_backfill_chunks (fst (fold_backfill_state_changed b f g v i s)) = fs_backfill_chunks s"
  by (simp_all add: fold_backfill_created_def fold_backfill_chunk_planned_def
      fold_backfill_state_changed_def Let_def split: option.split)

lemma fold_data_keys: "fs_idempotency_keys (fst (fold_data env e d s)) = fs_idempotency_keys s"
proof (cases "is_automation d")
  case True
  then show ?thesis by (cases d) simp_all
qed (rule automation_eqD(2) [OF fold_data_automation])

interpretation keys_grow: fold_monotone env "\<lambda>_. True"
  "\<lambda>s s'. map_le (=) (fs_idempotency_keys s) (fs_idempotency_keys s')" for env
proof (unfold_locales, goal_cases)
  case (2 s s' s'') then show ?case by (rule map_le_trans) simp
qed (simp_all add: map_le_refl fold_data_keys record_idempotency_key_def map_le_or_insert)

lemma key_recorded:
  assumes "snd (fold_data env e (ev_data e) s) \<or> hm_get (fs_idempotency_keys s) (ev_idempotency_key e) \<noteq> None"
  shows "hm_get (fs_idempotency_keys (fold_event env e s)) (ev_idempotency_key e) \<noteq> None"
  using assms by (auto simp: fold_event_def record_idempotency_key_def hm_simps split: prod.splits)

lemma fold_event_known:
  "hm_get (fs_idempotency_keys s) (ev_idempotency_key e) \<noteq> None \<Longrightarrow> fold_event env e s = s"
  by (simp add: fold_event_def)

text \<open>C12: An event that was applied is never applied again. Once the fold has applied an event, a
  later event with the same idempotency key leaves the state as it is, whatever was folded in
  between.\<close>

theorem applied_event_folds_once:
  assumes "snd (fold_data env e (ev_data e) s) \<or> hm_get (fs_idempotency_keys s) (ev_idempotency_key e) \<noteq> None"
    and "ev_idempotency_key e' = ev_idempotency_key e"
  shows "fold_event env e' (fold_events env es (fold_event env e s)) = fold_events env es (fold_event env e s)"
proof (rule fold_event_known)
  have "map_le (=) (fs_idempotency_keys (fold_event env e s))
      (fs_idempotency_keys (fold_events env es (fold_event env e s)))"
    by (rule keys_grow.monotone) simp
  with key_recorded [OF assms(1)] assms(2)
  show "hm_get (fs_idempotency_keys (fold_events env es (fold_event env e s))) (ev_idempotency_key e') \<noteq> None"
    by (auto simp: map_le_def)
qed

section \<open>The run key index\<close>

lemma run_requested_run_keys:
  "map_le (=) (fs_run_key_index s) (fs_run_key_index (fst (fold_run_requested env t w rk rf src cv ts i s)))"
  by (auto simp: fold_run_requested_def Let_def map_le_refl intro: map_le_insert_new split: option.split)

lemma fold_data_run_keys:
  "map_le (=) (fs_run_key_index s) (fs_run_key_index (fst (fold_data env e d s)))"
proof (cases "is_automation d")
  case True
  then show ?thesis by (cases d) (simp_all add: map_le_refl run_requested_run_keys)
qed (simp add: automation_eqD(1) [OF fold_data_automation] map_le_refl)

interpretation run_keys_grow: fold_monotone env "\<lambda>_. True"
  "\<lambda>s s'. map_le (=) (fs_run_key_index s) (fs_run_key_index s')" for env
proof (unfold_locales, goal_cases)
  case (2 s s' s'') then show ?case by (rule map_le_trans) simp
qed (simp_all add: map_le_refl fold_data_run_keys record_idempotency_key_def)

text \<open>C13: A run key belongs to the first request that names it: once a row of the run key index
  exists, no event changes or removes it.\<close>

theorem run_key_first_request_wins:
  assumes "hm_get (fs_run_key_index s) run_key = Some row"
  shows "hm_get (fs_run_key_index (fold_events env es s)) run_key = Some row"
proof -
  have "map_le (=) (fs_run_key_index s) (fs_run_key_index (fold_events env es s))"
    by (rule run_keys_grow.monotone) simp
  with assms show ?thesis by (simp add: map_le_def)
qed

section \<open>Witnesses\<close>

theorem applied_event_folds_once_witness:
  "fold_event ex_env ex_trigger (fold_events ex_env [ex_plan] (fold_event ex_env ex_trigger new_fold_state))
     = fold_events ex_env [ex_plan] (fold_event ex_env ex_trigger new_fold_state)"
  by (rule applied_event_folds_once) (simp_all add: fold_eval)

definition ex_indexed :: fold_state where
  "ex_indexed = new_fold_state\<lparr>fs_run_key_index := [(''k'',
     \<lparr>ri_tenant_id = ''t'', ri_workspace_id = ''w'', ri_run_key = ''k'', ri_run_id = ''r'',
      ri_request_fingerprint = ''f'', ri_code_version = None, ri_created_at = 1, ri_row_version = ''1''\<rparr>)]\<rparr>"

definition ex_conflict :: orchestration_event where
  "ex_conflict = ex_event ''2'' (RunRequested ''k'' ''g'' [] None (SR_Manual ''u'' ''q'') [] None)"

theorem run_key_first_request_wins_witness:
  "\<exists>row. hm_get (fs_run_key_index ex_indexed) ''k'' = Some row \<and> ri_request_fingerprint row = ''f''
     \<and> hm_get (fs_run_key_index (fold_events ex_env [ex_conflict] ex_indexed)) ''k'' = Some row"
proof -
  obtain row where row: "hm_get (fs_run_key_index ex_indexed) ''k'' = Some row" "ri_request_fingerprint row = ''f''"
    by (simp add: ex_indexed_def)
  with run_key_first_request_wins [OF row(1), of ex_env "[ex_conflict]"] show ?thesis by auto
qed

end
