(* ===== verification/Fold_Stamps.thy ===== *)
theory Fold_Stamps
  imports Fold_Index
begin

text \<open>
  What one event may do to the rows of the tables. Rows are never removed, and a row that changes
  is stamped with the id of the event, unless the change leaves its place in the merge order
  alone: the columns a handler fills in without touching \<^verbatim>\<open>row_version\<close>. The dispatch outbox, whose
  rows are pruned, the catalog index, which is recomputed, and the conflict rows, which carry no
  version, are not described.
\<close>

section \<open>Tables\<close>

definition moves :: "('v \<Rightarrow> 'v \<Rightarrow> bool) \<Rightarrow> ('k, 'v) hashmap \<Rightarrow> ('k, 'v) hashmap \<Rightarrow> bool" where
  "moves rel m m' \<longleftrightarrow> (hm_wf m \<longrightarrow> hm_wf m') \<and> map_le rel m m'"

definition stamp :: "('v \<Rightarrow> string) \<Rightarrow> string \<Rightarrow> 'v \<Rightarrow> 'v \<Rightarrow> bool" where
  "stamp ver i v v' \<longleftrightarrow> ver v' = ver v \<or> ver v' = i"

definition task_stamp :: "string \<Rightarrow> task_row \<Rightarrow> task_row \<Rightarrow> bool" where
  "task_stamp i t t' \<longleftrightarrow> (tk_row_version t' = tk_row_version t \<and> rank (tk_state t') = rank (tk_state t)) \<or> tk_row_version t' = i"

definition backfill_stamp :: "string \<Rightarrow> backfill_row \<Rightarrow> backfill_row \<Rightarrow> bool" where
  "backfill_stamp i b b' \<longleftrightarrow> bf_state_version b \<le> bf_state_version b' \<and> stamp bf_row_version i b b'"

named_theorems stamp_intros \<open>ways in which a table moves\<close>

lemma moves_refl [stamp_intros, simp]: "(\<And>v. rel v v) \<Longrightarrow> moves rel m m"
  by (simp add: moves_def map_le_refl)

lemma moves_trans: "moves rel m m' \<Longrightarrow> moves rel m' m'' \<Longrightarrow> (\<And>a b c. rel a b \<Longrightarrow> rel b c \<Longrightarrow> rel a c) \<Longrightarrow> moves rel m m''"
  unfolding moves_def by (blast intro: map_le_trans)

lemma moves_modify [stamp_intros]:
  "(\<And>v. rel v v) \<Longrightarrow> (\<And>v. hm_get m k = Some v \<Longrightarrow> rel v (f v)) \<Longrightarrow> moves rel m (hm_modify k f m)"
  by (simp add: moves_def map_le_modify)

lemma moves_insert [stamp_intros]:
  "(\<And>v. rel v v) \<Longrightarrow> (\<And>v. hm_get m k = Some v \<Longrightarrow> rel v row) \<Longrightarrow> moves rel m (hm_insert k row m)"
  by (auto simp: moves_def map_le_def hm_simps)

lemma moves_or_insert [stamp_intros]: "(\<And>v. rel v v) \<Longrightarrow> moves rel m (hm_or_insert k row m)"
  by (simp add: moves_def map_le_or_insert)

lemma stamp_refl [simp]: "stamp ver i v v" "task_stamp i t t" "backfill_stamp i b b"
  by (simp_all add: stamp_def task_stamp_def backfill_stamp_def)

lemma stamp_new [simp]: "ver v' = i \<Longrightarrow> stamp ver i v v'" "tk_row_version t' = i \<Longrightarrow> task_stamp i t t'"
  by (simp_all add: stamp_def task_stamp_def)

lemma stamp_trans: "stamp ver i a b \<Longrightarrow> stamp ver i b c \<Longrightarrow> stamp ver i a c"
  "task_stamp i t t' \<Longrightarrow> task_stamp i t' t'' \<Longrightarrow> task_stamp i t t''"
  "backfill_stamp i x y \<Longrightarrow> backfill_stamp i y z \<Longrightarrow> backfill_stamp i x z"
  by (auto simp: stamp_def task_stamp_def backfill_stamp_def)

section \<open>States\<close>

definition stamped :: "string \<Rightarrow> fold_state \<Rightarrow> fold_state \<Rightarrow> bool" where
  "stamped i s s' \<longleftrightarrow>
     moves (stamp rn_row_version i) (fs_runs s) (fs_runs s')
     \<and> moves (task_stamp i) (fs_tasks s) (fs_tasks s')
     \<and> moves (stamp dp_row_version i) (fs_dep_satisfaction s) (fs_dep_satisfaction s')
     \<and> moves (stamp tmr_row_version i) (fs_timers s) (fs_timers s')
     \<and> moves (stamp sn_row_version i) (fs_sensor_state s) (fs_sensor_state s')
     \<and> moves (stamp se_row_version i) (fs_sensor_evals s) (fs_sensor_evals s')
     \<and> moves (backfill_stamp i) (fs_backfills s) (fs_backfills s')
     \<and> moves (stamp bc_row_version i) (fs_backfill_chunks s) (fs_backfill_chunks s')
     \<and> moves (=) (fs_run_key_index s) (fs_run_key_index s')
     \<and> moves (stamp pt_row_version i) (fs_partition_status s) (fs_partition_status s')
     \<and> moves (=) (fs_idempotency_keys s) (fs_idempotency_keys s')
     \<and> moves (stamp sd_row_version i) (fs_schedule_definitions s) (fs_schedule_definitions s')
     \<and> moves (stamp ss_row_version i) (fs_schedule_state s) (fs_schedule_state s')
     \<and> moves (stamp st_row_version i) (fs_schedule_ticks s) (fs_schedule_ticks s')"

lemma stamped_refl [simp, intro]: "stamped i s s"
  by (simp add: stamped_def)

lemma stamped_trans: "stamped i s s' \<Longrightarrow> stamped i s' s'' \<Longrightarrow> stamped i s s''"
  unfolding stamped_def by (elim conjE, intro conjI; erule (1) moves_trans; (erule (1) stamp_trans | simp))

lemma stamped_fold: "(\<And>x s. stamped i s (f x s)) \<Longrightarrow> stamped i s (fold f xs s)"
  by (induction xs arbitrary: s) (auto intro: stamped_trans)

lemma stamped_untracked [simp]:
  "stamped i s (s\<lparr>fs_dispatch_outbox := a\<rparr>)" "stamped i s (s\<lparr>fs_catalog_run_index := b\<rparr>)"
  "stamped i s (s\<lparr>fs_run_key_conflicts := c\<rparr>)" "stamped i s (s\<lparr>fs_task_dependencies := d\<rparr>)"
  "stamped i s (s\<lparr>fs_task_dependents := e\<rparr>)"
  by (simp_all add: stamped_def)

section \<open>Handlers\<close>

lemma refresh_stamped: "stamped i s (refresh_catalog_run_index_for_run og w r ts s)"
  by (simp add: refresh_catalog_run_index_for_run_def Let_def split: option.split)

lemma prune_stamped: "stamped i s (prune_dispatch_outbox_row r k a s)"
  by (simp add: prune_dispatch_outbox_row_def)

lemma satisfy_edge_stamped: "stamped i s (satisfy_edge r u res a i ts d s)"
proof -
  have "task_stamp i t (dep_satisfied_row i ts t)" for t
    by (simp add: dep_satisfied_row_def task_stamp_def Let_def)
  then show ?thesis by (simp add: satisfy_edge_def stamped_def Let_def stamp_intros)
qed

lemma satisfy_stamped: "stamped i s (satisfy_downstream_edges r u res a i ts s)"
  unfolding satisfy_downstream_edges_def by (rule stamped_fold) (rule satisfy_edge_stamped)

lemma run_task_done_stamp: "rn_row_version (run_task_done n i ts run) = i"
  by (simp add: run_task_done_def complete_run_def)

lemma propagate_edge_stamped: "stamped i (fst sq) (fst (propagate_edge r u e i ts d sq))"
  by (cases sq)
    (auto simp: propagate_edge_def stamped_def stamp_def task_stamp_def run_task_done_stamp Let_def
      intro!: stamp_intros split: option.split prod.split)

lemma propagate_edges_stamped: "stamped i (fst sq) (fst (fold (propagate_edge r u e i ts) ds sq))"
proof (induction ds arbitrary: sq)
  case (Cons d ds)
  show ?case using stamped_trans [OF propagate_edge_stamped Cons.IH] by simp
qed simp

lemma propagate_loop_stamped: "stamped i s (propagate_loop r i ts s q)"
proof (induction r i ts s q rule: propagate_loop.induct)
  case (2 r i ts s u e q)
  then show ?case
    using propagate_edges_stamped [of i "(s, q)" r u e ts "get_dependents s r u"]
    by (auto intro: stamped_trans split: prod.splits)
qed simp

lemma propagate_stamped: "stamped i s (propagate_failure r u e i ts s)"
  unfolding propagate_failure_def by (rule propagate_loop_stamped)

lemma update_partition_stamped:
  "stamped i s (update_partition_attempt te w as p r o' ts i s)"
  "stamped i s (update_partition_materialization te w as p r cv dt dv dp el ts i s)"
  by (auto simp: update_partition_attempt_def update_partition_materialization_def stamped_def Let_def
      intro!: stamp_intros moves_trans [OF moves_or_insert moves_modify] intro: stamp_trans)

lemma finished_effects_stamped: "stamped i s (finished_effects env c m p n i ts te w s)"
  by (auto simp: finished_effects_def Let_def satisfy_stamped propagate_stamped
      intro: stamped_trans update_partition_stamped satisfy_stamped split: option.split)

lemma finished_row_stamp: "tk_row_version (finished_task_row env c m p i ts t) = i"
  by (cases "tc_outcome c") (simp_all add: finished_task_row_def Let_def)

lemma finished_stamped: "stamped i s (fst (fold_task_finished env c i ts te w s))"
proof (cases "snd (fold_task_finished env c i ts te w s)")
  case True
  then obtain t where t: "hm_get (fs_tasks s) (tc_run_id c, tc_task_key c) = Some t"
    by (auto simp: fold_task_finished_def split: option.splits)
  let ?m = "extract_execution_metadata (tc_materialization_id c) (tc_output c) (tc_partition_key c)"
  let ?p = "case tc_partition_key c of Some p \<Rightarrow> Some p | None \<Rightarrow> md_delta_partition ?m"
  let ?s1 = "s\<lparr>fs_tasks := hm_modify (tc_run_id c, tc_task_key c) (finished_task_row env c ?m ?p i ts) (fs_tasks s)\<rparr>"
  let ?n = "finished_state (tc_outcome c) t"
  define s2 where "s2 = (if is_terminal ?n
     then ?s1\<lparr>fs_runs := hm_modify (tc_run_id c) (run_task_done ?n i ts) (fs_runs ?s1)\<rparr> else ?s1)"
  define s3 where "s3 = finished_effects env c ?m ?p ?n i ts te w s2"
  have "stamped i s s2"
    by (auto simp: s2_def stamped_def finished_row_stamp run_task_done_stamp intro!: stamp_intros)
  moreover have "stamped i s2 s3" unfolding s3_def by (rule finished_effects_stamped)
  moreover have "stamped i s3 (fst (fold_task_finished env c i ts te w s))"
    using t True
    by (auto simp: fold_task_finished_def Let_def s2_def s3_def update_partition_stamped split: option.split)
  ultimately show ?thesis by (blast intro: stamped_trans)
next
  case False
  then show ?thesis by (auto simp: fold_task_finished_def Let_def split: option.splits)
qed

lemma visibility_stamped:
  "stamped i s (fst (fold_task_output_visibility_changed r k a aid v pa pe i ts s))"
proof -
  have "tk_row_version (visibility_task_row v pa pe i ts t) = i" for t
    by (cases v) (simp_all add: visibility_task_row_def)
  then show ?thesis
    by (auto simp: fold_task_output_visibility_changed_def stamped_def intro!: stamp_intros split: option.split)
qed

lemma completion_stamped: "stamped (ev_event_id e) s (fst (fold_task_completion_recorded env c v e s))"
proof -
  obtain s1 a where 1: "fold_task_finished env c (ev_event_id e) (ev_timestamp e) (ev_tenant_id e)
      (ev_workspace_id e) s = (s1, a)" by fastforce
  then have "stamped (ev_event_id e) s s1" by (metis fst_conv finished_stamped)
  then show ?thesis
    using 1 by (auto simp: fold_task_completion_recorded_def case_prod_beta
        intro: stamped_trans visibility_stamped split: option.split)
qed

lemma cancel_stamped: "stamped i s (fst (fold_run_cancel_requested r i ts s))"
proof -
  have one: "stamped i s (cancel_task r i k s)" for k s
    by (auto simp: cancel_task_def stamped_def intro!: stamp_intros)
  note loop = stamped_fold [of i "cancel_task r i", OF one]
  have "stamped i s (s\<lparr>fs_runs := hm_modify r (\<lambda>run. run\<lparr>rn_cancel_requested := True, rn_row_version := i\<rparr>) (fs_runs s)\<rparr>)" for s
    by (auto simp: stamped_def intro!: stamp_intros)
  note first = stamped_trans [OF this loop]
  have last: "stamped i s (s\<lparr>fs_runs := hm_modify r f (fs_runs s)\<rparr>)" if "\<And>run. rn_row_version (f run) = i" for f s
    using that by (auto simp: stamped_def intro!: stamp_intros)
  show ?thesis unfolding fold_run_cancel_requested_def Let_def
    by (auto intro: first intro!: stamped_trans [OF first last] split: option.split)
qed

lemma plan_stamped: "stamped i s (fst (fold_plan_created r ds i ts s))"
proof -
  have "moves (stamp dp_row_version i) m (fold (\<lambda>u m. hm_insert (r, u, k) (plan_edge_row r i u k) m) us m)" for us k m
  proof (induction us arbitrary: m)
    case (Cons u us)
    have "moves (stamp dp_row_version i) m (hm_insert (r, u, k) (plan_edge_row r i u k) m)"
      by (intro stamp_intros) (simp_all add: plan_edge_row_def)
    from moves_trans [OF this Cons stamp_trans(1)] show ?case by simp
  qed simp
  then have rows: "stamped i s (plan_rows_step r i ts d s)" for d s
    by (auto simp: plan_rows_step_def stamped_def plan_task_row_def Let_def intro!: stamp_intros)
  have graph: "stamped i s (plan_graph_step r d s)" for d s
    by (simp add: plan_graph_step_def stamped_def)
  have "stamped i s (s\<lparr>fs_runs := hm_modify r f (fs_runs s)\<rparr>)" if "\<And>run. rn_row_version (f run) = i" for f s
    using that by (auto simp: stamped_def intro!: stamp_intros)
  then show ?thesis unfolding fold_plan_created_def Let_def
    by (auto intro!: stamped_trans [OF _ stamped_fold [of i "plan_rows_step r i ts", OF rows]]
        stamped_trans [OF _ stamped_fold [of i "plan_graph_step r", OF graph]])
qed

lemma small_handlers_stamped:
  "stamped i s (fst (fold_run_triggered r p rk ls cv i ts s))"
  "stamped i s (fst (fold_task_started r k a aid ts i s))"
  "stamped i s (fst (fold_task_heartbeat r k a aid ts i s))"
  "stamped i s (fst (set_retry_not_before ro ko ao f i s))"
  "stamped i s (fst (fold_dispatch_enqueued d ro ko ao cl i ts s))"
  "stamped i s (fst (fold_timer_enqueued env tid ro ko ao cl i s))"
  "stamped i s (fst (fold_timer_fired env tid ty ro ko ao i s))"
  by (auto simp: fold_run_triggered_def fold_task_started_def fold_task_heartbeat_def
      fold_dispatch_enqueued_def fold_timer_enqueued_def prune_dispatch_outbox_row_def
      fold_timer_fired_def set_retry_not_before_def timer_row_from_id_def stamped_def Let_def
      intro!: stamp_intros split: option.split)

lemma dispatch_requested_stamped: "stamped i s (fst (fold_dispatch_requested r k a aid wq d i ts s))"
proof -
  have "task_stamp i t (fst (dispatch_task_update a x i t))" for x t
    by (simp add: dispatch_task_update_def)
  then show ?thesis
    by (auto simp: fold_dispatch_requested_def prune_dispatch_outbox_row_def stamped_def Let_def
        intro!: stamp_intros)
qed

lemma timer_requested_stamped: "stamped i s (fst (fold_timer_requested tid ty ro ko ao f i s))"
proof -
  have "tmr_row_version (fst (fill_timer_row ro ko ao f row)) = tmr_row_version row" for row
    by (simp add: fill_timer_row_def Let_def)
  then have "stamp tmr_row_version i row (fst (fill_timer_row ro ko ao f row))" for row
    by (simp add: stamp_def)
  then have "stamped i s (s\<lparr>fs_timers := hm_modify tid (\<lambda>row. fst (fill_timer_row ro ko ao f row)) (fs_timers s)\<rparr>)"
    by (auto simp: stamped_def intro!: stamp_intros)
  moreover have "stamped i s (s\<lparr>fs_timers := hm_insert tid row (fs_timers s)\<rparr>)" if "tmr_row_version row = i" for row
    using that by (auto simp: stamped_def intro!: stamp_intros)
  ultimately show ?thesis
    by (auto simp: fold_timer_requested_def Let_def case_prod_beta
        intro!: stamped_trans [OF _ small_handlers_stamped(4)] split: option.split)
qed

lemma automation_handlers_stamped:
  "stamped i s (fst (fold_schedule_definition_upserted t w sid ce tz cw as cv mt en ts i s))"
  "stamped i s (fst (fold_backfill_created t w b as cv ps tp cs mc pb ts i s))"
  "stamped i s (fst (fold_backfill_chunk_planned t w b c ix pk rk i s))"
  by (auto simp: fold_schedule_definition_upserted_def fold_backfill_created_def
      fold_backfill_chunk_planned_def stamped_def backfill_stamp_def Let_def
      intro!: stamp_intros split: option.split)

lemma backfill_state_stamped: "stamped i s (fst (fold_backfill_state_changed b f g v i s))"
proof -
  have "(x :: u32) \<le> saturating_add x 1" for x
    by (cases "unat x + unat (1 :: u32) < 2 ^ 32")
      (simp add: saturating_add_def word_le_nat_alt unat_word_ariths, simp add: saturating_add_def)
  then show ?thesis
    by (auto simp: fold_backfill_state_changed_def stamped_def backfill_stamp_def
      intro!: stamp_intros split: option.split)
qed

lemma schedule_ticked_stamped: "stamped i s (fst (fold_schedule_ticked env t w sid sf tid dv as ps st rk rf i s))"
  by (auto simp: fold_schedule_ticked_def stamped_def Let_def
      intro!: stamp_intros moves_trans [OF moves_or_insert moves_modify] intro: stamp_trans split: option.split)

lemma upsert_sensor_eval_stamped: "se_row_version row = i \<Longrightarrow> stamped i s (fst (upsert_sensor_eval row s))"
  by (auto simp: upsert_sensor_eval_def stamped_def intro!: stamp_intros split: option.split)

lemma sensor_evaluated_stamped: "stamped i s (fst (fold_sensor_evaluated t w sid eid cb ca ev tr rr st ts i s))"
proof -
  have new: "stamped i s (s\<lparr>fs_sensor_state := hm_or_insert sid row (fs_sensor_state s)\<rparr>)" for row s
    by (auto simp: stamped_def intro!: stamp_intros)
  have upd: "stamped i s (s\<lparr>fs_sensor_state := hm_modify sid f (fs_sensor_state s)\<rparr>)"
    if "\<And>v. sn_row_version (f v) = i" for f s
    using that by (auto simp: stamped_def intro!: stamp_intros)
  note eval = stamped_trans [OF new upsert_sensor_eval_stamped]
  show ?thesis unfolding fold_sensor_evaluated_def Let_def case_prod_beta
    by (auto intro: eval intro!: stamped_trans [OF eval upd] simp del: upsert_sensor_eval_frame)
qed

lemma correlate_stamped: "stamped i s (correlate_run_to_source r src s)"
  by (cases src) (auto simp: stamped_def stamp_def intro!: stamp_intros)

lemma run_requested_stamped: "stamped i s (fst (fold_run_requested env t w rk rf src cv ts i s))"
proof -
  have "stamped i s (s\<lparr>fs_run_key_index := hm_insert rk row (fs_run_key_index s)\<rparr>)"
    if "hm_get (fs_run_key_index s) rk = None" for row
    using that by (auto simp: stamped_def intro!: stamp_intros)
  then show ?thesis
    by (auto simp: fold_run_requested_def Let_def
        intro!: stamped_trans [OF _ correlate_stamped] split: option.split)
qed

lemma refresh_if_changed_stamped: "stamped i s (fst r) \<Longrightarrow> stamped i s (fst (refresh_if_changed e run_id r))"
  by (auto simp: refresh_if_changed_def intro: stamped_trans refresh_stamped)

lemma record_key_stamped: "stamped i s (record_idempotency_key e s)"
  by (auto simp: record_idempotency_key_def stamped_def intro!: stamp_intros)

lemmas handlers_stamped =
  small_handlers_stamped automation_handlers_stamped finished_stamped visibility_stamped
  completion_stamped cancel_stamped plan_stamped dispatch_requested_stamped timer_requested_stamped
  backfill_state_stamped schedule_ticked_stamped sensor_evaluated_stamped run_requested_stamped

lemma fold_data_stamped: "stamped (ev_event_id e) s (fst (fold_data env e d s))"
  by (cases d) (auto intro!: refresh_if_changed_stamped handlers_stamped)

end
