(* ===== verification/Row_Merge.thy ===== *)
theory Row_Merge
  imports Orch_Rows
begin

text \<open>
  The row merge functions at the end of \<^verbatim>\<open>compactor/fold.rs\<close>, which decide between the versions of
  a row found in the base snapshot and in the L0 deltas. Each is a \<^verbatim>\<open>reduce\<close> over the versions,
  oldest layer first. The locale \<open>row_merge\<close> states what all of them promise: the result is the
  last version among those with the largest ordering key.
\<close>

section \<open>The merge functions\<close>

text \<open>\<^verbatim>\<open>Iterator::reduce\<close>.\<close>

fun reduce :: "('a \<Rightarrow> 'a \<Rightarrow> 'a) \<Rightarrow> 'a list \<Rightarrow> 'a option" where
  "reduce f [] = None"
| "reduce f (x # xs) = Some (foldl f x xs)"

definition merge_task_rows :: "task_row list \<Rightarrow> task_row option" where
  "merge_task_rows rows =
     reduce (\<lambda>best row.
        if tk_row_version row > tk_row_version best then row
        else if tk_row_version row < tk_row_version best then best
        else if rank (tk_state row) < rank (tk_state best) then best else row) rows"

definition merge_run_rows :: "run_row list \<Rightarrow> run_row option" where
  "merge_run_rows rows =
     reduce (\<lambda>best row. if rn_row_version row < rn_row_version best then best else row) rows"

definition merge_catalog_run_index_rows :: "catalog_run_index_row list \<Rightarrow> catalog_run_index_row option" where
  "merge_catalog_run_index_rows rows =
     reduce (\<lambda>best row. if ci_row_version row < ci_row_version best then best else row) rows"

definition merge_dep_satisfaction_rows :: "dep_satisfaction_row list \<Rightarrow> dep_satisfaction_row option" where
  "merge_dep_satisfaction_rows rows =
     reduce (\<lambda>best row. if dp_row_version row < dp_row_version best then best else row) rows"

definition merge_dispatch_outbox_rows :: "dispatch_outbox_row list \<Rightarrow> dispatch_outbox_row option" where
  "merge_dispatch_outbox_rows rows =
     reduce (\<lambda>best row. if do_row_version row < do_row_version best then best else row) rows"

definition merge_timer_rows :: "timer_row list \<Rightarrow> timer_row option" where
  "merge_timer_rows rows =
     reduce (\<lambda>best row. if tmr_row_version row < tmr_row_version best then best else row) rows"

definition merge_sensor_state_rows :: "sensor_state_row list \<Rightarrow> sensor_state_row option" where
  "merge_sensor_state_rows rows =
     reduce (\<lambda>best row. if sn_row_version row < sn_row_version best then best else row) rows"

definition merge_sensor_eval_rows :: "sensor_eval_row list \<Rightarrow> sensor_eval_row option" where
  "merge_sensor_eval_rows rows =
     reduce (\<lambda>best row. if se_row_version row < se_row_version best then best else row) rows"

definition merge_idempotency_key_rows :: "idempotency_key_row list \<Rightarrow> idempotency_key_row option" where
  "merge_idempotency_key_rows rows =
     reduce (\<lambda>best row. if ik_row_version row < ik_row_version best then best else row) rows"

definition merge_partition_status_rows :: "partition_status_row list \<Rightarrow> partition_status_row option" where
  "merge_partition_status_rows rows =
     reduce (\<lambda>best row. if pt_row_version row < pt_row_version best then best else row) rows"

definition merge_schedule_definition_rows :: "schedule_definition_row list \<Rightarrow> schedule_definition_row option" where
  "merge_schedule_definition_rows rows =
     reduce (\<lambda>best row. if sd_row_version row < sd_row_version best then best else row) rows"

definition merge_schedule_state_rows :: "schedule_state_row list \<Rightarrow> schedule_state_row option" where
  "merge_schedule_state_rows rows =
     reduce (\<lambda>best row. if ss_row_version row < ss_row_version best then best else row) rows"

definition merge_schedule_tick_rows :: "schedule_tick_row list \<Rightarrow> schedule_tick_row option" where
  "merge_schedule_tick_rows rows =
     reduce (\<lambda>best row. if st_row_version row < st_row_version best then best else row) rows"

definition merge_backfill_rows :: "backfill_row list \<Rightarrow> backfill_row option" where
  "merge_backfill_rows rows =
     reduce (\<lambda>best row.
        if bf_state_version row > bf_state_version best then row
        else if bf_state_version row < bf_state_version best then best
        else if bf_row_version row < bf_row_version best then best else row) rows"

definition merge_backfill_chunk_rows :: "backfill_chunk_row list \<Rightarrow> backfill_chunk_row option" where
  "merge_backfill_chunk_rows rows =
     reduce (\<lambda>best row. if bc_row_version row < bc_row_version best then best else row) rows"

section \<open>What they promise\<close>

definition last_max :: "('r \<Rightarrow> 'k :: linorder) \<Rightarrow> 'r \<Rightarrow> 'r \<Rightarrow> 'r" where
  "last_max key best row = (if key row < key best then best else row)"

lemma last_max_assoc: "last_max key (last_max key a b) c = last_max key a (last_max key b c)"
  by (auto simp: last_max_def)

lemma last_max_key: "key (last_max key a b) = max (key a) (key b)"
  by (auto simp: last_max_def max_def)

lemma foldl_last_max: "foldl (last_max key) (last_max key a b) xs = last_max key a (foldl (last_max key) b xs)"
  by (induction xs arbitrary: b) (simp_all add: last_max_assoc)

lemma foldl_last_max_ge: "r = x \<or> r \<in> set xs \<Longrightarrow> key r \<le> key (foldl (last_max key) x xs)"
  by (induction xs arbitrary: x) (auto simp: foldl_last_max last_max_key le_max_iff_disj)

locale row_merge =
  fixes key :: "'r \<Rightarrow> 'k :: linorder" and merge :: "'r list \<Rightarrow> 'r option"
  assumes merge_reduce: "merge rows = reduce (last_max key) rows"
begin

lemma merge_none: "merge [] = None"
  by (simp add: merge_reduce)

lemma merge_some: "rows \<noteq> [] \<Longrightarrow> \<exists>row. merge rows = Some row"
  by (cases rows) (simp_all add: merge_reduce)

lemma merge_single: "merge [a] = Some a"
  by (simp add: merge_reduce)

lemma merge_pair: "merge [a, b] = Some (if key b < key a then a else b)"
  by (simp add: merge_reduce last_max_def)

text \<open>Merging can be grouped: first the deltas among themselves, then into the base.\<close>

lemma merge_append:
  "merge xs = Some a \<Longrightarrow> merge ys = Some b \<Longrightarrow> merge (xs @ ys) = merge [a, b]"
  by (cases xs; cases ys) (auto simp: merge_reduce foldl_last_max)

lemma merge_key: "merge rows = Some row \<Longrightarrow> r \<in> set rows \<Longrightarrow> key r \<le> key row"
  using foldl_last_max_ge [of r "hd rows" "tl rows" key] by (cases rows) (auto simp: merge_reduce)

lemma merge_member:
  assumes "merge rows = Some row"
  shows "row \<in> set rows"
proof -
  have "foldl (last_max key) x xs \<in> insert x (set xs)" for x xs
  proof (induction xs arbitrary: x)
    case (Cons y xs)
    from Cons.IH [of "last_max key x y"] show ?case by (auto simp: last_max_def split: if_splits)
  qed simp
  with assms show ?thesis by (cases rows) (auto simp: merge_reduce)
qed

end

text \<open>Every merge function of the source is an instance: tasks by version and then state rank,
  backfills by state version and then version, every other row by version.\<close>

interpretation tasks: row_merge "\<lambda>t. (tk_row_version t, rank (tk_state t))" merge_task_rows
  by unfold_locales (auto simp: merge_task_rows_def last_max_def fun_eq_iff intro!: arg_cong2 [of _ _ _ _ reduce])

interpretation backfills: row_merge "\<lambda>b. (bf_state_version b, bf_row_version b)" merge_backfill_rows
  by unfold_locales (auto simp: merge_backfill_rows_def last_max_def fun_eq_iff intro!: arg_cong2 [of _ _ _ _ reduce])

interpretation runs: row_merge rn_row_version merge_run_rows
  by unfold_locales (simp add: merge_run_rows_def last_max_def [abs_def])

interpretation catalog: row_merge ci_row_version merge_catalog_run_index_rows
  by unfold_locales (simp add: merge_catalog_run_index_rows_def last_max_def [abs_def])

interpretation edges: row_merge dp_row_version merge_dep_satisfaction_rows
  by unfold_locales (simp add: merge_dep_satisfaction_rows_def last_max_def [abs_def])

interpretation outbox: row_merge do_row_version merge_dispatch_outbox_rows
  by unfold_locales (simp add: merge_dispatch_outbox_rows_def last_max_def [abs_def])

interpretation timers: row_merge tmr_row_version merge_timer_rows
  by unfold_locales (simp add: merge_timer_rows_def last_max_def [abs_def])

interpretation sensors: row_merge sn_row_version merge_sensor_state_rows
  by unfold_locales (simp add: merge_sensor_state_rows_def last_max_def [abs_def])

interpretation evals: row_merge se_row_version merge_sensor_eval_rows
  by unfold_locales (simp add: merge_sensor_eval_rows_def last_max_def [abs_def])

interpretation keys: row_merge ik_row_version merge_idempotency_key_rows
  by unfold_locales (simp add: merge_idempotency_key_rows_def last_max_def [abs_def])

interpretation partitions: row_merge pt_row_version merge_partition_status_rows
  by unfold_locales (simp add: merge_partition_status_rows_def last_max_def [abs_def])

interpretation definitions: row_merge sd_row_version merge_schedule_definition_rows
  by unfold_locales (simp add: merge_schedule_definition_rows_def last_max_def [abs_def])

interpretation schedules: row_merge ss_row_version merge_schedule_state_rows
  by unfold_locales (simp add: merge_schedule_state_rows_def last_max_def [abs_def])

interpretation ticks: row_merge st_row_version merge_schedule_tick_rows
  by unfold_locales (simp add: merge_schedule_tick_rows_def last_max_def [abs_def])

interpretation chunks: row_merge bc_row_version merge_backfill_chunk_rows
  by unfold_locales (simp add: merge_backfill_chunk_rows_def last_max_def [abs_def])

end
