(* ===== verification/Compaction.thy ===== *)
theory Compaction
  imports Fold_Stamps Row_Merge
begin

text \<open>
  The state arithmetic of the micro-compactor (\<^verbatim>\<open>compactor/service.rs\<close>). Each batch of events is
  folded into the current state; the rows that changed are written as an L0 delta, and the current
  state is read back as the base snapshot with the deltas merged into it, oldest first. The
  functions below are \<^verbatim>\<open>merge_states\<close>, \<^verbatim>\<open>insert_changed\<close>, \<^verbatim>\<open>delta_from_states\<close>,
  \<^verbatim>\<open>delta_state_is_empty\<close> and the retention rules. Two facts make the scheme work: merging can be
  grouped in any way, and reading back a delta gives the rows the fold had computed.
\<close>

section \<open>Merging tables\<close>

text \<open>\<^verbatim>\<open>*existing = merged_row\<close> when the merge function returns a row.\<close>

definition merged_row :: "('v list \<Rightarrow> 'v option) \<Rightarrow> 'v \<Rightarrow> 'v \<Rightarrow> 'v" where
  "merged_row merge existing row = (case merge [existing, row] of Some r \<Rightarrow> r | None \<Rightarrow> existing)"

text \<open>One loop of \<^verbatim>\<open>merge_states\<close>: \<^verbatim>\<open>entry(key).and_modify(upd).or_insert(row)\<close> for every row of
  the delta.\<close>

definition merge_entry :: "('v \<Rightarrow> 'v \<Rightarrow> 'v) \<Rightarrow> 'k \<times> 'v \<Rightarrow> ('k, 'v) hashmap \<Rightarrow> ('k, 'v) hashmap" where
  "merge_entry upd kv m =
     (case hm_get m (fst kv) of
        None \<Rightarrow> hm_insert (fst kv) (snd kv) m
      | Some _ \<Rightarrow> hm_modify (fst kv) (\<lambda>existing. upd existing (snd kv)) m)"

definition merge_table :: "('v \<Rightarrow> 'v \<Rightarrow> 'v) \<Rightarrow> ('k, 'v) hashmap \<Rightarrow> ('k, 'v) hashmap \<Rightarrow> ('k, 'v) hashmap" where
  "merge_table upd base delta = fold (merge_entry upd) delta base"

definition newer_run_key :: "run_key_index_row \<Rightarrow> run_key_index_row \<Rightarrow> run_key_index_row" where
  "newer_run_key existing row = (if ri_row_version row > ri_row_version existing then row else existing)"

definition merge_states :: "fold_state \<Rightarrow> fold_state \<Rightarrow> fold_state" where
  "merge_states base delta =
     base\<lparr>fs_runs := merge_table (merged_row merge_run_rows) (fs_runs base) (fs_runs delta),
          fs_tasks := merge_table (merged_row merge_task_rows) (fs_tasks base) (fs_tasks delta),
          fs_catalog_run_index := merge_table (merged_row merge_catalog_run_index_rows)
            (fs_catalog_run_index base) (fs_catalog_run_index delta),
          fs_dep_satisfaction := merge_table (merged_row merge_dep_satisfaction_rows)
            (fs_dep_satisfaction base) (fs_dep_satisfaction delta),
          fs_timers := merge_table (merged_row merge_timer_rows) (fs_timers base) (fs_timers delta),
          fs_dispatch_outbox := merge_table (merged_row merge_dispatch_outbox_rows)
            (fs_dispatch_outbox base) (fs_dispatch_outbox delta),
          fs_sensor_state := merge_table (merged_row merge_sensor_state_rows)
            (fs_sensor_state base) (fs_sensor_state delta),
          fs_sensor_evals := merge_table (merged_row merge_sensor_eval_rows)
            (fs_sensor_evals base) (fs_sensor_evals delta),
          fs_backfills := merge_table (merged_row merge_backfill_rows)
            (fs_backfills base) (fs_backfills delta),
          fs_backfill_chunks := merge_table (merged_row merge_backfill_chunk_rows)
            (fs_backfill_chunks base) (fs_backfill_chunks delta),
          fs_run_key_index := merge_table newer_run_key (fs_run_key_index base) (fs_run_key_index delta),
          fs_run_key_conflicts := merge_table (\<lambda>existing _. existing)
            (fs_run_key_conflicts base) (fs_run_key_conflicts delta),
          fs_partition_status := merge_table (merged_row merge_partition_status_rows)
            (fs_partition_status base) (fs_partition_status delta),
          fs_idempotency_keys := merge_table (merged_row merge_idempotency_key_rows)
            (fs_idempotency_keys base) (fs_idempotency_keys delta),
          fs_schedule_definitions := merge_table (merged_row merge_schedule_definition_rows)
            (fs_schedule_definitions base) (fs_schedule_definitions delta),
          fs_schedule_state := merge_table (merged_row merge_schedule_state_rows)
            (fs_schedule_state base) (fs_schedule_state delta),
          fs_schedule_ticks := merge_table (merged_row merge_schedule_tick_rows)
            (fs_schedule_ticks base) (fs_schedule_ticks delta)\<rparr>"

section \<open>Deltas\<close>

definition insert_changed ::
  "('k, 'v) hashmap \<Rightarrow> ('k, 'v) hashmap \<Rightarrow> ('k, 'v) hashmap \<Rightarrow> ('k, 'v) hashmap" where
  "insert_changed base current delta =
     fold (\<lambda>kv d. if hm_get base (fst kv) \<noteq> Some (snd kv) then hm_insert (fst kv) (snd kv) d else d)
       current delta"

definition delta_from_states :: "fold_state \<Rightarrow> fold_state \<Rightarrow> fold_state" where
  "delta_from_states base current =
     new_fold_state
       \<lparr>fs_runs := insert_changed (fs_runs base) (fs_runs current) [],
        fs_tasks := insert_changed (fs_tasks base) (fs_tasks current) [],
        fs_catalog_run_index := insert_changed (fs_catalog_run_index base) (fs_catalog_run_index current) [],
        fs_dep_satisfaction := insert_changed (fs_dep_satisfaction base) (fs_dep_satisfaction current) [],
        fs_timers := insert_changed (fs_timers base) (fs_timers current) [],
        fs_dispatch_outbox := insert_changed (fs_dispatch_outbox base) (fs_dispatch_outbox current) [],
        fs_sensor_state := insert_changed (fs_sensor_state base) (fs_sensor_state current) [],
        fs_sensor_evals := insert_changed (fs_sensor_evals base) (fs_sensor_evals current) [],
        fs_backfills := insert_changed (fs_backfills base) (fs_backfills current) [],
        fs_backfill_chunks := insert_changed (fs_backfill_chunks base) (fs_backfill_chunks current) [],
        fs_run_key_index := insert_changed (fs_run_key_index base) (fs_run_key_index current) [],
        fs_run_key_conflicts := insert_changed (fs_run_key_conflicts base) (fs_run_key_conflicts current) [],
        fs_partition_status := insert_changed (fs_partition_status base) (fs_partition_status current) [],
        fs_idempotency_keys := insert_changed (fs_idempotency_keys base) (fs_idempotency_keys current) [],
        fs_schedule_definitions :=
          insert_changed (fs_schedule_definitions base) (fs_schedule_definitions current) [],
        fs_schedule_state := insert_changed (fs_schedule_state base) (fs_schedule_state current) [],
        fs_schedule_ticks := insert_changed (fs_schedule_ticks base) (fs_schedule_ticks current) []\<rparr>"

definition delta_state_is_empty :: "fold_state \<Rightarrow> bool" where
  "delta_state_is_empty s \<longleftrightarrow>
     fs_runs s = [] \<and> fs_tasks s = [] \<and> fs_catalog_run_index s = [] \<and> fs_dep_satisfaction s = []
     \<and> fs_timers s = [] \<and> fs_dispatch_outbox s = [] \<and> fs_sensor_state s = [] \<and> fs_sensor_evals s = []
     \<and> fs_backfills s = [] \<and> fs_backfill_chunks s = [] \<and> fs_run_key_index s = []
     \<and> fs_run_key_conflicts s = [] \<and> fs_partition_status s = [] \<and> fs_idempotency_keys s = []
     \<and> fs_schedule_definitions s = [] \<and> fs_schedule_state s = [] \<and> fs_schedule_ticks s = []"

section \<open>Retention\<close>

definition days :: "int \<Rightarrow> int" where
  "days n = n * 86400 * 1000000000"

definition SENSOR_EVAL_RETENTION_DAYS :: int where
  "SENSOR_EVAL_RETENTION_DAYS = 30"

definition IDEMPOTENCY_KEY_RETENTION_DAYS :: int where
  "IDEMPOTENCY_KEY_RETENTION_DAYS = 30"

fun max_time :: "datetime list \<Rightarrow> datetime option" where
  "max_time [] = None"
| "max_time (t # ts) = Some (fold max ts t)"

definition retention_reference_time_for_events :: "lib_env \<Rightarrow> orchestration_event list \<Rightarrow> datetime" where
  "retention_reference_time_for_events env events =
     (case max_time (map ev_timestamp events) of Some t \<Rightarrow> t | None \<Rightarrow> utc_now env)"

definition retention_reference_time_for_state :: "fold_state \<Rightarrow> datetime option" where
  "retention_reference_time_for_state s =
     (case (max_time (map se_evaluated_at (hm_values (fs_sensor_evals s))),
            max_time (map ik_recorded_at (hm_values (fs_idempotency_keys s)))) of
        (Some a, Some b) \<Rightarrow> Some (max a b)
      | (Some a, None) \<Rightarrow> Some a
      | (None, Some b) \<Rightarrow> Some b
      | (None, None) \<Rightarrow> None)"

definition prune_sensor_evals :: "datetime \<Rightarrow> fold_state \<Rightarrow> fold_state" where
  "prune_sensor_evals retention_now s =
     (let cutoff = retention_now - days SENSOR_EVAL_RETENTION_DAYS
      in s\<lparr>fs_sensor_evals := filter (\<lambda>kv. se_evaluated_at (snd kv) \<ge> cutoff) (fs_sensor_evals s)\<rparr>)"

definition prune_idempotency_keys :: "datetime \<Rightarrow> fold_state \<Rightarrow> fold_state" where
  "prune_idempotency_keys retention_now s =
     (let cutoff = retention_now - days IDEMPOTENCY_KEY_RETENTION_DAYS
      in s\<lparr>fs_idempotency_keys := filter (\<lambda>kv. ik_recorded_at (snd kv) \<ge> cutoff) (fs_idempotency_keys s)\<rparr>)"

section \<open>A batch\<close>

text \<open>The part of \<^verbatim>\<open>compact_events_internal\<close> between reading the events and writing the result: sort
  by event id, fold, apply retention, and compute the delta. The state and the delta.\<close>

definition compact_batch :: "lib_env \<Rightarrow> orchestration_event list \<Rightarrow> fold_state \<Rightarrow> fold_state \<times> fold_state" where
  "compact_batch env events base_state =
     (let sorted = sort_key ev_event_id events;
          s1 = fold_events env sorted base_state;
          retention_now = retention_reference_time_for_events env sorted;
          state = prune_idempotency_keys retention_now (prune_sensor_evals retention_now s1)
      in (state, delta_from_states base_state state))"

text \<open>\<^verbatim>\<open>load_current_state\<close> on the contents of the base snapshot and of the L0 deltas.\<close>

definition load_current_state :: "fold_state option \<Rightarrow> fold_state list \<Rightarrow> fold_state" where
  "load_current_state base_snapshot l0_deltas =
     (let s0 = (case base_snapshot of Some b \<Rightarrow> b | None \<Rightarrow> new_fold_state);
          s1 = fold (\<lambda>delta s. merge_states s delta) l0_deltas s0;
          s2 = (case retention_reference_time_for_state s1 of
                  Some retention_now \<Rightarrow>
                    prune_idempotency_keys retention_now (prune_sensor_evals retention_now s1)
                | None \<Rightarrow> s1)
      in rebuild_dependency_graph s2)"

section \<open>Lookups in merged tables\<close>

lemma merge_entry_get:
  "hm_get (merge_entry upd (k, row) m) k' =
     (if k' = k then Some (case hm_get m k of None \<Rightarrow> row | Some e \<Rightarrow> upd e row) else hm_get m k')"
  by (auto simp: merge_entry_def hm_simps split: option.split)

lemma merge_table_get:
  "hm_wf d \<Longrightarrow> hm_get (merge_table upd m d) k =
     (case hm_get d k of
        None \<Rightarrow> hm_get m k
      | Some row \<Rightarrow> Some (case hm_get m k of None \<Rightarrow> row | Some e \<Rightarrow> upd e row))"
proof (induction d arbitrary: m)
  case (Cons kv d)
  obtain k0 row where kv: "kv = (k0, row)" by fastforce
  have "hm_get d k0 = None" using Cons.prems hm_in_keys [of k0 d] by (simp add: kv)
  with Cons show ?case
    by (simp add: merge_table_def kv merge_entry_get split: option.split)
qed (simp add: merge_table_def)

lemma merge_entry_wf: "hm_wf m \<Longrightarrow> hm_wf (merge_entry upd kv m)"
  by (simp add: merge_entry_def split: option.split)

lemma merge_table_wf: "hm_wf m \<Longrightarrow> hm_wf (merge_table upd m d)"
  unfolding merge_table_def by (induction d arbitrary: m) (simp_all add: merge_entry_wf)

lemma insert_changed_get:
  "hm_wf current \<Longrightarrow> hm_get (insert_changed base current delta) k =
     (case hm_get current k of
        Some row \<Rightarrow> if hm_get base k \<noteq> Some row then Some row else hm_get delta k
      | None \<Rightarrow> hm_get delta k)"
proof (induction current arbitrary: delta)
  case (Cons kv c)
  obtain k0 row where kv: "kv = (k0, row)" by fastforce
  have "hm_get c k0 = None" using Cons.prems hm_in_keys [of k0 c] by (simp add: kv)
  with Cons show ?case by (simp add: insert_changed_def kv hm_simps split: option.split)
qed (simp add: insert_changed_def)

lemma insert_changed_wf: "hm_wf delta \<Longrightarrow> hm_wf (insert_changed base current delta)"
  unfolding insert_changed_def by (induction current arbitrary: delta) simp_all

text \<open>Grouping: with an associative row choice, two deltas may be merged with each other first.\<close>

lemma merge_table_assoc:
  assumes "\<And>a b c. upd (upd a b) c = upd a (upd b c)" "hm_wf d1" "hm_wf d2"
  shows "hm_get (merge_table upd (merge_table upd m d1) d2) = hm_get (merge_table upd m (merge_table upd d1 d2))"
  using assms by (intro ext) (simp add: merge_table_get merge_table_wf split: option.split)

text \<open>Reading back: what is needed of the row choice is that it prefers the new row over the old one.\<close>

definition kept :: "('v \<Rightarrow> 'v \<Rightarrow> 'v) \<Rightarrow> ('k, 'v) hashmap \<Rightarrow> ('k, 'v) hashmap \<Rightarrow> bool" where
  "kept upd m m' \<longleftrightarrow> (\<forall>k v. hm_get m k = Some v \<longrightarrow> (\<exists>v'. hm_get m' k = Some v' \<and> (v' = v \<or> upd v v' = v')))"

lemma read_back:
  assumes "kept upd m m'" "hm_wf m'"
  shows "hm_get (merge_table upd m (insert_changed m m' [])) = hm_get m'"
proof
  fix k
  have "hm_wf (insert_changed m m' [])" by (rule insert_changed_wf) simp
  then show "hm_get (merge_table upd m (insert_changed m m' [])) k = hm_get m' k"
    using assms
    by (cases "hm_get m k") (fastforce simp: merge_table_get insert_changed_get kept_def split: option.split)+
qed

section \<open>Grouping of deltas\<close>

context row_merge
begin

lemma merged_row_pick: "merged_row merge a b = last_max key a b"
  by (simp add: merged_row_def merge_pair last_max_def)

lemma merged_row_assoc: "merged_row merge (merged_row merge a b) c = merged_row merge a (merged_row merge b c)"
  by (simp add: merged_row_pick last_max_assoc)

lemma merged_row_new: "key a \<le> key b \<Longrightarrow> merged_row merge a b = b"
  by (simp add: merged_row_pick last_max_def leD)

lemma kept_key: "map_le (\<lambda>b v. key b \<le> key v) m m' \<Longrightarrow> kept (merged_row merge) m m'"
  unfolding kept_def map_le_def using merged_row_new by blast

end

lemma newer_run_key_assoc: "newer_run_key (newer_run_key a b) c = newer_run_key a (newer_run_key b c)"
  by (auto simp: newer_run_key_def)

text \<open>Two states with the same rows under the same keys.\<close>

definition same_tables :: "fold_state \<Rightarrow> fold_state \<Rightarrow> bool" where
  "same_tables s s' \<longleftrightarrow>
     hm_get (fs_runs s) = hm_get (fs_runs s') \<and> hm_get (fs_tasks s) = hm_get (fs_tasks s')
     \<and> hm_get (fs_catalog_run_index s) = hm_get (fs_catalog_run_index s')
     \<and> hm_get (fs_dep_satisfaction s) = hm_get (fs_dep_satisfaction s')
     \<and> hm_get (fs_timers s) = hm_get (fs_timers s')
     \<and> hm_get (fs_dispatch_outbox s) = hm_get (fs_dispatch_outbox s')
     \<and> hm_get (fs_sensor_state s) = hm_get (fs_sensor_state s')
     \<and> hm_get (fs_sensor_evals s) = hm_get (fs_sensor_evals s')
     \<and> hm_get (fs_backfills s) = hm_get (fs_backfills s')
     \<and> hm_get (fs_backfill_chunks s) = hm_get (fs_backfill_chunks s')
     \<and> hm_get (fs_run_key_index s) = hm_get (fs_run_key_index s')
     \<and> hm_get (fs_run_key_conflicts s) = hm_get (fs_run_key_conflicts s')
     \<and> hm_get (fs_partition_status s) = hm_get (fs_partition_status s')
     \<and> hm_get (fs_idempotency_keys s) = hm_get (fs_idempotency_keys s')
     \<and> hm_get (fs_schedule_definitions s) = hm_get (fs_schedule_definitions s')
     \<and> hm_get (fs_schedule_state s) = hm_get (fs_schedule_state s')
     \<and> hm_get (fs_schedule_ticks s) = hm_get (fs_schedule_ticks s')"

text \<open>No table holds a key twice.\<close>

definition tables_wf :: "fold_state \<Rightarrow> bool" where
  "tables_wf s \<longleftrightarrow>
     hm_wf (fs_runs s) \<and> hm_wf (fs_tasks s) \<and> hm_wf (fs_catalog_run_index s)
     \<and> hm_wf (fs_dep_satisfaction s) \<and> hm_wf (fs_timers s) \<and> hm_wf (fs_dispatch_outbox s)
     \<and> hm_wf (fs_sensor_state s) \<and> hm_wf (fs_sensor_evals s) \<and> hm_wf (fs_backfills s)
     \<and> hm_wf (fs_backfill_chunks s) \<and> hm_wf (fs_run_key_index s) \<and> hm_wf (fs_run_key_conflicts s)
     \<and> hm_wf (fs_partition_status s) \<and> hm_wf (fs_idempotency_keys s)
     \<and> hm_wf (fs_schedule_definitions s) \<and> hm_wf (fs_schedule_state s) \<and> hm_wf (fs_schedule_ticks s)"

lemmas merged_rows_assoc =
  runs.merged_row_assoc tasks.merged_row_assoc catalog.merged_row_assoc edges.merged_row_assoc
  timers.merged_row_assoc outbox.merged_row_assoc sensors.merged_row_assoc evals.merged_row_assoc
  backfills.merged_row_assoc chunks.merged_row_assoc newer_run_key_assoc partitions.merged_row_assoc
  keys.merged_row_assoc definitions.merged_row_assoc schedules.merged_row_assoc ticks.merged_row_assoc


section \<open>Reading back a batch\<close>

definition rows_below :: "('v \<Rightarrow> string) \<Rightarrow> string \<Rightarrow> ('k, 'v) hashmap \<Rightarrow> bool" where
  "rows_below ver i m = list_all (\<lambda>kv. ver (snd kv) < i) m"

text \<open>The event id is newer than every row version of the state.\<close>

definition newer_id :: "fold_state \<Rightarrow> string \<Rightarrow> bool" where
  "newer_id s i \<longleftrightarrow>
     rows_below rn_row_version i (fs_runs s) \<and> rows_below tk_row_version i (fs_tasks s)
     \<and> rows_below dp_row_version i (fs_dep_satisfaction s) \<and> rows_below tmr_row_version i (fs_timers s)
     \<and> rows_below sn_row_version i (fs_sensor_state s) \<and> rows_below bf_row_version i (fs_backfills s)
     \<and> rows_below bc_row_version i (fs_backfill_chunks s)
     \<and> rows_below pt_row_version i (fs_partition_status s)
     \<and> rows_below sd_row_version i (fs_schedule_definitions s)
     \<and> rows_below ss_row_version i (fs_schedule_state s) \<and> rows_below st_row_version i (fs_schedule_ticks s)"

text \<open>Every row of the base is still there and has not moved back in the merge order.\<close>

definition carried :: "fold_state \<Rightarrow> fold_state \<Rightarrow> bool" where
  "carried b s \<longleftrightarrow>
     moves (\<lambda>x y. rn_row_version x \<le> rn_row_version y) (fs_runs b) (fs_runs s)
     \<and> moves (\<lambda>x y. (tk_row_version x, rank (tk_state x)) \<le> (tk_row_version y, rank (tk_state y))) (fs_tasks b) (fs_tasks s)
     \<and> moves (\<lambda>x y. dp_row_version x \<le> dp_row_version y) (fs_dep_satisfaction b) (fs_dep_satisfaction s)
     \<and> moves (\<lambda>x y. tmr_row_version x \<le> tmr_row_version y) (fs_timers b) (fs_timers s)
     \<and> moves (\<lambda>x y. sn_row_version x \<le> sn_row_version y) (fs_sensor_state b) (fs_sensor_state s)
     \<and> moves (\<lambda>x y. (bf_state_version x, bf_row_version x) \<le> (bf_state_version y, bf_row_version y)) (fs_backfills b) (fs_backfills s)
     \<and> moves (\<lambda>x y. bc_row_version x \<le> bc_row_version y) (fs_backfill_chunks b) (fs_backfill_chunks s)
     \<and> moves (=) (fs_run_key_index b) (fs_run_key_index s)
     \<and> moves (\<lambda>x y. pt_row_version x \<le> pt_row_version y) (fs_partition_status b) (fs_partition_status s)
     \<and> moves (\<lambda>x y. sd_row_version x \<le> sd_row_version y) (fs_schedule_definitions b) (fs_schedule_definitions s)
     \<and> moves (\<lambda>x y. ss_row_version x \<le> ss_row_version y) (fs_schedule_state b) (fs_schedule_state s)
     \<and> moves (\<lambda>x y. st_row_version x \<le> st_row_version y) (fs_schedule_ticks b) (fs_schedule_ticks s)"

lemma moves_carry:
  assumes "moves le b m" "moves rel m m'" "rows_below ver i b"
    and "\<And>x v v'. ver x < i \<Longrightarrow> le x v \<Longrightarrow> rel v v' \<Longrightarrow> le x v'"
  shows "moves le b m'"
proof -
  have "ver x < i" if "hm_get b k = Some x" for k x
    using assms(3) map_of_SomeD [OF that] by (force simp: rows_below_def list_all_iff)
  with assms(1,2,4) show ?thesis unfolding moves_def map_le_def by meson
qed

lemma carried_stamped: "carried b s \<Longrightarrow> stamped i s s' \<Longrightarrow> newer_id b i \<Longrightarrow> carried b s'"
  unfolding carried_def stamped_def newer_id_def
  by (elim conjE, intro conjI; (erule (2) moves_carry | erule (1) moves_trans);
      auto simp: stamp_def task_stamp_def backfill_stamp_def)

interpretation carried: fold_invariant env "\<lambda>e. newer_id b (ev_event_id e)" "carried b" for env b
  by unfold_locales (blast intro: carried_stamped fold_data_stamped record_key_stamped)+

lemma carried_refl: "carried b b"
  by (simp add: carried_def)

lemma kept_same: "map_le (=) m m' \<Longrightarrow> kept upd m m'"
  unfolding kept_def map_le_def by blast

lemma read_back_key:
  assumes "kept upd m m' \<or> map_le (=) m m'" "hm_wf m \<longrightarrow> hm_wf m'" "hm_wf m"
  shows "hm_get (merge_table upd m (insert_changed m m' [])) = hm_get m'"
  using assms by (intro read_back) (auto intro: kept_same)

text \<open>The tables in which neither the handlers nor the retention rules remove rows.\<close>

definition same_rows :: "fold_state \<Rightarrow> fold_state \<Rightarrow> bool" where
  "same_rows s s' \<longleftrightarrow>
     hm_get (fs_runs s) = hm_get (fs_runs s') \<and> hm_get (fs_tasks s) = hm_get (fs_tasks s')
     \<and> hm_get (fs_dep_satisfaction s) = hm_get (fs_dep_satisfaction s')
     \<and> hm_get (fs_timers s) = hm_get (fs_timers s')
     \<and> hm_get (fs_sensor_state s) = hm_get (fs_sensor_state s')
     \<and> hm_get (fs_backfills s) = hm_get (fs_backfills s')
     \<and> hm_get (fs_backfill_chunks s) = hm_get (fs_backfill_chunks s')
     \<and> hm_get (fs_run_key_index s) = hm_get (fs_run_key_index s')
     \<and> hm_get (fs_partition_status s) = hm_get (fs_partition_status s')
     \<and> hm_get (fs_schedule_definitions s) = hm_get (fs_schedule_definitions s')
     \<and> hm_get (fs_schedule_state s) = hm_get (fs_schedule_state s')
     \<and> hm_get (fs_schedule_ticks s) = hm_get (fs_schedule_ticks s')"

lemma carried_read_back:
  assumes "carried b s" "tables_wf b"
  shows "same_rows (merge_states b (delta_from_states b s)) s"
  using assms unfolding same_rows_def carried_def tables_wf_def merge_states_def delta_from_states_def moves_def
  by (simp add: read_back_key runs.kept_key tasks.kept_key edges.kept_key timers.kept_key sensors.kept_key
      backfills.kept_key chunks.kept_key partitions.kept_key definitions.kept_key schedules.kept_key ticks.kept_key)

lemma carried_prune: "carried b s \<Longrightarrow> carried b (prune_idempotency_keys t (prune_sensor_evals t s))"
  by (simp add: carried_def prune_idempotency_keys_def prune_sensor_evals_def Let_def)

text \<open>C6: A compacted batch reads back as what was folded. If the ids of a batch of events are newer
  than the rows of the current state, merging the delta that \<^verbatim>\<open>compact_events\<close> writes back into that
  state gives, for the runs, tasks, dependency edges, timers, sensors, backfills and their chunks,
  run keys, partitions and schedules, exactly the rows of the state the compactor held in memory:
  no update is lost and none comes back.\<close>

theorem compacted_batch_reads_back:
  assumes "tables_wf base" "list_all (\<lambda>e. newer_id base (ev_event_id e)) events"
    and "compact_batch env events base = (state, delta)"
  shows "same_rows (merge_states base delta) state"
proof -
  let ?s = "fold_events env (sort_key ev_event_id events) base"
  have "carried base ?s"
    by (rule carried.events [OF carried_refl]) (use assms(2) in \<open>simp add: list_all_iff\<close>)
  then have "carried base state" using assms(3) carried_prune by (auto simp: compact_batch_def Let_def)
  moreover have "delta = delta_from_states base state" using assms(3) by (auto simp: compact_batch_def Let_def)
  ultimately show ?thesis using carried_read_back [OF _ assms(1)] by simp
qed

section \<open>Examples\<close>

lemmas dispatch_eval [fold_eval] =
  fold_dispatch_requested_def dispatch_attempt_consumed_def dispatch_task_update_def fill_outbox_row_def

text \<open>A planned run whose first task has been dispatched, and the start of that task.\<close>

definition ex_base :: fold_state where
  "ex_base = fold_events ex_env
     [ex_trigger, ex_plan,
      ex_event ''3'' (DispatchRequested ''r'' ''a'' 1 ''x'' ''q'' ''dispatch:r:a:1'')] new_fold_state"

definition ex_started :: orchestration_event where
  "ex_started = ex_event ''4'' (TaskStarted ''r'' ''a'' 1 ''x'' ''w'')"

lemma ex_base_wf: "tables_wf ex_base"
  by (simp add: ex_base_def fold_eval tables_wf_def)

lemma ex_started_newer: "newer_id ex_base (ev_event_id ex_started)"
  by (simp add: ex_base_def ex_started_def fold_eval newer_id_def rows_below_def)


theorem compacted_batch_reads_back_witness:
  "same_rows (merge_states ex_base (snd (compact_batch ex_env [ex_started] ex_base)))
     (fst (compact_batch ex_env [ex_started] ex_base))
   \<and> fs_tasks (fst (compact_batch ex_env [ex_started] ex_base)) \<noteq> fs_tasks ex_base"
proof
  show "same_rows (merge_states ex_base (snd (compact_batch ex_env [ex_started] ex_base)))
     (fst (compact_batch ex_env [ex_started] ex_base))"
    by (rule compacted_batch_reads_back [OF ex_base_wf _ prod.collapse [symmetric]])
      (simp add: ex_started_newer)
  show "fs_tasks (fst (compact_batch ex_env [ex_started] ex_base)) \<noteq> fs_tasks ex_base"
    by (simp add: compact_batch_def ex_base_def ex_started_def prune_idempotency_keys_def prune_sensor_evals_def fold_eval)
qed


end
