(* ===== verification/Fold_Graph.thy ===== *)
theory Fold_Graph
  imports Fold_Progress Compaction
begin

text \<open>
  The dependency graph after a reload. The graph is not stored: \<^verbatim>\<open>load_current_state\<close> calls
  \<^verbatim>\<open>rebuild_dependency_graph\<close>, which reads it off the rows of the dependency edge table. The
  invariant \<open>edges_ok\<close> says that these rows are exactly the edges of the plans, so the rebuilt graph
  has the edges of the graph the fold had built, and a compactor that restarts releases the same
  tasks as one that did not.
\<close>

section \<open>The edge table\<close>

definition edges_ok :: "fold_state \<Rightarrow> bool" where
  "edges_ok s \<longleftrightarrow>
     hm_wf (fs_dep_satisfaction s)
     \<and> (\<forall>r u d e. hm_get (fs_dep_satisfaction s) (r, u, d) = Some e \<longrightarrow> edge_names r u d e)
     \<and> (\<forall>r u d. hm_get (fs_dep_satisfaction s) (r, u, d) \<noteq> None \<longleftrightarrow> (u, d) \<in> dep_edges s r)"

lemma edges_ok_cong:
  "edges_ok s \<Longrightarrow> fs_dep_satisfaction s' = fs_dep_satisfaction s \<Longrightarrow>
   fs_task_dependencies s' = fs_task_dependencies s \<Longrightarrow> edges_ok s'"
  by (simp add: edges_ok_def dep_edges_def)

lemma edges_ok_insert:
  assumes "edges_ok s" "(u, d) \<in> dep_edges s r" "edge_names r u d e"
    and "fs_dep_satisfaction s' = hm_insert (r, u, d) e (fs_dep_satisfaction s)"
      "fs_task_dependencies s' = fs_task_dependencies s"
  shows "edges_ok s'"
  using assms by (auto simp: edges_ok_def dep_edges_def hm_simps)

lemma dependents_dep_edges: "deps_ok s \<Longrightarrow> d \<in> set (get_dependents s r u) \<longleftrightarrow> (u, d) \<in> dep_edges s r"
  using deps_ok_dependents by (simp add: dep_edges_def)

lemma plan_rows_edges_wf: "hm_wf (fs_dep_satisfaction s) \<Longrightarrow> hm_wf (fs_dep_satisfaction (fold (plan_rows_step r i ts) ds s))"
proof (induction ds arbitrary: s)
  case (Cons d ds)
  have "hm_wf m \<Longrightarrow> hm_wf (fold (\<lambda>u m. hm_insert (r, u, k) (plan_edge_row r i u k) m) us m)" for us k m
    by (induction us arbitrary: m) simp_all
  with Cons show ?case by (simp add: plan_rows_step_def)
qed simp

lemma plan_graph_edge_table [simp]: "fs_dep_satisfaction (fold (plan_graph_step r) ds s) = fs_dep_satisfaction s"
  by (induction ds arbitrary: s) (simp_all add: plan_graph_step_def)

lemma edges_ok_plan:
  assumes "edges_ok s" "deps_ok s" "simple_plan ds"
  shows "edges_ok (fst (fold_plan_created r ds i ts s))"
proof (cases rule: plan_created_cases [of r ds i ts s])
  case drop
  then show ?thesis using assms by simp
next
  case planned
  define s' where "s' = fst (fold_plan_created r ds i ts s)"
  have none: "hm_get (fs_tasks s) (r, k) = None" for k using planned(1) by simp
  note deps = plan_created_tables(2) [OF assms(3) none planned(2) [folded s'_def] assms(2)]
  have ds: "distinct (map td_key ds)" using assms(3) by (simp add: simple_plan_def)
  note find = find_key_iff [OF ds]
  have edges: "(u, k) \<in> dep_edges s' r' \<longleftrightarrow>
      (if r' = r then \<exists>d \<in> set ds. td_key d = k \<and> u \<in> set (td_depends_on d) else (u, k) \<in> dep_edges s r')" for r' u k
    by (auto simp: dep_edges_def deps find)
  have "hm_get (fs_task_dependencies s) (r, k) = None" for k
    using deps_ok_planned [OF assms(2), of r k] none [of k] by (cases "hm_get (fs_task_dependencies s) (r, k)") simp_all
  then have old: "(u, k) \<notin> dep_edges s r" for u k by (simp add: dep_edges_def)
  have get: "hm_get (fs_dep_satisfaction s') (r', u, k) =
      (if r' = r \<and> (u, k) \<in> dep_edges s' r then Some (plan_edge_row r i u k)
       else hm_get (fs_dep_satisfaction s) (r', u, k))" for r' u k
    unfolding edges using plan_rows_edges [of r i ts ds _ r' u k] by (auto simp: s'_def planned(2))
  have "edges_ok s'" unfolding edges_ok_def
  proof (intro conjI allI impI)
    show "hm_wf (fs_dep_satisfaction s')"
      unfolding s'_def planned(2) by (rule plan_rows_edges_wf) (use assms(1) in \<open>simp add: edges_ok_def\<close>)
    show "edge_names r' u k e" if "hm_get (fs_dep_satisfaction s') (r', u, k) = Some e" for r' u k e
      using that assms(1) by (auto simp: get edge_names_def plan_edge_row_def edges_ok_def split: if_splits)
    show "hm_get (fs_dep_satisfaction s') (r', u, k) \<noteq> None \<longleftrightarrow> (u, k) \<in> dep_edges s' r'" for r' u k
    proof (cases "r' = r")
      case True
      have "hm_get (fs_dep_satisfaction s) (r, u, k) = None" using assms(1) old unfolding edges_ok_def by blast
      with True show ?thesis by (simp add: get)
    next
      case False
      then show ?thesis using assms(1) edges [of u k r'] unfolding edges_ok_def by (simp add: get)
    qed
  qed
  then show ?thesis by (simp add: s'_def)
qed

lemma edges_ok_step: "core_step simple_plan True s s' \<Longrightarrow> deps_ok s \<Longrightarrow> edges_ok s \<Longrightarrow> edges_ok s'"
proof (induction rule: core_step.induct)
  case (CS_frame s s')
  then show ?case by (intro edges_ok_cong [of s s']) (simp_all add: core_eq_def)
next
  case (CS_quiet s k f)
  show ?case by (rule edges_ok_cong [OF CS_quiet.prems(2)]) simp_all
next
  case (CS_end s r k t f i ts)
  show ?case by (rule edges_ok_cong [OF CS_end.prems(2)]) simp_all
next
  case (CS_satisfy s r u t d a i ts)
  then have "(u, d) \<in> dep_edges s r" using dependents_dep_edges by blast
  then show ?case
    by (rule edges_ok_insert [OF CS_satisfy.prems(2)]) (simp_all add: satisfy_edge_def Let_def edge_names_def)
next
  case (CS_unsatisfied s r u t d e)
  then have "(u, d) \<in> dep_edges s r" using dependents_dep_edges by blast
  then show ?case by (rule edges_ok_insert [OF CS_unsatisfied.prems(2) _ CS_unsatisfied.hyps(7)]) simp_all
next
  case (CS_cancel s r i ts)
  show ?case by (rule edges_ok_cong [OF CS_cancel.prems(2) cancel_run_frame(1,2)])
next
  case (CS_trigger s r p rk ls cv i ts)
  show ?case by (rule edges_ok_cong [OF CS_trigger.prems(2)]) (simp_all add: fold_run_triggered_def Let_def)
next
  case (CS_plan ds s r i ts)
  then show ?case by (intro edges_ok_plan)
qed

interpretation edges_ok: core_invariant simple_plan "\<lambda>s. deps_ok s \<and> edges_ok s"
  by unfold_locales (blast intro: deps_ok_step edges_ok_step)

section \<open>The rebuilt graph\<close>

lemma push_dep_new_vals: "x \<in> vals (push_dep_new k y m) k' \<longleftrightarrow> x \<in> vals m k' \<or> (k' = k \<and> x = y)"
  by (auto simp: push_dep_new_def vals_def hm_simps split: option.split)

lemma push_deps_new_vals:
  "x \<in> vals (fold (\<lambda>e m. push_dep_new (f e) (g e) m) es m) k \<longleftrightarrow> x \<in> vals m k \<or> (\<exists>e \<in> set es. f e = k \<and> g e = x)"
  by (induction es arbitrary: m) (auto simp: push_dep_new_vals)

lemma or_insert_vals: "x \<in> vals (fold (\<lambda>k m. hm_or_insert k [] m) ks m) k' \<longleftrightarrow> x \<in> vals m k'"
proof (induction ks arbitrary: m)
  case (Cons k ks)
  have "vals (hm_or_insert k [] m) k' = vals m k'" by (auto simp: vals_def hm_simps split: option.split)
  with Cons show ?case by simp
qed simp

lemma edge_rows:
  assumes "edges_ok s"
  shows "(\<exists>e \<in> set (hm_values (fs_dep_satisfaction s)). edge_names r u d e) \<longleftrightarrow> (u, d) \<in> dep_edges s r"
proof
  assume "\<exists>e \<in> set (hm_values (fs_dep_satisfaction s)). edge_names r u d e"
  then obtain k e where e: "(k, e) \<in> set (fs_dep_satisfaction s)" "edge_names r u d e" by auto
  then have "hm_get (fs_dep_satisfaction s) k = Some e" using assms hm_get_in_set by (auto simp: edges_ok_def)
  moreover obtain r' u' d' where k: "k = (r', u', d')" by (cases k)
  ultimately have get: "hm_get (fs_dep_satisfaction s) (r', u', d') = Some e" by simp
  then have "edge_names r' u' d' e" using assms unfolding edges_ok_def by blast
  then have "r' = r" "u' = u" "d' = d" using e(2) by (auto simp: edge_names_def)
  then show "(u, d) \<in> dep_edges s r" using get assms unfolding edges_ok_def by blast
next
  assume "(u, d) \<in> dep_edges s r"
  then obtain e where e: "hm_get (fs_dep_satisfaction s) (r, u, d) = Some e"
    using assms unfolding edges_ok_def by blast
  then have "edge_names r u d e" using assms unfolding edges_ok_def by blast
  then show "\<exists>e \<in> set (hm_values (fs_dep_satisfaction s)). edge_names r u d e" using map_of_SomeD [OF e] by force
qed

lemma rebuilt_vals:
  assumes "edges_ok s"
  shows "d \<in> vals (fs_task_dependents (rebuild_dependency_graph s)) (r, u) \<longleftrightarrow> (u, d) \<in> dep_edges s r"
    and "u \<in> vals (fs_task_dependencies (rebuild_dependency_graph s)) (r, d) \<longleftrightarrow> (u, d) \<in> dep_edges s r"
  unfolding rebuild_dependency_graph_def Let_def
  by (simp_all add: push_deps_new_vals or_insert_vals edge_rows [OF assms, symmetric] edge_names_def)
    (auto simp: vals_def)

lemma edges_ok_ledger:
  assumes "list_all (\<lambda>e. plans_ok simple_plan (ev_data e)) es"
  shows "deps_ok (fold_events env es new_fold_state) \<and> edges_ok (fold_events env es new_fold_state)"
proof (rule edges_ok.ledger.events)
  show "deps_ok new_fold_state \<and> edges_ok new_fold_state"
    using deps_ok_new by (simp add: edges_ok_def dep_edges_def new_fold_state_def)
qed (use assms in \<open>simp add: list_all_iff\<close>)

section \<open>Properties\<close>

text \<open>C8: A reload does not change the dependency graph. After any ledger whose plans name each task
  and each dependency of a task once, the graph \<^verbatim>\<open>rebuild_dependency_graph\<close> reads off the edge rows
  gives every task the dependents and the dependencies it had in the graph the fold built.\<close>

theorem rebuilt_graph_same:
  assumes "list_all (\<lambda>e. plans_ok simple_plan (ev_data e)) es"
    and "S = fold_events env es new_fold_state"
  shows "set (get_dependents (rebuild_dependency_graph S) r k) = set (get_dependents S r k)
    \<and> vals (fs_task_dependencies (rebuild_dependency_graph S)) (r, k) = vals (fs_task_dependencies S) (r, k)"
proof -
  have S: "deps_ok S" "edges_ok S" using edges_ok_ledger [OF assms(1), of env] assms(2) by auto
  have "vals (fs_task_dependencies S) (r, k) = {u. (u, k) \<in> dep_edges S r}"
    by (cases "hm_get (fs_task_dependencies S) (r, k)") (auto simp: vals_def dep_edges_def)
  moreover have "set (get_dependents S r k) = {d. (k, d) \<in> dep_edges S r}"
    using dependents_dep_edges [OF S(1)] by blast
  ultimately show ?thesis using rebuilt_vals [OF S(2)] by (auto simp: get_dependents_vals)
qed

theorem rebuilt_graph_same_witness:
  "get_dependents (rebuild_dependency_graph (fold_events ex_env ex_release new_fold_state)) ''r'' ''a'' = [''b'']
   \<and> set (get_dependents (rebuild_dependency_graph (fold_events ex_env ex_release new_fold_state)) ''r'' ''a'')
     = set (get_dependents (fold_events ex_env ex_release new_fold_state) ''r'' ''a'')"
proof -
  let ?S = "fold_events ex_env ex_release new_fold_state"
  have ok: "list_all (\<lambda>e. plans_ok simple_plan (ev_data e)) ex_release"
    by (simp add: ex_release_def fold_eval plans_ok_def simple_plan_def)
  have "get_dependents (rebuild_dependency_graph ?S) ''r'' ''a'' = [''b'']"
    by (simp add: rebuild_dependency_graph_def push_dep_new_def ex_release_def fold_eval)
  then show ?thesis using rebuilt_graph_same [OF ok refl] by blast
qed

end
