(* ===== verification/Object_Store.thy ===== *)
theory Object_Store
  imports Arco_Prelude
begin

text \<open>
  Object storage (\<^verbatim>\<open>arco-core/src/storage.rs\<close>). The trait \<^verbatim>\<open>StorageBackend\<close> is a record of
  operations over a type of stores, and the locale \<open>object_store\<close> states the part of its contract
  that conditional writes rest on: a write that succeeds puts the data under a version that was never
  used before, a failed one changes nothing, \<^verbatim>\<open>DoesNotExist\<close> succeeds exactly on an absent object and
  \<^verbatim>\<open>MatchesVersion\<close> only on the version it names. The in-memory backend of the source is an
  instance. The cloud backend delegates to the \<^verbatim>\<open>object_store\<close> crate and is not modelled.

  The type of bytes is left open. Versions of the in-memory backend come from an \<^verbatim>\<open>AtomicI64\<close>; the
  counter is an integer here, since \<open>2 ^ 63\<close> writes are out of reach. A poisoned lock is not modelled.
\<close>

section \<open>Errors\<close>

datatype core_error =
    CE_InvalidId string
  | CE_TenantIsolation string
  | CE_Storage string
  | CE_Serialization string
  | CE_ResourceNotFound string string
  | CE_NotFound string
  | CE_InvalidInput string
  | CE_PreconditionFailed string
  | CE_Internal string
  | CE_Validation string

section \<open>The trait\<close>

datatype write_precondition = WP_DoesNotExist | WP_MatchesVersion string | WP_None

datatype write_result = WR_Success string | WR_PreconditionFailed string

record object_meta =
  om_path :: string
  om_size :: nat
  om_version :: string
  om_last_modified :: "datetime option"
  om_etag :: "string option"

record ('s, 'd) storage_backend =
  sb_get :: "'s \<Rightarrow> string \<Rightarrow> core_error + 'd"
  sb_head :: "'s \<Rightarrow> string \<Rightarrow> object_meta option"
  sb_put :: "datetime \<Rightarrow> string \<Rightarrow> 'd \<Rightarrow> write_precondition \<Rightarrow> 's \<Rightarrow> 's \<times> write_result"
  sb_delete :: "string \<Rightarrow> 's \<Rightarrow> 's"
  sb_list :: "'s \<Rightarrow> string \<Rightarrow> object_meta list"

section \<open>The in-memory backend\<close>

record 'b stored_object =
  so_data :: "'b list"
  so_version :: int
  so_last_modified :: datetime

record 'b memory_backend =
  mb_objects :: "(string, 'b stored_object) hashmap"
  mb_next_version :: int

definition memory_new :: "'b memory_backend" where
  "memory_new = \<lparr>mb_objects = [], mb_next_version = 0\<rparr>"

definition memory_get :: "'b memory_backend \<Rightarrow> string \<Rightarrow> core_error + 'b list" where
  "memory_get m path =
     (case hm_get (mb_objects m) path of
        Some obj \<Rightarrow> Inr (so_data obj)
      | None \<Rightarrow> Inl (CE_NotFound (''object not found: '' @ path)))"

definition memory_get_range ::
  "'b memory_backend \<Rightarrow> string \<Rightarrow> nat \<Rightarrow> nat \<Rightarrow> core_error + 'b list" where
  "memory_get_range m path range_start range_end =
     (case memory_get m path of
        Inl e \<Rightarrow> Inl e
      | Inr data \<Rightarrow>
          let len = length data;
              end' = min range_end len
          in if range_start > len
             then Inl (CE_InvalidInput
               (''range start '' @ show_nat range_start @ '' exceeds object length '' @ show_nat len))
             else if end' < range_start
             then Inl (CE_InvalidInput
               (''range end '' @ show_nat end' @ '' is before start '' @ show_nat range_start))
             else Inr (take (end' - range_start) (drop range_start data)))"

definition meta_of :: "string \<Rightarrow> 'b stored_object \<Rightarrow> object_meta" where
  "meta_of path obj = \<lparr>om_path = path, om_size = length (so_data obj), om_version = show_int (so_version obj),
     om_last_modified = Some (so_last_modified obj),
     om_etag = Some (CHR 0x22 # show_int (so_version obj) @ [CHR 0x22])\<rparr>"

definition memory_head :: "'b memory_backend \<Rightarrow> string \<Rightarrow> object_meta option" where
  "memory_head m path = map_option (meta_of path) (hm_get (mb_objects m) path)"

definition memory_list :: "'b memory_backend \<Rightarrow> string \<Rightarrow> object_meta list" where
  "memory_list m prefix =
     map (\<lambda>(path, obj). meta_of path obj) (filter (\<lambda>kv. take (length prefix) (fst kv) = prefix) (mb_objects m))"

text \<open>The version reported when the precondition fails, if it does.\<close>

definition memory_conflict :: "write_precondition \<Rightarrow> 'b stored_object option \<Rightarrow> string option" where
  "memory_conflict precondition current =
     (case precondition of
        WP_DoesNotExist \<Rightarrow> map_option (\<lambda>obj. show_int (so_version obj)) current
      | WP_MatchesVersion expected \<Rightarrow>
          (case current of
             Some obj \<Rightarrow> if Some (so_version obj) \<noteq> parse_i64 expected
                          then Some (show_int (so_version obj)) else None
           | None \<Rightarrow> Some [])
      | WP_None \<Rightarrow> None)"

definition memory_put ::
  "datetime \<Rightarrow> string \<Rightarrow> 'b list \<Rightarrow> write_precondition \<Rightarrow> 'b memory_backend \<Rightarrow> 'b memory_backend \<times> write_result" where
  "memory_put now path data precondition m =
     (case memory_conflict precondition (hm_get (mb_objects m) path) of
        Some current_version \<Rightarrow> (m, WR_PreconditionFailed current_version)
      | None \<Rightarrow>
          let new_version = mb_next_version m + 1
          in (m\<lparr>mb_next_version := new_version,
                mb_objects := hm_insert path
                  \<lparr>so_data = data, so_version = new_version, so_last_modified = now\<rparr> (mb_objects m)\<rparr>,
              WR_Success (show_int new_version)))"

definition memory_delete :: "string \<Rightarrow> 'b memory_backend \<Rightarrow> 'b memory_backend" where
  "memory_delete path m = m\<lparr>mb_objects := hm_remove path (mb_objects m)\<rparr>"

definition memory_ops :: "('b memory_backend, 'b list) storage_backend" where
  "memory_ops = \<lparr>sb_get = memory_get, sb_head = memory_head, sb_put = memory_put, sb_delete = memory_delete,
     sb_list = memory_list\<rparr>"

section \<open>The contract\<close>

text \<open>An object as clients see it: its version and its data. The abstract store maps paths to objects.\<close>

definition sb_object :: "('s, 'd) storage_backend \<Rightarrow> 's \<Rightarrow> string \<Rightarrow> (string \<times> 'd) option" where
  "sb_object sb s p =
     (case (sb_head sb s p, sb_get sb s p) of (Some m, Inr d) \<Rightarrow> Some (om_version m, d) | _ \<Rightarrow> None)"

locale object_store =
  fixes sb :: "('s, 'd) storage_backend" and inv :: "'s \<Rightarrow> bool" and used :: "'s \<Rightarrow> string set"
  assumes head_object: "inv s \<Longrightarrow> map_option om_version (sb_head sb s p) = map_option fst (sb_object sb s p)"
    and get_some: "inv s \<Longrightarrow> sb_object sb s p = Some (v, d) \<Longrightarrow> sb_get sb s p = Inr d"
    and get_none: "inv s \<Longrightarrow> sb_object sb s p = None \<Longrightarrow> \<exists>msg. sb_get sb s p = Inl (CE_NotFound msg)"
    and object_used: "inv s \<Longrightarrow> sb_object sb s p = Some (v, d) \<Longrightarrow> v \<in> used s"
    and put_failed: "inv s \<Longrightarrow> sb_put sb now p d c s = (s', WR_PreconditionFailed v) \<Longrightarrow> s' = s"
    and put_refused: "inv s \<Longrightarrow> sb_put sb now p d WP_DoesNotExist s = (s', WR_PreconditionFailed v) \<Longrightarrow> sb_object sb s p \<noteq> None"
    and put_absent: "inv s \<Longrightarrow> sb_put sb now p d WP_DoesNotExist s = (s', WR_Success v) \<Longrightarrow> sb_object sb s p = None"
    and put_matches: "inv s \<Longrightarrow> sb_put sb now p d (WP_MatchesVersion v0) s = (s', WR_Success v) \<Longrightarrow>
      v0 \<in> used s \<Longrightarrow> map_option fst (sb_object sb s p) = Some v0"
    and put_inv: "inv s \<Longrightarrow> sb_put sb now p d c s = (s', WR_Success v) \<Longrightarrow> inv s'"
    and put_fresh: "inv s \<Longrightarrow> sb_put sb now p d c s = (s', WR_Success v) \<Longrightarrow> v \<notin> used s \<and> used s' = insert v (used s)"
    and put_object: "inv s \<Longrightarrow> sb_put sb now p d c s = (s', WR_Success v) \<Longrightarrow>
      sb_object sb s' = (sb_object sb s)(p \<mapsto> (v, d))"
    and list_objects: "inv s \<Longrightarrow> (\<exists>m \<in> set (sb_list sb s prefix). om_path m = p \<and> om_version m = v) \<longleftrightarrow>
      take (length prefix) p = prefix \<and> map_option fst (sb_object sb s p) = Some v"
    and delete_inv: "inv s \<Longrightarrow> inv (sb_delete sb p s)"
    and delete_used: "inv s \<Longrightarrow> used (sb_delete sb p s) = used s"
    and delete_object: "inv s \<Longrightarrow> sb_object sb (sb_delete sb p s) = (sb_object sb s)(p := None)"
begin

text \<open>Once a write has moved an object past a version, no conditional write against that version
  succeeds, whatever is written in between: the versions compare-and-swap loops carry are never
  handed out twice.\<close>

lemma stale_version_rejected:
  assumes "inv s" and "v0 \<in> used s" and "map_option fst (sb_object sb s p) \<noteq> Some v0"
  shows "\<exists>v. sb_put sb now p d (WP_MatchesVersion v0) s = (s, WR_PreconditionFailed v)"
proof -
  obtain s' r where r: "sb_put sb now p d (WP_MatchesVersion v0) s = (s', r)" by fastforce
  with put_matches [OF assms(1)] assms(2,3) have "\<nexists>v. r = WR_Success v" by blast
  then obtain v where "r = WR_PreconditionFailed v" by (cases r) auto
  with put_failed [OF assms(1)] r show ?thesis by blast
qed

end

subsection \<open>The in-memory backend keeps the contract\<close>

lemma show_int_inj [simp]: "show_int a = show_int b \<longleftrightarrow> a = b"
proof -
  have neg: "show_nat m \<noteq> CHR ''-'' # xs" for m xs
    using show_nat_no_sep(2) [of m] by (metis list.set_intros(1))
  show ?thesis using neg [symmetric] neg by (auto simp: show_int_def)
qed

lemma parse_i64_show_eq: "parse_i64 (show_int i) = Some j \<Longrightarrow> j = i"
proof (cases "i < 0")
  case True
  then show "parse_i64 (show_int i) = Some j \<Longrightarrow> j = i"
    by (auto simp: parse_i64_def show_int_def Let_def split: if_splits)
next
  case False
  obtain c cs where cs: "show_nat (nat i) = c # cs" "is_digit c" using show_nat_hd by blast
  then have "c \<noteq> CHR ''+''" "c \<noteq> CHR ''-''" by auto
  moreover have "parse_digits 0 (c # cs) = Some (nat i)"
    using parse_digits_show [of "nat i"] unfolding cs(1) .
  moreover assume "parse_i64 (show_int i) = Some j"
  ultimately show ?thesis using False
    by (auto simp: parse_i64_def show_int_def cs(1) Let_def simp del: parse_digits.simps split: if_splits)
qed

text \<open>The versions handed out so far, and that every object has one of them.\<close>

definition memory_used :: "'b memory_backend \<Rightarrow> string set" where
  "memory_used m = show_int ` {..mb_next_version m}"

definition memory_inv :: "'b memory_backend \<Rightarrow> bool" where
  "memory_inv m \<longleftrightarrow> hm_wf (mb_objects m) \<and> 0 \<le> mb_next_version m \<and>
     (\<forall>p obj. hm_get (mb_objects m) p = Some obj \<longrightarrow> 0 \<le> so_version obj \<and> so_version obj \<le> mb_next_version m)"

lemma memory_object [simp]:
  "sb_object memory_ops m p = map_option (\<lambda>obj. (show_int (so_version obj), so_data obj)) (hm_get (mb_objects m) p)"
  by (simp add: sb_object_def memory_ops_def memory_head_def memory_get_def meta_of_def split: option.split)

lemma memory_ops_sel [simp]:
  "sb_get memory_ops = memory_get" "sb_head memory_ops = memory_head"
  "sb_put memory_ops = memory_put" "sb_delete memory_ops = memory_delete" "sb_list memory_ops = memory_list"
  by (simp_all add: memory_ops_def)

lemma memory_put_success:
  "memory_put now p d c m = (m', WR_Success v) \<longleftrightarrow>
   memory_conflict c (hm_get (mb_objects m) p) = None \<and> v = show_int (mb_next_version m + 1) \<and>
   m' = m\<lparr>mb_next_version := mb_next_version m + 1,
          mb_objects := hm_insert p \<lparr>so_data = d, so_version = mb_next_version m + 1, so_last_modified = now\<rparr>
            (mb_objects m)\<rparr>"
  by (auto simp: memory_put_def Let_def split: option.splits)

lemma memory_list_get:
  assumes "memory_inv m"
  shows "(\<exists>x \<in> set (memory_list m prefix). om_path x = p \<and> om_version x = v) \<longleftrightarrow>
    take (length prefix) p = prefix \<and> (\<exists>obj. hm_get (mb_objects m) p = Some obj \<and> show_int (so_version obj) = v)"
proof -
  have "hm_wf (mb_objects m)" using assms by (simp add: memory_inv_def)
  note get = hm_get_in_set [OF this]
  show ?thesis unfolding get by (auto simp: memory_list_def meta_of_def)
qed

interpretation memory: object_store memory_ops memory_inv memory_used
proof (unfold_locales, goal_cases)
  case (1 s p)
  show ?case by (simp add: memory_head_def meta_of_def option.map_comp comp_def)
next
  case (2 s p v d)
  then show ?case by (auto simp: memory_get_def)
next
  case (3 s p)
  then show ?case by (auto simp: memory_get_def)
next
  case (4 s p v d)
  then show ?case by (auto simp: memory_inv_def memory_used_def)
next
  case (5 s now p d c s' v)
  then show ?case by (auto simp: memory_put_def Let_def split: option.splits)
next
  case (6 s now p d s' v)
  then show ?case by (auto simp: memory_put_def memory_conflict_def Let_def split: option.splits)
next
  case (7 s now p d s' v)
  then show ?case by (auto simp: memory_put_success memory_conflict_def)
next
  case (8 s now p d v0 s' v)
  then show ?case
    by (auto simp: memory_put_success memory_conflict_def memory_used_def
      split: option.splits if_splits dest!: parse_i64_show_eq [OF sym])
next
  case (9 s now p d c s' v)
  then show ?case
    by (auto simp: memory_put_success memory_inv_def hm_get_insert split: if_splits intro: add_increasing2)
next
  case (10 s now p d c s' v)
  then show ?case by (auto simp: memory_put_success memory_used_def)
next
  case (11 s now p d c s' v)
  then show ?case by (auto simp: memory_put_success fun_eq_iff hm_simps)
next
  case (12 s prefix p v)
  then show ?case by (simp add: memory_list_get)
next
  case (13 s p)
  then show ?case by (auto simp: memory_inv_def memory_delete_def hm_simps split: if_splits)
next
  case (14 s p)
  then show ?case by (simp add: memory_used_def memory_delete_def)
next
  case (15 s p)
  then show ?case by (auto simp: memory_delete_def fun_eq_iff hm_simps)
qed

end
