(* ===== verification/Storage_Programs.thy ===== *)
theory Storage_Programs
  imports Object_Store
begin

text \<open>
  Asynchronous code over object storage. A function of the source that awaits storage requests is a
  value of type \<open>io\<close>: a tree whose nodes are the requests in the order the code makes them and whose
  branches are the continuations on the response. \<open>io_run\<close> executes one program alone. \<open>sys_step\<close> is the
  interleaving semantics of a pool of programs against one store: each step is one request of one
  program, so every other program may run in between; a request may fail, and a failed write may or
  may not have taken effect; a program that is never scheduled again has crashed; clocks are read with
  an error of at most \<open>skew\<close>.

  \<open>wp\<close> is a rely-guarantee proof rule for one program, as a recursive predicate: in every growth of the
  write history that the other programs may cause, each write of the program keeps the guarantee
  \<open>good\<close> and each result satisfies \<open>post\<close>. The locale \<open>protocol\<close> lifts it to pools once and for all.
\<close>

section \<open>Programs\<close>

datatype ('d, 'r) io =
    Return 'r
  | Get string "core_error + 'd \<Rightarrow> ('d, 'r) io"
  | Head string "core_error + object_meta option \<Rightarrow> ('d, 'r) io"
  | Put string 'd write_precondition "core_error + write_result \<Rightarrow> ('d, 'r) io"
  | Delete string "core_error + unit \<Rightarrow> ('d, 'r) io"
  | ListAll string "core_error + object_meta list \<Rightarrow> ('d, 'r) io"
  | Now "datetime \<Rightarrow> ('d, 'r) io"
  | Random "string \<Rightarrow> ('d, 'r) io"
  | Sleep nat "('d, 'r) io"

text \<open>\<open>Random\<close> draws a new identifier (\<^verbatim>\<open>Ulid::new\<close>). Running a program alone: sleeping advances the clock,
  and identifiers are drawn from it.\<close>

primrec io_run :: "('s, 'd) storage_backend \<Rightarrow> ('d, 'r) io \<Rightarrow> datetime \<Rightarrow> 's \<Rightarrow> 's \<times> 'r" where
  "io_run sb (Return r) now s = (s, r)"
| "io_run sb (Get p k) now s = io_run sb (k (sb_get sb s p)) now s"
| "io_run sb (Head p k) now s = io_run sb (k (Inr (sb_head sb s p))) now s"
| "io_run sb (Put p d c k) now s = (let (s', r) = sb_put sb now p d c s in io_run sb (k (Inr r)) now s')"
| "io_run sb (Delete p k) now s = io_run sb (k (Inr ())) now (sb_delete sb p s)"
| "io_run sb (ListAll p k) now s = io_run sb (k (Inr (sb_list sb s p))) now s"
| "io_run sb (Now k) now s = io_run sb (k now) now s"
| "io_run sb (Random k) now s = io_run sb (k (show_int now)) now s"
| "io_run sb (Sleep n q) now s = io_run sb q (now + int n) s"

section \<open>Interleaving\<close>

text \<open>A successful write: when, where, and the new version and data, or \<^const>\<open>None\<close> for a deletion. A
  history lists the writes, the latest first.\<close>

type_synonym 'd stored_write = "datetime \<times> string \<times> (string \<times> 'd) option"

fun log_object :: "'d stored_write list \<Rightarrow> string \<Rightarrow> (string \<times> 'd) option" where
  "log_object [] p = None"
| "log_object ((t, q, x) # L) p = (if q = p then x else log_object L p)"

definition log_versions :: "'d stored_write list \<Rightarrow> string set" where
  "log_versions L = {v. \<exists>t p d. (t, p, Some (v, d)) \<in> set L}"

definition transient :: "core_error \<Rightarrow> bool" where
  "transient e = (case e of CE_NotFound m \<Rightarrow> False | _ \<Rightarrow> True)"

inductive io_step ::
  "('s, 'd) storage_backend \<Rightarrow> int \<Rightarrow> datetime \<Rightarrow> 's \<Rightarrow> ('d, 'r) io \<Rightarrow> 'd stored_write list \<Rightarrow> 's \<Rightarrow> ('d, 'r) io \<Rightarrow> bool"
  for sb skew T s where
  IO_Get: "io_step sb skew T s (Get p k) [] s (k (sb_get sb s p))"
| IO_GetFails: "transient e \<Longrightarrow> io_step sb skew T s (Get p k) [] s (k (Inl e))"
| IO_Head: "io_step sb skew T s (Head p k) [] s (k (Inr (sb_head sb s p)))"
| IO_HeadFails: "io_step sb skew T s (Head p k) [] s (k (Inl e))"
| IO_Put: "sb_put sb T p d c s = (s', WR_Success v) \<Longrightarrow>
    io_step sb skew T s (Put p d c k) [(T, p, Some (v, d))] s' (k (Inr (WR_Success v)))"
| IO_PutLost: "sb_put sb T p d c s = (s', WR_Success v) \<Longrightarrow>
    io_step sb skew T s (Put p d c k) [(T, p, Some (v, d))] s' (k (Inl e))"
| IO_PutRefused: "sb_put sb T p d c s = (s', WR_PreconditionFailed v) \<Longrightarrow>
    io_step sb skew T s (Put p d c k) [] s' (k (Inr (WR_PreconditionFailed v)))"
| IO_PutFails: "io_step sb skew T s (Put p d c k) [] s (k (Inl e))"
| IO_Delete: "io_step sb skew T s (Delete p k) [(T, p, None)] (sb_delete sb p s) (k (Inr ()))"
| IO_DeleteLost: "io_step sb skew T s (Delete p k) [(T, p, None)] (sb_delete sb p s) (k (Inl e))"
| IO_DeleteFails: "io_step sb skew T s (Delete p k) [] s (k (Inl e))"
| IO_List: "io_step sb skew T s (ListAll p k) [] s (k (Inr (sb_list sb s p)))"
| IO_ListFails: "io_step sb skew T s (ListAll p k) [] s (k (Inl e))"
| IO_Now: "\<bar>t - T\<bar> \<le> skew \<Longrightarrow> io_step sb skew T s (Now k) [] s (k t)"
| IO_Random: "io_step sb skew T s (Random k) [] s (k u)"
| IO_Sleep: "io_step sb skew T s (Sleep n q) [] s q"

text \<open>The system: the clock, the store with its history, and the pool. \<open>starts\<close> says which programs may
  join a pool.\<close>

record ('s, 'd, 'r) system =
  sy_clock :: datetime
  sy_store :: 's
  sy_log :: "'d stored_write list"
  sy_pool :: "('d, 'r) io list"

inductive sys_step ::
  "('s, 'd) storage_backend \<Rightarrow> int \<Rightarrow> (('d, 'r) io list \<Rightarrow> ('d, 'r) io \<Rightarrow> bool) \<Rightarrow>
   ('s, 'd, 'r) system \<Rightarrow> ('s, 'd, 'r) system \<Rightarrow> bool"
  for sb skew starts where
  Sys_Request: "i < length (sy_pool y) \<Longrightarrow>
    io_step sb skew (sy_clock y) (sy_store y) (sy_pool y ! i) ws s' q \<Longrightarrow>
    sys_step sb skew starts y (y\<lparr>sy_store := s', sy_log := ws @ sy_log y, sy_pool := (sy_pool y)[i := q]\<rparr>)"
| Sys_Start: "starts (sy_pool y) q \<Longrightarrow>
    sys_step sb skew starts y (y\<lparr>sy_pool := sy_pool y @ [q]\<rparr>)"
| Sys_Tick: "sy_clock y \<le> T' \<Longrightarrow> sys_step sb skew starts y (y\<lparr>sy_clock := T'\<rparr>)"

definition fresh_system :: "datetime \<Rightarrow> 's \<Rightarrow> ('s, 'd, 'r) system" where
  "fresh_system T s = \<lparr>sy_clock = T, sy_store = s, sy_log = [], sy_pool = []\<rparr>"

section \<open>The proof rule\<close>

text \<open>A history built by writes that keep the guarantee, each under a new version.\<close>

definition fresh_write :: "'d stored_write list \<Rightarrow> 'd stored_write \<Rightarrow> bool" where
  "fresh_write L w = (case snd (snd w) of Some (v, d) \<Rightarrow> v \<notin> log_versions L | None \<Rightarrow> True)"

fun history :: "('d stored_write list \<Rightarrow> 'd stored_write \<Rightarrow> bool) \<Rightarrow> 'd stored_write list \<Rightarrow> bool" where
  "history good [] = True"
| "history good (w # L) = (good L w \<and> fresh_write L w \<and> history good L)"

lemma fresh_write_simps [simp]:
  "fresh_write L (t, p, Some (v, d)) \<longleftrightarrow> v \<notin> log_versions L" "fresh_write L (t, p, None)"
  by (simp_all add: fresh_write_def)

text \<open>What the clock and the history may have become when a program is scheduled again.\<close>

definition grows ::
  "('d stored_write list \<Rightarrow> 'd stored_write \<Rightarrow> bool) \<Rightarrow> datetime \<times> 'd stored_write list \<Rightarrow> datetime \<times> 'd stored_write list \<Rightarrow> bool" where
  "grows good w w' \<longleftrightarrow> fst w \<le> fst w' \<and> history good (snd w') \<and> (\<exists>ws. snd w' = ws @ snd w)"

definition allowed :: "'d stored_write list \<Rightarrow> string \<Rightarrow> write_precondition \<Rightarrow> bool" where
  "allowed L p c =
     (case c of
        WP_DoesNotExist \<Rightarrow> log_object L p = None
      | WP_MatchesVersion v \<Rightarrow> v \<in> log_versions L \<longrightarrow> map_option fst (log_object L p) = Some v
      | WP_None \<Rightarrow> True)"

text \<open>A complete listing of the objects under a prefix.\<close>

definition listing :: "'d stored_write list \<Rightarrow> string \<Rightarrow> object_meta list \<Rightarrow> bool" where
  "listing L prefix ms \<longleftrightarrow> (\<forall>p v. (\<exists>m \<in> set ms. om_path m = p \<and> om_version m = v) \<longleftrightarrow>
     take (length prefix) p = prefix \<and> map_option fst (log_object L p) = Some v)"

primrec wp ::
  "int \<Rightarrow> ('d stored_write list \<Rightarrow> 'd stored_write \<Rightarrow> bool) \<Rightarrow> ('r \<Rightarrow> 'd stored_write list \<Rightarrow> bool) \<Rightarrow>
   ('d, 'r) io \<Rightarrow> datetime \<times> 'd stored_write list \<Rightarrow> bool" where
  "wp skew good post (Return r) w = post r (snd w)"
| "wp skew good post (Get p k) w = (\<forall>w'. grows good w w' \<longrightarrow>
     (\<forall>e. transient e \<longrightarrow> wp skew good post (k (Inl e)) w') \<and>
     (\<forall>m. log_object (snd w') p = None \<longrightarrow> wp skew good post (k (Inl (CE_NotFound m))) w') \<and>
     (\<forall>v d. log_object (snd w') p = Some (v, d) \<longrightarrow> wp skew good post (k (Inr d)) w'))"
| "wp skew good post (Head p k) w = (\<forall>w'. grows good w w' \<longrightarrow>
     (\<forall>e. wp skew good post (k (Inl e)) w') \<and>
     (\<forall>m. map_option om_version m = map_option fst (log_object (snd w') p) \<longrightarrow> wp skew good post (k (Inr m)) w'))"
| "wp skew good post (Put p d c k) w = (\<forall>w'. grows good w w' \<longrightarrow>
     (\<forall>e. wp skew good post (k (Inl e)) w') \<and>
     (\<forall>v. (c = WP_DoesNotExist \<longrightarrow> log_object (snd w') p \<noteq> None) \<longrightarrow>
        wp skew good post (k (Inr (WR_PreconditionFailed v))) w') \<and>
     (\<forall>v. allowed (snd w') p c \<longrightarrow> v \<notin> log_versions (snd w') \<longrightarrow>
        good (snd w') (fst w', p, Some (v, d)) \<and>
        wp skew good post (k (Inr (WR_Success v))) (fst w', (fst w', p, Some (v, d)) # snd w') \<and>
        (\<forall>e. wp skew good post (k (Inl e)) (fst w', (fst w', p, Some (v, d)) # snd w'))))"
| "wp skew good post (Delete p k) w = (\<forall>w'. grows good w w' \<longrightarrow>
     (\<forall>e. wp skew good post (k (Inl e)) w') \<and>
     good (snd w') (fst w', p, None) \<and>
     (\<forall>r. wp skew good post (k r) (fst w', (fst w', p, None) # snd w')))"
| "wp skew good post (ListAll p k) w = (\<forall>w'. grows good w w' \<longrightarrow>
     (\<forall>e. wp skew good post (k (Inl e)) w') \<and>
     (\<forall>ms. listing (snd w') p ms \<longrightarrow> wp skew good post (k (Inr ms)) w'))"
| "wp skew good post (Now k) w = (\<forall>w' t. grows good w w' \<longrightarrow> \<bar>t - fst w'\<bar> \<le> skew \<longrightarrow> wp skew good post (k t) w')"
| "wp skew good post (Random k) w = (\<forall>u. wp skew good post (k u) w)"
| "wp skew good post (Sleep n q) w = wp skew good post q w"

lemma log_object_version: "log_object L p = Some (v, d) \<Longrightarrow> v \<in> log_versions L"
  by (induction L p rule: log_object.induct) (auto simp: log_versions_def split: if_splits)

lemma log_versions_Cons [simp]:
  "log_versions ((t, p, Some (v, d)) # L) = insert v (log_versions L)"
  "log_versions ((t, p, None) # L) = log_versions L" "log_versions [] = {}"
  by (auto simp: log_versions_def)

lemma log_versions_append: "log_versions (A @ B) = log_versions A \<union> log_versions B"
  by (auto simp: log_versions_def)

lemma grows_refl: "history good L \<Longrightarrow> grows good (T, L) (T, L)"
  by (simp add: grows_def)

lemma grows_trans: "grows good a b \<Longrightarrow> grows good b c \<Longrightarrow> grows good a c"
  by (fastforce simp: grows_def)

lemma grows_history: "grows good w w' \<Longrightarrow> history good (snd w')"
  by (simp add: grows_def)

lemma grows_self: "history good (snd w) \<Longrightarrow> grows good w w"
  by (simp add: grows_def)

lemma history_append: "history good (A @ B) \<Longrightarrow> history good B"
  by (induction A) auto

lemma history_split: "history good (A @ w # B) \<Longrightarrow> good B w \<and> fresh_write B w"
  by (induction A) auto

lemma log_object_append:
  "log_object (A @ B) p = (if \<exists>w \<in> set A. fst (snd w) = p then log_object A p else log_object B p)"
  by (induction A p rule: log_object.induct) auto

text \<open>An object that still has a version it had earlier has not been written in between.\<close>

lemma version_unmoved:
  assumes "history good (A @ B)" and "log_object (A @ B) p = Some (v, d)" and "v \<in> log_versions B"
  shows "log_object B p = Some (v, d)"
  using assms
proof (induction A)
  case (Cons w A)
  obtain t q x where w: "w = (t, q, x)" by (cases w) auto
  have "x \<noteq> Some (v, d)" using Cons.prems by (auto simp: w log_versions_append)
  with Cons show ?case by (auto simp: w split: if_splits)
qed simp

text \<open>A compare-and-swap against a version known before a read replaces what the read returned.\<close>

lemma allowed_reads:
  assumes "allowed L p (WP_MatchesVersion v)" "grows good w (T, L)"
    and "v \<in> log_versions (snd w)" "log_object (snd w) p = Some (v0, d)"
  shows "log_object L p = Some (v, d)"
proof -
  obtain A where A: "L = A @ snd w" "history good L" using assms(2) by (auto simp: grows_def)
  then obtain d' where "log_object L p = Some (v, d')"
    using assms(1,3) by (auto simp: allowed_def log_versions_append)
  with version_unmoved [of good A "snd w"] A assms(3,4) show ?thesis by simp
qed

lemma grows_versions: "grows good w w' \<Longrightarrow> v \<in> log_versions (snd w) \<Longrightarrow> v \<in> log_versions (snd w')"
  by (auto simp: grows_def log_versions_append)

text \<open>The rule is stable: what held when a program paused holds when it is scheduled again.\<close>

lemma wp_stable:
  assumes post: "\<And>r L w. post r L \<Longrightarrow> good L w \<Longrightarrow> post r (w # L)"
    and "wp skew good post q w" and "grows good w w'"
  shows "wp skew good post q w'"
  using assms(2,3)
proof (induction q arbitrary: w)
  case (Return r)
  then obtain ws where ws: "snd w' = ws @ snd w" "history good (snd w')" "post r (snd w)"
    by (auto simp: grows_def)
  then have "post r (ws @ snd w)" unfolding ws(1)
  proof (induction ws arbitrary: w')
    case (Cons x ws)
    then show ?case by (metis append_Cons history.simps(2) post prod.sel(2))
  qed simp
  then show ?case by (simp add: ws(1))
next
  case (Random k)
  have "wp skew good post (k u) w'" for u
    using Random.IH [of "k u" w] Random.prems by simp
  then show ?case by simp
qed (simp add: wp.simps; meson grows_trans)+

text \<open>The rule as introduction rules, one per request.\<close>

lemma wp_getI:
  assumes "\<And>w' r. grows good w w' \<Longrightarrow>
      (\<And>d. r = Inr d \<Longrightarrow> \<exists>v. log_object (snd w') p = Some (v, d)) \<Longrightarrow>
      (\<And>m. r = Inl (CE_NotFound m) \<Longrightarrow> log_object (snd w') p = None) \<Longrightarrow> wp skew good post (k r) w'"
  shows "wp skew good post (Get p k) w"
proof -
  have "e \<noteq> CE_NotFound m" if "transient e" for e m using that by (auto simp: transient_def)
  with assms show ?thesis unfolding wp.simps by blast
qed

lemma wp_headI:
  assumes "\<And>w' e. grows good w w' \<Longrightarrow> wp skew good post (k (Inl e)) w'"
    and "\<And>w'. grows good w w' \<Longrightarrow> log_object (snd w') p = None \<Longrightarrow> wp skew good post (k (Inr None)) w'"
    and "\<And>w' m d. grows good w w' \<Longrightarrow> log_object (snd w') p = Some (om_version m, d) \<Longrightarrow>
      wp skew good post (k (Inr (Some m))) w'"
  shows "wp skew good post (Head p k) w"
proof -
  have "wp skew good post (k (Inr m)) w'"
    if g: "grows good w w'" and m: "map_option om_version m = map_option fst (log_object (snd w') p)" for w' m
  proof (cases m)
    case None
    with g m assms(2) show ?thesis by simp
  next
    case (Some a)
    then obtain d where "log_object (snd w') p = Some (om_version a, d)"
      using m by (cases "log_object (snd w') p") auto
    with g assms(3) Some show ?thesis by simp
  qed
  with assms(1) show ?thesis by simp
qed

lemma wp_putI:
  assumes "\<And>w' e. grows good w w' \<Longrightarrow> wp skew good post (k (Inl e)) w'"
    and "\<And>w' v. grows good w w' \<Longrightarrow> wp skew good post (k (Inr (WR_PreconditionFailed v))) w'"
    and "\<And>T L v. grows good w (T, L) \<Longrightarrow> allowed L p c \<Longrightarrow> v \<notin> log_versions L \<Longrightarrow> good L (T, p, Some (v, d))"
    and "\<And>T L v. grows good w (T, (T, p, Some (v, d)) # L) \<Longrightarrow> grows good w (T, L) \<Longrightarrow> allowed L p c \<Longrightarrow>
      wp skew good post (k (Inr (WR_Success v))) (T, (T, p, Some (v, d)) # L)"
  shows "wp skew good post (Put p d c k) w"
proof -
  have "grows good w (T, (T, p, Some (v, d)) # L)"
    if "grows good w (T, L)" "allowed L p c" "v \<notin> log_versions L" for T L v
    using that assms(3) [OF that] by (auto simp: grows_def)
  with assms show ?thesis by auto
qed

text \<open>A refused write of a new object has found one there.\<close>

lemma wp_put_newI:
  assumes "\<And>w' e. grows good w w' \<Longrightarrow> wp skew good post (k (Inl e)) w'"
    and "\<And>w' v. grows good w w' \<Longrightarrow> log_object (snd w') p \<noteq> None \<Longrightarrow> wp skew good post (k (Inr (WR_PreconditionFailed v))) w'"
    and "\<And>T L v. grows good w (T, L) \<Longrightarrow> log_object L p = None \<Longrightarrow> good L (T, p, Some (v, d))"
    and "\<And>T L v. grows good w (T, (T, p, Some (v, d)) # L) \<Longrightarrow> grows good w (T, L) \<Longrightarrow>
      wp skew good post (k (Inr (WR_Success v))) (T, (T, p, Some (v, d)) # L)"
  shows "wp skew good post (Put p d WP_DoesNotExist k) w"
proof -
  have "grows good w (T, (T, p, Some (v, d)) # L)"
    if "grows good w (T, L)" "log_object L p = None" "v \<notin> log_versions L" for T L v
    using that assms(3) [OF that(1,2)] by (auto simp: grows_def)
  with assms show ?thesis by (auto simp: wp.simps allowed_def)
qed

lemma wp_listI:
  assumes "\<And>w' e. grows good w w' \<Longrightarrow> wp skew good post (k (Inl e)) w'"
    and "\<And>w' ms. grows good w w' \<Longrightarrow> listing (snd w') p ms \<Longrightarrow> wp skew good post (k (Inr ms)) w'"
  shows "wp skew good post (ListAll p k) w"
  using assms by simp

lemma wp_deleteI:
  assumes "\<And>w' e. grows good w w' \<Longrightarrow> wp skew good post (k (Inl e)) w'"
    and "\<And>T L. grows good w (T, L) \<Longrightarrow> good L (T, p, None)"
    and "\<And>T L r. grows good w (T, (T, p, None) # L) \<Longrightarrow> grows good w (T, L) \<Longrightarrow>
      wp skew good post (k r) (T, (T, p, None) # L)"
  shows "wp skew good post (Delete p k) w"
proof -
  have "grows good w (T, (T, p, None) # L)" if "grows good w (T, L)" for T L
    using that assms(2) [OF that] by (auto simp: grows_def)
  with assms show ?thesis by auto
qed

lemma wp_nowI:
  assumes "\<And>w' t. grows good w w' \<Longrightarrow> \<bar>t - fst w'\<bar> \<le> skew \<Longrightarrow> wp skew good post (k t) w'"
  shows "wp skew good post (Now k) w"
  using assms by auto

declare wp.simps(2-7) [simp del]

section \<open>Pools\<close>

text \<open>The history is the store: it determines every object, and its versions have been handed out.\<close>

definition represents ::
  "('s, 'd) storage_backend \<Rightarrow> ('s \<Rightarrow> string set) \<Rightarrow> 's \<Rightarrow> 'd stored_write list \<Rightarrow> bool" where
  "represents sb used s L \<longleftrightarrow> sb_object sb s = log_object L \<and> log_versions L \<subseteq> used s"

locale protocol = object_store sb inv used
  for sb :: "('s, 'd) storage_backend" and inv and used +
  fixes skew :: int and good :: "'d stored_write list \<Rightarrow> 'd stored_write \<Rightarrow> bool"
    and post :: "'r \<Rightarrow> 'd stored_write list \<Rightarrow> bool"
    and starts :: "('d, 'r) io list \<Rightarrow> ('d, 'r) io \<Rightarrow> bool"
  assumes post_stable: "post r L \<Longrightarrow> good L w \<Longrightarrow> post r (w # L)"
    and starts_wp: "starts ps q \<Longrightarrow> history good L \<Longrightarrow> (\<And>r. Return r \<in> set ps \<Longrightarrow> post r L) \<Longrightarrow>
      wp skew good post q (T, L)"
begin

lemma stable: "wp skew good post q w \<Longrightarrow> grows good w w' \<Longrightarrow> wp skew good post q w'"
  by (rule wp_stable [of post good]) (auto intro: post_stable)

definition sound :: "('s, 'd, 'r) system \<Rightarrow> bool" where
  "sound y \<longleftrightarrow> inv (sy_store y) \<and> represents sb used (sy_store y) (sy_log y) \<and> history good (sy_log y) \<and>
     (\<forall>q \<in> set (sy_pool y). wp skew good post q (sy_clock y, sy_log y))"

lemma put_allowed:
  assumes "inv s" and "represents sb used s L" and "sb_put sb T p d c s = (s', WR_Success v)"
  shows "allowed L p c" "v \<notin> log_versions L" "represents sb used s' ((t, p, Some (v, d)) # L)"
proof -
  have r: "sb_object sb s = log_object L" "log_versions L \<subseteq> used s" using assms(2) by (auto simp: represents_def)
  note put = put_fresh [OF assms(1,3)] put_object [OF assms(1,3)]
  show "v \<notin> log_versions L" using put r(2) by blast
  show "represents sb used s' ((t, p, Some (v, d)) # L)"
    using put r by (auto simp: represents_def fun_eq_iff)
  show "allowed L p c"
  proof (cases c)
    case WP_DoesNotExist
    with put_absent [OF assms(1)] assms(3) r show ?thesis by (simp add: allowed_def)
  next
    case (WP_MatchesVersion v0)
    with put_matches [OF assms(1)] assms(3) r show ?thesis by (auto simp: allowed_def)
  qed (simp add: allowed_def)
qed

text \<open>One request of one program: the write it makes keeps the guarantee and the rest of the program
  is still covered by the rule.\<close>

lemma io_step_wp:
  assumes "io_step sb skew T s q ws s' q'" and "inv s" "represents sb used s L" "history good L"
    and "wp skew good post q (T, L)"
  shows "inv s' \<and> represents sb used s' (ws @ L) \<and> history good (ws @ L) \<and> wp skew good post q' (T, ws @ L)"
  using assms
proof (cases rule: io_step.cases)
  case (IO_Get p k)
  then show ?thesis using assms(2-5) grows_refl [OF assms(4), of T] get_some [OF assms(2), of p] get_none [OF assms(2), of p]
    by (cases "log_object L p") (fastforce simp: represents_def wp.simps)+
next
  case (IO_Head p k)
  then show ?thesis using assms(2-5) grows_refl [OF assms(4), of T] head_object [OF assms(2), of p]
    by (simp add: represents_def wp.simps)
next
  case (IO_List p k)
  then show ?thesis using assms(2-5) grows_refl [OF assms(4), of T] list_objects [OF assms(2), of p]
    by (simp add: represents_def wp.simps listing_def)
next
  case (IO_Put p d c v k)
  then show ?thesis using assms(4,5) grows_refl [OF assms(4), of T] put_inv [OF assms(2)]
    put_allowed(1,2) [OF assms(2,3)] put_allowed(3) [OF assms(2,3), where t = T] by (auto simp: wp.simps)
next
  case (IO_PutLost p d c v k e)
  then show ?thesis using assms(4,5) grows_refl [OF assms(4), of T] put_inv [OF assms(2)]
    put_allowed(1,2) [OF assms(2,3)] put_allowed(3) [OF assms(2,3), where t = T] by (auto simp: wp.simps)
next
  case (IO_PutRefused p d c v k)
  then have "s' = s" using put_failed [OF assms(2)] by blast
  moreover have "c = WP_DoesNotExist \<longrightarrow> log_object L p \<noteq> None"
    using put_refused [OF assms(2)] IO_PutRefused(4) assms(3) by (auto simp: represents_def)
  ultimately show ?thesis using IO_PutRefused assms(2-5) grows_refl [OF assms(4), of T] by (auto simp: wp.simps)
next
  case (IO_Delete p k)
  then show ?thesis using assms(2-5) grows_refl [OF assms(4), of T]
    by (auto simp: wp.simps represents_def delete_inv delete_used delete_object fun_eq_iff)
next
  case (IO_DeleteLost p k e)
  then show ?thesis using assms(2-5) grows_refl [OF assms(4), of T]
    by (auto simp: wp.simps represents_def delete_inv delete_used delete_object fun_eq_iff)
qed (use assms(2-5) grows_refl [OF assms(4), of T] in \<open>auto simp: wp.simps\<close>)

lemma sound_step:
  assumes "sys_step sb skew starts y y'" and "sound y"
  shows "sound y'"
  using assms
proof (cases rule: sys_step.cases)
  case (Sys_Request i ws s' q)
  have y: "inv (sy_store y)" "represents sb used (sy_store y) (sy_log y)" "history good (sy_log y)"
    "\<forall>q \<in> set (sy_pool y). wp skew good post q (sy_clock y, sy_log y)" using assms(2) by (auto simp: sound_def)
  have s': "inv s'" "represents sb used s' (ws @ sy_log y)" "history good (ws @ sy_log y)"
      "wp skew good post q (sy_clock y, ws @ sy_log y)"
    using io_step_wp [OF Sys_Request(3) y(1-3)] y(4) Sys_Request(2) by auto
  then have "grows good (sy_clock y, sy_log y) (sy_clock y, ws @ sy_log y)" by (simp add: grows_def)
  then have "wp skew good post p (sy_clock y, ws @ sy_log y)" if "p \<in> set (sy_pool y)" for p
    using stable y(4) that by blast
  with s' show ?thesis unfolding Sys_Request(1)
    by (auto simp: sound_def dest!: set_update_subset_insert [THEN subsetD])
next
  case (Sys_Start q)
  have "post r (sy_log y)" if "Return r \<in> set (sy_pool y)" for r
    using assms(2) that by (force simp: sound_def)
  with starts_wp [OF Sys_Start(2)] assms(2) Sys_Start(1) show ?thesis by (auto simp: sound_def)
next
  case (Sys_Tick T')
  then have "grows good (sy_clock y, sy_log y) (T', sy_log y)"
    using assms(2) by (simp add: grows_def sound_def)
  then show ?thesis using assms(2) stable Sys_Tick(1) by (auto simp: sound_def)
qed

lemma sound_steps: "(sys_step sb skew starts)\<^sup>*\<^sup>* y y' \<Longrightarrow> sound y \<Longrightarrow> sound y'"
  by (induction rule: rtranclp_induct) (auto intro: sound_step)

text \<open>From an empty store and an empty pool, every history reached keeps the guarantee and every result
  satisfies its postcondition.\<close>

lemma reached_sound:
  assumes "inv s" and "sb_object sb s = (\<lambda>p. None)" and "(sys_step sb skew starts)\<^sup>*\<^sup>* (fresh_system T s) y"
  shows "sound y"
proof (rule sound_steps [OF assms(3)])
  show "sound (fresh_system T s)"
    using assms(1,2) by (auto simp: sound_def represents_def fresh_system_def fun_eq_iff)
qed

lemma sound_history: "sound y \<Longrightarrow> history good (sy_log y)"
  by (simp add: sound_def)

lemma sound_result: "sound y \<Longrightarrow> Return r \<in> set (sy_pool y) \<Longrightarrow> post r (sy_log y)"
  by (force simp: sound_def)

lemma sound_store: "sound y \<Longrightarrow> sb_object sb (sy_store y) = log_object (sy_log y)"
  by (simp add: sound_def represents_def)

end

lemma log_grows:
  assumes "(sys_step sb skew starts)\<^sup>*\<^sup>* y y'"
  shows "\<exists>ws. sy_log y' = ws @ sy_log y"
  using assms
proof (induction rule: rtranclp_induct)
  case (step y' y'')
  from step(2) obtain ws where "sy_log y'' = ws @ sy_log y'" by cases auto
  with step(3) show ?case by (metis append.assoc)
qed simp

section \<open>Schedules\<close>

text \<open>A schedule picks, step by step, which program makes its next request; requests succeed and clocks
  are exact. It runs by evaluation, and what it reaches the step relation reaches.\<close>

datatype ('d, 'r) schedule_op = Op_Start "('d, 'r) io" | Op_Request nat | Op_Clock datetime

fun io_next :: "('s, 'd) storage_backend \<Rightarrow> datetime \<Rightarrow> 's \<Rightarrow> ('d, 'r) io \<Rightarrow> 'd stored_write list \<times> 's \<times> ('d, 'r) io" where
  "io_next sb T s (Return r) = ([], s, Return r)"
| "io_next sb T s (Get p k) = ([], s, k (sb_get sb s p))"
| "io_next sb T s (Head p k) = ([], s, k (Inr (sb_head sb s p)))"
| "io_next sb T s (Put p d c k) =
     (case sb_put sb T p d c s of
        (s', WR_Success v) \<Rightarrow> ([(T, p, Some (v, d))], s', k (Inr (WR_Success v)))
      | (s', WR_PreconditionFailed v) \<Rightarrow> ([], s', k (Inr (WR_PreconditionFailed v))))"
| "io_next sb T s (Delete p k) = ([(T, p, None)], sb_delete sb p s, k (Inr ()))"
| "io_next sb T s (ListAll p k) = ([], s, k (Inr (sb_list sb s p)))"
| "io_next sb T s (Now k) = ([], s, k T)"
| "io_next sb T s (Random k) = ([], s, k (show_int T))"
| "io_next sb T s (Sleep n q) = ([], s, q)"

fun schedule_step :: "('s, 'd) storage_backend \<Rightarrow> ('d, 'r) schedule_op \<Rightarrow> ('s, 'd, 'r) system \<Rightarrow> ('s, 'd, 'r) system" where
  "schedule_step sb (Op_Start q) y = y\<lparr>sy_pool := sy_pool y @ [q]\<rparr>"
| "schedule_step sb (Op_Request i) y =
     (case io_next sb (sy_clock y) (sy_store y) (sy_pool y ! i) of
        (ws, s', q) \<Rightarrow> y\<lparr>sy_store := s', sy_log := ws @ sy_log y, sy_pool := (sy_pool y)[i := q]\<rparr>)"
| "schedule_step sb (Op_Clock T) y = y\<lparr>sy_clock := T\<rparr>"

fun schedule_run :: "('s, 'd) storage_backend \<Rightarrow> ('d, 'r) schedule_op list \<Rightarrow> ('s, 'd, 'r) system \<Rightarrow> ('s, 'd, 'r) system" where
  "schedule_run sb [] y = y"
| "schedule_run sb (op # ops) y = schedule_run sb ops (schedule_step sb op y)"

fun op_allowed :: "(('d, 'r) io list \<Rightarrow> ('d, 'r) io \<Rightarrow> bool) \<Rightarrow> ('d, 'r) schedule_op \<Rightarrow> ('s, 'd, 'r) system \<Rightarrow> bool" where
  "op_allowed starts (Op_Start q) y = starts (sy_pool y) q"
| "op_allowed starts (Op_Request i) y = (i < length (sy_pool y))"
| "op_allowed starts (Op_Clock T) y = (sy_clock y \<le> T)"

fun schedule_allowed ::
  "('s, 'd) storage_backend \<Rightarrow> (('d, 'r) io list \<Rightarrow> ('d, 'r) io \<Rightarrow> bool) \<Rightarrow> ('d, 'r) schedule_op list \<Rightarrow>
   ('s, 'd, 'r) system \<Rightarrow> bool" where
  "schedule_allowed sb starts [] y = True"
| "schedule_allowed sb starts (op # ops) y =
     (op_allowed starts op y \<and> schedule_allowed sb starts ops (schedule_step sb op y))"

lemma io_next_step:
  assumes "0 \<le> skew" and "io_next sb T s q = (ws, s', q')"
  shows "ws = [] \<and> s' = s \<and> q' = q \<or> io_step sb skew T s q ws s' q'"
  using assms by (cases q) (auto intro: io_step.intros split: prod.splits write_result.splits)

lemma schedule_step_sys:
  assumes "0 \<le> skew" and "op_allowed starts op y"
  shows "(sys_step sb skew starts)\<^sup>*\<^sup>* y (schedule_step sb op y)"
proof (cases op)
  case (Op_Request i)
  obtain ws s' q where n: "io_next sb (sy_clock y) (sy_store y) (sy_pool y ! i) = (ws, s', q)"
    by (cases "io_next sb (sy_clock y) (sy_store y) (sy_pool y ! i)") auto
  from io_next_step [OF assms(1) n] show ?thesis
  proof
    assume "ws = [] \<and> s' = sy_store y \<and> q = sy_pool y ! i"
    with n Op_Request show ?thesis by simp
  next
    assume "io_step sb skew (sy_clock y) (sy_store y) (sy_pool y ! i) ws s' q"
    with n Op_Request assms(2) show ?thesis by (auto intro: sys_step.intros)
  qed
qed (use assms(2) in \<open>auto intro: sys_step.intros\<close>)

lemma schedule_sys:
  assumes "0 \<le> skew"
  shows "schedule_allowed sb starts ops y \<Longrightarrow> (sys_step sb skew starts)\<^sup>*\<^sup>* y (schedule_run sb ops y)"
  by (induction ops arbitrary: y) (auto intro: rtranclp_trans schedule_step_sys [OF assms])

end
