(* ===== verification/Scoped_Storage.thy ===== *)
theory Scoped_Storage
  imports Storage_Programs
begin

text \<open>
  Tenant and workspace scoped storage (\<^verbatim>\<open>arco-core/src/scoped_storage.rs\<close>): validation of identifiers
  and of relative paths, the scope prefix, and the scoped requests. Scopes rooted at a metastore prefix
  and signed URLs are not modelled.
\<close>

section \<open>Scopes\<close>

record scoped_storage =
  sco_tenant_id :: string
  sco_workspace_id :: string
  sco_scope_prefix :: string

definition is_id_char :: "char \<Rightarrow> bool" where
  "is_id_char c \<longleftrightarrow>
     (let n = of_char c :: nat in 97 \<le> n \<and> n \<le> 122 \<or> 48 \<le> n \<and> n \<le> 57) \<or> c = CHR ''-'' \<or> c = CHR ''_''"

definition validate_id :: "string \<Rightarrow> string \<Rightarrow> core_error + unit" where
  "validate_id id' field =
     (if id' = [] then Inl (CE_InvalidId (field @ '' cannot be empty''))
      else if CHR ''/'' \<in> set id' \<or> CHR 0x5C \<in> set id'
      then Inl (CE_InvalidId (field @ '' cannot contain path separators''))
      else if CHR 0x0A \<in> set id' \<or> CHR 0x0D \<in> set id' \<or> CHR 0x00 \<in> set id'
      then Inl (CE_InvalidId (field @ '' cannot contain control characters''))
      else if \<not> list_all is_id_char id'
      then Inl (CE_InvalidId (field @ '' contains invalid characters (allowed: a-z, 0-9, '' @
        [CHR 0x27] @ ''-'' @ [CHR 0x27] @ '', '' @ [CHR 0x27] @ ''_'' @ [CHR 0x27] @ '')''))
      else Inr ())"

definition scoped_new :: "string \<Rightarrow> string \<Rightarrow> core_error + scoped_storage" where
  "scoped_new tenant_id workspace_id =
     (case validate_id tenant_id ''tenant_id'' of
        Inl e \<Rightarrow> Inl e
      | Inr _ \<Rightarrow>
          (case validate_id workspace_id ''workspace_id'' of
             Inl e \<Rightarrow> Inl e
           | Inr _ \<Rightarrow> Inr \<lparr>sco_tenant_id = tenant_id, sco_workspace_id = workspace_id,
               sco_scope_prefix = ''tenant='' @ tenant_id @ ''/workspace='' @ workspace_id\<rparr>))"

definition validate_path :: "string \<Rightarrow> core_error + unit" where
  "validate_path path =
     (if path \<noteq> [] \<and> (hd path = CHR ''/'' \<or> hd path = CHR 0x5C)
      then Inl (CE_InvalidInput (''absolute paths not allowed: '' @ path))
      else if CHR 0x5C \<in> set path
      then Inl (CE_InvalidInput (''backslashes not allowed in paths: '' @ path))
      else if CHR ''%'' \<in> set path
      then Inl (CE_InvalidInput (''percent-encoding not allowed in paths: '' @ path))
      else if CHR 0x0A \<in> set path \<or> CHR 0x0D \<in> set path \<or> CHR 0x00 \<in> set path
      then Inl (CE_InvalidInput (''control characters not allowed in paths: '' @ path))
      else if list_ex (\<lambda>segment. segment = ''.'' \<or> segment = ''..'') (split_on CHR ''/'' path)
      then Inl (CE_InvalidInput (''path traversal not allowed: '' @ path))
      else Inr ())"

definition scoped_path :: "scoped_storage \<Rightarrow> string \<Rightarrow> string" where
  "scoped_path sc path = sco_scope_prefix sc @ ''/'' @ path"

section \<open>Requests\<close>

definition get_raw :: "scoped_storage \<Rightarrow> string \<Rightarrow> (core_error + 'd \<Rightarrow> ('d, 'r) io) \<Rightarrow> ('d, 'r) io" where
  "get_raw sc path k = (case validate_path path of Inl e \<Rightarrow> k (Inl e) | Inr _ \<Rightarrow> Get (scoped_path sc path) k)"

definition put_raw ::
  "scoped_storage \<Rightarrow> string \<Rightarrow> 'd \<Rightarrow> write_precondition \<Rightarrow> (core_error + write_result \<Rightarrow> ('d, 'r) io) \<Rightarrow> ('d, 'r) io" where
  "put_raw sc path data precondition k =
     (case validate_path path of Inl e \<Rightarrow> k (Inl e) | Inr _ \<Rightarrow> Put (scoped_path sc path) data precondition k)"

definition delete_raw :: "scoped_storage \<Rightarrow> string \<Rightarrow> (core_error + unit \<Rightarrow> ('d, 'r) io) \<Rightarrow> ('d, 'r) io" where
  "delete_raw sc path k = (case validate_path path of Inl e \<Rightarrow> k (Inl e) | Inr _ \<Rightarrow> Delete (scoped_path sc path) k)"

definition head_raw ::
  "scoped_storage \<Rightarrow> string \<Rightarrow> (core_error + object_meta option \<Rightarrow> ('d, 'r) io) \<Rightarrow> ('d, 'r) io" where
  "head_raw sc path k = (case validate_path path of Inl e \<Rightarrow> k (Inl e) | Inr _ \<Rightarrow> Head (scoped_path sc path) k)"

definition scoped_list_boundary :: "string \<Rightarrow> string" where
  "scoped_list_boundary prefix = (if prefix = [] \<or> last prefix = CHR ''/'' then prefix else prefix @ ''/'')"

definition starts_with :: "string \<Rightarrow> string \<Rightarrow> bool" where
  "starts_with s prefix \<longleftrightarrow> take (length prefix) s = prefix"

definition strip_prefix :: "string \<Rightarrow> string \<Rightarrow> string option" where
  "strip_prefix prefix s = (if starts_with s prefix then Some (drop (length prefix) s) else None)"

definition scoped_metas :: "scoped_storage \<Rightarrow> string \<Rightarrow> object_meta list \<Rightarrow> object_meta list" where
  "scoped_metas sc prefix metas =
     (let full_prefix = scoped_path sc prefix;
          boundary_prefix = scoped_list_boundary full_prefix
      in List.map_filter (\<lambda>m. map_option (\<lambda>relative. m\<lparr>om_path := relative\<rparr>)
             (strip_prefix (sco_scope_prefix sc @ ''/'') (om_path m)))
           (filter (\<lambda>m. prefix = [] \<or> om_path m = full_prefix \<or> starts_with (om_path m) boundary_prefix) metas))"

definition list_meta ::
  "scoped_storage \<Rightarrow> string \<Rightarrow> (core_error + object_meta list \<Rightarrow> ('d, 'r) io) \<Rightarrow> ('d, 'r) io" where
  "list_meta sc prefix k =
     (case validate_path prefix of
        Inl e \<Rightarrow> k (Inl e)
      | Inr _ \<Rightarrow> ListAll (scoped_path sc prefix) (\<lambda>r.
          case r of Inl e \<Rightarrow> k (Inl e) | Inr metas \<Rightarrow> k (Inr (scoped_metas sc prefix metas))))"

definition list_raw :: "scoped_storage \<Rightarrow> string \<Rightarrow> (core_error + string list \<Rightarrow> ('d, 'r) io) \<Rightarrow> ('d, 'r) io" where
  "list_raw sc prefix k = list_meta sc prefix (\<lambda>r. case r of Inl e \<Rightarrow> k (Inl e) | Inr ms \<Rightarrow> k (Inr (map om_path ms)))"

text \<open>The proof rules of the requests.\<close>

lemma get_raw_wp:
  assumes "history good (snd w)"
    and "\<And>w' r. grows good w w' \<Longrightarrow>
      (\<And>d. r = Inr d \<Longrightarrow> \<exists>v. log_object (snd w') (scoped_path sc p) = Some (v, d)) \<Longrightarrow> wp skew good post (k r) w'"
  shows "wp skew good post (get_raw sc p k) w"
  by (cases "validate_path p") (auto simp: get_raw_def intro!: wp_getI assms(2) grows_self [OF assms(1)])

lemma head_raw_wp:
  assumes "history good (snd w)"
    and "\<And>w' e. grows good w w' \<Longrightarrow> wp skew good post (k (Inl e)) w'"
    and "\<And>w'. grows good w w' \<Longrightarrow> log_object (snd w') (scoped_path sc p) = None \<Longrightarrow> wp skew good post (k (Inr None)) w'"
    and "\<And>w' m d. grows good w w' \<Longrightarrow> log_object (snd w') (scoped_path sc p) = Some (om_version m, d) \<Longrightarrow>
      wp skew good post (k (Inr (Some m))) w'"
  shows "wp skew good post (head_raw sc p k) w"
  by (cases "validate_path p") (auto simp: head_raw_def intro!: wp_headI assms(2-4) grows_self [OF assms(1)])

lemma put_raw_wp:
  assumes "history good (snd w)"
    and "\<And>w' e. grows good w w' \<Longrightarrow> wp skew good post (k (Inl e)) w'"
    and "\<And>w' v. grows good w w' \<Longrightarrow> wp skew good post (k (Inr (WR_PreconditionFailed v))) w'"
    and "\<And>T L v. grows good w (T, L) \<Longrightarrow> allowed L (scoped_path sc p) c \<Longrightarrow> v \<notin> log_versions L \<Longrightarrow>
      good L (T, scoped_path sc p, Some (v, d))"
    and "\<And>T L v. grows good w (T, (T, scoped_path sc p, Some (v, d)) # L) \<Longrightarrow> grows good w (T, L) \<Longrightarrow>
      allowed L (scoped_path sc p) c \<Longrightarrow>
      wp skew good post (k (Inr (WR_Success v))) (T, (T, scoped_path sc p, Some (v, d)) # L)"
  shows "wp skew good post (put_raw sc p d c k) w"
  by (cases "validate_path p") (auto simp: put_raw_def intro!: wp_putI assms(2-5) grows_self [OF assms(1)])

section \<open>Isolation\<close>

lemma scoped_new_valid:
  assumes "scoped_new t w = Inr sc"
  shows "sco_scope_prefix sc = ''tenant='' @ t @ ''/workspace='' @ w" "CHR ''/'' \<notin> set t" "CHR ''/'' \<notin> set w"
  using assms by (auto simp: scoped_new_def validate_id_def split: sum.splits if_splits)

lemma scoped_path_inj: "scoped_path sc p = scoped_path sc q \<longleftrightarrow> p = q"
  by (simp add: scoped_path_def)

lemma starts_with_append [simp]: "starts_with (a @ b) a"
  by (simp add: starts_with_def)

lemma starts_with_iff: "starts_with s p \<longleftrightarrow> (\<exists>r. s = p @ r)"
  by (auto simp: starts_with_def) (metis append_take_drop_id)



section \<open>Listing\<close>

lemma strip_scope: "strip_prefix (sco_scope_prefix sc @ ''/'') s = Some rel \<longleftrightarrow> s = scoped_path sc rel"
  by (auto simp: strip_prefix_def starts_with_iff scoped_path_def)

lemma boundary_scope:
  "prefix \<noteq> [] \<Longrightarrow> starts_with (scoped_path sc rel) (scoped_list_boundary (scoped_path sc prefix)) \<longleftrightarrow>
     starts_with rel (scoped_list_boundary prefix)"
  by (auto simp: scoped_list_boundary_def scoped_path_def starts_with_iff)

lemma map_filter_image: "y \<in> g ` set (List.map_filter f xs) \<longleftrightarrow> (\<exists>x \<in> set xs. map_option g (f x) = Some y)"
  by (induction xs) (auto simp: List.map_filter_simps split: option.splits)

lemma bex_image_eq: "(\<exists>m \<in> A. f m = c \<and> P (f m)) \<longleftrightarrow> c \<in> f ` A \<and> P c"
  by auto

lemma scoped_metas_path:
  "rel \<in> om_path ` set (scoped_metas sc prefix ms) \<longleftrightarrow> scoped_path sc rel \<in> om_path ` set ms \<and>
     (prefix = [] \<or> rel = prefix \<or> starts_with rel (scoped_list_boundary prefix))"
proof -
  have "rel \<in> om_path ` set (scoped_metas sc prefix ms) \<longleftrightarrow>
      (\<exists>m \<in> set ms. om_path m = scoped_path sc rel \<and>
        (prefix = [] \<or> om_path m = scoped_path sc prefix \<or>
         starts_with (om_path m) (scoped_list_boundary (scoped_path sc prefix))))"
    unfolding scoped_metas_def Let_def map_filter_image
    by (auto simp: option.map_comp comp_def option.map_ident strip_scope)
  also have "\<dots> \<longleftrightarrow> scoped_path sc rel \<in> om_path ` set ms \<and>
      (prefix = [] \<or> scoped_path sc rel = scoped_path sc prefix \<or>
       starts_with (scoped_path sc rel) (scoped_list_boundary (scoped_path sc prefix)))"
    by (rule bex_image_eq)
  finally show ?thesis by (cases "prefix = []") (auto simp: scoped_path_inj boundary_scope)
qed

text \<open>C29: Listing a scope-relative prefix returns exactly the relative paths of the scope's objects that
  are the prefix or lie below it at a path boundary; each of them names, in the same scope, the object
  it was listed for.\<close>

theorem scoped_list_exact:
  assumes "memory_inv m" and "validate_path prefix = Inr ()"
  shows "\<exists>paths. io_run memory_ops (list_raw sc prefix Return) now m = (m, Inr paths) \<and>
    (\<forall>rel. rel \<in> set paths \<longleftrightarrow>
       sb_object memory_ops m (scoped_path sc rel) \<noteq> None \<and>
       (prefix = [] \<or> rel = prefix \<or> starts_with rel (scoped_list_boundary prefix)))"
proof -
  let ?ms = "memory_list m (scoped_path sc prefix)"
  have "p \<in> om_path ` set ?ms \<longleftrightarrow> starts_with p (scoped_path sc prefix) \<and> sb_object memory_ops m p \<noteq> None" for p
    using memory_list_get [OF assms(1), of "scoped_path sc prefix" p] by (auto simp: image_iff starts_with_def)
  moreover have "starts_with (scoped_path sc rel) (scoped_path sc prefix)"
    if "prefix = [] \<or> rel = prefix \<or> starts_with rel (scoped_list_boundary prefix)" for rel
    using that by (auto simp: starts_with_iff scoped_path_def scoped_list_boundary_def split: if_splits)
  ultimately show ?thesis
    using assms(2) scoped_metas_path [of _ sc prefix ?ms] by (auto simp: list_raw_def list_meta_def)
qed

definition ex_scope :: scoped_storage where
  "ex_scope = \<lparr>sco_tenant_id = ''acme'', sco_workspace_id = ''prod'', sco_scope_prefix = ''tenant=acme/workspace=prod''\<rparr>"

theorem scoped_list_exact_witness:
  "\<exists>paths. io_run memory_ops (list_raw ex_scope ''state'' Return) 0 (memory_new :: nat memory_backend) =
    (memory_new, Inr paths) \<and> ''state/x'' \<notin> set paths"
proof -
  have "memory_inv (memory_new :: nat memory_backend)" "validate_path ''state'' = Inr ()"
    by (auto simp: memory_inv_def memory_new_def validate_path_def)
  from scoped_list_exact [OF this, of ex_scope 0] show ?thesis by (auto simp: memory_new_def)
qed

end
