(* ===== verification/Manifest.thy ===== *)
theory Manifest
  imports Orch_Rows
begin

text \<open>
  The orchestration manifest (\<^verbatim>\<open>compactor/manifest.rs\<close>): fixed-width manifest identifiers, the manifest
  and the pointer that makes one visible, their succession rules, the trigger of L0 compaction, the
  watermarks, and the selection of ledger paths for a rebuild.
\<close>

section \<open>Manifest identifiers\<close>

definition MANIFEST_ID_WIDTH :: nat where
  "MANIFEST_ID_WIDTH = 20"

definition INITIAL_MANIFEST_ID :: string where
  "INITIAL_MANIFEST_ID = ''00000000000000000000''"

definition format_manifest_id :: "u64 \<Rightarrow> string" where
  "format_manifest_id value =
     (let ds = show_nat (unat value) in replicate (MANIFEST_ID_WIDTH - length ds) CHR ''0'' @ ds)"

text \<open>\<^verbatim>\<open>str::parse::<u64>\<close>; the error for a string of digits is that the number is too large.\<close>

definition parse_u64 :: "string \<Rightarrow> u64 option" where
  "parse_u64 s =
     (let ds = (case s of c # cs \<Rightarrow> if c = CHR ''+'' then cs else s | [] \<Rightarrow> s)
      in if ds = [] then None
         else (case parse_digits 0 ds of
                 None \<Rightarrow> None
               | Some n \<Rightarrow> if n < 2 ^ 64 then Some (of_nat n) else None))"

definition parse_manifest_id :: "string \<Rightarrow> string + u64" where
  "parse_manifest_id manifest_id =
     (if length manifest_id \<noteq> MANIFEST_ID_WIDTH \<or> \<not> list_all is_digit manifest_id
      then Inl (''invalid manifest_id '' @ [CHR 0x27] @ manifest_id @ [CHR 0x27] @ '': expected 20 decimal digits'')
      else (case parse_u64 manifest_id of
              Some n \<Rightarrow> Inr n
            | None \<Rightarrow> Inl (''invalid manifest_id '' @ [CHR 0x27] @ manifest_id @ [CHR 0x27] @
                '': cannot parse as u64 (number too large to fit in target type)'')))"

definition next_manifest_id :: "string \<Rightarrow> string + string" where
  "next_manifest_id previous =
     (case parse_manifest_id previous of
        Inl e \<Rightarrow> Inl e
      | Inr n \<Rightarrow> if n = - 1 then Inl ''manifest_id overflow while generating successor''
                  else Inr (format_manifest_id (n + 1)))"

section \<open>Tables and deltas\<close>

record table_artifact_metadata =
  am_path :: string
  am_checksum_sha256 :: string
  am_byte_size :: u64

datatype table_artifact = TA_Legacy string | TA_Metadata table_artifact_metadata

definition table_artifact_new :: "string \<Rightarrow> string \<Rightarrow> u64 \<Rightarrow> table_artifact" where
  "table_artifact_new path checksum_sha256 byte_size =
     TA_Metadata \<lparr>am_path = path, am_checksum_sha256 = checksum_sha256, am_byte_size = byte_size\<rparr>"

definition artifact_path :: "table_artifact \<Rightarrow> string" where
  "artifact_path a = (case a of TA_Legacy path \<Rightarrow> path | TA_Metadata m \<Rightarrow> am_path m)"

definition artifact_checksum :: "table_artifact \<Rightarrow> string option" where
  "artifact_checksum a = (case a of TA_Legacy path \<Rightarrow> None | TA_Metadata m \<Rightarrow> Some (am_checksum_sha256 m))"

definition artifact_byte_size :: "table_artifact \<Rightarrow> u64 option" where
  "artifact_byte_size a = (case a of TA_Legacy path \<Rightarrow> None | TA_Metadata m \<Rightarrow> Some (am_byte_size m))"

text \<open>The \<^verbatim>\<open>BTreeMap\<close> of organisations is an association list in key order.\<close>

record table_paths =
  tp_runs :: "table_artifact option"
  tp_tasks :: "table_artifact option"
  tp_catalog_run_index_by_org :: "(string \<times> table_artifact) list"
  tp_dep_satisfaction :: "table_artifact option"
  tp_timers :: "table_artifact option"
  tp_dispatch_outbox :: "table_artifact option"
  tp_sensor_state :: "table_artifact option"
  tp_sensor_evals :: "table_artifact option"
  tp_run_key_index :: "table_artifact option"
  tp_run_key_conflicts :: "table_artifact option"
  tp_partition_status :: "table_artifact option"
  tp_idempotency_keys :: "table_artifact option"
  tp_schedule_definitions :: "table_artifact option"
  tp_schedule_state :: "table_artifact option"
  tp_schedule_ticks :: "table_artifact option"
  tp_backfills :: "table_artifact option"
  tp_backfill_chunks :: "table_artifact option"

definition table_paths_default :: table_paths where
  "table_paths_default = \<lparr>tp_runs = None, tp_tasks = None, tp_catalog_run_index_by_org = [],
     tp_dep_satisfaction = None, tp_timers = None, tp_dispatch_outbox = None, tp_sensor_state = None,
     tp_sensor_evals = None, tp_run_key_index = None, tp_run_key_conflicts = None, tp_partition_status = None,
     tp_idempotency_keys = None, tp_schedule_definitions = None, tp_schedule_state = None,
     tp_schedule_ticks = None, tp_backfills = None, tp_backfill_chunks = None\<rparr>"

definition named_path :: "string \<Rightarrow> table_artifact option \<Rightarrow> (string \<times> string) list" where
  "named_path name a = (case a of None \<Rightarrow> [] | Some p \<Rightarrow> [(name, artifact_path p)])"

definition table_paths_all :: "table_paths \<Rightarrow> (string, string) hashmap" where
  "table_paths_all t =
     named_path ''runs'' (tp_runs t) @
     named_path ''tasks'' (tp_tasks t) @
     map (\<lambda>(org_id, p). (''catalog_run_index:'' @ org_id, artifact_path p)) (tp_catalog_run_index_by_org t) @
     named_path ''dep_satisfaction'' (tp_dep_satisfaction t) @
     named_path ''timers'' (tp_timers t) @
     named_path ''dispatch_outbox'' (tp_dispatch_outbox t) @
     named_path ''sensor_state'' (tp_sensor_state t) @
     named_path ''sensor_evals'' (tp_sensor_evals t) @
     named_path ''run_key_index'' (tp_run_key_index t) @
     named_path ''run_key_conflicts'' (tp_run_key_conflicts t) @
     named_path ''partition_status'' (tp_partition_status t) @
     named_path ''idempotency_keys'' (tp_idempotency_keys t) @
     named_path ''schedule_definitions'' (tp_schedule_definitions t) @
     named_path ''schedule_state'' (tp_schedule_state t) @
     named_path ''schedule_ticks'' (tp_schedule_ticks t) @
     named_path ''backfills'' (tp_backfills t) @
     named_path ''backfill_chunks'' (tp_backfill_chunks t)"

record event_range =
  er_from_event :: string
  er_to_event :: string
  er_event_count :: u32

record row_counts =
  rc_runs :: u32
  rc_tasks :: u32
  rc_catalog_run_index :: u32
  rc_dep_satisfaction :: u32
  rc_timers :: u32
  rc_dispatch_outbox :: u32
  rc_sensor_state :: u32
  rc_sensor_evals :: u32
  rc_run_key_index :: u32
  rc_run_key_conflicts :: u32
  rc_partition_status :: u32
  rc_idempotency_keys :: u32
  rc_schedule_definitions :: u32
  rc_schedule_state :: u32
  rc_schedule_ticks :: u32
  rc_backfills :: u32
  rc_backfill_chunks :: u32

text \<open>The sum wraps around, as in a release build.\<close>

definition row_counts_total :: "row_counts \<Rightarrow> u32" where
  "row_counts_total c = rc_runs c + rc_tasks c + rc_catalog_run_index c + rc_dep_satisfaction c +
     rc_timers c + rc_dispatch_outbox c + rc_sensor_state c + rc_sensor_evals c + rc_run_key_index c +
     rc_run_key_conflicts c + rc_partition_status c + rc_idempotency_keys c + rc_schedule_definitions c +
     rc_schedule_state c + rc_schedule_ticks c + rc_backfills c + rc_backfill_chunks c"

record l0_delta =
  ld_delta_id :: string
  ld_created_at :: datetime
  ld_event_range :: event_range
  ld_tables :: table_paths
  ld_row_counts :: row_counts

record l0_limits =
  ll_max_count :: u32
  ll_max_rows :: u32
  ll_max_age_seconds :: u32

definition l0_limits_default :: l0_limits where
  "l0_limits_default = \<lparr>ll_max_count = 10, ll_max_rows = 100000, ll_max_age_seconds = 300\<rparr>"

record base_snapshot =
  bs_snapshot_id :: "string option"
  bs_published_at :: datetime
  bs_tables :: table_paths

definition base_snapshot_default :: base_snapshot where
  "base_snapshot_default = \<lparr>bs_snapshot_id = None, bs_published_at = 0, bs_tables = table_paths_default\<rparr>"

section \<open>The manifest\<close>

record watermarks =
  wm_last_committed_event_id :: "string option"
  wm_last_visible_event_id :: "string option"
  wm_events_processed_through :: "string option"
  wm_last_processed_file :: "string option"
  wm_last_processed_at :: datetime

definition watermarks_default :: watermarks where
  "watermarks_default = \<lparr>wm_last_committed_event_id = None, wm_last_visible_event_id = None,
     wm_events_processed_through = None, wm_last_processed_file = None, wm_last_processed_at = 0\<rparr>"

definition is_fresh :: "datetime \<Rightarrow> watermarks \<Rightarrow> int \<Rightarrow> bool" where
  "is_fresh now w max_lag \<longleftrightarrow> now - wm_last_processed_at w \<le> max_lag"

record orchestration_manifest =
  om_manifest_id :: string
  om_epoch :: u64
  om_previous_manifest_path :: "string option"
  om_schema_version :: u32
  om_revision_ulid :: string
  om_published_at :: datetime
  om_watermarks :: watermarks
  om_base_snapshot :: base_snapshot
  om_l0_deltas :: "l0_delta list"
  om_l0_count :: u32
  om_l0_limits :: l0_limits

record manifest_pointer =
  mp_manifest_id :: string
  mp_manifest_path :: string
  mp_epoch :: u64
  mp_parent_pointer_hash :: "string option"
  mp_updated_at :: datetime

definition manifest_new :: "datetime \<Rightarrow> string \<Rightarrow> orchestration_manifest" where
  "manifest_new now revision_ulid = \<lparr>om_manifest_id = INITIAL_MANIFEST_ID, om_epoch = 0,
     om_previous_manifest_path = None, om_schema_version = 1, om_revision_ulid = revision_ulid,
     om_published_at = now, om_watermarks = watermarks_default, om_base_snapshot = base_snapshot_default,
     om_l0_deltas = [], om_l0_count = 0, om_l0_limits = l0_limits_default\<rparr>"

text \<open>Row totals are summed at 64 bits. An instant is in nanoseconds.\<close>

definition should_compact_l0 :: "datetime \<Rightarrow> orchestration_manifest \<Rightarrow> bool" where
  "should_compact_l0 now m \<longleftrightarrow>
     om_l0_count m \<ge> ll_max_count (om_l0_limits m) \<or>
     sum_list (map (\<lambda>d. ucast (row_counts_total (ld_row_counts d)) :: u64) (om_l0_deltas m)) \<ge>
       ucast (ll_max_rows (om_l0_limits m)) \<or>
     (let max_age = int (unat (ll_max_age_seconds (om_l0_limits m))) * 10 ^ 9
      in list_ex (\<lambda>d. now - ld_created_at d \<ge> max_age) (om_l0_deltas m))"

definition watermark_lag :: "datetime \<Rightarrow> orchestration_manifest \<Rightarrow> int" where
  "watermark_lag now m = now - wm_last_processed_at (om_watermarks m)"

definition manifest_validate_succession :: "orchestration_manifest \<Rightarrow> orchestration_manifest \<Rightarrow> string + unit" where
  "manifest_validate_succession self previous =
     (case parse_manifest_id (om_manifest_id previous) of
        Inl e \<Rightarrow> Inl e
      | Inr previous_manifest_id \<Rightarrow>
          (case parse_manifest_id (om_manifest_id self) of
             Inl e \<Rightarrow> Inl e
           | Inr new_manifest_id \<Rightarrow>
               if new_manifest_id \<le> previous_manifest_id
               then Inl (''manifest_id did not advance: '' @ om_manifest_id previous @ '' -> '' @ om_manifest_id self)
               else if om_epoch self < om_epoch previous
               then Inl (''epoch regression: '' @ show_nat (unat (om_epoch previous)) @ '' -> '' @
                 show_nat (unat (om_epoch self)) @ '' (stale holder)'')
               else Inr ()))"

definition pointer_validate_succession :: "manifest_pointer \<Rightarrow> manifest_pointer \<Rightarrow> string \<Rightarrow> string + unit" where
  "pointer_validate_succession self previous previous_raw_hash =
     (case parse_manifest_id (mp_manifest_id previous) of
        Inl e \<Rightarrow> Inl e
      | Inr previous_manifest_id \<Rightarrow>
          (case parse_manifest_id (mp_manifest_id self) of
             Inl e \<Rightarrow> Inl e
           | Inr new_manifest_id \<Rightarrow>
               if new_manifest_id \<le> previous_manifest_id
               then Inl (''pointer manifest_id did not advance: '' @ mp_manifest_id previous @ '' -> '' @ mp_manifest_id self)
               else if mp_epoch self < mp_epoch previous
               then Inl (''pointer epoch regression: '' @ show_nat (unat (mp_epoch previous)) @ '' -> '' @
                 show_nat (unat (mp_epoch self)) @ '' (stale holder)'')
               else (case mp_parent_pointer_hash self of
                       Some h \<Rightarrow>
                         if h = previous_raw_hash then Inr ()
                         else Inl (''parent pointer hash mismatch: expected '' @ previous_raw_hash @ '', got '' @ h)
                     | None \<Rightarrow> Inl ''missing parent_pointer_hash for pointer succession'')))"

section \<open>Rebuild\<close>

definition replay_floor_event_id :: "watermarks \<Rightarrow> string option" where
  "replay_floor_event_id w =
     (case wm_last_visible_event_id w of Some e \<Rightarrow> Some e
      | None \<Rightarrow> (case wm_events_processed_through w of Some e \<Rightarrow> Some e
                 | None \<Rightarrow> wm_last_committed_event_id w))"

fun rebuild_dedup ::
  "string option \<Rightarrow> string list \<Rightarrow> (string, string) hashmap \<Rightarrow> string + (string, string) hashmap" where
  "rebuild_dedup floor [] dedup = Inr dedup"
| "rebuild_dedup floor (path # paths) dedup =
     (case event_id_from_ledger_path path of
        None \<Rightarrow> Inl (''invalid orchestration ledger path for rebuild: '' @ [CHR 0x27] @ path @ [CHR 0x27])
      | Some event_id \<Rightarrow>
          if (case floor of Some f \<Rightarrow> event_id \<le> f | None \<Rightarrow> False) then rebuild_dedup floor paths dedup
          else rebuild_dedup floor paths (hm_or_insert event_id path dedup))"

text \<open>The values of the \<^verbatim>\<open>BTreeMap\<close>, in key order.\<close>

definition select_rebuild_event_paths :: "string list \<Rightarrow> watermarks \<Rightarrow> string + string list" where
  "select_rebuild_event_paths event_paths w =
     (case rebuild_dedup (replay_floor_event_id w) event_paths [] of
        Inl e \<Rightarrow> Inl e
      | Inr dedup \<Rightarrow> Inr (hm_values (sort_key fst dedup)))"

section \<open>Identifiers print and parse\<close>

lemma show_nat_length_le: "n < 10 ^ k \<Longrightarrow> 0 < k \<Longrightarrow> length (show_nat n) \<le> k"
proof (induction n arbitrary: k rule: show_nat.induct)
  case (1 n)
  show ?case
  proof (cases "n < 10")
    case True
    with "1.prems" show ?thesis by (simp add: show_nat.simps [of n])
  next
    case False
    with "1.prems"(1) have "1 < k" by (cases "k \<le> 1") (auto simp: le_Suc_eq)
    then obtain j where j: "k = Suc j" "0 < j" by (cases k) auto
    then have "n div 10 < 10 ^ j" using "1.prems"(1) by (simp add: less_mult_imp_div_less mult.commute)
    with "1.IH" [OF False this j(2)] False show ?thesis by (simp add: show_nat.simps [of n] j(1))
  qed
qed

lemma unat_lt_u64: "unat (w :: u64) < 2 ^ 64"
proof -
  have "unat w < 2 ^ LENGTH(64)" by (rule unsigned_less)
  then show ?thesis by simp
qed

lemma parse_digits_zeros: "parse_digits 0 (replicate k CHR ''0'' @ ds) = parse_digits 0 ds"
  by (induction k) (simp_all add: digit_of_def)

text \<open>The value of a string of digits.\<close>

fun digits_value :: "string \<Rightarrow> nat" where
  "digits_value [] = 0"
| "digits_value (c # cs) = (case digit_of c of Some d \<Rightarrow> d | None \<Rightarrow> 0) * 10 ^ length cs + digits_value cs"

lemma digit_of_less: "digit_of c = Some d \<Longrightarrow> d < 10"
  by (auto simp: digit_of_def Let_def split: if_splits)

lemma digits_value_less: "list_all is_digit ds \<Longrightarrow> digits_value ds < 10 ^ length ds"
proof (induction ds)
  case (Cons c cs)
  then obtain d where d: "digit_of c = Some d" by auto
  have "Suc d * 10 ^ length cs \<le> 10 * 10 ^ length cs" using digit_of_less [OF d] by (intro mult_right_mono) auto
  moreover have "digits_value (c # cs) < Suc d * 10 ^ length cs" using Cons d by simp
  moreover have e: "10 ^ length (c # cs) = (10 :: nat) * 10 ^ length cs" by simp
  ultimately show ?case unfolding e by (blast intro: order.strict_trans2)
qed simp

lemma parse_digits_value: "list_all is_digit ds \<Longrightarrow> parse_digits acc ds = Some (acc * 10 ^ length ds + digits_value ds)"
  by (induction ds arbitrary: acc) (auto simp: algebra_simps)

lemma digit_order: "digit_of c = Some a \<Longrightarrow> digit_of d = Some b \<Longrightarrow> c < d \<longleftrightarrow> a < b"
  by (auto simp: digit_of_def Let_def less_char_def split: if_splits)

lemma digit_inj: "digit_of c = Some a \<Longrightarrow> digit_of d = Some b \<Longrightarrow> c = d \<longleftrightarrow> a = b"
proof
  assume c: "digit_of c = Some a" and d: "digit_of d = Some b"
  assume "a = b"
  with c d have "(of_char c :: nat) = of_char d"
    by (auto simp: digit_of_def Let_def simp del: of_char_eq_iff split: if_splits)
  then show "c = d" by simp
qed simp

text \<open>Strings of digits of one length are ordered as their values are.\<close>

lemma digits_order:
  assumes "list_all is_digit a" "list_all is_digit b" "length a = length b"
  shows "a < b \<longleftrightarrow> digits_value a < digits_value b"
  using assms
proof (induction a b rule: list_induct2' )
  case (4 c cs d ds)
  then obtain m n where m: "digit_of c = Some m" "digit_of d = Some n" by auto
  let ?k = "10 ^ length ds :: nat"
  have lt: "digits_value cs < ?k" "digits_value ds < ?k" using digits_value_less "4.prems" by fastforce+
  have less: "x * ?k + u < y * ?k + v" if "x < y" "u < ?k" for x y u v
  proof -
    have "Suc x * ?k \<le> y * ?k" using that(1) by (intro mult_right_mono) auto
    with that(2) show ?thesis by simp
  qed
  have "m * ?k + digits_value cs < n * ?k + digits_value ds \<longleftrightarrow> m < n \<or> m = n \<and> digits_value cs < digits_value ds"
    using less [of m n] less [of n m] lt by (cases m n rule: linorder_cases) (auto dest: less_asym)
  then show ?case using 4 m digit_order [OF m] digit_inj [OF m] by auto
qed auto

lemma parse_manifest_id_iff:
  "parse_manifest_id s = Inr n \<longleftrightarrow>
   length s = MANIFEST_ID_WIDTH \<and> list_all is_digit s \<and> digits_value s < 2 ^ 64 \<and> n = of_nat (digits_value s)"
proof (cases "length s = MANIFEST_ID_WIDTH \<and> list_all is_digit s")
  case True
  then obtain c cs where s: "s = c # cs" by (cases s) (auto simp: MANIFEST_ID_WIDTH_def)
  with True have "c \<noteq> CHR ''+''" by auto
  then have "parse_u64 s = (if digits_value s < 2 ^ 64 then Some (of_nat (digits_value s)) else None)"
    using True parse_digits_value [of s 0] by (auto simp: parse_u64_def s simp del: parse_digits.simps digits_value.simps)
  then show ?thesis using True by (auto simp: parse_manifest_id_def)
qed (auto simp: parse_manifest_id_def)

lemma parse_manifest_id_unat: "parse_manifest_id s = Inr n \<Longrightarrow> unat n = digits_value s"
  by (auto simp: parse_manifest_id_iff unat_of_nat)

lemma zero_digit: "digit_of CHR ''0'' = Some 0"
  by (simp add: digit_of_def)

lemma format_manifest_id_shape:
  "length (format_manifest_id n) = MANIFEST_ID_WIDTH" "list_all is_digit (format_manifest_id n)"
  "digits_value (format_manifest_id n) = unat n"
proof -
  let ?ds = "show_nat (unat n)"
  have "unat n < 10 ^ 20" using unat_lt_u64 [of n] by simp
  then have "length ?ds \<le> MANIFEST_ID_WIDTH" using show_nat_length_le [of "unat n" 20] by (simp add: MANIFEST_ID_WIDTH_def)
  then show l: "length (format_manifest_id n) = MANIFEST_ID_WIDTH" by (simp add: format_manifest_id_def Let_def)
  show d: "list_all is_digit (format_manifest_id n)"
    using show_nat_digits [of _ "unat n"] by (auto simp: format_manifest_id_def Let_def list_all_iff zero_digit)
  have "parse_digits 0 (format_manifest_id n) = Some (unat n)"
    by (simp add: format_manifest_id_def Let_def parse_digits_zeros)
  with parse_digits_value [OF d, of 0] show "digits_value (format_manifest_id n) = unat n" by simp
qed

section \<open>Rebuild selection\<close>

definition above_floor :: "string option \<Rightarrow> string \<Rightarrow> bool" where
  "above_floor floor event_id \<longleftrightarrow> (case floor of Some f \<Rightarrow> f < event_id | None \<Rightarrow> True)"

lemma rebuild_dedup_get:
  "rebuild_dedup floor paths d = Inr d' \<Longrightarrow> hm_get d' e =
     (case hm_get d e of
        Some p \<Rightarrow> Some p
      | None \<Rightarrow> if above_floor floor e then find (\<lambda>q. event_id_from_ledger_path q = Some e) paths else None)"
proof (induction floor paths d rule: rebuild_dedup.induct)
  case (2 floor path paths d)
  from "2.prems" obtain i where i: "event_id_from_ledger_path path = Some i" by (auto split: option.splits)
  have skip: "(case floor of Some f \<Rightarrow> i \<le> f | None \<Rightarrow> False) \<longleftrightarrow> \<not> above_floor floor i"
    by (auto simp: above_floor_def split: option.split)
  show ?case
  proof (cases "above_floor floor i")
    case True
    with "2.prems" i skip have "rebuild_dedup floor paths (hm_or_insert i path d) = Inr d'" by simp
    from "2.IH"(2) [OF i _ this] skip True show ?thesis
      by (auto simp: i hm_get_or_insert split: option.splits if_splits)
  next
    case False
    with "2.prems" i skip have "rebuild_dedup floor paths d = Inr d'" by simp
    from "2.IH"(1) [OF i _ this] skip False show ?thesis by (auto simp: i split: option.splits)
  qed
qed (auto split: option.splits)

lemma rebuild_dedup_wf: "rebuild_dedup floor paths d = Inr d' \<Longrightarrow> hm_wf d \<Longrightarrow> hm_wf d'"
  by (induction floor paths d rule: rebuild_dedup.induct) (auto split: option.splits if_splits)

lemma rebuild_dedup_error:
  "(\<exists>m. rebuild_dedup floor paths d = Inl m) \<longleftrightarrow> (\<exists>p \<in> set paths. event_id_from_ledger_path p = None)"
  by (induction floor paths d rule: rebuild_dedup.induct) (auto split: option.splits if_splits)

lemma sorted_key_strict: "sorted (map f xs) \<Longrightarrow> distinct (map f xs) \<Longrightarrow> sorted_wrt (<) (map f xs)"
  by (simp add: strict_sorted_iff)

section \<open>Properties\<close>

text \<open>C25: Formatting a manifest number and parsing the identifier gives the number back.\<close>

theorem manifest_id_roundtrip: "parse_manifest_id (format_manifest_id n) = Inr n"
  using unat_lt_u64 [of n] by (simp add: parse_manifest_id_iff format_manifest_id_shape del: not_None_eq)

text \<open>C26: The next identifier of a valid one is the successor at 20 digits, also in the string order
  that listings use; the last 64-bit number has no successor, and an invalid identifier is refused.\<close>

theorem next_manifest_id_increases:
  "(case next_manifest_id p of
      Inr q \<Rightarrow> \<exists>n. parse_manifest_id p = Inr n \<and> parse_manifest_id q = Inr (n + 1) \<and> n < n + 1 \<and> p < q
    | Inl e \<Rightarrow> (\<forall>n. parse_manifest_id p = Inr n \<longrightarrow> n = - 1))"
proof (cases "parse_manifest_id p")
  case (Inr n)
  show ?thesis
  proof (cases "n = - 1")
    case False
    then have "unat (n + 1) = Suc (unat n)" by (metis add.commute add_eq_0_iff unatSuc)
    then have less: "n < n + 1" by (simp add: word_less_nat_alt)
    have "p < format_manifest_id (n + 1)"
      using Inr parse_manifest_id_unat [OF Inr] format_manifest_id_shape [of "n + 1"] less
      by (subst digits_order) (auto simp: parse_manifest_id_iff word_less_nat_alt)
    moreover have "parse_manifest_id (format_manifest_id (n + 1)) = Inr (n + 1)"
      using unat_lt_u64 [of "n + 1"] by (simp add: parse_manifest_id_iff format_manifest_id_shape del: not_None_eq)
    ultimately show ?thesis using Inr False less by (simp add: next_manifest_id_def)
  qed (simp add: next_manifest_id_def Inr)
qed (simp add: next_manifest_id_def)

theorem next_manifest_id_increases_witness:
  "\<exists>q. next_manifest_id INITIAL_MANIFEST_ID = Inr q \<and> INITIAL_MANIFEST_ID < q \<and> parse_manifest_id q = Inr 1"
proof -
  have "parse_manifest_id INITIAL_MANIFEST_ID = Inr 0"
    by (simp add: parse_manifest_id_iff INITIAL_MANIFEST_ID_def MANIFEST_ID_WIDTH_def zero_digit)
  then show ?thesis using next_manifest_id_increases [of INITIAL_MANIFEST_ID] by (auto split: sum.splits)
qed

text \<open>C27: The paths selected for a rebuild are, in strictly increasing order of event id, exactly the
  first path given for each event id above the replay floor: none twice, none at or below the floor, and
  no invalid path among the input.\<close>

theorem rebuild_paths_exact:
  assumes "select_rebuild_event_paths paths w = Inr out"
  shows "sorted_wrt (<) (map (\<lambda>p. the (event_id_from_ledger_path p)) out) \<and>
    (\<forall>p. p \<in> set out \<longleftrightarrow> (\<exists>e. above_floor (replay_floor_event_id w) e \<and>
       find (\<lambda>q. event_id_from_ledger_path q = Some e) paths = Some p)) \<and>
    list_all (\<lambda>p. event_id_from_ledger_path p \<noteq> None) paths"
proof -
  let ?floor = "replay_floor_event_id w"
  obtain d where d: "rebuild_dedup ?floor paths [] = Inr d" and out: "out = hm_values (sort_key fst d)"
    using assms by (auto simp: select_rebuild_event_paths_def split: sum.splits)
  have get: "hm_get d e = (if above_floor ?floor e then find (\<lambda>q. event_id_from_ledger_path q = Some e) paths else None)"
    for e using rebuild_dedup_get [OF d, of e] by simp
  have wf: "hm_wf d" using rebuild_dedup_wf [OF d] by simp
  have key: "event_id_from_ledger_path (snd kv) = Some (fst kv)" if "kv \<in> set d" for kv
    using that get [of "fst kv"] hm_get_in_set [OF wf, of "fst kv" "snd kv"]
    by (auto simp: find_Some_iff split: if_splits)
  have "map (\<lambda>p. the (event_id_from_ledger_path p)) out = map fst (sort_key fst d)"
    unfolding out map_map using key by (intro map_cong) auto
  moreover have "sorted_wrt (<) (map fst (sort_key fst d))"
    using wf by (intro sorted_key_strict) (auto simp: distinct_map inj_on_def)
  moreover have "p \<in> set out \<longleftrightarrow> (\<exists>e. hm_get d e = Some p)" for p
    unfolding out using hm_get_in_set [OF wf] by force
  moreover have "list_all (\<lambda>p. event_id_from_ledger_path p \<noteq> None) paths"
    using rebuild_dedup_error [of ?floor paths "[]"] d by (auto simp: list_all_iff)
  ultimately show ?thesis by (auto simp: get)
qed

definition ex_watermarks :: watermarks where
  "ex_watermarks = watermarks_default\<lparr>wm_last_visible_event_id := Some ''e1''\<rparr>"

theorem rebuild_paths_exact_witness:
  "select_rebuild_event_paths
     [''ledger/orchestration/2026-01-02/e3.json'', ''ledger/orchestration/2026-01-01/e2.json'',
      ''ledger/orchestration/2026-01-02/e2.json'', ''ledger/orchestration/2026-01-01/e1.json''] ex_watermarks =
   Inr [''ledger/orchestration/2026-01-01/e2.json'', ''ledger/orchestration/2026-01-02/e3.json''] \<and>
   sorted_wrt (<) (map (\<lambda>p. the (event_id_from_ledger_path p))
     [''ledger/orchestration/2026-01-01/e2.json'', ''ledger/orchestration/2026-01-02/e3.json''])"
proof -
  have "select_rebuild_event_paths
     [''ledger/orchestration/2026-01-02/e3.json'', ''ledger/orchestration/2026-01-01/e2.json'',
      ''ledger/orchestration/2026-01-02/e2.json'', ''ledger/orchestration/2026-01-01/e1.json''] ex_watermarks =
   Inr [''ledger/orchestration/2026-01-01/e2.json'', ''ledger/orchestration/2026-01-02/e3.json'']"
    by code_simp
  from this rebuild_paths_exact [OF this] show ?thesis by blast
qed

end
