(* ===== verification/Dist_Lock.thy ===== *)
theory Dist_Lock
  imports Storage_Programs
begin

text \<open>
  The distributed lock (\<^verbatim>\<open>arco-core/src/lock.rs\<close>): acquisition with takeover of expired locks,
  retries, release by compare-and-swap, release on drop, extension, forced break. Each method is a
  storage program in continuation style; the continuation stands for the code after the await.

  \<^verbatim>\<open>serde_json\<close> and \<^verbatim>\<open>chrono::Duration::from_std\<close> are parameters, in the record \<open>lock_env\<close>; the only
  law used of them is that reading back a serialised record gives that record.
\<close>

section \<open>Lock records\<close>

record lock_info =
  li_holder_id :: string
  li_expires_at :: datetime
  li_acquired_at :: datetime
  li_sequence_number :: u64
  li_operation :: "string option"

record 'd lock_env =
  le_to_vec :: "lock_info \<Rightarrow> string + 'd"
  le_from_slice :: "'d \<Rightarrow> string + lock_info"
  le_from_std :: "nat \<Rightarrow> int option"

text \<open>\<^verbatim>\<open>Duration\<close> values are in nanoseconds.\<close>

definition seconds :: "nat \<Rightarrow> nat" where
  "seconds n = n * 10 ^ 9"

definition millis :: "nat \<Rightarrow> nat" where
  "millis n = n * 10 ^ 6"

definition DEFAULT_LOCK_TTL :: nat where
  "DEFAULT_LOCK_TTL = seconds 30"

definition DEFAULT_MAX_RETRIES :: nat where
  "DEFAULT_MAX_RETRIES = 5"

definition BACKOFF_BASE :: nat where
  "BACKOFF_BASE = millis 100"

definition BACKOFF_MAX :: nat where
  "BACKOFF_MAX = seconds 5"

definition duration_max :: nat where
  "duration_max = 2 ^ 64 * 10 ^ 9 - 1"

definition ttl_duration :: "'d lock_env \<Rightarrow> nat \<Rightarrow> int" where
  "ttl_duration env ttl = (case le_from_std env ttl of Some d \<Rightarrow> d | None \<Rightarrow> int (seconds 30))"

definition lock_info_new ::
  "'d lock_env \<Rightarrow> string \<Rightarrow> nat \<Rightarrow> u64 \<Rightarrow> (lock_info \<Rightarrow> ('d, 'r) io) \<Rightarrow> ('d, 'r) io" where
  "lock_info_new env holder_id ttl sequence_number k = Now (\<lambda>now.
     k \<lparr>li_holder_id = holder_id, li_expires_at = now + ttl_duration env ttl, li_acquired_at = now,
        li_sequence_number = sequence_number, li_operation = None\<rparr>)"

definition is_expired :: "lock_info \<Rightarrow> (bool \<Rightarrow> ('d, 'r) io) \<Rightarrow> ('d, 'r) io" where
  "is_expired info k = Now (\<lambda>now. k (now \<ge> li_expires_at info))"

definition remaining_ttl :: "lock_info \<Rightarrow> datetime \<Rightarrow> nat" where
  "remaining_ttl info now =
     (let ms = (let r = li_expires_at info - now in if r < 0 then - ((- r) div 10 ^ 6) else r div 10 ^ 6)
      in if ms \<le> 0 then 0 else millis (nat ms))"

text \<open>\<^verbatim>\<open>u64::saturating_add(1)\<close>.\<close>

definition next_sequence :: "u64 \<Rightarrow> u64" where
  "next_sequence n = (if n = - 1 then - 1 else n + 1)"

section \<open>The lock\<close>

record distributed_lock =
  dl_lock_path :: string
  dl_holder_id :: string

record lock_guard =
  lg_lock_path :: string
  lg_holder_id :: string
  lg_version :: string
  lg_fencing_token :: u64
  lg_released :: bool

datatype lock_error = LE_AlreadyHeld string | LE_Storage core_error

definition lock_new :: "string \<Rightarrow> string \<Rightarrow> distributed_lock" where
  "lock_new ulid path = \<lparr>dl_lock_path = path, dl_holder_id = ulid\<rparr>"

definition read_lock ::
  "'d lock_env \<Rightarrow> string \<Rightarrow> (core_error + lock_info option \<Rightarrow> ('d, 'r) io) \<Rightarrow> ('d, 'r) io" where
  "read_lock env path k = Get path (\<lambda>r.
     case r of
       Inr data \<Rightarrow> (case le_from_slice env data of
           Inl e \<Rightarrow> k (Inl (CE_Internal (''parse lock: '' @ e)))
         | Inr info \<Rightarrow> k (Inr (Some info)))
     | Inl e \<Rightarrow> (case e of CE_NotFound m \<Rightarrow> k (Inr None) | _ \<Rightarrow> k (Inl e)))"

definition guard_of :: "distributed_lock \<Rightarrow> string \<Rightarrow> u64 \<Rightarrow> lock_guard" where
  "guard_of l version token = \<lparr>lg_lock_path = dl_lock_path l, lg_holder_id = dl_holder_id l,
     lg_version = version, lg_fencing_token = token, lg_released = False\<rparr>"

text \<open>The second half of \<^verbatim>\<open>try_acquire\<close>: the lock exists, take it over if it has expired. \<open>replace_lock\<close>
  is the branch for an expired record.\<close>

definition replace_lock ::
  "'d lock_env \<Rightarrow> distributed_lock \<Rightarrow> nat \<Rightarrow> string option \<Rightarrow> lock_info \<Rightarrow> string \<Rightarrow>
   (lock_error + lock_guard \<Rightarrow> ('d, 'r) io) \<Rightarrow> ('d, 'r) io" where
  "replace_lock env l ttl operation info version k =
     (let new_sequence = next_sequence (li_sequence_number info)
      in lock_info_new env (dl_holder_id l) ttl new_sequence (\<lambda>new_info.
           case le_to_vec env (new_info\<lparr>li_operation := operation\<rparr>) of
             Inl e \<Rightarrow> k (Inl (LE_Storage (CE_Internal (''serialize lock: '' @ e))))
           | Inr new_lock_bytes \<Rightarrow>
               Put (dl_lock_path l) new_lock_bytes (WP_MatchesVersion version) (\<lambda>r.
                 case r of
                   Inl e \<Rightarrow> k (Inl (LE_Storage e))
                 | Inr (WR_Success new_version) \<Rightarrow> k (Inr (guard_of l new_version new_sequence))
                 | Inr (WR_PreconditionFailed v) \<Rightarrow> k (Inl (LE_AlreadyHeld ''unknown'')))))"

definition take_over ::
  "'d lock_env \<Rightarrow> distributed_lock \<Rightarrow> nat \<Rightarrow> string option \<Rightarrow> (lock_error + lock_guard \<Rightarrow> ('d, 'r) io) \<Rightarrow> ('d, 'r) io" where
  "take_over env l ttl operation k = Head (dl_lock_path l) (\<lambda>r.
     case r of
       Inl e \<Rightarrow> k (Inl (LE_Storage e))
     | Inr None \<Rightarrow> k (Inl (LE_AlreadyHeld ''race''))
     | Inr (Some meta) \<Rightarrow> read_lock env (dl_lock_path l) (\<lambda>existing.
         case existing of
           Inl e \<Rightarrow> k (Inl (LE_Storage e))
         | Inr None \<Rightarrow> k (Inl (LE_AlreadyHeld ''race''))
         | Inr (Some info) \<Rightarrow> is_expired info (\<lambda>expired.
             if expired then replace_lock env l ttl operation info (om_version meta) k
             else k (Inl (LE_AlreadyHeld (li_holder_id info))))))"

definition try_acquire ::
  "'d lock_env \<Rightarrow> distributed_lock \<Rightarrow> nat \<Rightarrow> string option \<Rightarrow> (lock_error + lock_guard \<Rightarrow> ('d, 'r) io) \<Rightarrow> ('d, 'r) io" where
  "try_acquire env l ttl operation k = lock_info_new env (dl_holder_id l) ttl 1 (\<lambda>lock_info.
     case le_to_vec env (lock_info\<lparr>li_operation := operation\<rparr>) of
       Inl e \<Rightarrow> k (Inl (LE_Storage (CE_Internal (''serialize lock: '' @ e))))
     | Inr lock_bytes \<Rightarrow>
         Put (dl_lock_path l) lock_bytes WP_DoesNotExist (\<lambda>r.
           case r of
             Inl e \<Rightarrow> k (Inl (LE_Storage e))
           | Inr (WR_Success version) \<Rightarrow> k (Inr (guard_of l version 1))
           | Inr (WR_PreconditionFailed v) \<Rightarrow> take_over env l ttl operation k))"

definition rand_jitter :: "datetime \<Rightarrow> nat" where
  "rand_jitter now = (if now < 0 then 0 else nat (now mod 10 ^ 9) mod 50)"

function acquire_loop ::
  "'d lock_env \<Rightarrow> distributed_lock \<Rightarrow> nat \<Rightarrow> nat \<Rightarrow> string option \<Rightarrow> nat \<Rightarrow> nat \<Rightarrow>
   (core_error + lock_guard \<Rightarrow> ('d, 'r) io) \<Rightarrow> ('d, 'r) io" where
  "acquire_loop env l ttl max_retries operation attempts backoff k =
     try_acquire env l ttl operation (\<lambda>r.
       case r of
         Inr guard \<Rightarrow> k (Inr guard)
       | Inl (LE_Storage e) \<Rightarrow> k (Inl e)
       | Inl (LE_AlreadyHeld holder) \<Rightarrow>
           if attempts + 1 \<ge> max_retries
           then k (Inl (CE_PreconditionFailed
             (''lock held by '' @ holder @ '' after '' @ show_nat max_retries @ '' retries'')))
           else Now (\<lambda>now.
             Sleep (min backoff BACKOFF_MAX + millis (rand_jitter now))
               (acquire_loop env l ttl max_retries operation (attempts + 1) (min (2 * backoff) duration_max) k)))"
  by pat_completeness auto

termination by (relation "measure (\<lambda>(env, l, ttl, max_retries, operation, attempts, backoff, k). max_retries - attempts)") auto

declare acquire_loop.simps [simp del]

definition acquire_with_operation ::
  "'d lock_env \<Rightarrow> distributed_lock \<Rightarrow> nat \<Rightarrow> nat \<Rightarrow> string option \<Rightarrow>
   (core_error + lock_guard \<Rightarrow> ('d, 'r) io) \<Rightarrow> ('d, 'r) io" where
  "acquire_with_operation env l ttl max_retries operation k =
     acquire_loop env l ttl max_retries operation 0 BACKOFF_BASE k"

definition acquire ::
  "'d lock_env \<Rightarrow> distributed_lock \<Rightarrow> nat \<Rightarrow> nat \<Rightarrow> (core_error + lock_guard \<Rightarrow> ('d, 'r) io) \<Rightarrow> ('d, 'r) io" where
  "acquire env l ttl max_retries k = acquire_with_operation env l ttl max_retries None k"

definition force_break :: "distributed_lock \<Rightarrow> (core_error + unit \<Rightarrow> ('d, 'r) io) \<Rightarrow> ('d, 'r) io" where
  "force_break l k = Delete (dl_lock_path l) k"

definition is_locked :: "'d lock_env \<Rightarrow> distributed_lock \<Rightarrow> (core_error + bool \<Rightarrow> ('d, 'r) io) \<Rightarrow> ('d, 'r) io" where
  "is_locked env l k = read_lock env (dl_lock_path l) (\<lambda>r.
     case r of
       Inl e \<Rightarrow> k (Inl e)
     | Inr None \<Rightarrow> k (Inr False)
     | Inr (Some info) \<Rightarrow> is_expired info (\<lambda>expired. k (Inr (\<not> expired))))"

definition read_lock_info ::
  "'d lock_env \<Rightarrow> distributed_lock \<Rightarrow> (core_error + lock_info option \<Rightarrow> ('d, 'r) io) \<Rightarrow> ('d, 'r) io" where
  "read_lock_info env l k = read_lock env (dl_lock_path l) k"

section \<open>The guard\<close>

definition expired_record :: "string \<Rightarrow> lock_info \<Rightarrow> datetime \<Rightarrow> lock_info" where
  "expired_record holder info now = \<lparr>li_holder_id = holder, li_expires_at = now - int (seconds 1),
     li_acquired_at = li_acquired_at info, li_sequence_number = li_sequence_number info, li_operation = None\<rparr>"

text \<open>The guard is returned with \<^verbatim>\<open>released\<close> set, on every path but an error.\<close>

definition do_release ::
  "'d lock_env \<Rightarrow> lock_guard \<Rightarrow> (core_error + lock_guard \<Rightarrow> ('d, 'r) io) \<Rightarrow> ('d, 'r) io" where
  "do_release env g k =
     (if lg_released g then k (Inr g)
      else read_lock env (lg_lock_path g) (\<lambda>r.
        case r of
          Inl e \<Rightarrow> k (Inl e)
        | Inr None \<Rightarrow> k (Inr (g\<lparr>lg_released := True\<rparr>))
        | Inr (Some info) \<Rightarrow>
            if li_holder_id info \<noteq> lg_holder_id g then k (Inr (g\<lparr>lg_released := True\<rparr>))
            else Now (\<lambda>now.
              case le_to_vec env (expired_record (lg_holder_id g) info now) of
                Inl e \<Rightarrow> k (Inl (CE_Internal (''serialize expired lock: '' @ e)))
              | Inr expired_bytes \<Rightarrow>
                  Put (lg_lock_path g) expired_bytes (WP_MatchesVersion (lg_version g)) (\<lambda>r.
                    case r of Inl e \<Rightarrow> k (Inl e) | Inr w \<Rightarrow> k (Inr (g\<lparr>lg_released := True\<rparr>))))))"

text \<open>The task \<^verbatim>\<open>Drop\<close> spawns for a guard that was not released.\<close>

definition drop_guard :: "'d lock_env \<Rightarrow> lock_guard \<Rightarrow> ('d, 'r) io \<Rightarrow> ('d, 'r) io" where
  "drop_guard env g k =
     (if lg_released g then k
      else Head (lg_lock_path g) (\<lambda>r.
        case r of
          Inr (Some meta) \<Rightarrow>
            if om_version meta \<noteq> lg_version g then k
            else Get (lg_lock_path g) (\<lambda>r.
              case r of
                Inl e \<Rightarrow> k
              | Inr data \<Rightarrow>
                  (case le_from_slice env data of
                     Inl e \<Rightarrow> k
                   | Inr info \<Rightarrow>
                       if li_holder_id info \<noteq> lg_holder_id g then k
                       else Now (\<lambda>now.
                         case le_to_vec env (expired_record (lg_holder_id g) info now) of
                           Inl e \<Rightarrow> k
                         | Inr bytes \<Rightarrow>
                             Put (lg_lock_path g) bytes (WP_MatchesVersion (lg_version g)) (\<lambda>r. k))))
        | _ \<Rightarrow> k))"

definition extend ::
  "'d lock_env \<Rightarrow> lock_guard \<Rightarrow> nat \<Rightarrow> (core_error + lock_guard \<Rightarrow> ('d, 'r) io) \<Rightarrow> ('d, 'r) io" where
  "extend env g additional_ttl k = read_lock env (lg_lock_path g) (\<lambda>current.
     case current of
       Inl e \<Rightarrow> k (Inl e)
     | Inr None \<Rightarrow> k (Inl (CE_NotFound (lg_lock_path g)))
     | Inr (Some info) \<Rightarrow>
         if li_holder_id info \<noteq> lg_holder_id g
         then k (Inl (CE_PreconditionFailed ''lock held by different holder''))
         else Now (\<lambda>now.
           case le_to_vec env (info\<lparr>li_expires_at := now + ttl_duration env additional_ttl\<rparr>) of
             Inl e \<Rightarrow> k (Inl (CE_Internal (''serialize lock: '' @ e)))
           | Inr lock_bytes \<Rightarrow> Head (lg_lock_path g) (\<lambda>r.
               case r of
                 Inl e \<Rightarrow> k (Inl e)
               | Inr None \<Rightarrow> k (Inl (CE_NotFound (lg_lock_path g)))
               | Inr (Some meta) \<Rightarrow>
                   Put (lg_lock_path g) lock_bytes (WP_MatchesVersion (om_version meta)) (\<lambda>r.
                     case r of
                       Inl e \<Rightarrow> k (Inl e)
                     | Inr (WR_Success version) \<Rightarrow> k (Inr (g\<lparr>lg_version := version\<rparr>))
                     | Inr (WR_PreconditionFailed v) \<Rightarrow>
                         k (Inl (CE_PreconditionFailed ''lock modified by another holder''))))))"

section \<open>The lock protocol\<close>

text \<open>What a write to a lock object must be, given the history before it: the first record has
  sequence number 1; a later one either takes over an expired record with the next sequence number or
  is a record of the same holder with the same number.\<close>

definition lock_good :: "'d lock_env \<Rightarrow> int \<Rightarrow> 'd stored_write list \<Rightarrow> 'd stored_write \<Rightarrow> bool" where
  "lock_good env skew L w \<longleftrightarrow>
     (\<exists>t p v d i. w = (t, p, Some (v, d)) \<and> le_from_slice env d = Inr i \<and>
        (case log_object L p of
           None \<Rightarrow> li_sequence_number i = 1
         | Some (v0, d0) \<Rightarrow> \<exists>i0. le_from_slice env d0 = Inr i0 \<and>
             (li_sequence_number i = next_sequence (li_sequence_number i0) \<and> li_expires_at i0 \<le> t + skew \<or>
              li_sequence_number i = li_sequence_number i0 \<and> li_holder_id i = li_holder_id i0)))"

text \<open>The write that issued a guard.\<close>

definition issued :: "'d lock_env \<Rightarrow> 'd stored_write list \<Rightarrow> lock_guard \<Rightarrow> bool" where
  "issued env L g \<longleftrightarrow>
     (\<exists>A t d i B. L = A @ (t, lg_lock_path g, Some (lg_version g, d)) # B \<and> le_from_slice env d = Inr i \<and>
        li_sequence_number i = lg_fencing_token g \<and> li_holder_id i = lg_holder_id g \<and>
        (case log_object B (lg_lock_path g) of
           None \<Rightarrow> lg_fencing_token g = 1
         | Some (v0, d0) \<Rightarrow> \<exists>i0. le_from_slice env d0 = Inr i0 \<and>
             lg_fencing_token g = next_sequence (li_sequence_number i0)))"

text \<open>The lock is one part of a larger system: other programs may write other objects, and on the lock
  objects every writer keeps \<open>lock_good\<close>.\<close>

locale lock_protocol =
  fixes env :: "'d lock_env" and skew :: int and paths :: "string set"
    and good :: "'d stored_write list \<Rightarrow> 'd stored_write \<Rightarrow> bool" and post :: "'r \<Rightarrow> 'd stored_write list \<Rightarrow> bool"
  assumes codec: "le_to_vec env i = Inr d \<Longrightarrow> le_from_slice env d = Inr i"
    and good_iff: "fst (snd w) \<in> paths \<Longrightarrow> good L w \<longleftrightarrow> lock_good env skew L w"
begin

abbreviation safe :: "('d, 'r) io \<Rightarrow> datetime \<times> 'd stored_write list \<Rightarrow> bool" where
  "safe \<equiv> wp skew good post"

lemma read_lock_wp:
  assumes "\<And>w' r. grows good w w' \<Longrightarrow>
    (\<And>i. r = Inr (Some i) \<Longrightarrow> \<exists>v d. log_object (snd w') p = Some (v, d) \<and> le_from_slice env d = Inr i) \<Longrightarrow> safe (k r) w'"
  shows "safe (read_lock env p k) w"
  unfolding read_lock_def
proof (rule wp_getI)
  fix w' and r :: "core_error + 'd"
  assume "grows good w w'" "\<And>d. r = Inr d \<Longrightarrow> \<exists>v. log_object (snd w') p = Some (v, d)"
  then show "safe (case r of Inr data \<Rightarrow> (case le_from_slice env data of
           Inl e \<Rightarrow> k (Inl (CE_Internal (''parse lock: '' @ e)))
         | Inr info \<Rightarrow> k (Inr (Some info)))
     | Inl e \<Rightarrow> (case e of CE_NotFound m \<Rightarrow> k (Inr None) | _ \<Rightarrow> k (Inl e))) w'"
    by (cases r) (auto intro!: assms split: core_error.split sum.split)
qed

text \<open>The write that replaces a record, where the version it names can only stand for that record.\<close>

lemma replace_lock_wp:
  assumes "dl_lock_path l \<in> paths" and "le_from_slice env d0 = Inr i0" and "li_expires_at i0 \<le> fst w + skew"
    and old: "\<And>T L. grows good w (T, L) \<Longrightarrow> allowed L (dl_lock_path l) (WP_MatchesVersion v0) \<Longrightarrow>
      log_object L (dl_lock_path l) = Some (v0, d0)"
    and k: "\<And>w' r. grows good w w' \<Longrightarrow>
      (\<And>g. r = Inr g \<Longrightarrow> lg_lock_path g \<in> paths \<and> issued env (snd w') g) \<Longrightarrow> safe (k r) w'"
  shows "safe (replace_lock env l ttl operation i0 v0 k) w"
  unfolding replace_lock_def lock_info_new_def Let_def
proof (rule wp_nowI, goal_cases)
  case (1 w1 t)
  note g = grows_trans [OF 1(1)]
  let ?new = "\<lparr>li_holder_id = dl_holder_id l, li_expires_at = t + ttl_duration env ttl, li_acquired_at = t,
    li_sequence_number = next_sequence (li_sequence_number i0), li_operation = operation\<rparr>"
  show ?case
  proof (cases "le_to_vec env ?new")
    case (Inr d)
    show ?thesis unfolding lock_info.simps Inr sum.case
    proof (rule wp_putI, goal_cases)
      case (3 T L v)
      have "li_expires_at i0 \<le> T + skew" using assms(3) g [OF 3(1)] by (simp add: grows_def)
      then show ?case using good_iff assms(1,2) codec [OF Inr] old [OF g [OF 3(1)] 3(2)] by (simp add: lock_good_def)
    next
      case (4 T L v)
      have "issued env ((T, dl_lock_path l, Some (v, d)) # L) (guard_of l v (next_sequence (li_sequence_number i0)))"
        unfolding issued_def guard_of_def lock_guard.simps
        by (rule exI [of _ "[]"]) (use codec [OF Inr] assms(2) old [OF g [OF 4(2)] 4(3)] in simp)
      then show ?case using g [OF 4(1)] assms(1) by (auto intro!: k simp: guard_of_def)
    qed (auto intro!: k g)
  qed (use 1 in \<open>auto intro: k\<close>)
qed

text \<open>A takeover replaces the very record whose expiry it checked, because the version was read
  before the record.\<close>

lemma take_over_wp:
  assumes "dl_lock_path l \<in> paths"
    and k: "\<And>w' r. grows good w w' \<Longrightarrow>
      (\<And>g. r = Inr g \<Longrightarrow> lg_lock_path g \<in> paths \<and> issued env (snd w') g) \<Longrightarrow> safe (k r) w'"
  shows "safe (take_over env l ttl operation k) w"
  unfolding take_over_def
proof (rule wp_headI, goal_cases)
  case (3 w1 meta d1)
  note g1 = grows_trans [OF 3(1)]
  show ?case
  proof (simp, rule read_lock_wp, goal_cases)
    case (1 w2 r)
    show ?case
    proof (cases "\<exists>i0. r = Inr (Some i0)")
      case True
      then obtain i0 v2 d2 where r: "r = Inr (Some i0)" and
        d2: "log_object (snd w2) (dl_lock_path l) = Some (v2, d2)" "le_from_slice env d2 = Inr i0"
        using 1(2) by blast
      show ?thesis unfolding r sum.case option.case is_expired_def
      proof (rule wp_nowI)
        fix w3 t
        assume w3: "grows good w2 w3" "\<bar>t - fst w3\<bar> \<le> skew"
        have "log_object L (dl_lock_path l) = Some (om_version meta, d2)"
          if "grows good w3 (T, L)" "allowed L (dl_lock_path l) (WP_MatchesVersion (om_version meta))" for T L
          using allowed_reads [OF that(2) grows_trans [OF w3(1) that(1)] _ d2(1)]
            grows_versions [OF 1(1) log_object_version [OF 3(2)]] by blast
        moreover have "grows good w w'" if "grows good w3 w'" for w'
          using g1 [OF grows_trans [OF grows_trans [OF 1(1) w3(1)] that]] .
        ultimately show "safe (if li_expires_at i0 \<le> t then replace_lock env l ttl operation i0 (om_version meta) k
              else k (Inl (LE_AlreadyHeld (li_holder_id i0)))) w3"
          using w3 d2(2) assms(1) g1 [OF grows_trans [OF 1(1) w3(1)]]
          by (auto intro!: replace_lock_wp k)
      qed
    qed (use g1 [OF 1(1)] in \<open>auto intro!: k split: sum.split option.split\<close>)
  qed
qed (auto intro!: k)

lemma try_acquire_wp:
  assumes "dl_lock_path l \<in> paths"
    and k: "\<And>w' r. grows good w w' \<Longrightarrow>
      (\<And>g. r = Inr g \<Longrightarrow> lg_lock_path g \<in> paths \<and> issued env (snd w') g) \<Longrightarrow> safe (k r) w'"
  shows "safe (try_acquire env l ttl operation k) w"
  unfolding try_acquire_def lock_info_new_def
proof (rule wp_nowI, goal_cases)
  case (1 w1 t)
  note g = grows_trans [OF 1(1)]
  let ?new = "\<lparr>li_holder_id = dl_holder_id l, li_expires_at = t + ttl_duration env ttl, li_acquired_at = t,
    li_sequence_number = 1, li_operation = operation\<rparr>"
  show ?case
  proof (cases "le_to_vec env ?new")
    case (Inr d)
    show ?thesis unfolding lock_info.simps Inr sum.case
    proof (rule wp_putI, goal_cases)
      case (2 w' v)
      then show ?case by (auto intro!: take_over_wp k assms(1) g intro: grows_trans)
    next
      case (3 T L v)
      then show ?case using good_iff assms(1) codec [OF Inr] by (auto simp: lock_good_def allowed_def)
    next
      case (4 T L v)
      have "issued env ((T, dl_lock_path l, Some (v, d)) # L) (guard_of l v 1)"
        unfolding issued_def guard_of_def lock_guard.simps
        by (rule exI [of _ "[]"]) (use codec [OF Inr] 4(3) in \<open>simp add: allowed_def\<close>)
      then show ?case using g [OF 4(1)] assms(1) by (auto intro!: k simp: guard_of_def)
    qed (auto intro!: k g)
  qed (use 1 in \<open>auto intro: k\<close>)
qed

lemma acquire_loop_wp:
  assumes "dl_lock_path l \<in> paths"
    and k: "\<And>w' r. grows good w w' \<Longrightarrow>
      (\<And>g. r = Inr g \<Longrightarrow> lg_lock_path g \<in> paths \<and> issued env (snd w') g) \<Longrightarrow> safe (k r) w'"
  shows "safe (acquire_loop env l ttl max_retries operation attempts backoff k) w"
  using k
proof (induction "max_retries - attempts" arbitrary: attempts backoff w rule: less_induct)
  case less
  show ?case
    unfolding acquire_loop.simps [of env l ttl max_retries operation attempts]
  proof (rule try_acquire_wp [OF assms(1)], goal_cases)
    case (1 w1 r)
    note g = grows_trans [OF 1(1)]
    show ?case
    proof (cases "\<exists>h. r = Inl (LE_AlreadyHeld h) \<and> \<not> attempts + 1 \<ge> max_retries")
      case True
      have "safe (acquire_loop env l ttl max_retries operation (attempts + 1) backoff' k) w2"
        if "grows good w1 w2" for w2 backoff'
      proof (rule less.hyps)
        show "max_retries - (attempts + 1) < max_retries - attempts" using True by auto
      qed (rule less.prems [OF g [OF grows_trans [OF that]]])
      with True show ?thesis by (auto intro!: wp_nowI)
    next
      case False
      then show ?thesis using 1 by (auto intro!: less.prems split: sum.split lock_error.split)
    qed
  qed
qed

text \<open>Releasing writes over the record the guard was issued with, or not at all.\<close>

lemma expire_wp:
  assumes "lg_lock_path g \<in> paths" and "lg_version g \<in> log_versions (snd w)"
    and "log_object (snd w) (lg_lock_path g) = Some (v0, d0)" "le_from_slice env d0 = Inr i0"
    and "li_holder_id i0 = lg_holder_id g" "le_to_vec env (expired_record (lg_holder_id g) i0 now) = Inr d"
    and k: "\<And>w' r. grows good w w' \<Longrightarrow> safe (k r) w'" and "grows good w w1"
  shows "safe (Put (lg_lock_path g) d (WP_MatchesVersion (lg_version g)) k) w1"
proof (rule wp_putI, goal_cases)
  case (3 T L v)
  have "log_object L (lg_lock_path g) = Some (lg_version g, d0)"
    using allowed_reads [OF 3(2) grows_trans [OF assms(8) 3(1)] assms(2,3)] .
  then show ?case using good_iff assms(1,4,5) codec [OF assms(6)] by (simp add: lock_good_def expired_record_def)
qed (use grows_trans [OF assms(8)] in \<open>auto intro: k\<close>)

lemma do_release_wp:
  assumes "lg_lock_path g \<in> paths" and "lg_version g \<in> log_versions (snd w)"
    and k: "\<And>w' r. grows good w w' \<Longrightarrow> safe (k r) w'" and "history good (snd w)"
  shows "safe (do_release env g k) w"
proof (cases "lg_released g")
  case True
  then show ?thesis using k assms(4) by (simp add: do_release_def grows_def)
next
  case False
  show ?thesis unfolding do_release_def if_not_P [OF False]
  proof (rule read_lock_wp, goal_cases)
    case (1 w1 r)
    note g = grows_trans [OF 1(1)]
    show ?case
    proof (cases "\<exists>i0. r = Inr (Some i0) \<and> li_holder_id i0 = lg_holder_id g")
      case True
      then obtain i0 v0 d0 where i0: "r = Inr (Some i0)" "li_holder_id i0 = lg_holder_id g"
        "log_object (snd w1) (lg_lock_path g) = Some (v0, d0)" "le_from_slice env d0 = Inr i0" using 1(2) by blast
      have "lg_version g \<in> log_versions (snd w1)" using grows_versions [OF 1(1) assms(2)] .
      note put = expire_wp [OF assms(1) this i0(3,4,2)]
      show ?thesis by (auto simp: i0 split: sum.split intro!: wp_nowI put k g)
    next
      case False
      then show ?thesis using 1(1) by (auto intro!: k split: sum.split option.split)
    qed
  qed
qed

lemma drop_guard_wp:
  assumes "lg_lock_path g \<in> paths" and "lg_version g \<in> log_versions (snd w)"
    and k: "\<And>w'. grows good w w' \<Longrightarrow> safe k w'" and "history good (snd w)"
  shows "safe (drop_guard env g k) w"
proof (cases "lg_released g")
  case True
  then show ?thesis using k assms(4) by (simp add: drop_guard_def grows_def)
next
  case False
  show ?thesis unfolding drop_guard_def if_not_P [OF False]
  proof (rule wp_headI, goal_cases)
    case (3 w1 meta d1)
    note g1 = grows_trans [OF 3(1)]
    have "safe (case r of Inl e \<Rightarrow> k | Inr data \<Rightarrow>
           (case le_from_slice env data of Inl e \<Rightarrow> k
            | Inr info \<Rightarrow> if li_holder_id info \<noteq> lg_holder_id g then k
               else Now (\<lambda>now. case le_to_vec env (expired_record (lg_holder_id g) info now) of
                    Inl e \<Rightarrow> k
                  | Inr bytes \<Rightarrow> Put (lg_lock_path g) bytes (WP_MatchesVersion (lg_version g)) (\<lambda>r. k)))) w2"
      if w2: "grows good w1 w2" and r: "\<And>d. r = Inr d \<Longrightarrow> \<exists>v. log_object (snd w2) (lg_lock_path g) = Some (v, d)"
      for w2 and r :: "core_error + 'd"
    proof -
      note g2 = grows_trans [OF g1 [OF w2]]
      have "lg_version g \<in> log_versions (snd w2)" using grows_versions [OF g1 [OF w2] assms(2)] .
      note put = expire_wp [OF assms(1) this]
      show ?thesis using r g1 [OF w2] by (auto split: sum.split intro!: wp_nowI put k g2)
    qed
    then show ?case by (auto intro!: wp_getI k 3(1))
  qed (auto intro!: k)
qed

end

end
