(* ===== verification/Fold_Keys.thy ===== *)
theory Fold_Keys
  imports Compaction
begin

text \<open>
  The type invariant of the fold state: in every table the rows are stored under the key made of
  their own columns, one row per key. Writing the rows of a table to a file drops the keys, and
  reading the file recomputes them from the columns, so this is what makes a stored table come back.
\<close>

section \<open>Keyed tables\<close>

definition keyed :: "('v \<Rightarrow> 'k) \<Rightarrow> ('k, 'v) hashmap \<Rightarrow> bool" where
  "keyed key m \<longleftrightarrow> hm_wf m \<and> list_all (\<lambda>(k, v). key v = k) m"

named_theorems keyed_intros \<open>operations that keep a table keyed\<close>

lemma keyed_Nil [simp]: "keyed key []"
  by (simp add: keyed_def)

lemma keyed_get: "keyed key m \<Longrightarrow> hm_get m k = Some v \<Longrightarrow> key v = k"
  by (auto simp: keyed_def list_all_iff dest: map_of_SomeD)

lemma keyedI: "hm_wf m \<Longrightarrow> (\<And>k v. hm_get m k = Some v \<Longrightarrow> key v = k) \<Longrightarrow> keyed key m"
  by (auto simp: keyed_def list_all_iff)

lemma keyed_wf: "keyed key m \<Longrightarrow> hm_wf m"
  by (simp add: keyed_def)

lemma keyed_insert [keyed_intros]: "keyed key m \<Longrightarrow> key v = k \<Longrightarrow> keyed key (hm_insert k v m)"
  by (rule keyedI) (auto simp: keyed_wf hm_simps dest: keyed_get split: if_splits)

lemma keyed_modify [keyed_intros]:
  "keyed key m \<Longrightarrow> (\<And>v. key v = k \<Longrightarrow> hm_get m k = Some v \<Longrightarrow> key (f v) = k) \<Longrightarrow> keyed key (hm_modify k f m)"
  by (rule keyedI) (auto simp: keyed_wf hm_simps dest: keyed_get split: if_splits)

lemma keyed_or_insert [keyed_intros]: "keyed key m \<Longrightarrow> key v = k \<Longrightarrow> keyed key (hm_or_insert k v m)"
  by (auto simp: hm_or_insert_def keyed_insert split: option.split)

lemma keyed_remove [keyed_intros]: "keyed key m \<Longrightarrow> keyed key (hm_remove k m)"
  by (rule keyedI) (auto simp: keyed_wf hm_simps dest: keyed_get split: if_splits)

lemma keyed_filter [keyed_intros]: "keyed key m \<Longrightarrow> keyed key (filter P m)"
  by (auto simp: keyed_def list_all_iff distinct_map_filter)

lemma keyed_fold: "(\<And>x m. keyed key m \<Longrightarrow> keyed key (f x m)) \<Longrightarrow> keyed key m \<Longrightarrow> keyed key (fold f xs m)"
  by (induction xs arbitrary: m) simp_all

text \<open>The rows of a keyed table determine it.\<close>

lemma keyed_values: "keyed key m \<Longrightarrow> map (\<lambda>v. (key v, v)) (hm_values m) = m"
  by (auto simp: keyed_def list_all_iff intro!: map_idI)

section \<open>Keyed states\<close>

text \<open>The key of a conflict row, in \<^verbatim>\<open>fold_run_requested\<close> and in \<^verbatim>\<open>load_snapshot_state\<close>.\<close>

definition conflict_key :: "run_key_conflict_row \<Rightarrow> string" where
  "conflict_key row = ''conflict:'' @ rc_run_key row @ '':'' @ rc_conflicting_event_id row"

definition rows_keyed :: "fold_state \<Rightarrow> bool" where
  "rows_keyed s \<longleftrightarrow>
     keyed rn_run_id (fs_runs s)
     \<and> keyed (\<lambda>t. (tk_run_id t, tk_task_key t)) (fs_tasks s)
     \<and> keyed ci_primary_key (fs_catalog_run_index s)
     \<and> keyed (\<lambda>d. (dp_run_id d, dp_upstream_task_key d, dp_downstream_task_key d)) (fs_dep_satisfaction s)
     \<and> keyed tmr_timer_id (fs_timers s)
     \<and> keyed do_dispatch_id (fs_dispatch_outbox s)
     \<and> keyed sn_sensor_id (fs_sensor_state s)
     \<and> keyed se_eval_id (fs_sensor_evals s)
     \<and> keyed ri_run_key (fs_run_key_index s)
     \<and> keyed conflict_key (fs_run_key_conflicts s)
     \<and> keyed (\<lambda>p. (pt_asset_key p, pt_partition_key p)) (fs_partition_status s)
     \<and> keyed ik_idempotency_key (fs_idempotency_keys s)
     \<and> keyed sd_schedule_id (fs_schedule_definitions s)
     \<and> keyed ss_schedule_id (fs_schedule_state s)
     \<and> keyed st_tick_id (fs_schedule_ticks s)
     \<and> keyed bf_backfill_id (fs_backfills s)
     \<and> keyed bc_chunk_id (fs_backfill_chunks s)"

lemma rows_keyed_graph [simp]:
  "rows_keyed (s\<lparr>fs_task_dependencies := d\<rparr>) = rows_keyed s"
  "rows_keyed (s\<lparr>fs_task_dependents := e\<rparr>) = rows_keyed s"
  by (simp_all add: rows_keyed_def)

lemma rows_keyed_fold: "(\<And>x s. rows_keyed s \<Longrightarrow> rows_keyed (f x s)) \<Longrightarrow> rows_keyed s \<Longrightarrow> rows_keyed (fold f xs s)"
  by (induction xs arbitrary: s) simp_all

section \<open>Handlers\<close>

lemma catalog_row_key [simp]:
  "ci_primary_key (catalog_row og w run t a v ts) = (og, w, rn_run_id run, tk_task_key t)"
  by (simp add: ci_primary_key_def catalog_row_def)

lemma refresh_row_keyed: "keyed ci_primary_key m \<Longrightarrow> keyed ci_primary_key (refresh_catalog_row og w ts run t m)"
  by (auto simp: refresh_catalog_row_def Let_def intro!: keyed_intros split: option.split)

lemma refresh_keyed: "rows_keyed s \<Longrightarrow> rows_keyed (refresh_catalog_run_index_for_run og w r ts s)"
  by (auto simp: refresh_catalog_run_index_for_run_def rows_keyed_def Let_def
      intro!: keyed_intros keyed_fold refresh_row_keyed split: option.split)

lemma prune_keyed: "rows_keyed s \<Longrightarrow> rows_keyed (prune_dispatch_outbox_row r k a s)"
  by (auto simp: prune_dispatch_outbox_row_def rows_keyed_def intro!: keyed_intros)

lemma dep_satisfied_row_key [simp]:
  "tk_run_id (dep_satisfied_row i ts t) = tk_run_id t" "tk_task_key (dep_satisfied_row i ts t) = tk_task_key t"
  by (simp_all add: dep_satisfied_row_def Let_def)

lemma satisfy_edge_keyed: "rows_keyed s \<Longrightarrow> rows_keyed (satisfy_edge r u res a i ts d s)"
  by (auto simp: satisfy_edge_def rows_keyed_def Let_def intro!: keyed_intros)

lemma satisfy_keyed: "rows_keyed s \<Longrightarrow> rows_keyed (satisfy_downstream_edges r u res a i ts s)"
  unfolding satisfy_downstream_edges_def by (rule rows_keyed_fold) (rule satisfy_edge_keyed)

lemma run_task_done_key [simp]: "rn_run_id (run_task_done n i ts run) = rn_run_id run"
  by (cases n) (simp_all add: run_task_done_def complete_run_def count_terminal_def Let_def)

lemma propagate_edge_keyed: "rows_keyed (fst sq) \<Longrightarrow> rows_keyed (fst (propagate_edge r u e i ts d sq))"
  by (cases sq)
    (auto simp: propagate_edge_def rows_keyed_def Let_def intro!: keyed_intros split: option.split prod.split)

lemma propagate_edges_keyed:
  "rows_keyed (fst sq) \<Longrightarrow> rows_keyed (fst (fold (propagate_edge r u e i ts) ds sq))"
  by (induction ds arbitrary: sq) (simp_all add: propagate_edge_keyed)

lemma propagate_loop_keyed: "rows_keyed s \<Longrightarrow> rows_keyed (propagate_loop r i ts s q)"
proof (induction r i ts s q rule: propagate_loop.induct)
  case (2 r i ts s u e q)
  then show ?case
    using propagate_edges_keyed [of "(s, q)" r u e i ts "get_dependents s r u"]
    by (auto split: prod.splits)
qed simp

lemma propagate_keyed: "rows_keyed s \<Longrightarrow> rows_keyed (propagate_failure r u e i ts s)"
  unfolding propagate_failure_def by (rule propagate_loop_keyed)

lemma update_partition_keyed:
  "rows_keyed s \<Longrightarrow> rows_keyed (update_partition_attempt te w as p r o' ts i s)"
  "rows_keyed s \<Longrightarrow> rows_keyed (update_partition_materialization te w as p r cv dt dv dp el ts i s)"
  by (auto simp: update_partition_attempt_def update_partition_materialization_def empty_partition_status_def
      rows_keyed_def Let_def intro!: keyed_intros)

lemma finished_effects_keyed: "rows_keyed s \<Longrightarrow> rows_keyed (finished_effects env c m p n i ts te w s)"
  by (auto simp: finished_effects_def Let_def satisfy_keyed propagate_keyed
      intro: update_partition_keyed split: option.split)

lemma finished_task_row_key [simp]:
  "tk_run_id (finished_task_row env c m p i ts t) = tk_run_id t"
  "tk_task_key (finished_task_row env c m p i ts t) = tk_task_key t"
  by (cases "tc_outcome c"; simp add: finished_task_row_def Let_def)+

lemma finished_keyed: "rows_keyed s \<Longrightarrow> rows_keyed (fst (fold_task_finished env c i ts te w s))"
proof -
  have row: "rows_keyed (s\<lparr>fs_tasks := hm_modify k (finished_task_row env c m p i ts) (fs_tasks s)\<rparr>)"
    if "rows_keyed s" for k m p s
    using that by (auto simp: rows_keyed_def intro!: keyed_intros)
  have run: "rows_keyed (s\<lparr>fs_runs := hm_modify k (run_task_done n i ts) (fs_runs s)\<rparr>)"
    if "rows_keyed s" for k n s
    using that by (auto simp: rows_keyed_def intro!: keyed_intros)
  have both: "rows_keyed (s\<lparr>fs_tasks := hm_modify k (finished_task_row env c m p i ts) (fs_tasks s),
     fs_runs := hm_modify k' (run_task_done n i ts) (fs_runs s)\<rparr>)"
    if "rows_keyed s" for k k' n m p s
    using run [OF row [OF that]] by simp
  assume "rows_keyed s"
  then show ?thesis
    by (auto simp: fold_task_finished_def Let_def
        intro!: update_partition_keyed finished_effects_keyed both row split: option.split)
qed

lemma visibility_task_row_key [simp]:
  "tk_run_id (visibility_task_row v pa pe i ts t) = tk_run_id t"
  "tk_task_key (visibility_task_row v pa pe i ts t) = tk_task_key t"
  by (cases v; simp add: visibility_task_row_def)+

lemma visibility_keyed:
  "rows_keyed s \<Longrightarrow> rows_keyed (fst (fold_task_output_visibility_changed r k a aid v pa pe i ts s))"
  by (auto simp: fold_task_output_visibility_changed_def rows_keyed_def intro!: keyed_intros split: option.split)

lemma completion_keyed: "rows_keyed s \<Longrightarrow> rows_keyed (fst (fold_task_completion_recorded env c v e s))"
  by (auto simp: fold_task_completion_recorded_def case_prod_beta
      intro: visibility_keyed finished_keyed split: option.split)

lemma cancel_keyed: "rows_keyed s \<Longrightarrow> rows_keyed (fst (fold_run_cancel_requested r i ts s))"
proof -
  have one: "rows_keyed (cancel_task r i k s)" if "rows_keyed s" for k s
    using that by (auto simp: cancel_task_def rows_keyed_def intro!: keyed_intros)
  have run: "rows_keyed (s\<lparr>fs_runs := hm_modify k f (fs_runs s)\<rparr>)"
    if "\<And>run. rn_run_id (f run) = rn_run_id run" "rows_keyed s" for k f s
    using that by (auto simp: rows_keyed_def intro!: keyed_intros)
  assume "rows_keyed s"
  then show ?thesis unfolding fold_run_cancel_requested_def Let_def
    by (auto intro!: rows_keyed_fold run one split: option.split)
qed

lemma plan_keyed: "rows_keyed s \<Longrightarrow> rows_keyed (fst (fold_plan_created r ds i ts s))"
proof -
  have rows: "rows_keyed (plan_rows_step r i ts d s)" if "rows_keyed s" for d s
    using that
    by (auto simp: plan_rows_step_def plan_task_row_def plan_edge_row_def rows_keyed_def Let_def
        intro!: keyed_intros keyed_fold)
  have graph: "rows_keyed (plan_graph_step r d s)" if "rows_keyed s" for d s
    using that by (simp add: plan_graph_step_def)
  have run: "rows_keyed (s\<lparr>fs_runs := hm_modify k f (fs_runs s)\<rparr>)"
    if "\<And>run. rn_run_id (f run) = rn_run_id run" "rows_keyed s" for k f s
    using that by (auto simp: rows_keyed_def intro!: keyed_intros)
  assume "rows_keyed s"
  then show ?thesis unfolding fold_plan_created_def Let_def
    by (auto intro!: rows_keyed_fold run rows graph)
qed

lemma small_handlers_keyed:
  assumes "rows_keyed s"
  shows "rows_keyed (fst (fold_run_triggered r p rk ls cv i ts s))"
    "rows_keyed (fst (fold_task_started r k a aid ts i s))"
    "rows_keyed (fst (fold_task_heartbeat r k a aid ts i s))"
    "rows_keyed (fst (set_retry_not_before ro ko ao f i s))"
    "rows_keyed (fst (fold_dispatch_enqueued d ro ko ao cl i ts s))"
    "rows_keyed (fst (fold_timer_enqueued env tid ro ko ao cl i s))"
    "rows_keyed (fst (fold_timer_fired env tid ty ro ko ao i s))"
  using assms
  by (auto simp: fold_run_triggered_def fold_task_started_def fold_task_heartbeat_def
      fold_dispatch_enqueued_def fold_timer_enqueued_def prune_dispatch_outbox_row_def
      fold_timer_fired_def set_retry_not_before_def timer_row_from_id_def rows_keyed_def Let_def
      intro!: keyed_intros split: option.split)

lemma dispatch_requested_keyed:
  "rows_keyed s \<Longrightarrow> rows_keyed (fst (fold_dispatch_requested r k a aid wq d i ts s))"
  by (auto simp: fold_dispatch_requested_def dispatch_task_update_def fill_outbox_row_def prune_dispatch_outbox_row_def rows_keyed_def Let_def
      intro!: keyed_intros)

lemma fill_timer_row_key [simp]: "tmr_timer_id (fst (fill_timer_row ro ko ao f row)) = tmr_timer_id row"
  by (simp add: fill_timer_row_def Let_def)

lemma timer_requested_keyed:
  "rows_keyed s \<Longrightarrow> rows_keyed (fst (fold_timer_requested tid ty ro ko ao f i s))"
proof -
  have old: "rows_keyed (s\<lparr>fs_timers := hm_modify tid (\<lambda>row. fst (fill_timer_row ro ko ao f row)) (fs_timers s)\<rparr>)"
    if "rows_keyed s" for s using that by (auto simp: rows_keyed_def intro!: keyed_intros)
  have new: "rows_keyed (s\<lparr>fs_timers := hm_insert tid row (fs_timers s)\<rparr>)"
    if "rows_keyed s" "tmr_timer_id row = tid" for s row using that by (auto simp: rows_keyed_def intro!: keyed_intros)
  assume "rows_keyed s"
  then show ?thesis
    by (auto simp: fold_timer_requested_def Let_def case_prod_beta
        intro!: small_handlers_keyed(4) old new split: option.split)
qed

lemma automation_handlers_keyed:
  assumes "rows_keyed s"
  shows "rows_keyed (fst (fold_schedule_definition_upserted t w sid ce tz cw as cv mt en ts i s))"
    "rows_keyed (fst (fold_backfill_created t w b as cv ps tp cs mc pb ts i s))"
    "rows_keyed (fst (fold_backfill_chunk_planned t w b c ix pk rk i s))"
    "rows_keyed (fst (fold_backfill_state_changed b f g v i s))"
    "rows_keyed (fst (fold_schedule_ticked env t w sid sf tid dv as psl st rko rf i s))"
  using assms
  by (auto simp: fold_schedule_definition_upserted_def fold_backfill_created_def
      fold_backfill_chunk_planned_def fold_backfill_state_changed_def fold_schedule_ticked_def rows_keyed_def Let_def
      intro!: keyed_intros split: option.split)

lemma upsert_sensor_eval_keyed: "rows_keyed s \<Longrightarrow> rows_keyed (fst (upsert_sensor_eval row s))"
  by (auto simp: upsert_sensor_eval_def rows_keyed_def intro!: keyed_intros split: option.split)

lemma sensor_evaluated_keyed:
  "rows_keyed s \<Longrightarrow> rows_keyed (fst (fold_sensor_evaluated t w sid eid cb ca ev tr rr st ts i s))"
proof -
  have new: "rows_keyed (s\<lparr>fs_sensor_state := hm_or_insert sid row (fs_sensor_state s)\<rparr>)"
    if "rows_keyed s" "sn_sensor_id row = sid" for row s
    using that by (auto simp: rows_keyed_def intro!: keyed_intros)
  have upd: "rows_keyed (s\<lparr>fs_sensor_state := hm_modify sid f (fs_sensor_state s)\<rparr>)"
    if "rows_keyed s" "\<And>v. sn_sensor_id (f v) = sn_sensor_id v" for f s
    using that by (auto simp: rows_keyed_def intro!: keyed_intros)
  assume "rows_keyed s"
  then show ?thesis unfolding fold_sensor_evaluated_def Let_def case_prod_beta
    by (auto intro!: upsert_sensor_eval_keyed new upd simp: new_sensor_state_def simp del: upsert_sensor_eval_frame)
qed

lemma correlate_keyed: "rows_keyed s \<Longrightarrow> rows_keyed (correlate_run_to_source r src s)"
  by (cases src) (auto simp: rows_keyed_def intro!: keyed_intros)

lemma run_requested_keyed: "rows_keyed s \<Longrightarrow> rows_keyed (fst (fold_run_requested env t w rk rf src cv ts i s))"
proof -
  have ins: "rows_keyed (s\<lparr>fs_run_key_index := hm_insert rk row (fs_run_key_index s)\<rparr>)"
    if "rows_keyed s" "ri_run_key row = rk" for row s
    using that by (auto simp: rows_keyed_def intro!: keyed_intros)
  have con: "rows_keyed (s\<lparr>fs_run_key_conflicts := hm_insert k row (fs_run_key_conflicts s)\<rparr>)"
    if "rows_keyed s" "conflict_key row = k" for row s k
    using that by (auto simp: rows_keyed_def intro!: keyed_intros)
  assume "rows_keyed s"
  then show ?thesis
    by (auto simp: fold_run_requested_def Let_def conflict_key_def
        intro!: correlate_keyed ins con split: option.split)
qed

lemma record_key_keyed: "rows_keyed s \<Longrightarrow> rows_keyed (record_idempotency_key e s)"
  by (auto simp: record_idempotency_key_def rows_keyed_def intro!: keyed_intros)

lemma refresh_if_changed_keyed: "rows_keyed (fst r) \<Longrightarrow> rows_keyed (fst (refresh_if_changed e run_id r))"
  by (auto simp: refresh_if_changed_def intro: refresh_keyed)

lemmas handlers_keyed =
  small_handlers_keyed automation_handlers_keyed finished_keyed visibility_keyed completion_keyed
  cancel_keyed plan_keyed dispatch_requested_keyed timer_requested_keyed sensor_evaluated_keyed
  run_requested_keyed

lemma fold_data_keyed: "rows_keyed s \<Longrightarrow> rows_keyed (fst (fold_data env e d s))"
  by (cases d) (auto intro!: refresh_if_changed_keyed handlers_keyed)

interpretation keyed_states: fold_invariant env "\<lambda>e. True" rows_keyed for env
  by unfold_locales (simp_all add: fold_data_keyed record_key_keyed)

section \<open>Merging, deltas and retention\<close>

lemma keyed_merge_table:
  assumes "\<And>a b. upd a b = a \<or> upd a b = b" "keyed key base" "keyed key delta"
  shows "keyed key (merge_table upd base delta)"
proof (rule keyedI)
  show "hm_wf (merge_table upd base delta)" using assms(2) by (simp add: merge_table_wf keyed_wf)
next
  fix k v assume "hm_get (merge_table upd base delta) k = Some v"
  then show "key v = k" using assms(1)
    by (auto simp: merge_table_get [OF keyed_wf [OF assms(3)]] split: option.splits
        dest: keyed_get [OF assms(2)] keyed_get [OF assms(3)]) (metis keyed_get assms(2,3))
qed

lemma keyed_insert_changed: "keyed key current \<Longrightarrow> keyed key (insert_changed base current [])"
  by (rule keyedI)
    (auto simp: insert_changed_wf insert_changed_get keyed_wf dest: keyed_get split: option.splits if_splits)

context row_merge
begin

lemma merged_row_choice: "merged_row merge a b = a \<or> merged_row merge a b = b"
  by (simp add: merged_row_pick last_max_def)

end

lemma newer_run_key_choice: "newer_run_key a b = a \<or> newer_run_key a b = b"
  by (simp add: newer_run_key_def)

lemmas merged_rows_choice =
  runs.merged_row_choice tasks.merged_row_choice catalog.merged_row_choice edges.merged_row_choice
  timers.merged_row_choice outbox.merged_row_choice sensors.merged_row_choice evals.merged_row_choice
  backfills.merged_row_choice chunks.merged_row_choice newer_run_key_choice partitions.merged_row_choice
  keys.merged_row_choice definitions.merged_row_choice schedules.merged_row_choice ticks.merged_row_choice

lemma merge_states_keyed: "rows_keyed b \<Longrightarrow> rows_keyed d \<Longrightarrow> rows_keyed (merge_states b d)"
  by (simp add: rows_keyed_def merge_states_def keyed_merge_table merged_rows_choice)

lemma delta_from_states_keyed: "rows_keyed s \<Longrightarrow> rows_keyed (delta_from_states b s)"
  by (simp add: rows_keyed_def delta_from_states_def keyed_insert_changed new_fold_state_def)

lemma new_fold_state_keyed: "rows_keyed new_fold_state"
  by (simp add: rows_keyed_def new_fold_state_def)

lemma prune_states_keyed: "rows_keyed s \<Longrightarrow> rows_keyed (prune_idempotency_keys t (prune_sensor_evals t s))"
  by (simp add: rows_keyed_def prune_idempotency_keys_def prune_sensor_evals_def keyed_filter)

lemma rebuild_keyed: "rows_keyed s \<Longrightarrow> rows_keyed (rebuild_dependency_graph s)"
  by (simp add: rebuild_dependency_graph_def Let_def)

lemma load_current_keyed:
  assumes "rows_keyed s" "list_all rows_keyed ds"
  shows "rows_keyed (load_current_state (Some s) ds)"
proof -
  have "rows_keyed (fold (\<lambda>delta s. merge_states s delta) ds s)"
    using assms by (induction ds arbitrary: s) (simp_all add: merge_states_keyed)
  then show ?thesis
    by (auto simp: load_current_state_def Let_def intro: rebuild_keyed prune_states_keyed split: option.split)
qed

lemma compact_batch_keyed:
  "rows_keyed s \<Longrightarrow> rows_keyed (fst (compact_batch env es s)) \<and> rows_keyed (snd (compact_batch env es s))"
  by (simp add: compact_batch_def Let_def delta_from_states_keyed prune_states_keyed keyed_states.events)

text \<open>C9: The type invariant of the projections: in every table each row is stored under the key made
  of its own columns, and no key occurs twice. It holds of the state loaded from a base snapshot and any
  list of deltas that have it, and of the state and the delta that folding any batch of events into the
  loaded state gives, so it holds of everything a compactor writes.\<close>

theorem tables_keyed:
  assumes "rows_keyed base" "list_all rows_keyed deltas"
  shows "let current = load_current_state (Some base) deltas;
             (state, delta) = compact_batch env events current
         in rows_keyed current \<and> rows_keyed state \<and> rows_keyed delta"
  using load_current_keyed [OF assms] compact_batch_keyed by (simp add: case_prod_beta)

theorem tables_keyed_witness:
  "rows_keyed new_fold_state \<and> list_all rows_keyed [new_fold_state]
   \<and> rows_keyed (snd (compact_batch ex_env [ex_trigger, ex_plan] (load_current_state (Some new_fold_state) [new_fold_state])))"
  using tables_keyed [of new_fold_state "[new_fold_state]" ex_env "[ex_trigger, ex_plan]"]
  by (simp add: new_fold_state_keyed case_prod_beta Let_def)

end
