(* ===== verification/State_Files.thy ===== *)
theory State_Files
  imports Scoped_Storage Manifest Dist_Lock Fold_Keys
begin

text \<open>
  How the compactor stores a fold state and reads it back (\<^verbatim>\<open>compactor/service.rs\<close>): one immutable
  Parquet artifact per table, named by its content hash, and the table paths recorded in the manifest.

  The encoders of \<^verbatim>\<open>parquet_util.rs\<close> come in the record \<open>parquet_codec\<close>, which \<open>flow_parquet\<close> of
  \<open>Parquet_Util\<close> instantiates. The JSON codec and SHA-256 are parameters, in \<open>service_env\<close>. So is the
  \<^verbatim>\<open>Debug\<close> rendering of a string, whose escapes depend on the Unicode tables. Metrics are not modelled.
\<close>

section \<open>Errors and parameters\<close>

datatype flow_error =
    FE_CycleDetected "string list"
  | FE_TaskNotFound string
  | FE_RunNotFound string
  | FE_InvalidStateTransition string string string
  | FE_DependencyNotFound string
  | FE_StaleFencingToken u64 u64
  | FE_FencingLockUnavailable string u64
  | FE_DagNodeNotFound string
  | FE_PlanGenerationFailed string
  | FE_PlanTooLarge nat nat
  | FE_TaskExecutionFailed string
  | FE_Storage string
  | FE_Serialization string
  | FE_Configuration string
  | FE_Dispatch string
  | FE_Parquet string
  | FE_Core core_error

record 'd parquet_codec =
  pq_write_runs :: "run_row list \<Rightarrow> flow_error + 'd"
  pq_read_runs :: "'d \<Rightarrow> flow_error + run_row list"
  pq_write_tasks :: "task_row list \<Rightarrow> flow_error + 'd"
  pq_read_tasks :: "'d \<Rightarrow> flow_error + task_row list"
  pq_write_catalog_run_index :: "catalog_run_index_row list \<Rightarrow> flow_error + 'd"
  pq_read_catalog_run_index :: "'d \<Rightarrow> flow_error + catalog_run_index_row list"
  pq_write_dep_satisfaction :: "dep_satisfaction_row list \<Rightarrow> flow_error + 'd"
  pq_read_dep_satisfaction :: "'d \<Rightarrow> flow_error + dep_satisfaction_row list"
  pq_write_timers :: "timer_row list \<Rightarrow> flow_error + 'd"
  pq_read_timers :: "'d \<Rightarrow> flow_error + timer_row list"
  pq_write_dispatch_outbox :: "dispatch_outbox_row list \<Rightarrow> flow_error + 'd"
  pq_read_dispatch_outbox :: "'d \<Rightarrow> flow_error + dispatch_outbox_row list"
  pq_write_sensor_state :: "sensor_state_row list \<Rightarrow> flow_error + 'd"
  pq_read_sensor_state :: "'d \<Rightarrow> flow_error + sensor_state_row list"
  pq_write_sensor_evals :: "sensor_eval_row list \<Rightarrow> flow_error + 'd"
  pq_read_sensor_evals :: "'d \<Rightarrow> flow_error + sensor_eval_row list"
  pq_write_run_key_index :: "run_key_index_row list \<Rightarrow> flow_error + 'd"
  pq_read_run_key_index :: "'d \<Rightarrow> flow_error + run_key_index_row list"
  pq_write_run_key_conflicts :: "run_key_conflict_row list \<Rightarrow> flow_error + 'd"
  pq_read_run_key_conflicts :: "'d \<Rightarrow> flow_error + run_key_conflict_row list"
  pq_write_partition_status :: "partition_status_row list \<Rightarrow> flow_error + 'd"
  pq_read_partition_status :: "'d \<Rightarrow> flow_error + partition_status_row list"
  pq_write_idempotency_keys :: "idempotency_key_row list \<Rightarrow> flow_error + 'd"
  pq_read_idempotency_keys :: "'d \<Rightarrow> flow_error + idempotency_key_row list"
  pq_write_schedule_definitions :: "schedule_definition_row list \<Rightarrow> flow_error + 'd"
  pq_read_schedule_definitions :: "'d \<Rightarrow> flow_error + schedule_definition_row list"
  pq_write_schedule_state :: "schedule_state_row list \<Rightarrow> flow_error + 'd"
  pq_read_schedule_state :: "'d \<Rightarrow> flow_error + schedule_state_row list"
  pq_write_schedule_ticks :: "schedule_tick_row list \<Rightarrow> flow_error + 'd"
  pq_read_schedule_ticks :: "'d \<Rightarrow> flow_error + schedule_tick_row list"
  pq_write_backfills :: "backfill_row list \<Rightarrow> flow_error + 'd"
  pq_read_backfills :: "'d \<Rightarrow> flow_error + backfill_row list"
  pq_write_backfill_chunks :: "backfill_chunk_row list \<Rightarrow> flow_error + 'd"
  pq_read_backfill_chunks :: "'d \<Rightarrow> flow_error + backfill_chunk_row list"

record 'd service_env =
  sv_lib :: lib_env
  sv_lock :: "'d lock_env"
  sv_manifest_to_json :: "orchestration_manifest \<Rightarrow> string + 'd"
  sv_manifest_from_json :: "'d \<Rightarrow> string + orchestration_manifest"
  sv_pointer_to_json :: "manifest_pointer \<Rightarrow> string + 'd"
  sv_pointer_from_json :: "'d \<Rightarrow> string + manifest_pointer"
  sv_event_from_json :: "'d \<Rightarrow> string + orchestration_event"
  sv_sha256_hex :: "'d \<Rightarrow> string"
  sv_len :: "'d \<Rightarrow> nat"
  sv_debug_str :: "string \<Rightarrow> string"
  sv_parquet :: "'d parquet_codec"

section \<open>Artifacts\<close>

definition sha256_prefixed :: "'d service_env \<Rightarrow> 'd \<Rightarrow> string" where
  "sha256_prefixed env bytes = ''sha256:'' @ sv_sha256_hex env bytes"

text \<open>\<^verbatim>\<open>str::rsplit_once\<close>.\<close>

definition rsplit_once :: "char \<Rightarrow> string \<Rightarrow> (string \<times> string) option" where
  "rsplit_once c s = map_option (\<lambda>(a, b). (rev b, rev a)) (split_once c (rev s))"

definition hash_suffixed_artifact_path :: "string \<Rightarrow> string \<Rightarrow> string \<Rightarrow> string" where
  "hash_suffixed_artifact_path base_path file checksum_sha256 =
     (let hash = (case strip_prefix ''sha256:'' checksum_sha256 of Some h \<Rightarrow> h | None \<Rightarrow> checksum_sha256);
          short_hash = take (min (length hash) 12) hash
      in case rsplit_once CHR ''.'' file of
           Some (stem, ext) \<Rightarrow> base_path @ ''/'' @ stem @ ''.'' @ short_hash @ ''.'' @ ext
         | None \<Rightarrow> base_path @ ''/'' @ file @ ''.'' @ short_hash)"

definition catalog_run_index_org_file :: "lib_env \<Rightarrow> string \<Rightarrow> string" where
  "catalog_run_index_org_file lib org_id =
     ''catalog_run_index/org-'' @ get_prefix 32 (sha256_hex lib org_id) @ ''.parquet''"

definition u64_of_len :: "nat \<Rightarrow> u64" where
  "u64_of_len n = (if n < 2 ^ 64 then of_nat n else - 1)"

definition write_parquet_file ::
  "scoped_storage \<Rightarrow> string \<Rightarrow> 'd \<Rightarrow> (flow_error + unit \<Rightarrow> ('d, 'r) io) \<Rightarrow> ('d, 'r) io" where
  "write_parquet_file sc path bytes k = put_raw sc path bytes WP_DoesNotExist (\<lambda>r.
     case r of
       Inl e \<Rightarrow> k (Inl (FE_Core e))
     | Inr (WR_Success v) \<Rightarrow> k (Inr ())
     | Inr (WR_PreconditionFailed v) \<Rightarrow>
         k (Inl (FE_Core (CE_PreconditionFailed (''immutable parquet artifact already exists: '' @ path)))))"

definition write_parquet_artifact ::
  "'d service_env \<Rightarrow> scoped_storage \<Rightarrow> string \<Rightarrow> string \<Rightarrow> 'd \<Rightarrow> (flow_error + table_artifact \<Rightarrow> ('d, 'r) io) \<Rightarrow> ('d, 'r) io" where
  "write_parquet_artifact env sc base_path file bytes k =
     (let checksum_sha256 = sha256_prefixed env bytes;
          byte_size = u64_of_len (sv_len env bytes);
          path = hash_suffixed_artifact_path base_path file checksum_sha256
      in write_parquet_file sc path bytes (\<lambda>r.
           case r of Inl e \<Rightarrow> k (Inl e) | Inr _ \<Rightarrow> k (Inr (table_artifact_new path checksum_sha256 byte_size))))"

section \<open>Writing a state\<close>

text \<open>The tables of a state; the catalog run index has one file per organisation.\<close>

datatype table_name =
    T_Runs | T_Tasks | T_CatalogRunIndex string | T_DepSatisfaction | T_Timers | T_DispatchOutbox | T_SensorState
  | T_SensorEvals | T_RunKeyIndex | T_RunKeyConflicts | T_PartitionStatus | T_IdempotencyKeys
  | T_ScheduleDefinitions | T_ScheduleState | T_ScheduleTicks | T_Backfills | T_BackfillChunks

text \<open>A file to write: its table, its name, and its contents unless encoding them fails.
  \<^verbatim>\<open>write_map_table\<close> skips an empty table unless empty tables are to be written.\<close>

type_synonym 'd table_job = "table_name \<times> string \<times> (flow_error + 'd)"

definition map_table_job ::
  "bool \<Rightarrow> table_name \<Rightarrow> string \<Rightarrow> ('k, 'v) hashmap \<Rightarrow> ('v list \<Rightarrow> flow_error + 'd) \<Rightarrow> 'd table_job list" where
  "map_table_job include_empty_tables name file rows encode =
     (if rows = [] \<and> \<not> include_empty_tables then [] else [(name, file, encode (hm_values rows))])"

definition orgs_of :: "catalog_run_index_row list \<Rightarrow> string list" where
  "orgs_of rows = sort (remdups (map ci_org_id rows))"

definition org_rows :: "catalog_run_index_row list \<Rightarrow> string \<Rightarrow> catalog_run_index_row list" where
  "org_rows rows org_id =
     sort_key (\<lambda>r. (ci_workspace_id r, ci_run_id r, ci_task_key r)) (filter (\<lambda>r. ci_org_id r = org_id) rows)"

definition catalog_run_index_jobs ::
  "'d service_env \<Rightarrow> scoped_storage \<Rightarrow> bool \<Rightarrow> (catalog_run_index_key, catalog_run_index_row) hashmap \<Rightarrow> 'd table_job list" where
  "catalog_run_index_jobs env sc include_empty_tables rows =
     (let job = (\<lambda>org_id rs. (T_CatalogRunIndex org_id, catalog_run_index_org_file (sv_lib env) org_id,
            pq_write_catalog_run_index (sv_parquet env) rs))
      in if rows = [] then if include_empty_tables then [job (sco_tenant_id sc) []] else []
         else map (\<lambda>org_id. job org_id (org_rows (hm_values rows) org_id)) (orgs_of (hm_values rows)))"

definition state_jobs :: "'d service_env \<Rightarrow> scoped_storage \<Rightarrow> bool \<Rightarrow> fold_state \<Rightarrow> 'd table_job list" where
  "state_jobs env sc ie s =
     (let pq = sv_parquet env in
      map_table_job ie T_Runs ''runs.parquet'' (fs_runs s) (pq_write_runs pq) @
      map_table_job ie T_Tasks ''tasks.parquet'' (fs_tasks s) (pq_write_tasks pq) @
      catalog_run_index_jobs env sc ie (fs_catalog_run_index s) @
      map_table_job ie T_DepSatisfaction ''dep_satisfaction.parquet'' (fs_dep_satisfaction s) (pq_write_dep_satisfaction pq) @
      map_table_job ie T_Timers ''timers.parquet'' (fs_timers s) (pq_write_timers pq) @
      map_table_job ie T_DispatchOutbox ''dispatch_outbox.parquet'' (fs_dispatch_outbox s) (pq_write_dispatch_outbox pq) @
      map_table_job ie T_SensorState ''sensor_state.parquet'' (fs_sensor_state s) (pq_write_sensor_state pq) @
      map_table_job ie T_SensorEvals ''sensor_evals.parquet'' (fs_sensor_evals s) (pq_write_sensor_evals pq) @
      map_table_job ie T_RunKeyIndex ''run_key_index.parquet'' (fs_run_key_index s) (pq_write_run_key_index pq) @
      map_table_job ie T_RunKeyConflicts ''run_key_conflicts.parquet'' (fs_run_key_conflicts s) (pq_write_run_key_conflicts pq) @
      map_table_job ie T_PartitionStatus ''partition_status.parquet'' (fs_partition_status s) (pq_write_partition_status pq) @
      map_table_job ie T_IdempotencyKeys ''idempotency_keys.parquet'' (fs_idempotency_keys s) (pq_write_idempotency_keys pq) @
      map_table_job ie T_ScheduleDefinitions ''schedule_definitions.parquet'' (fs_schedule_definitions s)
        (pq_write_schedule_definitions pq) @
      map_table_job ie T_ScheduleState ''schedule_state.parquet'' (fs_schedule_state s) (pq_write_schedule_state pq) @
      map_table_job ie T_ScheduleTicks ''schedule_ticks.parquet'' (fs_schedule_ticks s) (pq_write_schedule_ticks pq) @
      map_table_job ie T_Backfills ''backfills.parquet'' (fs_backfills s) (pq_write_backfills pq) @
      map_table_job ie T_BackfillChunks ''backfill_chunks.parquet'' (fs_backfill_chunks s) (pq_write_backfill_chunks pq))"

fun write_jobs ::
  "'d service_env \<Rightarrow> scoped_storage \<Rightarrow> string \<Rightarrow> 'd table_job list \<Rightarrow>
   (flow_error + (table_name \<times> table_artifact) list \<Rightarrow> ('d, 'r) io) \<Rightarrow> ('d, 'r) io" where
  "write_jobs env sc base_path [] k = k (Inr [])"
| "write_jobs env sc base_path ((name, file, encoded) # jobs) k =
     (case encoded of
        Inl e \<Rightarrow> k (Inl e)
      | Inr bytes \<Rightarrow> write_parquet_artifact env sc base_path file bytes (\<lambda>r.
          case r of
            Inl e \<Rightarrow> k (Inl e)
          | Inr artifact \<Rightarrow> write_jobs env sc base_path jobs (\<lambda>r.
              case r of Inl e \<Rightarrow> k (Inl e) | Inr out \<Rightarrow> k (Inr ((name, artifact) # out)))))"

definition org_artifacts :: "(table_name \<times> table_artifact) list \<Rightarrow> (string \<times> table_artifact) list" where
  "org_artifacts out =
     List.map_filter (\<lambda>(name, a). case name of T_CatalogRunIndex org_id \<Rightarrow> Some (org_id, a) | _ \<Rightarrow> None) out"

definition paths_of :: "(table_name \<times> table_artifact) list \<Rightarrow> table_paths" where
  "paths_of out = \<lparr>tp_runs = map_of out T_Runs, tp_tasks = map_of out T_Tasks,
     tp_catalog_run_index_by_org = org_artifacts out,
     tp_dep_satisfaction = map_of out T_DepSatisfaction, tp_timers = map_of out T_Timers,
     tp_dispatch_outbox = map_of out T_DispatchOutbox, tp_sensor_state = map_of out T_SensorState,
     tp_sensor_evals = map_of out T_SensorEvals, tp_run_key_index = map_of out T_RunKeyIndex,
     tp_run_key_conflicts = map_of out T_RunKeyConflicts, tp_partition_status = map_of out T_PartitionStatus,
     tp_idempotency_keys = map_of out T_IdempotencyKeys, tp_schedule_definitions = map_of out T_ScheduleDefinitions,
     tp_schedule_state = map_of out T_ScheduleState, tp_schedule_ticks = map_of out T_ScheduleTicks,
     tp_backfills = map_of out T_Backfills, tp_backfill_chunks = map_of out T_BackfillChunks\<rparr>"

definition write_state_parquet ::
  "'d service_env \<Rightarrow> scoped_storage \<Rightarrow> string \<Rightarrow> fold_state \<Rightarrow> bool \<Rightarrow> (flow_error + table_paths \<Rightarrow> ('d, 'r) io) \<Rightarrow> ('d, 'r) io" where
  "write_state_parquet env sc base_path s include_empty_tables k =
     write_jobs env sc base_path (state_jobs env sc include_empty_tables s) (\<lambda>r.
       case r of Inl e \<Rightarrow> k (Inl e) | Inr out \<Rightarrow> k (Inr (paths_of out)))"

section \<open>Reading a state\<close>

text \<open>A file to read, and the insertion of its rows.\<close>

type_synonym 'd read_job = "table_artifact \<times> ('d \<Rightarrow> fold_state \<Rightarrow> flow_error + fold_state)"

definition insert_rows ::
  "('d \<Rightarrow> flow_error + 'v list) \<Rightarrow> ('v \<Rightarrow> 'k) \<Rightarrow> ((('k, 'v) hashmap \<Rightarrow> ('k, 'v) hashmap) \<Rightarrow> fold_state \<Rightarrow> fold_state) \<Rightarrow>
   'd \<Rightarrow> fold_state \<Rightarrow> flow_error + fold_state" where
  "insert_rows read key table data s =
     (case read data of
        Inl e \<Rightarrow> Inl e
      | Inr rows \<Rightarrow> Inr (table (fold (\<lambda>row. hm_insert (key row) row) rows) s))"

definition table_read_job ::
  "table_artifact option \<Rightarrow> ('d \<Rightarrow> fold_state \<Rightarrow> flow_error + fold_state) \<Rightarrow> 'd read_job list" where
  "table_read_job art ins = (case art of None \<Rightarrow> [] | Some a \<Rightarrow> [(a, ins)])"

definition schedule_read_jobs :: "'d parquet_codec \<Rightarrow> table_paths \<Rightarrow> 'd read_job list" where
  "schedule_read_jobs pq t =
     table_read_job (tp_schedule_definitions t)
       (insert_rows (pq_read_schedule_definitions pq) sd_schedule_id fs_schedule_definitions_update) @
     table_read_job (tp_schedule_state t)
       (insert_rows (pq_read_schedule_state pq) ss_schedule_id fs_schedule_state_update) @
     table_read_job (tp_schedule_ticks t) (insert_rows (pq_read_schedule_ticks pq) st_tick_id fs_schedule_ticks_update)"

definition snapshot_read_jobs :: "'d parquet_codec \<Rightarrow> table_paths \<Rightarrow> 'd read_job list" where
  "snapshot_read_jobs pq t =
     table_read_job (tp_runs t) (insert_rows (pq_read_runs pq) rn_run_id fs_runs_update) @
     table_read_job (tp_tasks t) (insert_rows (pq_read_tasks pq) (\<lambda>r. (tk_run_id r, tk_task_key r)) fs_tasks_update) @
     map (\<lambda>(org_id, a). (a, insert_rows (pq_read_catalog_run_index pq) ci_primary_key fs_catalog_run_index_update))
       (tp_catalog_run_index_by_org t) @
     table_read_job (tp_dep_satisfaction t) (insert_rows (pq_read_dep_satisfaction pq)
       (\<lambda>r. (dp_run_id r, dp_upstream_task_key r, dp_downstream_task_key r)) fs_dep_satisfaction_update) @
     table_read_job (tp_timers t) (insert_rows (pq_read_timers pq) tmr_timer_id fs_timers_update) @
     table_read_job (tp_dispatch_outbox t) (insert_rows (pq_read_dispatch_outbox pq) do_dispatch_id fs_dispatch_outbox_update) @
     table_read_job (tp_sensor_state t) (insert_rows (pq_read_sensor_state pq) sn_sensor_id fs_sensor_state_update) @
     table_read_job (tp_sensor_evals t) (insert_rows (pq_read_sensor_evals pq) se_eval_id fs_sensor_evals_update) @
     table_read_job (tp_backfills t) (insert_rows (pq_read_backfills pq) bf_backfill_id fs_backfills_update) @
     table_read_job (tp_backfill_chunks t) (insert_rows (pq_read_backfill_chunks pq) bc_chunk_id fs_backfill_chunks_update) @
     table_read_job (tp_run_key_index t) (insert_rows (pq_read_run_key_index pq) ri_run_key fs_run_key_index_update) @
     table_read_job (tp_run_key_conflicts t)
       (insert_rows (pq_read_run_key_conflicts pq) conflict_key fs_run_key_conflicts_update) @
     table_read_job (tp_partition_status t) (insert_rows (pq_read_partition_status pq)
       (\<lambda>r. (pt_asset_key r, pt_partition_key r)) fs_partition_status_update) @
     table_read_job (tp_idempotency_keys t)
       (insert_rows (pq_read_idempotency_keys pq) ik_idempotency_key fs_idempotency_keys_update) @
     schedule_read_jobs pq t"

fun read_jobs ::
  "scoped_storage \<Rightarrow> 'd read_job list \<Rightarrow> fold_state \<Rightarrow> (flow_error + fold_state \<Rightarrow> ('d, 'r) io) \<Rightarrow> ('d, 'r) io" where
  "read_jobs sc [] s k = k (Inr s)"
| "read_jobs sc ((a, ins) # jobs) s k = get_raw sc (artifact_path a) (\<lambda>r.
     case r of
       Inl e \<Rightarrow> k (Inl (FE_Core e))
     | Inr data \<Rightarrow> (case ins data s of Inl e \<Rightarrow> k (Inl e) | Inr s' \<Rightarrow> read_jobs sc jobs s' k))"

definition load_snapshot_state ::
  "'d service_env \<Rightarrow> scoped_storage \<Rightarrow> table_paths \<Rightarrow> (flow_error + fold_state \<Rightarrow> ('d, 'r) io) \<Rightarrow> ('d, 'r) io" where
  "load_snapshot_state env sc t k = read_jobs sc (snapshot_read_jobs (sv_parquet env) t) new_fold_state k"

fun apply_deltas ::
  "'d service_env \<Rightarrow> scoped_storage \<Rightarrow> l0_delta list \<Rightarrow> fold_state \<Rightarrow> (flow_error + fold_state \<Rightarrow> ('d, 'r) io) \<Rightarrow> ('d, 'r) io" where
  "apply_deltas env sc [] s k = k (Inr s)"
| "apply_deltas env sc (delta # deltas) s k = load_snapshot_state env sc (ld_tables delta) (\<lambda>r.
     case r of
       Inl e \<Rightarrow> k (Inl e)
     | Inr delta_state \<Rightarrow> apply_deltas env sc deltas (merge_states s delta_state) k)"

definition finish_load :: "fold_state \<Rightarrow> fold_state" where
  "finish_load s =
     rebuild_dependency_graph
       (case retention_reference_time_for_state s of
          Some retention_now \<Rightarrow> prune_idempotency_keys retention_now (prune_sensor_evals retention_now s)
        | None \<Rightarrow> s)"

definition load_state_files ::
  "'d service_env \<Rightarrow> scoped_storage \<Rightarrow> orchestration_manifest \<Rightarrow> (flow_error + fold_state \<Rightarrow> ('d, 'r) io) \<Rightarrow> ('d, 'r) io" where
  "load_state_files env sc manifest k =
     (let deltas = (\<lambda>r. case r of
            Inl e \<Rightarrow> k (Inl e)
          | Inr s \<Rightarrow> apply_deltas env sc (om_l0_deltas manifest) s (\<lambda>r.
              case r of Inl e \<Rightarrow> k (Inl e) | Inr s \<Rightarrow> k (Inr (finish_load s))))
      in case bs_snapshot_id (om_base_snapshot manifest) of
           Some snapshot_id \<Rightarrow> load_snapshot_state env sc (bs_tables (om_base_snapshot manifest)) deltas
         | None \<Rightarrow> deltas (Inr new_fold_state))"

end
