(* ===== verification/Arrow_Tables.thy ===== *)
theory Arrow_Tables
  imports State_Files
begin

text \<open>
  The column layer of the Parquet files (\<^verbatim>\<open>compactor/parquet_util.rs\<close>): typed nullable arrays, the
  record batch, the column accessors and the text forms of the state enums. Arrow, Parquet, the JSON
  codec and the millisecond conversions of \<^verbatim>\<open>chrono\<close> are third-party code and parameters, gathered in
  the record \<open>codec_env\<close>; \<open>arrow_law\<close>, \<open>json_law\<close> and \<open>chrono_law\<close> state what their documentation
  promises.
\<close>

section \<open>Fallible computations\<close>

text \<open>The operator \<^verbatim>\<open>?\<close>, and a loop that stops at the first error.\<close>

definition ebind :: "'e + 'a \<Rightarrow> ('a \<Rightarrow> 'e + 'b) \<Rightarrow> 'e + 'b" where
  "ebind m f = (case m of Inl e \<Rightarrow> Inl e | Inr a \<Rightarrow> f a)"

fun traverse :: "('a \<Rightarrow> 'e + 'b) \<Rightarrow> 'a list \<Rightarrow> 'e + 'b list" where
  "traverse f [] = Inr []"
| "traverse f (x # xs) = ebind (f x) (\<lambda>y. ebind (traverse f xs) (\<lambda>ys. Inr (y # ys)))"

lemma ebind_simps [simp]: "ebind (Inr a) f = f a" "ebind (Inl e) f = Inl e"
  by (simp_all add: ebind_def)

lemma ebind_cong [cong]: "m = m' \<Longrightarrow> ebind m f = ebind m' f"
  by simp

lemma traverse_map: "(\<And>x. x \<in> set xs \<Longrightarrow> f x = Inr (g x)) \<Longrightarrow> traverse f xs = Inr (map g xs)"
  by (induction xs) simp_all

section \<open>Arrays and batches\<close>

datatype data_type = DT_Utf8 | DT_Boolean | DT_UInt32 | DT_Int64

datatype field = Field (field_name: string) (field_type: data_type) (field_nullable: bool)

type_synonym schema = "field list"

datatype arr =
    Arr_String "string option list"
  | Arr_Bool "bool option list"
  | Arr_U32 "u32 option list"
  | Arr_I64 "int option list"

record record_batch =
  rb_schema :: schema
  rb_columns :: "arr list"
  rb_num_rows :: nat

record ('d, 'w, 'p) codec_env =
  ce_lib :: lib_env
  ce_from_timestamp_millis :: "int \<Rightarrow> datetime option"
  ce_index_of :: "schema \<Rightarrow> string \<Rightarrow> string + nat"
  ce_try_new :: "schema \<Rightarrow> arr list \<Rightarrow> string + record_batch"
  ce_writer_try_new :: "schema \<Rightarrow> (string \<times> string) list \<Rightarrow> string + 'w"
  ce_writer_write :: "'w \<Rightarrow> record_batch \<Rightarrow> string + 'w"
  ce_writer_close :: "'w \<Rightarrow> string + 'd"
  ce_reader_try_new :: "'d \<Rightarrow> string + 'p"
  ce_reader_build :: "'p \<Rightarrow> string + (string + record_batch) list"
  ce_null_string :: string
  ce_null_bool :: bool
  ce_null_u32 :: u32
  ce_null_i64 :: int
  ce_labels_to_json :: "(string, string) hashmap \<Rightarrow> string + string"
  ce_labels_from_json :: "string \<Rightarrow> string + (string, string) hashmap"
  ce_strings_to_json :: "string list \<Rightarrow> string + string"
  ce_strings_from_json :: "string \<Rightarrow> string + string list"
  ce_trigger_source_to_json :: "trigger_source \<Rightarrow> string + string"
  ce_trigger_source_from_json :: "string \<Rightarrow> string + trigger_source"
  ce_run_requests_to_json :: "run_request list \<Rightarrow> string + string"
  ce_run_requests_from_json :: "string \<Rightarrow> string + run_request list"
  ce_eval_status_to_json :: "sensor_eval_status \<Rightarrow> string + string"
  ce_eval_status_from_json :: "string \<Rightarrow> string + sensor_eval_status"
  ce_tick_status_to_json :: "tick_status \<Rightarrow> string + string"
  ce_tick_status_from_json :: "string \<Rightarrow> string + tick_status"
  ce_selector_to_json :: "partition_selector \<Rightarrow> string + string"
  ce_selector_from_json :: "string \<Rightarrow> string + partition_selector"

definition parquet_error :: "string \<Rightarrow> string \<Rightarrow> flow_error" where
  "parquet_error msg e = FE_Parquet (msg @ e)"

definition or_parquet :: "string \<Rightarrow> string + 'a \<Rightarrow> flow_error + 'a" where
  "or_parquet msg r = (case r of Inl e \<Rightarrow> Inl (parquet_error msg e) | Inr a \<Rightarrow> Inr a)"

lemma or_parquet_simps [simp]: "or_parquet msg (Inr a) = Inr a" "or_parquet msg (Inl e) = Inl (parquet_error msg e)"
  by (simp_all add: or_parquet_def)

section \<open>Writing\<close>

text \<open>\<^verbatim>\<open>StringArray::from\<close> and its siblings, on \<^verbatim>\<open>rows.iter().map(f).collect()\<close>.\<close>

definition string_array :: "('r \<Rightarrow> string) \<Rightarrow> 'r list \<Rightarrow> arr" where
  "string_array f rows = Arr_String (map (Some \<circ> f) rows)"

definition string_opt_array :: "('r \<Rightarrow> string option) \<Rightarrow> 'r list \<Rightarrow> arr" where
  "string_opt_array f rows = Arr_String (map f rows)"

definition bool_array :: "('r \<Rightarrow> bool) \<Rightarrow> 'r list \<Rightarrow> arr" where
  "bool_array f rows = Arr_Bool (map (Some \<circ> f) rows)"

definition u32_array :: "('r \<Rightarrow> u32) \<Rightarrow> 'r list \<Rightarrow> arr" where
  "u32_array f rows = Arr_U32 (map (Some \<circ> f) rows)"

definition u32_opt_array :: "('r \<Rightarrow> u32 option) \<Rightarrow> 'r list \<Rightarrow> arr" where
  "u32_opt_array f rows = Arr_U32 (map f rows)"

definition i64_array :: "('r \<Rightarrow> int) \<Rightarrow> 'r list \<Rightarrow> arr" where
  "i64_array f rows = Arr_I64 (map (Some \<circ> f) rows)"

definition i64_opt_array :: "('r \<Rightarrow> int option) \<Rightarrow> 'r list \<Rightarrow> arr" where
  "i64_opt_array f rows = Arr_I64 (map f rows)"

abbreviation millis :: "('d, 'w, 'p) codec_env \<Rightarrow> datetime \<Rightarrow> int" where
  "millis env \<equiv> timestamp_millis (ce_lib env)"

text \<open>The JSON columns: absent when the collection is empty, when the option is, or never.\<close>

definition encode_some :: "('a \<Rightarrow> string + string) \<Rightarrow> 'a \<Rightarrow> string + string option" where
  "encode_some to_json a = ebind (to_json a) (\<lambda>s. Inr (Some s))"

definition skip_empty :: "('a list \<Rightarrow> string + string) \<Rightarrow> 'a list \<Rightarrow> string + string option" where
  "skip_empty to_json xs = (if xs = [] then Inr None else encode_some to_json xs)"

definition encode_opt :: "('a \<Rightarrow> string + string) \<Rightarrow> 'a option \<Rightarrow> string + string option" where
  "encode_opt to_json x = (case x of None \<Rightarrow> Inr None | Some a \<Rightarrow> encode_some to_json a)"

definition json_column :: "('r \<Rightarrow> string + string option) \<Rightarrow> string \<Rightarrow> 'r list \<Rightarrow> flow_error + string option list" where
  "json_column enc msg rows = or_parquet msg (traverse enc rows)"

definition writer_properties :: "(string \<times> string) list" where
  "writer_properties = [(''created_by'', ''arco-flow'')]"

definition write_single_batch :: "('d, 'w, 'p) codec_env \<Rightarrow> schema \<Rightarrow> record_batch \<Rightarrow> flow_error + 'd" where
  "write_single_batch env schema batch =
     ebind (or_parquet ''parquet writer init failed: '' (ce_writer_try_new env schema writer_properties)) (\<lambda>writer.
     ebind (or_parquet ''parquet write failed: '' (ce_writer_write env writer batch)) (\<lambda>writer.
     or_parquet ''parquet close failed: '' (ce_writer_close env writer)))"

text \<open>The last two statements of every writer.\<close>

definition write_batch :: "('d, 'w, 'p) codec_env \<Rightarrow> schema \<Rightarrow> arr list \<Rightarrow> flow_error + 'd" where
  "write_batch env schema columns =
     ebind (or_parquet ''record batch build failed: '' (ce_try_new env schema columns)) (\<lambda>batch.
     write_single_batch env schema batch)"

section \<open>Reading\<close>

definition read_batches :: "('d, 'w, 'p) codec_env \<Rightarrow> 'd \<Rightarrow> flow_error + record_batch list" where
  "read_batches env bytes =
     ebind (or_parquet ''parquet reader init failed: '' (ce_reader_try_new env bytes)) (\<lambda>builder.
     ebind (or_parquet ''parquet reader build failed: '' (ce_reader_build env builder)) (\<lambda>reader.
     traverse (or_parquet ''parquet read batch failed: '') reader))"

definition column_of :: "('d, 'w, 'p) codec_env \<Rightarrow> record_batch \<Rightarrow> string \<Rightarrow> string + arr" where
  "column_of env batch name = ebind (ce_index_of env (rb_schema batch) name) (\<lambda>idx. Inr (rb_columns batch ! idx))"

definition missing_column :: "string \<Rightarrow> string" where
  "missing_column name = ''missing column '' @ [CHR 0x27] @ name @ [CHR 0x27] @ '': ''"

definition not_array :: "string \<Rightarrow> string \<Rightarrow> flow_error" where
  "not_array name kind = FE_Parquet (''column '' @ [CHR 0x27] @ name @ [CHR 0x27] @ '' is not '' @ kind)"

definition col_string :: "('d, 'w, 'p) codec_env \<Rightarrow> record_batch \<Rightarrow> string \<Rightarrow> flow_error + string option list" where
  "col_string env batch name = ebind (or_parquet (missing_column name) (column_of env batch name)) (\<lambda>a.
     case a of Arr_String xs \<Rightarrow> Inr xs | _ \<Rightarrow> Inl (not_array name ''StringArray''))"

definition col_string_opt :: "('d, 'w, 'p) codec_env \<Rightarrow> record_batch \<Rightarrow> string \<Rightarrow> string option list option" where
  "col_string_opt env batch name = (case column_of env batch name of Inr (Arr_String xs) \<Rightarrow> Some xs | _ \<Rightarrow> None)"

definition col_bool_opt :: "('d, 'w, 'p) codec_env \<Rightarrow> record_batch \<Rightarrow> string \<Rightarrow> bool option list option" where
  "col_bool_opt env batch name = (case column_of env batch name of Inr (Arr_Bool xs) \<Rightarrow> Some xs | _ \<Rightarrow> None)"

definition col_u32 :: "('d, 'w, 'p) codec_env \<Rightarrow> record_batch \<Rightarrow> string \<Rightarrow> flow_error + u32 option list" where
  "col_u32 env batch name = ebind (or_parquet (missing_column name) (column_of env batch name)) (\<lambda>a.
     case a of Arr_U32 xs \<Rightarrow> Inr xs | _ \<Rightarrow> Inl (not_array name ''UInt32Array''))"

definition col_i64 :: "('d, 'w, 'p) codec_env \<Rightarrow> record_batch \<Rightarrow> string \<Rightarrow> flow_error + int option list" where
  "col_i64 env batch name = ebind (or_parquet (missing_column name) (column_of env batch name)) (\<lambda>a.
     case a of Arr_I64 xs \<Rightarrow> Inr xs | _ \<Rightarrow> Inl (not_array name ''Int64Array''))"

definition col_i64_opt :: "('d, 'w, 'p) codec_env \<Rightarrow> record_batch \<Rightarrow> string \<Rightarrow> int option list option" where
  "col_i64_opt env batch name = (case column_of env batch name of Inr (Arr_I64 xs) \<Rightarrow> Some xs | _ \<Rightarrow> None)"

definition col_bool :: "('d, 'w, 'p) codec_env \<Rightarrow> record_batch \<Rightarrow> string \<Rightarrow> flow_error + bool option list" where
  "col_bool env batch name = ebind (or_parquet (missing_column name) (column_of env batch name)) (\<lambda>a.
     case a of Arr_Bool xs \<Rightarrow> Inr xs | _ \<Rightarrow> Inl (not_array name ''BooleanArray''))"

text \<open>\<^verbatim>\<open>value(row)\<close>; at a null slot Arrow leaves the value open.\<close>

definition string_value :: "('d, 'w, 'p) codec_env \<Rightarrow> string option list \<Rightarrow> nat \<Rightarrow> string" where
  "string_value env col row = (case col ! row of Some v \<Rightarrow> v | None \<Rightarrow> ce_null_string env)"

definition bool_value :: "('d, 'w, 'p) codec_env \<Rightarrow> bool option list \<Rightarrow> nat \<Rightarrow> bool" where
  "bool_value env col row = (case col ! row of Some v \<Rightarrow> v | None \<Rightarrow> ce_null_bool env)"

definition u32_value :: "('d, 'w, 'p) codec_env \<Rightarrow> u32 option list \<Rightarrow> nat \<Rightarrow> u32" where
  "u32_value env col row = (case col ! row of Some v \<Rightarrow> v | None \<Rightarrow> ce_null_u32 env)"

definition i64_value :: "('d, 'w, 'p) codec_env \<Rightarrow> int option list \<Rightarrow> nat \<Rightarrow> int" where
  "i64_value env col row = (case col ! row of Some v \<Rightarrow> v | None \<Rightarrow> ce_null_i64 env)"

definition string_or_none :: "string option list \<Rightarrow> nat \<Rightarrow> string option" where
  "string_or_none col row = col ! row"

definition millis_to_datetime :: "('d, 'w, 'p) codec_env \<Rightarrow> int \<Rightarrow> datetime" where
  "millis_to_datetime env ms = (case ce_from_timestamp_millis env ms of Some t \<Rightarrow> t | None \<Rightarrow> utc_now (ce_lib env))"

definition datetime_or_none :: "('d, 'w, 'p) codec_env \<Rightarrow> int option list \<Rightarrow> nat \<Rightarrow> datetime option" where
  "datetime_or_none env col row = map_option (millis_to_datetime env) (col ! row)"

text \<open>The same for a column that older files lack.\<close>

definition opt_string :: "string option list option \<Rightarrow> nat \<Rightarrow> string option" where
  "opt_string col row = (case col of None \<Rightarrow> None | Some c \<Rightarrow> c ! row)"

definition opt_datetime :: "('d, 'w, 'p) codec_env \<Rightarrow> int option list option \<Rightarrow> nat \<Rightarrow> datetime option" where
  "opt_datetime env col row = (case col of None \<Rightarrow> None | Some c \<Rightarrow> map_option (millis_to_datetime env) (c ! row))"

definition opt_i64 :: "int option list option \<Rightarrow> nat \<Rightarrow> int option" where
  "opt_i64 col row = (case col of None \<Rightarrow> None | Some c \<Rightarrow> c ! row)"

definition opt_bool :: "bool option list option \<Rightarrow> nat \<Rightarrow> bool" where
  "opt_bool col row = (case col of None \<Rightarrow> False | Some c \<Rightarrow> c ! row = Some True)"

definition json_decode :: "(string \<Rightarrow> string + 'a) \<Rightarrow> string \<Rightarrow> string \<Rightarrow> flow_error + 'a" where
  "json_decode from_json msg s = or_parquet msg (from_json s)"

definition decode_nullable :: "(string \<Rightarrow> flow_error + 'a) \<Rightarrow> string option list \<Rightarrow> nat \<Rightarrow> flow_error + 'a option" where
  "decode_nullable dec col row = (case col ! row of None \<Rightarrow> Inr None | Some s \<Rightarrow> ebind (dec s) (\<lambda>a. Inr (Some a)))"

definition decode_opt_string ::
  "(string \<Rightarrow> flow_error + 'a) \<Rightarrow> string option list option \<Rightarrow> nat \<Rightarrow> flow_error + 'a option" where
  "decode_opt_string dec col row = (case col of None \<Rightarrow> Inr None | Some c \<Rightarrow> decode_nullable dec c row)"

definition decode_or_empty ::
  "(string \<Rightarrow> flow_error + 'a list) \<Rightarrow> string option list option \<Rightarrow> nat \<Rightarrow> flow_error + 'a list" where
  "decode_or_empty dec col row =
     ebind (decode_opt_string dec col row) (\<lambda>r. Inr (case r of None \<Rightarrow> [] | Some xs \<Rightarrow> xs))"

definition decode_present ::
  "(string \<Rightarrow> flow_error + 'a) \<Rightarrow> string \<Rightarrow> string option list \<Rightarrow> nat \<Rightarrow> flow_error + 'a" where
  "decode_present dec missing col row = (case col ! row of None \<Rightarrow> Inl (FE_Parquet missing) | Some s \<Rightarrow> dec s)"

text \<open>The two loops of every reader, over the batches and over the rows of a batch; the argument fetches
  the columns of a batch and gives the reader of a row.\<close>

definition read_rows ::
  "('d, 'w, 'p) codec_env \<Rightarrow> 'd \<Rightarrow> (record_batch \<Rightarrow> flow_error + (nat \<Rightarrow> flow_error + 'r)) \<Rightarrow> flow_error + 'r list" where
  "read_rows env bytes columns =
     ebind (read_batches env bytes) (\<lambda>batches.
     ebind (traverse (\<lambda>batch. ebind (columns batch) (\<lambda>row. traverse row [0..<rb_num_rows batch])) batches) (\<lambda>outs.
     Inr (concat outs)))"

end
