(* ===== verification/Parquet_Util.thy ===== *)
theory Parquet_Util
  imports Arrow_Tables
begin

text \<open>
  The Parquet files of the orchestration tables (\<^verbatim>\<open>compactor/parquet_util.rs\<close>): for each of the
  seventeen tables its schema, its writer and its reader, on the column layer of \<open>Arrow_Tables\<close>, and
  the text forms of the state enums. Instants are stored as milliseconds.
\<close>

section \<open>State conversions\<close>

fun run_state_to_str :: "run_state \<Rightarrow> string" where
  "run_state_to_str RS_Triggered = ''TRIGGERED''"
| "run_state_to_str RS_Running = ''RUNNING''"
| "run_state_to_str RS_Succeeded = ''SUCCEEDED''"
| "run_state_to_str RS_Failed = ''FAILED''"
| "run_state_to_str RS_Cancelled = ''CANCELLED''"

definition str_to_run_state :: "string \<Rightarrow> flow_error + run_state" where
  "str_to_run_state s =
     (if s = ''TRIGGERED'' then Inr RS_Triggered
      else if s = ''RUNNING'' then Inr RS_Running
      else if s = ''SUCCEEDED'' then Inr RS_Succeeded
      else if s = ''FAILED'' then Inr RS_Failed
      else if s = ''CANCELLED'' then Inr RS_Cancelled
      else Inl (FE_Parquet (''unknown run state '' @ [CHR 0x27] @ s @ [CHR 0x27])))"

fun task_state_to_str :: "task_state \<Rightarrow> string" where
  "task_state_to_str TS_Planned = ''PLANNED''"
| "task_state_to_str TS_Blocked = ''BLOCKED''"
| "task_state_to_str TS_Ready = ''READY''"
| "task_state_to_str TS_Dispatched = ''DISPATCHED''"
| "task_state_to_str TS_Running = ''RUNNING''"
| "task_state_to_str TS_RetryWait = ''RETRY_WAIT''"
| "task_state_to_str TS_Skipped = ''SKIPPED''"
| "task_state_to_str TS_Cancelled = ''CANCELLED''"
| "task_state_to_str TS_Failed = ''FAILED''"
| "task_state_to_str TS_Succeeded = ''SUCCEEDED''"

definition str_to_task_state :: "string \<Rightarrow> flow_error + task_state" where
  "str_to_task_state s =
     (if s = ''PLANNED'' then Inr TS_Planned
      else if s = ''BLOCKED'' then Inr TS_Blocked
      else if s = ''READY'' then Inr TS_Ready
      else if s = ''DISPATCHED'' then Inr TS_Dispatched
      else if s = ''RUNNING'' then Inr TS_Running
      else if s = ''RETRY_WAIT'' then Inr TS_RetryWait
      else if s = ''SKIPPED'' then Inr TS_Skipped
      else if s = ''CANCELLED'' then Inr TS_Cancelled
      else if s = ''FAILED'' then Inr TS_Failed
      else if s = ''SUCCEEDED'' then Inr TS_Succeeded
      else Inl (FE_Parquet (''unknown task state '' @ [CHR 0x27] @ s @ [CHR 0x27])))"

fun output_visibility_state_to_str :: "output_visibility_state \<Rightarrow> string" where
  "output_visibility_state_to_str OV_Pending = ''PENDING''"
| "output_visibility_state_to_str OV_Visible = ''VISIBLE''"
| "output_visibility_state_to_str OV_Failed = ''FAILED''"

definition str_to_output_visibility_state :: "string \<Rightarrow> flow_error + output_visibility_state" where
  "str_to_output_visibility_state s =
     (if s = ''PENDING'' then Inr OV_Pending
      else if s = ''VISIBLE'' then Inr OV_Visible
      else if s = ''FAILED'' then Inr OV_Failed
      else Inl (FE_Parquet (''unknown output visibility state '' @ [CHR 0x27] @ s @ [CHR 0x27])))"

fun task_outcome_to_str :: "task_outcome \<Rightarrow> string" where
  "task_outcome_to_str TO_Succeeded = ''SUCCEEDED''"
| "task_outcome_to_str TO_Failed = ''FAILED''"
| "task_outcome_to_str TO_Skipped = ''SKIPPED''"
| "task_outcome_to_str TO_Cancelled = ''CANCELLED''"

definition str_to_task_outcome :: "string \<Rightarrow> flow_error + task_outcome" where
  "str_to_task_outcome s =
     (if s = ''SUCCEEDED'' then Inr TO_Succeeded
      else if s = ''FAILED'' then Inr TO_Failed
      else if s = ''SKIPPED'' then Inr TO_Skipped
      else if s = ''CANCELLED'' then Inr TO_Cancelled
      else Inl (FE_Parquet (''unknown task outcome '' @ [CHR 0x27] @ s @ [CHR 0x27])))"

fun dep_resolution_to_str :: "dep_resolution \<Rightarrow> string" where
  "dep_resolution_to_str DR_Success = ''SUCCESS''"
| "dep_resolution_to_str DR_Failed = ''FAILED''"
| "dep_resolution_to_str DR_Skipped = ''SKIPPED''"
| "dep_resolution_to_str DR_Cancelled = ''CANCELLED''"

definition str_to_dep_resolution :: "string \<Rightarrow> flow_error + dep_resolution" where
  "str_to_dep_resolution s =
     (if s = ''SUCCESS'' then Inr DR_Success
      else if s = ''FAILED'' then Inr DR_Failed
      else if s = ''SKIPPED'' then Inr DR_Skipped
      else if s = ''CANCELLED'' then Inr DR_Cancelled
      else Inl (FE_Parquet (''unknown dep resolution '' @ [CHR 0x27] @ s @ [CHR 0x27])))"

fun timer_type_to_str :: "timer_type \<Rightarrow> string" where
  "timer_type_to_str TT_Retry = ''RETRY''"
| "timer_type_to_str TT_HeartbeatCheck = ''HEARTBEAT_CHECK''"
| "timer_type_to_str TT_Cron = ''CRON''"
| "timer_type_to_str TT_SlaCheck = ''SLA_CHECK''"

definition str_to_timer_type :: "string \<Rightarrow> flow_error + timer_type" where
  "str_to_timer_type s =
     (if s = ''RETRY'' then Inr TT_Retry
      else if s = ''HEARTBEAT_CHECK'' then Inr TT_HeartbeatCheck
      else if s = ''CRON'' then Inr TT_Cron
      else if s = ''SLA_CHECK'' then Inr TT_SlaCheck
      else Inl (FE_Parquet (''unknown timer type '' @ [CHR 0x27] @ s @ [CHR 0x27])))"

fun timer_state_to_str :: "timer_state \<Rightarrow> string" where
  "timer_state_to_str TM_Scheduled = ''SCHEDULED''"
| "timer_state_to_str TM_Fired = ''FIRED''"
| "timer_state_to_str TM_Cancelled = ''CANCELLED''"

definition str_to_timer_state :: "string \<Rightarrow> flow_error + timer_state" where
  "str_to_timer_state s =
     (if s = ''SCHEDULED'' then Inr TM_Scheduled
      else if s = ''FIRED'' then Inr TM_Fired
      else if s = ''CANCELLED'' then Inr TM_Cancelled
      else Inl (FE_Parquet (''unknown timer state '' @ [CHR 0x27] @ s @ [CHR 0x27])))"

fun dispatch_status_to_str :: "dispatch_status \<Rightarrow> string" where
  "dispatch_status_to_str DS_Pending = ''PENDING''"
| "dispatch_status_to_str DS_Created = ''CREATED''"

definition str_to_dispatch_status :: "string \<Rightarrow> flow_error + dispatch_status" where
  "str_to_dispatch_status s =
     (if s = ''PENDING'' then Inr DS_Pending
      else if s = ''CREATED'' \<or> s = ''ACKED'' \<or> s = ''FAILED'' then Inr DS_Created
      else Inl (FE_Parquet (''unknown dispatch status '' @ [CHR 0x27] @ s @ [CHR 0x27])))"

fun sensor_status_to_str :: "sensor_status \<Rightarrow> string" where
  "sensor_status_to_str SS_Active = ''ACTIVE''"
| "sensor_status_to_str SS_Paused = ''PAUSED''"
| "sensor_status_to_str SS_Error = ''ERROR''"

definition str_to_sensor_status :: "string \<Rightarrow> flow_error + sensor_status" where
  "str_to_sensor_status s =
     (if s = ''ACTIVE'' then Inr SS_Active
      else if s = ''PAUSED'' then Inr SS_Paused
      else if s = ''ERROR'' then Inr SS_Error
      else Inl (FE_Parquet (''unknown sensor status '' @ [CHR 0x27] @ s @ [CHR 0x27])))"

fun backfill_state_to_str :: "backfill_state \<Rightarrow> string" where
  "backfill_state_to_str BF_Pending = ''PENDING''"
| "backfill_state_to_str BF_Running = ''RUNNING''"
| "backfill_state_to_str BF_Paused = ''PAUSED''"
| "backfill_state_to_str BF_Succeeded = ''SUCCEEDED''"
| "backfill_state_to_str BF_Failed = ''FAILED''"
| "backfill_state_to_str BF_Cancelled = ''CANCELLED''"

definition str_to_backfill_state :: "string \<Rightarrow> flow_error + backfill_state" where
  "str_to_backfill_state s =
     (if s = ''PENDING'' then Inr BF_Pending
      else if s = ''RUNNING'' then Inr BF_Running
      else if s = ''PAUSED'' then Inr BF_Paused
      else if s = ''SUCCEEDED'' then Inr BF_Succeeded
      else if s = ''FAILED'' then Inr BF_Failed
      else if s = ''CANCELLED'' then Inr BF_Cancelled
      else Inl (FE_Parquet (''unknown backfill state '' @ [CHR 0x27] @ s @ [CHR 0x27])))"

fun chunk_state_to_str :: "chunk_state \<Rightarrow> string" where
  "chunk_state_to_str CK_Pending = ''PENDING''"
| "chunk_state_to_str CK_Planned = ''PLANNED''"
| "chunk_state_to_str CK_Running = ''RUNNING''"
| "chunk_state_to_str CK_Succeeded = ''SUCCEEDED''"
| "chunk_state_to_str CK_Failed = ''FAILED''"

definition str_to_chunk_state :: "string \<Rightarrow> flow_error + chunk_state" where
  "str_to_chunk_state s =
     (if s = ''PENDING'' then Inr CK_Pending
      else if s = ''PLANNED'' then Inr CK_Planned
      else if s = ''RUNNING'' then Inr CK_Running
      else if s = ''SUCCEEDED'' then Inr CK_Succeeded
      else if s = ''FAILED'' then Inr CK_Failed
      else Inl (FE_Parquet (''unknown chunk state '' @ [CHR 0x27] @ s @ [CHR 0x27])))"

section \<open>Schemas\<close>

definition runs_schema :: schema where
  "runs_schema =
    [Field ''run_id'' DT_Utf8 False, Field ''plan_id'' DT_Utf8 False, Field ''state'' DT_Utf8 False,
     Field ''run_key'' DT_Utf8 True, Field ''cancel_requested'' DT_Boolean False,
     Field ''tasks_total'' DT_UInt32 False, Field ''tasks_completed'' DT_UInt32 False,
     Field ''tasks_succeeded'' DT_UInt32 False, Field ''tasks_failed'' DT_UInt32 False,
     Field ''tasks_skipped'' DT_UInt32 False, Field ''tasks_cancelled'' DT_UInt32 False,
     Field ''triggered_at'' DT_Int64 False, Field ''completed_at'' DT_Int64 True, Field ''labels'' DT_Utf8 True,
     Field ''code_version'' DT_Utf8 True, Field ''row_version'' DT_Utf8 False]"

definition tasks_schema :: schema where
  "tasks_schema =
    [Field ''run_id'' DT_Utf8 False, Field ''task_key'' DT_Utf8 False, Field ''state'' DT_Utf8 False,
     Field ''attempt'' DT_UInt32 False, Field ''attempt_id'' DT_Utf8 True, Field ''started_at'' DT_Int64 True,
     Field ''completed_at'' DT_Int64 True, Field ''error_message'' DT_Utf8 True,
     Field ''deps_total'' DT_UInt32 False, Field ''deps_satisfied_count'' DT_UInt32 False,
     Field ''max_attempts'' DT_UInt32 False, Field ''heartbeat_timeout_sec'' DT_UInt32 False,
     Field ''last_heartbeat_at'' DT_Int64 True, Field ''ready_at'' DT_Int64 True,
     Field ''asset_key'' DT_Utf8 True, Field ''partition_key'' DT_Utf8 True,
     Field ''requires_visible_output'' DT_Boolean True, Field ''materialization_id'' DT_Utf8 True,
     Field ''output_visibility_state'' DT_Utf8 True, Field ''published_at'' DT_Int64 True,
     Field ''publish_error'' DT_Utf8 True, Field ''retry_not_before'' DT_Int64 True,
     Field ''delta_table'' DT_Utf8 True, Field ''delta_version'' DT_Int64 True,
     Field ''delta_partition'' DT_Utf8 True, Field ''execution_lineage_ref'' DT_Utf8 True,
     Field ''row_version'' DT_Utf8 False]"

definition catalog_run_index_schema :: schema where
  "catalog_run_index_schema =
    [Field ''schema_version'' DT_UInt32 False, Field ''org_id'' DT_Utf8 False,
     Field ''workspace_id'' DT_Utf8 False, Field ''run_id'' DT_Utf8 False, Field ''task_key'' DT_Utf8 False,
     Field ''plan_id'' DT_Utf8 False, Field ''run_key'' DT_Utf8 True, Field ''kind'' DT_Utf8 True,
     Field ''reference_id'' DT_Utf8 True, Field ''source_type'' DT_Utf8 True,
     Field ''run_status'' DT_Utf8 False, Field ''cancel_requested'' DT_Boolean False,
     Field ''task_status'' DT_Utf8 False, Field ''asset_key'' DT_Utf8 True,
     Field ''target_namespace'' DT_Utf8 True, Field ''target_table'' DT_Utf8 True,
     Field ''partition_key'' DT_Utf8 True, Field ''attempt'' DT_UInt32 False, Field ''attempt_id'' DT_Utf8 True,
     Field ''requires_visible_output'' DT_Boolean False, Field ''materialization_id'' DT_Utf8 True,
     Field ''output_visibility_state'' DT_Utf8 True, Field ''published_at'' DT_Int64 True,
     Field ''publish_error'' DT_Utf8 True, Field ''delta_table'' DT_Utf8 True,
     Field ''delta_version'' DT_Int64 True, Field ''delta_partition'' DT_Utf8 True,
     Field ''execution_lineage_ref'' DT_Utf8 True, Field ''started_at'' DT_Int64 True,
     Field ''last_heartbeat_at'' DT_Int64 True, Field ''triggered_at'' DT_Int64 False,
     Field ''completed_at'' DT_Int64 True, Field ''updated_at'' DT_Int64 False,
     Field ''code_version'' DT_Utf8 True, Field ''error_message'' DT_Utf8 True,
     Field ''row_version'' DT_Utf8 False]"

definition dep_satisfaction_schema :: schema where
  "dep_satisfaction_schema =
    [Field ''run_id'' DT_Utf8 False, Field ''upstream_task_key'' DT_Utf8 False,
     Field ''downstream_task_key'' DT_Utf8 False, Field ''satisfied'' DT_Boolean False,
     Field ''resolution'' DT_Utf8 True, Field ''satisfied_at'' DT_Int64 True,
     Field ''satisfying_attempt'' DT_UInt32 True, Field ''row_version'' DT_Utf8 False]"

definition timers_schema :: schema where
  "timers_schema =
    [Field ''timer_id'' DT_Utf8 False, Field ''cloud_task_id'' DT_Utf8 True, Field ''timer_type'' DT_Utf8 False,
     Field ''run_id'' DT_Utf8 True, Field ''task_key'' DT_Utf8 True, Field ''attempt'' DT_UInt32 True,
     Field ''fire_at'' DT_Int64 False, Field ''state'' DT_Utf8 False, Field ''payload'' DT_Utf8 True,
     Field ''row_version'' DT_Utf8 False]"

definition dispatch_outbox_schema :: schema where
  "dispatch_outbox_schema =
    [Field ''run_id'' DT_Utf8 False, Field ''task_key'' DT_Utf8 False, Field ''attempt'' DT_UInt32 False,
     Field ''dispatch_id'' DT_Utf8 False, Field ''cloud_task_id'' DT_Utf8 True, Field ''status'' DT_Utf8 False,
     Field ''attempt_id'' DT_Utf8 False, Field ''worker_queue'' DT_Utf8 False,
     Field ''created_at'' DT_Int64 False, Field ''row_version'' DT_Utf8 False]"

definition sensor_state_schema :: schema where
  "sensor_state_schema =
    [Field ''tenant_id'' DT_Utf8 False, Field ''workspace_id'' DT_Utf8 False, Field ''sensor_id'' DT_Utf8 False,
     Field ''cursor'' DT_Utf8 True, Field ''last_evaluation_at'' DT_Int64 True,
     Field ''last_eval_id'' DT_Utf8 True, Field ''status'' DT_Utf8 False,
     Field ''state_version'' DT_UInt32 False, Field ''row_version'' DT_Utf8 False]"

definition sensor_evals_schema :: schema where
  "sensor_evals_schema =
    [Field ''tenant_id'' DT_Utf8 False, Field ''workspace_id'' DT_Utf8 False, Field ''eval_id'' DT_Utf8 False,
     Field ''sensor_id'' DT_Utf8 False, Field ''cursor_before'' DT_Utf8 True,
     Field ''cursor_after'' DT_Utf8 True, Field ''expected_state_version'' DT_UInt32 True,
     Field ''trigger_source'' DT_Utf8 False, Field ''run_requests'' DT_Utf8 True,
     Field ''status'' DT_Utf8 False, Field ''evaluated_at'' DT_Int64 False, Field ''row_version'' DT_Utf8 False]"

definition run_key_index_schema :: schema where
  "run_key_index_schema =
    [Field ''tenant_id'' DT_Utf8 False, Field ''workspace_id'' DT_Utf8 False, Field ''run_key'' DT_Utf8 False,
     Field ''run_id'' DT_Utf8 False, Field ''request_fingerprint'' DT_Utf8 False,
     Field ''code_version'' DT_Utf8 True, Field ''created_at'' DT_Int64 False,
     Field ''row_version'' DT_Utf8 False]"

definition run_key_conflicts_schema :: schema where
  "run_key_conflicts_schema =
    [Field ''tenant_id'' DT_Utf8 False, Field ''workspace_id'' DT_Utf8 False, Field ''run_key'' DT_Utf8 False,
     Field ''existing_fingerprint'' DT_Utf8 False, Field ''conflicting_fingerprint'' DT_Utf8 False,
     Field ''conflicting_event_id'' DT_Utf8 False, Field ''detected_at'' DT_Int64 False]"

definition partition_status_schema :: schema where
  "partition_status_schema =
    [Field ''tenant_id'' DT_Utf8 False, Field ''workspace_id'' DT_Utf8 False, Field ''asset_key'' DT_Utf8 False,
     Field ''partition_key'' DT_Utf8 False, Field ''last_materialization_run_id'' DT_Utf8 True,
     Field ''last_materialization_at'' DT_Int64 True, Field ''last_materialization_code_version'' DT_Utf8 True,
     Field ''last_attempt_run_id'' DT_Utf8 True, Field ''last_attempt_at'' DT_Int64 True,
     Field ''last_attempt_outcome'' DT_Utf8 True, Field ''stale_since'' DT_Int64 True,
     Field ''stale_reason_code'' DT_Utf8 True, Field ''partition_values'' DT_Utf8 True,
     Field ''delta_table'' DT_Utf8 True, Field ''delta_version'' DT_Int64 True,
     Field ''delta_partition'' DT_Utf8 True, Field ''execution_lineage_ref'' DT_Utf8 True,
     Field ''row_version'' DT_Utf8 False]"

definition idempotency_keys_schema :: schema where
  "idempotency_keys_schema =
    [Field ''tenant_id'' DT_Utf8 False, Field ''workspace_id'' DT_Utf8 False,
     Field ''idempotency_key'' DT_Utf8 False, Field ''event_id'' DT_Utf8 False,
     Field ''event_type'' DT_Utf8 False, Field ''recorded_at'' DT_Int64 False,
     Field ''row_version'' DT_Utf8 False]"

definition schedule_definitions_schema :: schema where
  "schedule_definitions_schema =
    [Field ''tenant_id'' DT_Utf8 False, Field ''workspace_id'' DT_Utf8 False,
     Field ''schedule_id'' DT_Utf8 False, Field ''cron_expression'' DT_Utf8 False,
     Field ''timezone'' DT_Utf8 False, Field ''catchup_window_minutes'' DT_UInt32 False,
     Field ''asset_selection'' DT_Utf8 True, Field ''code_version'' DT_Utf8 True,
     Field ''max_catchup_ticks'' DT_UInt32 False, Field ''enabled'' DT_Boolean False,
     Field ''created_at'' DT_Int64 False, Field ''row_version'' DT_Utf8 False]"

definition schedule_state_schema :: schema where
  "schedule_state_schema =
    [Field ''tenant_id'' DT_Utf8 False, Field ''workspace_id'' DT_Utf8 False,
     Field ''schedule_id'' DT_Utf8 False, Field ''last_scheduled_for'' DT_Int64 True,
     Field ''last_tick_id'' DT_Utf8 True, Field ''last_run_key'' DT_Utf8 True,
     Field ''row_version'' DT_Utf8 False]"

definition schedule_ticks_schema :: schema where
  "schedule_ticks_schema =
    [Field ''tenant_id'' DT_Utf8 False, Field ''workspace_id'' DT_Utf8 False, Field ''tick_id'' DT_Utf8 False,
     Field ''schedule_id'' DT_Utf8 False, Field ''scheduled_for'' DT_Int64 False,
     Field ''definition_version'' DT_Utf8 False, Field ''asset_selection'' DT_Utf8 True,
     Field ''partition_selection'' DT_Utf8 True, Field ''status'' DT_Utf8 False, Field ''run_key'' DT_Utf8 True,
     Field ''run_id'' DT_Utf8 True, Field ''request_fingerprint'' DT_Utf8 True,
     Field ''row_version'' DT_Utf8 False]"

definition backfills_schema :: schema where
  "backfills_schema =
    [Field ''tenant_id'' DT_Utf8 False, Field ''workspace_id'' DT_Utf8 False,
     Field ''backfill_id'' DT_Utf8 False, Field ''asset_selection'' DT_Utf8 False,
     Field ''code_version'' DT_Utf8 True, Field ''partition_selector'' DT_Utf8 False,
     Field ''chunk_size'' DT_UInt32 False, Field ''max_concurrent_runs'' DT_UInt32 False,
     Field ''state'' DT_Utf8 False, Field ''state_version'' DT_UInt32 False,
     Field ''total_partitions'' DT_UInt32 False, Field ''planned_chunks'' DT_UInt32 False,
     Field ''completed_chunks'' DT_UInt32 False, Field ''failed_chunks'' DT_UInt32 False,
     Field ''parent_backfill_id'' DT_Utf8 True, Field ''created_at'' DT_Int64 False,
     Field ''row_version'' DT_Utf8 False]"

definition backfill_chunks_schema :: schema where
  "backfill_chunks_schema =
    [Field ''tenant_id'' DT_Utf8 False, Field ''workspace_id'' DT_Utf8 False, Field ''chunk_id'' DT_Utf8 False,
     Field ''backfill_id'' DT_Utf8 False, Field ''chunk_index'' DT_UInt32 False,
     Field ''partition_keys'' DT_Utf8 False, Field ''run_key'' DT_Utf8 False, Field ''run_id'' DT_Utf8 True,
     Field ''state'' DT_Utf8 False, Field ''row_version'' DT_Utf8 False]"

section \<open>Writers\<close>

definition write_runs :: "('d, 'w, 'p) codec_env \<Rightarrow> run_row list \<Rightarrow> flow_error + 'd" where
  "write_runs env rows =
     ebind (json_column (skip_empty (ce_labels_to_json env) \<circ> rn_labels)
         ''failed to serialize run labels: '' rows) (\<lambda>labels.
     write_batch env runs_schema
       [string_array rn_run_id rows, string_array rn_plan_id rows,
        string_array (run_state_to_str \<circ> rn_state) rows, string_opt_array rn_run_key rows,
        bool_array rn_cancel_requested rows, u32_array rn_tasks_total rows, u32_array rn_tasks_completed rows,
        u32_array rn_tasks_succeeded rows, u32_array rn_tasks_failed rows, u32_array rn_tasks_skipped rows,
        u32_array rn_tasks_cancelled rows, i64_array (millis env \<circ> rn_triggered_at) rows,
        i64_opt_array (map_option (millis env) \<circ> rn_completed_at) rows, Arr_String labels,
        string_opt_array rn_code_version rows, string_array rn_row_version rows])"

definition write_tasks :: "('d, 'w, 'p) codec_env \<Rightarrow> task_row list \<Rightarrow> flow_error + 'd" where
  "write_tasks env rows =
     write_batch env tasks_schema
       [string_array tk_run_id rows, string_array tk_task_key rows,
        string_array (task_state_to_str \<circ> tk_state) rows, u32_array tk_attempt rows,
        string_opt_array tk_attempt_id rows, i64_opt_array (map_option (millis env) \<circ> tk_started_at) rows,
        i64_opt_array (map_option (millis env) \<circ> tk_completed_at) rows,
        string_opt_array tk_error_message rows, u32_array tk_deps_total rows,
        u32_array tk_deps_satisfied_count rows, u32_array tk_max_attempts rows,
        u32_array tk_heartbeat_timeout_sec rows,
        i64_opt_array (map_option (millis env) \<circ> tk_last_heartbeat_at) rows,
        i64_opt_array (map_option (millis env) \<circ> tk_ready_at) rows, string_opt_array tk_asset_key rows,
        string_opt_array tk_partition_key rows, bool_array tk_requires_visible_output rows,
        string_opt_array tk_materialization_id rows,
        string_opt_array (map_option output_visibility_state_to_str \<circ> tk_output_visibility_state) rows,
        i64_opt_array (map_option (millis env) \<circ> tk_published_at) rows,
        string_opt_array tk_publish_error rows,
        i64_opt_array (map_option (millis env) \<circ> tk_retry_not_before) rows,
        string_opt_array tk_delta_table rows, i64_opt_array tk_delta_version rows,
        string_opt_array tk_delta_partition rows, string_opt_array tk_execution_lineage_ref rows,
        string_array tk_row_version rows]"

definition write_catalog_run_index :: "('d, 'w, 'p) codec_env \<Rightarrow> catalog_run_index_row list \<Rightarrow> flow_error + 'd" where
  "write_catalog_run_index env rows =
     write_batch env catalog_run_index_schema
       [u32_array ci_schema_version rows, string_array ci_org_id rows, string_array ci_workspace_id rows,
        string_array ci_run_id rows, string_array ci_task_key rows, string_array ci_plan_id rows,
        string_opt_array ci_run_key rows, string_opt_array ci_kind rows, string_opt_array ci_reference_id rows,
        string_opt_array ci_source_type rows, string_array (run_state_to_str \<circ> ci_run_status) rows,
        bool_array ci_cancel_requested rows, string_array (task_state_to_str \<circ> ci_task_status) rows,
        string_opt_array ci_asset_key rows, string_opt_array ci_target_namespace rows,
        string_opt_array ci_target_table rows, string_opt_array ci_partition_key rows,
        u32_array ci_attempt rows, string_opt_array ci_attempt_id rows,
        bool_array ci_requires_visible_output rows, string_opt_array ci_materialization_id rows,
        string_opt_array (map_option output_visibility_state_to_str \<circ> ci_output_visibility_state) rows,
        i64_opt_array (map_option (millis env) \<circ> ci_published_at) rows,
        string_opt_array ci_publish_error rows, string_opt_array ci_delta_table rows,
        i64_opt_array ci_delta_version rows, string_opt_array ci_delta_partition rows,
        string_opt_array ci_execution_lineage_ref rows,
        i64_opt_array (map_option (millis env) \<circ> ci_started_at) rows,
        i64_opt_array (map_option (millis env) \<circ> ci_last_heartbeat_at) rows,
        i64_array (millis env \<circ> ci_triggered_at) rows,
        i64_opt_array (map_option (millis env) \<circ> ci_completed_at) rows,
        i64_array (millis env \<circ> ci_updated_at) rows, string_opt_array ci_code_version rows,
        string_opt_array ci_error_message rows, string_array ci_row_version rows]"

definition write_dep_satisfaction :: "('d, 'w, 'p) codec_env \<Rightarrow> dep_satisfaction_row list \<Rightarrow> flow_error + 'd" where
  "write_dep_satisfaction env rows =
     write_batch env dep_satisfaction_schema
       [string_array dp_run_id rows, string_array dp_upstream_task_key rows,
        string_array dp_downstream_task_key rows, bool_array dp_satisfied rows,
        string_opt_array (map_option dep_resolution_to_str \<circ> dp_resolution) rows,
        i64_opt_array (map_option (millis env) \<circ> dp_satisfied_at) rows,
        u32_opt_array dp_satisfying_attempt rows, string_array dp_row_version rows]"

definition write_timers :: "('d, 'w, 'p) codec_env \<Rightarrow> timer_row list \<Rightarrow> flow_error + 'd" where
  "write_timers env rows =
     write_batch env timers_schema
       [string_array tmr_timer_id rows, string_opt_array tmr_cloud_task_id rows,
        string_array (timer_type_to_str \<circ> tmr_timer_type) rows, string_opt_array tmr_run_id rows,
        string_opt_array tmr_task_key rows, u32_opt_array tmr_attempt rows,
        i64_array (millis env \<circ> tmr_fire_at) rows,
        string_array (timer_state_to_str \<circ> tmr_state) rows, string_opt_array tmr_payload rows,
        string_array tmr_row_version rows]"

definition write_dispatch_outbox :: "('d, 'w, 'p) codec_env \<Rightarrow> dispatch_outbox_row list \<Rightarrow> flow_error + 'd" where
  "write_dispatch_outbox env rows =
     write_batch env dispatch_outbox_schema
       [string_array do_run_id rows, string_array do_task_key rows, u32_array do_attempt rows,
        string_array do_dispatch_id rows, string_opt_array do_cloud_task_id rows,
        string_array (dispatch_status_to_str \<circ> do_status) rows, string_array do_attempt_id rows,
        string_array do_worker_queue rows, i64_array (millis env \<circ> do_created_at) rows,
        string_array do_row_version rows]"

definition write_sensor_state :: "('d, 'w, 'p) codec_env \<Rightarrow> sensor_state_row list \<Rightarrow> flow_error + 'd" where
  "write_sensor_state env rows =
     write_batch env sensor_state_schema
       [string_array sn_tenant_id rows, string_array sn_workspace_id rows, string_array sn_sensor_id rows,
        string_opt_array sn_cursor rows,
        i64_opt_array (map_option (millis env) \<circ> sn_last_evaluation_at) rows,
        string_opt_array sn_last_eval_id rows, string_array (sensor_status_to_str \<circ> sn_status) rows,
        u32_array sn_state_version rows, string_array sn_row_version rows]"

definition write_sensor_evals :: "('d, 'w, 'p) codec_env \<Rightarrow> sensor_eval_row list \<Rightarrow> flow_error + 'd" where
  "write_sensor_evals env rows =
     ebind (json_column (encode_some (ce_trigger_source_to_json env) \<circ> se_trigger_source)
         ''failed to serialize trigger source: '' rows) (\<lambda>trigger_sources.
     ebind (json_column (skip_empty (ce_run_requests_to_json env) \<circ> se_run_requests)
         ''failed to serialize sensor run requests: '' rows) (\<lambda>run_requests.
     ebind (json_column (encode_some (ce_eval_status_to_json env) \<circ> se_status)
         ''failed to serialize sensor eval status: '' rows) (\<lambda>statuses.
     write_batch env sensor_evals_schema
       [string_array se_tenant_id rows, string_array se_workspace_id rows, string_array se_eval_id rows,
        string_array se_sensor_id rows, string_opt_array se_cursor_before rows,
        string_opt_array se_cursor_after rows, u32_opt_array se_expected_state_version rows,
        Arr_String trigger_sources, Arr_String run_requests, Arr_String statuses,
        i64_array (millis env \<circ> se_evaluated_at) rows, string_array se_row_version rows])))"

definition write_run_key_index :: "('d, 'w, 'p) codec_env \<Rightarrow> run_key_index_row list \<Rightarrow> flow_error + 'd" where
  "write_run_key_index env rows =
     write_batch env run_key_index_schema
       [string_array ri_tenant_id rows, string_array ri_workspace_id rows, string_array ri_run_key rows,
        string_array ri_run_id rows, string_array ri_request_fingerprint rows,
        string_opt_array ri_code_version rows, i64_array (millis env \<circ> ri_created_at) rows,
        string_array ri_row_version rows]"

definition write_run_key_conflicts :: "('d, 'w, 'p) codec_env \<Rightarrow> run_key_conflict_row list \<Rightarrow> flow_error + 'd" where
  "write_run_key_conflicts env rows =
     write_batch env run_key_conflicts_schema
       [string_array rc_tenant_id rows, string_array rc_workspace_id rows, string_array rc_run_key rows,
        string_array rc_existing_fingerprint rows, string_array rc_conflicting_fingerprint rows,
        string_array rc_conflicting_event_id rows, i64_array (millis env \<circ> rc_detected_at) rows]"

definition write_partition_status :: "('d, 'w, 'p) codec_env \<Rightarrow> partition_status_row list \<Rightarrow> flow_error + 'd" where
  "write_partition_status env rows =
     ebind (json_column (skip_empty (ce_labels_to_json env) \<circ> pt_partition_values)
         ''failed to serialize partition values: '' rows) (\<lambda>partition_values.
     write_batch env partition_status_schema
       [string_array pt_tenant_id rows, string_array pt_workspace_id rows, string_array pt_asset_key rows,
        string_array pt_partition_key rows, string_opt_array pt_last_materialization_run_id rows,
        i64_opt_array (map_option (millis env) \<circ> pt_last_materialization_at) rows,
        string_opt_array pt_last_materialization_code_version rows,
        string_opt_array pt_last_attempt_run_id rows,
        i64_opt_array (map_option (millis env) \<circ> pt_last_attempt_at) rows,
        string_opt_array (map_option task_outcome_to_str \<circ> pt_last_attempt_outcome) rows,
        i64_opt_array (map_option (millis env) \<circ> pt_stale_since) rows,
        string_opt_array pt_stale_reason_code rows, Arr_String partition_values,
        string_opt_array pt_delta_table rows, i64_opt_array pt_delta_version rows,
        string_opt_array pt_delta_partition rows, string_opt_array pt_execution_lineage_ref rows,
        string_array pt_row_version rows])"

definition write_idempotency_keys :: "('d, 'w, 'p) codec_env \<Rightarrow> idempotency_key_row list \<Rightarrow> flow_error + 'd" where
  "write_idempotency_keys env rows =
     write_batch env idempotency_keys_schema
       [string_array ik_tenant_id rows, string_array ik_workspace_id rows, string_array ik_idempotency_key rows,
        string_array ik_event_id rows, string_array ik_event_type rows,
        i64_array (millis env \<circ> ik_recorded_at) rows, string_array ik_row_version rows]"

definition write_schedule_definitions :: "('d, 'w, 'p) codec_env \<Rightarrow> schedule_definition_row list \<Rightarrow> flow_error + 'd" where
  "write_schedule_definitions env rows =
     ebind (json_column (skip_empty (ce_strings_to_json env) \<circ> sd_asset_selection)
         ''failed to serialize asset selection: '' rows) (\<lambda>asset_selection.
     write_batch env schedule_definitions_schema
       [string_array sd_tenant_id rows, string_array sd_workspace_id rows, string_array sd_schedule_id rows,
        string_array sd_cron_expression rows, string_array sd_timezone rows,
        u32_array sd_catchup_window_minutes rows, Arr_String asset_selection,
        string_opt_array sd_code_version rows, u32_array sd_max_catchup_ticks rows, bool_array sd_enabled rows,
        i64_array (millis env \<circ> sd_created_at) rows, string_array sd_row_version rows])"

definition write_schedule_state :: "('d, 'w, 'p) codec_env \<Rightarrow> schedule_state_row list \<Rightarrow> flow_error + 'd" where
  "write_schedule_state env rows =
     write_batch env schedule_state_schema
       [string_array ss_tenant_id rows, string_array ss_workspace_id rows, string_array ss_schedule_id rows,
        i64_opt_array (map_option (millis env) \<circ> ss_last_scheduled_for) rows,
        string_opt_array ss_last_tick_id rows, string_opt_array ss_last_run_key rows,
        string_array ss_row_version rows]"

definition write_schedule_ticks :: "('d, 'w, 'p) codec_env \<Rightarrow> schedule_tick_row list \<Rightarrow> flow_error + 'd" where
  "write_schedule_ticks env rows =
     ebind (json_column (skip_empty (ce_strings_to_json env) \<circ> st_asset_selection)
         ''failed to serialize tick asset selection: '' rows) (\<lambda>asset_selection.
     ebind (json_column (encode_opt (ce_strings_to_json env) \<circ> st_partition_selection)
         ''failed to serialize partition selection: '' rows) (\<lambda>partition_selection.
     ebind (json_column (encode_some (ce_tick_status_to_json env) \<circ> st_status)
         ''failed to serialize tick status: '' rows) (\<lambda>status.
     write_batch env schedule_ticks_schema
       [string_array st_tenant_id rows, string_array st_workspace_id rows, string_array st_tick_id rows,
        string_array st_schedule_id rows, i64_array (millis env \<circ> st_scheduled_for) rows,
        string_array st_definition_version rows, Arr_String asset_selection, Arr_String partition_selection,
        Arr_String status, string_opt_array st_run_key rows, string_opt_array st_run_id rows,
        string_opt_array st_request_fingerprint rows, string_array st_row_version rows])))"

definition write_backfills :: "('d, 'w, 'p) codec_env \<Rightarrow> backfill_row list \<Rightarrow> flow_error + 'd" where
  "write_backfills env rows =
     ebind (json_column (encode_some (ce_strings_to_json env) \<circ> bf_asset_selection)
         ''failed to serialize backfill asset_selection: '' rows) (\<lambda>asset_selection.
     ebind (json_column (encode_some (ce_selector_to_json env) \<circ> bf_partition_selector)
         ''failed to serialize backfill partition_selector: '' rows) (\<lambda>partition_selector.
     write_batch env backfills_schema
       [string_array bf_tenant_id rows, string_array bf_workspace_id rows, string_array bf_backfill_id rows,
        Arr_String asset_selection, string_opt_array bf_code_version rows, Arr_String partition_selector,
        u32_array bf_chunk_size rows, u32_array bf_max_concurrent_runs rows,
        string_array (backfill_state_to_str \<circ> bf_state) rows, u32_array bf_state_version rows,
        u32_array bf_total_partitions rows, u32_array bf_planned_chunks rows,
        u32_array bf_completed_chunks rows, u32_array bf_failed_chunks rows,
        string_opt_array bf_parent_backfill_id rows, i64_array (millis env \<circ> bf_created_at) rows,
        string_array bf_row_version rows]))"

definition write_backfill_chunks :: "('d, 'w, 'p) codec_env \<Rightarrow> backfill_chunk_row list \<Rightarrow> flow_error + 'd" where
  "write_backfill_chunks env rows =
     ebind (json_column (encode_some (ce_strings_to_json env) \<circ> bc_partition_keys)
         ''failed to serialize chunk partition_keys: '' rows) (\<lambda>partition_keys.
     write_batch env backfill_chunks_schema
       [string_array bc_tenant_id rows, string_array bc_workspace_id rows, string_array bc_chunk_id rows,
        string_array bc_backfill_id rows, u32_array bc_chunk_index rows, Arr_String partition_keys,
        string_array bc_run_key rows, string_opt_array bc_run_id rows,
        string_array (chunk_state_to_str \<circ> bc_state) rows, string_array bc_row_version rows])"

section \<open>Readers\<close>

definition LEGACY_IDEMPOTENCY_EVENT_TYPES :: "(string \<times> string) list" where
  "LEGACY_IDEMPOTENCY_EVENT_TYPES =
    [(''run'', ''RunTriggered''), (''plan'', ''PlanCreated''), (''cancel_req'', ''RunCancelRequested''),
     (''started'', ''TaskStarted''), (''heartbeat'', ''TaskHeartbeat''), (''finished'', ''TaskFinished''),
     (''dispatch_req'', ''DispatchRequested''), (''timer_req'', ''TimerRequested''),
     (''dispatch_ack'', ''DispatchEnqueued''), (''timer_ack'', ''TimerEnqueued''),
     (''timer_fired'', ''TimerFired''), (''sched_def'', ''ScheduleDefinitionUpserted''),
     (''sched_tick'', ''ScheduleTicked''), (''sensor_eval'', ''SensorEvaluated''),
     (''runreq'', ''RunRequested''), (''backfill_create'', ''BackfillCreated''),
     (''backfill_chunk'', ''BackfillChunkPlanned''), (''backfill_state'', ''BackfillStateChanged'')]"

text \<open>The warning for an unknown prefix is not modelled.\<close>

definition infer_legacy_idempotency_event_type :: "string \<Rightarrow> string" where
  "infer_legacy_idempotency_event_type key =
     (let prefix = hd (split_on CHR '':'' key)
      in case map_of LEGACY_IDEMPOTENCY_EVENT_TYPES prefix of
           Some t \<Rightarrow> t
         | None \<Rightarrow> ''LegacyUnknown'')"

definition read_runs :: "('d, 'w, 'p) codec_env \<Rightarrow> 'd \<Rightarrow> flow_error + run_row list" where
  "read_runs env bytes = read_rows env bytes (\<lambda>batch.
     ebind (col_string env batch ''run_id'') (\<lambda>run_id.
     ebind (col_string env batch ''plan_id'') (\<lambda>plan_id.
     ebind (col_string env batch ''state'') (\<lambda>state.
     let run_key = col_string_opt env batch ''run_key'' in
     let cancel_requested = col_bool_opt env batch ''cancel_requested'' in
     ebind (col_u32 env batch ''tasks_total'') (\<lambda>tasks_total.
     ebind (col_u32 env batch ''tasks_completed'') (\<lambda>tasks_completed.
     ebind (col_u32 env batch ''tasks_succeeded'') (\<lambda>tasks_succeeded.
     ebind (col_u32 env batch ''tasks_failed'') (\<lambda>tasks_failed.
     ebind (col_u32 env batch ''tasks_skipped'') (\<lambda>tasks_skipped.
     ebind (col_u32 env batch ''tasks_cancelled'') (\<lambda>tasks_cancelled.
     ebind (col_i64 env batch ''triggered_at'') (\<lambda>triggered_at.
     ebind (col_i64 env batch ''completed_at'') (\<lambda>completed_at.
     let labels = col_string_opt env batch ''labels'' in
     let code_version = col_string_opt env batch ''code_version'' in
     ebind (col_string env batch ''row_version'') (\<lambda>row_version.
     Inr (\<lambda>row.
       ebind (decode_or_empty (json_decode (ce_labels_from_json env) ''failed to parse run labels: '') labels row)
         (\<lambda>labels.
       ebind (str_to_run_state (string_value env state row)) (\<lambda>state.
       Inr \<lparr>rn_run_id = string_value env run_id row, rn_plan_id = string_value env plan_id row, rn_state = state,
         rn_run_key = opt_string run_key row, rn_labels = labels, rn_code_version = opt_string code_version row,
         rn_cancel_requested = opt_bool cancel_requested row, rn_tasks_total = u32_value env tasks_total row,
         rn_tasks_completed = u32_value env tasks_completed row,
         rn_tasks_succeeded = u32_value env tasks_succeeded row,
         rn_tasks_failed = u32_value env tasks_failed row, rn_tasks_skipped = u32_value env tasks_skipped row,
         rn_tasks_cancelled = u32_value env tasks_cancelled row,
         rn_triggered_at = millis_to_datetime env (i64_value env triggered_at row),
         rn_completed_at = datetime_or_none env completed_at row,
         rn_row_version = string_value env row_version row\<rparr>))))))))))))))))"

definition read_tasks :: "('d, 'w, 'p) codec_env \<Rightarrow> 'd \<Rightarrow> flow_error + task_row list" where
  "read_tasks env bytes = read_rows env bytes (\<lambda>batch.
     ebind (col_string env batch ''run_id'') (\<lambda>run_id.
     ebind (col_string env batch ''task_key'') (\<lambda>task_key.
     ebind (col_string env batch ''state'') (\<lambda>state.
     ebind (col_u32 env batch ''attempt'') (\<lambda>attempt.
     ebind (col_string env batch ''attempt_id'') (\<lambda>attempt_id.
     let started_at = col_i64_opt env batch ''started_at'' in
     let completed_at = col_i64_opt env batch ''completed_at'' in
     let error_message = col_string_opt env batch ''error_message'' in
     ebind (col_u32 env batch ''deps_total'') (\<lambda>deps_total.
     ebind (col_u32 env batch ''deps_satisfied_count'') (\<lambda>deps_satisfied_count.
     ebind (col_u32 env batch ''max_attempts'') (\<lambda>max_attempts.
     ebind (col_u32 env batch ''heartbeat_timeout_sec'') (\<lambda>heartbeat_timeout_sec.
     ebind (col_i64 env batch ''last_heartbeat_at'') (\<lambda>last_heartbeat_at.
     ebind (col_i64 env batch ''ready_at'') (\<lambda>ready_at.
     let asset_key = col_string_opt env batch ''asset_key'' in
     let partition_key = col_string_opt env batch ''partition_key'' in
     let requires_visible_output = col_bool_opt env batch ''requires_visible_output'' in
     let materialization_id = col_string_opt env batch ''materialization_id'' in
     let output_visibility_state = col_string_opt env batch ''output_visibility_state'' in
     let published_at = col_i64_opt env batch ''published_at'' in
     let publish_error = col_string_opt env batch ''publish_error'' in
     let retry_not_before = col_i64_opt env batch ''retry_not_before'' in
     let delta_table = col_string_opt env batch ''delta_table'' in
     let delta_version = col_i64_opt env batch ''delta_version'' in
     let delta_partition = col_string_opt env batch ''delta_partition'' in
     let execution_lineage_ref = col_string_opt env batch ''execution_lineage_ref'' in
     ebind (col_string env batch ''row_version'') (\<lambda>row_version.
     Inr (\<lambda>row.
       ebind (str_to_task_state (string_value env state row)) (\<lambda>state.
       ebind (decode_opt_string str_to_output_visibility_state output_visibility_state row) (\<lambda>output_visibility_state.
       Inr \<lparr>tk_run_id = string_value env run_id row, tk_task_key = string_value env task_key row, tk_state = state,
         tk_attempt = u32_value env attempt row, tk_attempt_id = string_or_none attempt_id row,
         tk_started_at = opt_datetime env started_at row, tk_completed_at = opt_datetime env completed_at row,
         tk_error_message = opt_string error_message row, tk_deps_total = u32_value env deps_total row,
         tk_deps_satisfied_count = u32_value env deps_satisfied_count row,
         tk_max_attempts = u32_value env max_attempts row,
         tk_heartbeat_timeout_sec = u32_value env heartbeat_timeout_sec row,
         tk_last_heartbeat_at = datetime_or_none env last_heartbeat_at row,
         tk_ready_at = datetime_or_none env ready_at row, tk_asset_key = opt_string asset_key row,
         tk_partition_key = opt_string partition_key row,
         tk_requires_visible_output = opt_bool requires_visible_output row,
         tk_materialization_id = opt_string materialization_id row,
         tk_output_visibility_state = output_visibility_state,
         tk_published_at = opt_datetime env published_at row, tk_publish_error = opt_string publish_error row,
         tk_retry_not_before = opt_datetime env retry_not_before row,
         tk_delta_table = opt_string delta_table row, tk_delta_version = opt_i64 delta_version row,
         tk_delta_partition = opt_string delta_partition row,
         tk_execution_lineage_ref = opt_string execution_lineage_ref row,
         tk_row_version = string_value env row_version row\<rparr>))))))))))))))))"

definition read_catalog_run_index :: "('d, 'w, 'p) codec_env \<Rightarrow> 'd \<Rightarrow> flow_error + catalog_run_index_row list" where
  "read_catalog_run_index env bytes = read_rows env bytes (\<lambda>batch.
     ebind (col_u32 env batch ''schema_version'') (\<lambda>schema_version.
     ebind (col_string env batch ''org_id'') (\<lambda>org_id.
     ebind (col_string env batch ''workspace_id'') (\<lambda>workspace_id.
     ebind (col_string env batch ''run_id'') (\<lambda>run_id.
     ebind (col_string env batch ''task_key'') (\<lambda>task_key.
     ebind (col_string env batch ''plan_id'') (\<lambda>plan_id.
     ebind (col_string env batch ''run_key'') (\<lambda>run_key.
     ebind (col_string env batch ''kind'') (\<lambda>kind.
     ebind (col_string env batch ''reference_id'') (\<lambda>reference_id.
     ebind (col_string env batch ''source_type'') (\<lambda>source_type.
     ebind (col_string env batch ''run_status'') (\<lambda>run_status.
     ebind (col_bool env batch ''cancel_requested'') (\<lambda>cancel_requested.
     ebind (col_string env batch ''task_status'') (\<lambda>task_status.
     ebind (col_string env batch ''asset_key'') (\<lambda>asset_key.
     ebind (col_string env batch ''target_namespace'') (\<lambda>target_namespace.
     ebind (col_string env batch ''target_table'') (\<lambda>target_table.
     ebind (col_string env batch ''partition_key'') (\<lambda>partition_key.
     ebind (col_u32 env batch ''attempt'') (\<lambda>attempt.
     ebind (col_string env batch ''attempt_id'') (\<lambda>attempt_id.
     ebind (col_bool env batch ''requires_visible_output'') (\<lambda>requires_visible_output.
     ebind (col_string env batch ''materialization_id'') (\<lambda>materialization_id.
     ebind (col_string env batch ''output_visibility_state'') (\<lambda>output_visibility_state.
     ebind (col_i64 env batch ''published_at'') (\<lambda>published_at.
     ebind (col_string env batch ''publish_error'') (\<lambda>publish_error.
     ebind (col_string env batch ''delta_table'') (\<lambda>delta_table.
     ebind (col_i64 env batch ''delta_version'') (\<lambda>delta_version.
     ebind (col_string env batch ''delta_partition'') (\<lambda>delta_partition.
     ebind (col_string env batch ''execution_lineage_ref'') (\<lambda>execution_lineage_ref.
     ebind (col_i64 env batch ''started_at'') (\<lambda>started_at.
     ebind (col_i64 env batch ''last_heartbeat_at'') (\<lambda>last_heartbeat_at.
     ebind (col_i64 env batch ''triggered_at'') (\<lambda>triggered_at.
     ebind (col_i64 env batch ''completed_at'') (\<lambda>completed_at.
     ebind (col_i64 env batch ''updated_at'') (\<lambda>updated_at.
     ebind (col_string env batch ''code_version'') (\<lambda>code_version.
     ebind (col_string env batch ''error_message'') (\<lambda>error_message.
     ebind (col_string env batch ''row_version'') (\<lambda>row_version.
     Inr (\<lambda>row.
       ebind (str_to_run_state (string_value env run_status row)) (\<lambda>run_status.
       ebind (str_to_task_state (string_value env task_status row)) (\<lambda>task_status.
       ebind (decode_nullable str_to_output_visibility_state output_visibility_state row) (\<lambda>output_visibility_state.
       Inr \<lparr>ci_schema_version = u32_value env schema_version row, ci_org_id = string_value env org_id row,
         ci_workspace_id = string_value env workspace_id row, ci_run_id = string_value env run_id row,
         ci_task_key = string_value env task_key row, ci_plan_id = string_value env plan_id row,
         ci_run_key = string_or_none run_key row, ci_kind = string_or_none kind row,
         ci_reference_id = string_or_none reference_id row, ci_source_type = string_or_none source_type row,
         ci_run_status = run_status, ci_cancel_requested = bool_value env cancel_requested row,
         ci_task_status = task_status, ci_asset_key = string_or_none asset_key row,
         ci_target_namespace = string_or_none target_namespace row,
         ci_target_table = string_or_none target_table row, ci_partition_key = string_or_none partition_key row,
         ci_attempt = u32_value env attempt row, ci_attempt_id = string_or_none attempt_id row,
         ci_requires_visible_output = bool_value env requires_visible_output row,
         ci_materialization_id = string_or_none materialization_id row,
         ci_output_visibility_state = output_visibility_state,
         ci_published_at = datetime_or_none env published_at row,
         ci_publish_error = string_or_none publish_error row, ci_delta_table = string_or_none delta_table row,
         ci_delta_version = delta_version ! row, ci_delta_partition = string_or_none delta_partition row,
         ci_execution_lineage_ref = string_or_none execution_lineage_ref row,
         ci_started_at = datetime_or_none env started_at row,
         ci_last_heartbeat_at = datetime_or_none env last_heartbeat_at row,
         ci_triggered_at = millis_to_datetime env (i64_value env triggered_at row),
         ci_completed_at = datetime_or_none env completed_at row,
         ci_updated_at = millis_to_datetime env (i64_value env updated_at row),
         ci_code_version = string_or_none code_version row, ci_error_message = string_or_none error_message row,
         ci_row_version = string_value env row_version row\<rparr>)))))))))))))))))))))))))))))))))))))))))"

definition read_dep_satisfaction :: "('d, 'w, 'p) codec_env \<Rightarrow> 'd \<Rightarrow> flow_error + dep_satisfaction_row list" where
  "read_dep_satisfaction env bytes = read_rows env bytes (\<lambda>batch.
     ebind (col_string env batch ''run_id'') (\<lambda>run_id.
     ebind (col_string env batch ''upstream_task_key'') (\<lambda>upstream_task_key.
     ebind (col_string env batch ''downstream_task_key'') (\<lambda>downstream_task_key.
     ebind (col_bool env batch ''satisfied'') (\<lambda>satisfied.
     ebind (col_string env batch ''resolution'') (\<lambda>resolution.
     ebind (col_i64 env batch ''satisfied_at'') (\<lambda>satisfied_at.
     ebind (col_u32 env batch ''satisfying_attempt'') (\<lambda>satisfying_attempt.
     ebind (col_string env batch ''row_version'') (\<lambda>row_version.
     Inr (\<lambda>row.
       ebind (decode_nullable str_to_dep_resolution resolution row) (\<lambda>resolution.
       Inr \<lparr>dp_run_id = string_value env run_id row, dp_upstream_task_key = string_value env upstream_task_key row,
         dp_downstream_task_key = string_value env downstream_task_key row,
         dp_satisfied = bool_value env satisfied row, dp_resolution = resolution,
         dp_satisfied_at = datetime_or_none env satisfied_at row,
         dp_satisfying_attempt = satisfying_attempt ! row, dp_row_version = string_value env row_version row\<rparr>)))))))))))"

definition read_timers :: "('d, 'w, 'p) codec_env \<Rightarrow> 'd \<Rightarrow> flow_error + timer_row list" where
  "read_timers env bytes = read_rows env bytes (\<lambda>batch.
     ebind (col_string env batch ''timer_id'') (\<lambda>timer_id.
     ebind (col_string env batch ''cloud_task_id'') (\<lambda>cloud_task_id.
     ebind (col_string env batch ''timer_type'') (\<lambda>timer_type.
     ebind (col_string env batch ''run_id'') (\<lambda>run_id.
     ebind (col_string env batch ''task_key'') (\<lambda>task_key.
     ebind (col_u32 env batch ''attempt'') (\<lambda>attempt.
     ebind (col_i64 env batch ''fire_at'') (\<lambda>fire_at.
     ebind (col_string env batch ''state'') (\<lambda>state.
     ebind (col_string env batch ''payload'') (\<lambda>payload.
     ebind (col_string env batch ''row_version'') (\<lambda>row_version.
     Inr (\<lambda>row.
       ebind (str_to_timer_type (string_value env timer_type row)) (\<lambda>timer_type.
       ebind (str_to_timer_state (string_value env state row)) (\<lambda>state.
       Inr \<lparr>tmr_timer_id = string_value env timer_id row, tmr_cloud_task_id = string_or_none cloud_task_id row,
         tmr_timer_type = timer_type, tmr_run_id = string_or_none run_id row,
         tmr_task_key = string_or_none task_key row, tmr_attempt = attempt ! row,
         tmr_fire_at = millis_to_datetime env (i64_value env fire_at row), tmr_state = state,
         tmr_payload = string_or_none payload row, tmr_row_version = string_value env row_version row\<rparr>))))))))))))))"

definition read_dispatch_outbox :: "('d, 'w, 'p) codec_env \<Rightarrow> 'd \<Rightarrow> flow_error + dispatch_outbox_row list" where
  "read_dispatch_outbox env bytes = read_rows env bytes (\<lambda>batch.
     ebind (col_string env batch ''run_id'') (\<lambda>run_id.
     ebind (col_string env batch ''task_key'') (\<lambda>task_key.
     ebind (col_u32 env batch ''attempt'') (\<lambda>attempt.
     ebind (col_string env batch ''dispatch_id'') (\<lambda>dispatch_id.
     ebind (col_string env batch ''cloud_task_id'') (\<lambda>cloud_task_id.
     ebind (col_string env batch ''status'') (\<lambda>status.
     ebind (col_string env batch ''attempt_id'') (\<lambda>attempt_id.
     ebind (col_string env batch ''worker_queue'') (\<lambda>worker_queue.
     ebind (col_i64 env batch ''created_at'') (\<lambda>created_at.
     ebind (col_string env batch ''row_version'') (\<lambda>row_version.
     Inr (\<lambda>row.
       ebind (str_to_dispatch_status (string_value env status row)) (\<lambda>status.
       Inr \<lparr>do_run_id = string_value env run_id row, do_task_key = string_value env task_key row,
         do_attempt = u32_value env attempt row, do_dispatch_id = string_value env dispatch_id row,
         do_cloud_task_id = string_or_none cloud_task_id row, do_status = status,
         do_attempt_id = string_value env attempt_id row, do_worker_queue = string_value env worker_queue row,
         do_created_at = millis_to_datetime env (i64_value env created_at row),
         do_row_version = string_value env row_version row\<rparr>)))))))))))))"

definition read_sensor_state :: "('d, 'w, 'p) codec_env \<Rightarrow> 'd \<Rightarrow> flow_error + sensor_state_row list" where
  "read_sensor_state env bytes = read_rows env bytes (\<lambda>batch.
     ebind (col_string env batch ''tenant_id'') (\<lambda>tenant_id.
     ebind (col_string env batch ''workspace_id'') (\<lambda>workspace_id.
     ebind (col_string env batch ''sensor_id'') (\<lambda>sensor_id.
     ebind (col_string env batch ''cursor'') (\<lambda>cursor.
     let last_evaluation_at = col_i64_opt env batch ''last_evaluation_at'' in
     ebind (col_string env batch ''last_eval_id'') (\<lambda>last_eval_id.
     ebind (col_string env batch ''status'') (\<lambda>status.
     ebind (col_u32 env batch ''state_version'') (\<lambda>state_version.
     ebind (col_string env batch ''row_version'') (\<lambda>row_version.
     Inr (\<lambda>row.
       ebind (str_to_sensor_status (string_value env status row)) (\<lambda>status.
       Inr \<lparr>sn_tenant_id = string_value env tenant_id row, sn_workspace_id = string_value env workspace_id row,
         sn_sensor_id = string_value env sensor_id row, sn_cursor = string_or_none cursor row,
         sn_last_evaluation_at = opt_datetime env last_evaluation_at row,
         sn_last_eval_id = string_or_none last_eval_id row, sn_status = status,
         sn_state_version = u32_value env state_version row, sn_row_version = string_value env row_version row\<rparr>)))))))))))"

definition read_sensor_evals :: "('d, 'w, 'p) codec_env \<Rightarrow> 'd \<Rightarrow> flow_error + sensor_eval_row list" where
  "read_sensor_evals env bytes = read_rows env bytes (\<lambda>batch.
     ebind (col_string env batch ''tenant_id'') (\<lambda>tenant_id.
     ebind (col_string env batch ''workspace_id'') (\<lambda>workspace_id.
     ebind (col_string env batch ''eval_id'') (\<lambda>eval_id.
     ebind (col_string env batch ''sensor_id'') (\<lambda>sensor_id.
     ebind (col_string env batch ''cursor_before'') (\<lambda>cursor_before.
     ebind (col_string env batch ''cursor_after'') (\<lambda>cursor_after.
     ebind (col_u32 env batch ''expected_state_version'') (\<lambda>expected_state_version.
     ebind (col_string env batch ''trigger_source'') (\<lambda>trigger_source.
     let run_requests = col_string_opt env batch ''run_requests'' in
     ebind (col_string env batch ''status'') (\<lambda>status.
     ebind (col_i64 env batch ''evaluated_at'') (\<lambda>evaluated_at.
     ebind (col_string env batch ''row_version'') (\<lambda>row_version.
     Inr (\<lambda>row.
       ebind (decode_present (json_decode (ce_trigger_source_from_json env) ''failed to parse trigger source: '') ''sensor eval missing trigger_source'' trigger_source row)
         (\<lambda>trigger_source.
       ebind (decode_present (json_decode (ce_eval_status_from_json env) ''failed to parse sensor eval status: '') ''sensor eval missing status'' status row)
         (\<lambda>status.
       ebind (decode_or_empty (json_decode (ce_run_requests_from_json env) ''failed to parse sensor run requests: '') run_requests row)
         (\<lambda>run_requests.
       Inr \<lparr>se_tenant_id = string_value env tenant_id row, se_workspace_id = string_value env workspace_id row,
         se_eval_id = string_value env eval_id row, se_sensor_id = string_value env sensor_id row,
         se_cursor_before = string_or_none cursor_before row, se_cursor_after = string_or_none cursor_after row,
         se_expected_state_version = expected_state_version ! row, se_trigger_source = trigger_source,
         se_run_requests = run_requests, se_status = status,
         se_evaluated_at = millis_to_datetime env (i64_value env evaluated_at row),
         se_row_version = string_value env row_version row\<rparr>))))))))))))))))"

definition read_run_key_index :: "('d, 'w, 'p) codec_env \<Rightarrow> 'd \<Rightarrow> flow_error + run_key_index_row list" where
  "read_run_key_index env bytes = read_rows env bytes (\<lambda>batch.
     ebind (col_string env batch ''tenant_id'') (\<lambda>tenant_id.
     ebind (col_string env batch ''workspace_id'') (\<lambda>workspace_id.
     ebind (col_string env batch ''run_key'') (\<lambda>run_key.
     ebind (col_string env batch ''run_id'') (\<lambda>run_id.
     ebind (col_string env batch ''request_fingerprint'') (\<lambda>request_fingerprint.
     let code_version = col_string_opt env batch ''code_version'' in
     ebind (col_i64 env batch ''created_at'') (\<lambda>created_at.
     ebind (col_string env batch ''row_version'') (\<lambda>row_version.
     Inr (\<lambda>row.
       Inr \<lparr>ri_tenant_id = string_value env tenant_id row, ri_workspace_id = string_value env workspace_id row,
         ri_run_key = string_value env run_key row, ri_run_id = string_value env run_id row,
         ri_request_fingerprint = string_value env request_fingerprint row,
         ri_code_version = opt_string code_version row,
         ri_created_at = millis_to_datetime env (i64_value env created_at row),
         ri_row_version = string_value env row_version row\<rparr>)))))))))"

definition read_run_key_conflicts :: "('d, 'w, 'p) codec_env \<Rightarrow> 'd \<Rightarrow> flow_error + run_key_conflict_row list" where
  "read_run_key_conflicts env bytes = read_rows env bytes (\<lambda>batch.
     ebind (col_string env batch ''tenant_id'') (\<lambda>tenant_id.
     ebind (col_string env batch ''workspace_id'') (\<lambda>workspace_id.
     ebind (col_string env batch ''run_key'') (\<lambda>run_key.
     ebind (col_string env batch ''existing_fingerprint'') (\<lambda>existing_fingerprint.
     ebind (col_string env batch ''conflicting_fingerprint'') (\<lambda>conflicting_fingerprint.
     ebind (col_string env batch ''conflicting_event_id'') (\<lambda>conflicting_event_id.
     ebind (col_i64 env batch ''detected_at'') (\<lambda>detected_at.
     Inr (\<lambda>row.
       Inr \<lparr>rc_tenant_id = string_value env tenant_id row, rc_workspace_id = string_value env workspace_id row,
         rc_run_key = string_value env run_key row,
         rc_existing_fingerprint = string_value env existing_fingerprint row,
         rc_conflicting_fingerprint = string_value env conflicting_fingerprint row,
         rc_conflicting_event_id = string_value env conflicting_event_id row,
         rc_detected_at = millis_to_datetime env (i64_value env detected_at row)\<rparr>)))))))))"

definition read_partition_status :: "('d, 'w, 'p) codec_env \<Rightarrow> 'd \<Rightarrow> flow_error + partition_status_row list" where
  "read_partition_status env bytes = read_rows env bytes (\<lambda>batch.
     ebind (col_string env batch ''tenant_id'') (\<lambda>tenant_id.
     ebind (col_string env batch ''workspace_id'') (\<lambda>workspace_id.
     ebind (col_string env batch ''asset_key'') (\<lambda>asset_key.
     ebind (col_string env batch ''partition_key'') (\<lambda>partition_key.
     let last_materialization_run_id = col_string_opt env batch ''last_materialization_run_id'' in
     let last_materialization_at = col_i64_opt env batch ''last_materialization_at'' in
     let last_materialization_code_version = col_string_opt env batch ''last_materialization_code_version'' in
     let last_attempt_run_id = col_string_opt env batch ''last_attempt_run_id'' in
     let last_attempt_at = col_i64_opt env batch ''last_attempt_at'' in
     let last_attempt_outcome = col_string_opt env batch ''last_attempt_outcome'' in
     let stale_since = col_i64_opt env batch ''stale_since'' in
     let stale_reason_code = col_string_opt env batch ''stale_reason_code'' in
     let partition_values = col_string_opt env batch ''partition_values'' in
     let delta_table = col_string_opt env batch ''delta_table'' in
     let delta_version = col_i64_opt env batch ''delta_version'' in
     let delta_partition = col_string_opt env batch ''delta_partition'' in
     let execution_lineage_ref = col_string_opt env batch ''execution_lineage_ref'' in
     ebind (col_string env batch ''row_version'') (\<lambda>row_version.
     Inr (\<lambda>row.
       ebind (decode_or_empty (json_decode (ce_labels_from_json env) ''failed to parse partition values: '') partition_values row)
         (\<lambda>partition_values.
       ebind (decode_opt_string str_to_task_outcome last_attempt_outcome row) (\<lambda>last_attempt_outcome.
       Inr \<lparr>pt_tenant_id = string_value env tenant_id row, pt_workspace_id = string_value env workspace_id row,
         pt_asset_key = string_value env asset_key row, pt_partition_key = string_value env partition_key row,
         pt_last_materialization_run_id = opt_string last_materialization_run_id row,
         pt_last_materialization_at = opt_datetime env last_materialization_at row,
         pt_last_materialization_code_version = opt_string last_materialization_code_version row,
         pt_last_attempt_run_id = opt_string last_attempt_run_id row,
         pt_last_attempt_at = opt_datetime env last_attempt_at row,
         pt_last_attempt_outcome = last_attempt_outcome, pt_stale_since = opt_datetime env stale_since row,
         pt_stale_reason_code = opt_string stale_reason_code row, pt_partition_values = partition_values,
         pt_delta_table = opt_string delta_table row, pt_delta_version = opt_i64 delta_version row,
         pt_delta_partition = opt_string delta_partition row,
         pt_execution_lineage_ref = opt_string execution_lineage_ref row,
         pt_row_version = string_value env row_version row\<rparr>)))))))))"

definition read_idempotency_keys :: "('d, 'w, 'p) codec_env \<Rightarrow> 'd \<Rightarrow> flow_error + idempotency_key_row list" where
  "read_idempotency_keys env bytes = read_rows env bytes (\<lambda>batch.
     ebind (col_string env batch ''tenant_id'') (\<lambda>tenant_id.
     ebind (col_string env batch ''workspace_id'') (\<lambda>workspace_id.
     ebind (col_string env batch ''idempotency_key'') (\<lambda>idempotency_key.
     ebind (col_string env batch ''event_id'') (\<lambda>event_id.
     let event_type = col_string_opt env batch ''event_type'' in
     ebind (col_i64 env batch ''recorded_at'') (\<lambda>recorded_at.
     ebind (col_string env batch ''row_version'') (\<lambda>row_version.
     Inr (\<lambda>row.
       Inr \<lparr>ik_tenant_id = string_value env tenant_id row, ik_workspace_id = string_value env workspace_id row,
         ik_idempotency_key = string_value env idempotency_key row, ik_event_id = string_value env event_id row,
         ik_event_type = (case opt_string event_type row of Some s \<Rightarrow> s | None \<Rightarrow> infer_legacy_idempotency_event_type (string_value env idempotency_key row)),
         ik_recorded_at = millis_to_datetime env (i64_value env recorded_at row),
         ik_row_version = string_value env row_version row\<rparr>))))))))"

definition read_schedule_definitions :: "('d, 'w, 'p) codec_env \<Rightarrow> 'd \<Rightarrow> flow_error + schedule_definition_row list" where
  "read_schedule_definitions env bytes = read_rows env bytes (\<lambda>batch.
     ebind (col_string env batch ''tenant_id'') (\<lambda>tenant_id.
     ebind (col_string env batch ''workspace_id'') (\<lambda>workspace_id.
     ebind (col_string env batch ''schedule_id'') (\<lambda>schedule_id.
     ebind (col_string env batch ''cron_expression'') (\<lambda>cron_expression.
     ebind (col_string env batch ''timezone'') (\<lambda>timezone.
     ebind (col_u32 env batch ''catchup_window_minutes'') (\<lambda>catchup_window_minutes.
     let asset_selection = col_string_opt env batch ''asset_selection'' in
     let code_version = col_string_opt env batch ''code_version'' in
     ebind (col_u32 env batch ''max_catchup_ticks'') (\<lambda>max_catchup_ticks.
     ebind (col_bool env batch ''enabled'') (\<lambda>enabled.
     ebind (col_i64 env batch ''created_at'') (\<lambda>created_at.
     ebind (col_string env batch ''row_version'') (\<lambda>row_version.
     Inr (\<lambda>row.
       ebind (decode_or_empty (json_decode (ce_strings_from_json env) ''failed to parse asset selection: '') asset_selection row)
         (\<lambda>asset_selection.
       Inr \<lparr>sd_tenant_id = string_value env tenant_id row, sd_workspace_id = string_value env workspace_id row,
         sd_schedule_id = string_value env schedule_id row,
         sd_cron_expression = string_value env cron_expression row, sd_timezone = string_value env timezone row,
         sd_catchup_window_minutes = u32_value env catchup_window_minutes row,
         sd_asset_selection = asset_selection, sd_code_version = opt_string code_version row,
         sd_max_catchup_ticks = u32_value env max_catchup_ticks row, sd_enabled = bool_value env enabled row,
         sd_created_at = millis_to_datetime env (i64_value env created_at row),
         sd_row_version = string_value env row_version row\<rparr>)))))))))))))"

definition read_schedule_state :: "('d, 'w, 'p) codec_env \<Rightarrow> 'd \<Rightarrow> flow_error + schedule_state_row list" where
  "read_schedule_state env bytes = read_rows env bytes (\<lambda>batch.
     ebind (col_string env batch ''tenant_id'') (\<lambda>tenant_id.
     ebind (col_string env batch ''workspace_id'') (\<lambda>workspace_id.
     ebind (col_string env batch ''schedule_id'') (\<lambda>schedule_id.
     let last_scheduled_for = col_i64_opt env batch ''last_scheduled_for'' in
     let last_tick_id = col_string_opt env batch ''last_tick_id'' in
     let last_run_key = col_string_opt env batch ''last_run_key'' in
     ebind (col_string env batch ''row_version'') (\<lambda>row_version.
     Inr (\<lambda>row.
       Inr \<lparr>ss_tenant_id = string_value env tenant_id row, ss_workspace_id = string_value env workspace_id row,
         ss_schedule_id = string_value env schedule_id row,
         ss_last_scheduled_for = opt_datetime env last_scheduled_for row,
         ss_last_tick_id = opt_string last_tick_id row, ss_last_run_key = opt_string last_run_key row,
         ss_row_version = string_value env row_version row\<rparr>))))))"

definition read_schedule_ticks :: "('d, 'w, 'p) codec_env \<Rightarrow> 'd \<Rightarrow> flow_error + schedule_tick_row list" where
  "read_schedule_ticks env bytes = read_rows env bytes (\<lambda>batch.
     ebind (col_string env batch ''tenant_id'') (\<lambda>tenant_id.
     ebind (col_string env batch ''workspace_id'') (\<lambda>workspace_id.
     ebind (col_string env batch ''tick_id'') (\<lambda>tick_id.
     ebind (col_string env batch ''schedule_id'') (\<lambda>schedule_id.
     ebind (col_i64 env batch ''scheduled_for'') (\<lambda>scheduled_for.
     ebind (col_string env batch ''definition_version'') (\<lambda>definition_version.
     let asset_selection = col_string_opt env batch ''asset_selection'' in
     let partition_selection = col_string_opt env batch ''partition_selection'' in
     ebind (col_string env batch ''status'') (\<lambda>status.
     let run_key = col_string_opt env batch ''run_key'' in
     let run_id = col_string_opt env batch ''run_id'' in
     let request_fingerprint = col_string_opt env batch ''request_fingerprint'' in
     ebind (col_string env batch ''row_version'') (\<lambda>row_version.
     Inr (\<lambda>row.
       ebind (decode_present (json_decode (ce_tick_status_from_json env) ''failed to parse tick status: '') ''schedule tick missing status'' status row)
         (\<lambda>status.
       ebind (decode_or_empty (json_decode (ce_strings_from_json env) ''failed to parse tick asset selection: '') asset_selection row)
         (\<lambda>asset_selection.
       ebind (decode_opt_string (json_decode (ce_strings_from_json env) ''failed to parse partition selection: '') partition_selection row)
         (\<lambda>partition_selection.
       Inr \<lparr>st_tenant_id = string_value env tenant_id row, st_workspace_id = string_value env workspace_id row,
         st_tick_id = string_value env tick_id row, st_schedule_id = string_value env schedule_id row,
         st_scheduled_for = millis_to_datetime env (i64_value env scheduled_for row),
         st_definition_version = string_value env definition_version row, st_asset_selection = asset_selection,
         st_partition_selection = partition_selection, st_status = status, st_run_key = opt_string run_key row,
         st_run_id = opt_string run_id row, st_request_fingerprint = opt_string request_fingerprint row,
         st_row_version = string_value env row_version row\<rparr>)))))))))))))"

definition read_backfills :: "('d, 'w, 'p) codec_env \<Rightarrow> 'd \<Rightarrow> flow_error + backfill_row list" where
  "read_backfills env bytes = read_rows env bytes (\<lambda>batch.
     ebind (col_string env batch ''tenant_id'') (\<lambda>tenant_id.
     ebind (col_string env batch ''workspace_id'') (\<lambda>workspace_id.
     ebind (col_string env batch ''backfill_id'') (\<lambda>backfill_id.
     ebind (col_string env batch ''asset_selection'') (\<lambda>asset_selection.
     let code_version = col_string_opt env batch ''code_version'' in
     ebind (col_string env batch ''partition_selector'') (\<lambda>partition_selector.
     ebind (col_u32 env batch ''chunk_size'') (\<lambda>chunk_size.
     ebind (col_u32 env batch ''max_concurrent_runs'') (\<lambda>max_concurrent_runs.
     ebind (col_string env batch ''state'') (\<lambda>state.
     ebind (col_u32 env batch ''state_version'') (\<lambda>state_version.
     ebind (col_u32 env batch ''total_partitions'') (\<lambda>total_partitions.
     ebind (col_u32 env batch ''planned_chunks'') (\<lambda>planned_chunks.
     ebind (col_u32 env batch ''completed_chunks'') (\<lambda>completed_chunks.
     ebind (col_u32 env batch ''failed_chunks'') (\<lambda>failed_chunks.
     let parent_backfill_id = col_string_opt env batch ''parent_backfill_id'' in
     ebind (col_i64 env batch ''created_at'') (\<lambda>created_at.
     ebind (col_string env batch ''row_version'') (\<lambda>row_version.
     Inr (\<lambda>row.
       ebind (json_decode (ce_strings_from_json env) ''failed to parse backfill asset_selection: '' (string_value env asset_selection row))
         (\<lambda>asset_selection.
       ebind (json_decode (ce_selector_from_json env) ''failed to parse partition_selector: '' (string_value env partition_selector row))
         (\<lambda>partition_selector.
       ebind (str_to_backfill_state (string_value env state row)) (\<lambda>state.
       Inr \<lparr>bf_tenant_id = string_value env tenant_id row, bf_workspace_id = string_value env workspace_id row,
         bf_backfill_id = string_value env backfill_id row, bf_asset_selection = asset_selection,
         bf_code_version = opt_string code_version row, bf_partition_selector = partition_selector,
         bf_chunk_size = u32_value env chunk_size row,
         bf_max_concurrent_runs = u32_value env max_concurrent_runs row, bf_state = state,
         bf_state_version = u32_value env state_version row,
         bf_total_partitions = u32_value env total_partitions row,
         bf_planned_chunks = u32_value env planned_chunks row,
         bf_completed_chunks = u32_value env completed_chunks row,
         bf_failed_chunks = u32_value env failed_chunks row,
         bf_parent_backfill_id = opt_string parent_backfill_id row,
         bf_created_at = millis_to_datetime env (i64_value env created_at row),
         bf_row_version = string_value env row_version row\<rparr>))))))))))))))))))))"

definition read_backfill_chunks :: "('d, 'w, 'p) codec_env \<Rightarrow> 'd \<Rightarrow> flow_error + backfill_chunk_row list" where
  "read_backfill_chunks env bytes = read_rows env bytes (\<lambda>batch.
     ebind (col_string env batch ''tenant_id'') (\<lambda>tenant_id.
     ebind (col_string env batch ''workspace_id'') (\<lambda>workspace_id.
     ebind (col_string env batch ''chunk_id'') (\<lambda>chunk_id.
     ebind (col_string env batch ''backfill_id'') (\<lambda>backfill_id.
     ebind (col_u32 env batch ''chunk_index'') (\<lambda>chunk_index.
     ebind (col_string env batch ''partition_keys'') (\<lambda>partition_keys.
     ebind (col_string env batch ''run_key'') (\<lambda>run_key.
     let run_id = col_string_opt env batch ''run_id'' in
     ebind (col_string env batch ''state'') (\<lambda>state.
     ebind (col_string env batch ''row_version'') (\<lambda>row_version.
     Inr (\<lambda>row.
       ebind (json_decode (ce_strings_from_json env) ''failed to parse backfill chunk partition_keys: '' (string_value env partition_keys row))
         (\<lambda>partition_keys.
       ebind (str_to_chunk_state (string_value env state row)) (\<lambda>state.
       Inr \<lparr>bc_tenant_id = string_value env tenant_id row, bc_workspace_id = string_value env workspace_id row,
         bc_chunk_id = string_value env chunk_id row, bc_backfill_id = string_value env backfill_id row,
         bc_chunk_index = u32_value env chunk_index row, bc_partition_keys = partition_keys,
         bc_run_key = string_value env run_key row, bc_run_id = opt_string run_id row, bc_state = state,
         bc_row_version = string_value env row_version row\<rparr>)))))))))))))"

section \<open>The codec\<close>

text \<open>The functions of this file as the codec the state files are written with.\<close>

definition flow_parquet :: "('d, 'w, 'p) codec_env \<Rightarrow> 'd parquet_codec" where
  "flow_parquet env =
    \<lparr>pq_write_runs = write_runs env, pq_read_runs = read_runs env, pq_write_tasks = write_tasks env,
     pq_read_tasks = read_tasks env, pq_write_catalog_run_index = write_catalog_run_index env,
     pq_read_catalog_run_index = read_catalog_run_index env,
     pq_write_dep_satisfaction = write_dep_satisfaction env,
     pq_read_dep_satisfaction = read_dep_satisfaction env, pq_write_timers = write_timers env,
     pq_read_timers = read_timers env, pq_write_dispatch_outbox = write_dispatch_outbox env,
     pq_read_dispatch_outbox = read_dispatch_outbox env, pq_write_sensor_state = write_sensor_state env,
     pq_read_sensor_state = read_sensor_state env, pq_write_sensor_evals = write_sensor_evals env,
     pq_read_sensor_evals = read_sensor_evals env, pq_write_run_key_index = write_run_key_index env,
     pq_read_run_key_index = read_run_key_index env, pq_write_run_key_conflicts = write_run_key_conflicts env,
     pq_read_run_key_conflicts = read_run_key_conflicts env,
     pq_write_partition_status = write_partition_status env,
     pq_read_partition_status = read_partition_status env,
     pq_write_idempotency_keys = write_idempotency_keys env,
     pq_read_idempotency_keys = read_idempotency_keys env,
     pq_write_schedule_definitions = write_schedule_definitions env,
     pq_read_schedule_definitions = read_schedule_definitions env,
     pq_write_schedule_state = write_schedule_state env, pq_read_schedule_state = read_schedule_state env,
     pq_write_schedule_ticks = write_schedule_ticks env, pq_read_schedule_ticks = read_schedule_ticks env,
     pq_write_backfills = write_backfills env, pq_read_backfills = read_backfills env,
     pq_write_backfill_chunks = write_backfill_chunks env, pq_read_backfill_chunks = read_backfill_chunks env\<rparr>"

end
