(* ===== verification/Parquet_Roundtrip.thy ===== *)
theory Parquet_Roundtrip
  imports Parquet_Util
begin

text \<open>
  Writing the rows of a table and reading them back gives the rows with every instant rounded down to
  the millisecond, for each of the seventeen tables.
\<close>

section \<open>What the libraries promise\<close>

fun arr_type :: "arr \<Rightarrow> data_type" where
  "arr_type (Arr_String xs) = DT_Utf8"
| "arr_type (Arr_Bool xs) = DT_Boolean"
| "arr_type (Arr_U32 xs) = DT_UInt32"
| "arr_type (Arr_I64 xs) = DT_Int64"

fun arr_len :: "arr \<Rightarrow> nat" where
  "arr_len (Arr_String xs) = length xs"
| "arr_len (Arr_Bool xs) = length xs"
| "arr_len (Arr_U32 xs) = length xs"
| "arr_len (Arr_I64 xs) = length xs"

fun no_nulls :: "arr \<Rightarrow> bool" where
  "no_nulls (Arr_String xs) \<longleftrightarrow> None \<notin> set xs"
| "no_nulls (Arr_Bool xs) \<longleftrightarrow> None \<notin> set xs"
| "no_nulls (Arr_U32 xs) \<longleftrightarrow> None \<notin> set xs"
| "no_nulls (Arr_I64 xs) \<longleftrightarrow> None \<notin> set xs"

fun arr_take :: "nat \<Rightarrow> arr \<Rightarrow> arr" where
  "arr_take n (Arr_String xs) = Arr_String (take n xs)"
| "arr_take n (Arr_Bool xs) = Arr_Bool (take n xs)"
| "arr_take n (Arr_U32 xs) = Arr_U32 (take n xs)"
| "arr_take n (Arr_I64 xs) = Arr_I64 (take n xs)"

fun arr_drop :: "nat \<Rightarrow> arr \<Rightarrow> arr" where
  "arr_drop n (Arr_String xs) = Arr_String (drop n xs)"
| "arr_drop n (Arr_Bool xs) = Arr_Bool (drop n xs)"
| "arr_drop n (Arr_U32 xs) = Arr_U32 (drop n xs)"
| "arr_drop n (Arr_I64 xs) = Arr_I64 (drop n xs)"

text \<open>The columns have the types of the schema and the same length, and no nulls where none may be.\<close>

definition fits :: "nat \<Rightarrow> schema \<Rightarrow> arr list \<Rightarrow> bool" where
  "fits n = list_all2 (\<lambda>f a. arr_type a = field_type f \<and> arr_len a = n \<and> (field_nullable f \<or> no_nulls a))"

definition batch_of :: "schema \<Rightarrow> arr list \<Rightarrow> nat \<Rightarrow> record_batch" where
  "batch_of s cols n = \<lparr>rb_schema = s, rb_columns = cols, rb_num_rows = n\<rparr>"

text \<open>A batch cut into batches of the given numbers of rows.\<close>

fun slices :: "nat list \<Rightarrow> schema \<Rightarrow> arr list \<Rightarrow> record_batch list" where
  "slices [] s cols = []"
| "slices (n # ns) s cols = batch_of s (map (arr_take n) cols) n # slices ns s (map (arr_drop n) cols)"

text \<open>\<^verbatim>\<open>Schema::index_of\<close> finds the first field of that name, \<^verbatim>\<open>RecordBatch::try_new\<close> accepts columns that
  fit, and the reader returns what the writer was given, cut into batches.\<close>

definition arrow_law :: "('d, 'w, 'p) codec_env \<Rightarrow> bool" where
  "arrow_law env \<longleftrightarrow>
     (\<forall>s i. i < length s \<and> (\<forall>j<i. field_name (s ! j) \<noteq> field_name (s ! i)) \<longrightarrow>
        ce_index_of env s (field_name (s ! i)) = Inr i)
     \<and> (\<forall>s cols n. s \<noteq> [] \<and> fits n s cols \<longrightarrow> ce_try_new env s cols = Inr (batch_of s cols n))
     \<and> (\<forall>s props cols n. s \<noteq> [] \<and> fits n s cols \<longrightarrow>
          (\<exists>w w' d p ns. ce_writer_try_new env s props = Inr w \<and> ce_writer_write env w (batch_of s cols n) = Inr w'
             \<and> ce_writer_close env w' = Inr d \<and> ce_reader_try_new env d = Inr p
             \<and> sum_list ns = n \<and> ce_reader_build env p = Inr (map Inr (slices ns s cols))))"

text \<open>\<^verbatim>\<open>serde_json\<close> reads back what it wrote.\<close>

definition json_inverse :: "('a \<Rightarrow> string + string) \<Rightarrow> (string \<Rightarrow> string + 'a) \<Rightarrow> bool" where
  "json_inverse to_json from_json \<longleftrightarrow> (\<forall>a. \<exists>s. to_json a = Inr s \<and> from_json s = Inr a)"

definition json_law :: "('d, 'w, 'p) codec_env \<Rightarrow> bool" where
  "json_law env \<longleftrightarrow>
     json_inverse (ce_labels_to_json env) (ce_labels_from_json env)
     \<and> json_inverse (ce_strings_to_json env) (ce_strings_from_json env)
     \<and> json_inverse (ce_trigger_source_to_json env) (ce_trigger_source_from_json env)
     \<and> json_inverse (ce_run_requests_to_json env) (ce_run_requests_from_json env)
     \<and> json_inverse (ce_eval_status_to_json env) (ce_eval_status_from_json env)
     \<and> json_inverse (ce_tick_status_to_json env) (ce_tick_status_from_json env)
     \<and> json_inverse (ce_selector_to_json env) (ce_selector_from_json env)"

definition floor_ms :: "datetime \<Rightarrow> datetime" where
  "floor_ms t = t div 1000000 * 1000000"

definition chrono_law :: "('d, 'w, 'p) codec_env \<Rightarrow> bool" where
  "chrono_law env \<longleftrightarrow>
     (\<forall>t. millis env t = t div 1000000 \<and> ce_from_timestamp_millis env (t div 1000000) = Some (floor_ms t))"

definition codec_law :: "('d, 'w, 'p) codec_env \<Rightarrow> bool" where
  "codec_law env \<longleftrightarrow> arrow_law env \<and> json_law env \<and> chrono_law env"

section \<open>Columns\<close>

fun lookup :: "schema \<Rightarrow> arr list \<Rightarrow> string \<Rightarrow> arr option" where
  "lookup (f # fs) (c # cs) name = (if field_name f = name then Some c else lookup fs cs name)"
| "lookup _ _ name = None"

lemma lookup_index:
  "lookup s cols name = Some a \<Longrightarrow>
   \<exists>i<length s. field_name (s ! i) = name \<and> (\<forall>j<i. field_name (s ! j) \<noteq> name) \<and> cols ! i = a"
proof (induction s cols name rule: lookup.induct)
  case (1 f fs c cs name)
  show ?case
  proof (cases "field_name f = name")
    case True
    with 1 show ?thesis by (intro exI [of _ 0]) simp
  next
    case False
    with 1 obtain i where "i < length fs" "field_name (fs ! i) = name" "\<forall>j<i. field_name (fs ! j) \<noteq> name" "cs ! i = a"
      by auto
    with False show ?thesis by (intro exI [of _ "Suc i"]) (auto simp: less_Suc_eq_0_disj)
  qed
qed simp_all

lemma arrow_io:
  assumes "codec_law env" "s \<noteq> []" "fits n s cols"
  obtains w w' d p ns where "ce_try_new env s cols = Inr (batch_of s cols n)"
    "ce_writer_try_new env s props = Inr w" "ce_writer_write env w (batch_of s cols n) = Inr w'"
    "ce_writer_close env w' = Inr d" "ce_reader_try_new env d = Inr p" "sum_list ns = n"
    "ce_reader_build env p = Inr (map Inr (slices ns s cols))"
proof -
  note law = assms(1) [unfolded codec_law_def arrow_law_def, THEN conjunct1, THEN conjunct2]
  from law [THEN conjunct1, rule_format, OF conjI [OF assms(2,3)]]
    law [THEN conjunct2, rule_format, OF conjI [OF assms(2,3)], of props] that
  show thesis by blast
qed

lemma column_of_lookup:
  assumes "codec_law env" "lookup s cols name \<noteq> None"
  shows "column_of env (batch_of s cols n) name = Inr (the (lookup s cols name))"
proof -
  obtain a where a: "lookup s cols name = Some a" using assms(2) by blast
  from lookup_index [OF this] obtain i where i: "i < length s" "field_name (s ! i) = name"
    "\<forall>j<i. field_name (s ! j) \<noteq> name" "cols ! i = a" by blast
  then have "ce_index_of env s name = Inr i"
    using assms(1) by (auto simp: codec_law_def arrow_law_def)
  with i a show ?thesis by (simp add: column_of_def batch_of_def)
qed

lemmas column_simps =
  col_string_def col_string_opt_def col_bool_def col_bool_opt_def col_u32_def col_i64_def col_i64_opt_def
  column_of_lookup

lemmas array_simps =
  string_array_def string_opt_array_def bool_array_def u32_array_def u32_opt_array_def i64_array_def i64_opt_array_def

text \<open>A table whose columns are computed row by row comes back as the rows the reader makes of one batch.\<close>

lemma read_slices:
  assumes "\<And>n rs. map (arr_take n) (cols rs) = cols (take n rs)" "\<And>n rs. map (arr_drop n) (cols rs) = cols (drop n rs)"
    and "\<And>rs. \<exists>row. columns (batch_of s (cols rs) (length rs)) = Inr row \<and> (\<forall>i<length rs. row i = Inr (g (rs ! i)))"
    and "sum_list ns = length rows"
  shows "\<exists>outs. traverse (\<lambda>batch. ebind (columns batch) (\<lambda>row. traverse row [0..<rb_num_rows batch]))
      (slices ns s (cols rows)) = Inr outs \<and> concat outs = map g rows"
  using assms(4)
proof (induction ns arbitrary: rows)
  case (Cons n ns)
  then have n: "length (take n rows) = n" by simp
  obtain row where row: "columns (batch_of s (cols (take n rows)) n) = Inr row"
    "\<forall>i<n. row i = Inr (g (take n rows ! i))" using assms(3) [of "take n rows"] n by auto
  have "traverse row [0..<n] = Inr (map (\<lambda>i. g (take n rows ! i)) [0..<n])"
    using row(2) by (intro traverse_map) simp
  also have "map (\<lambda>i. g (take n rows ! i)) [0..<n] = map g (take n rows)"
    using n by (intro nth_equalityI) simp_all
  finally have now: "traverse row [0..<n] = Inr (map g (take n rows))" .
  from Cons.prems have "sum_list ns = length (drop n rows)" by simp
  from Cons.IH [OF this] obtain outs where
    "traverse (\<lambda>batch. ebind (columns batch) (\<lambda>row. traverse row [0..<rb_num_rows batch]))
      (slices ns s (cols (drop n rows))) = Inr outs" "concat outs = map g (drop n rows)" by blast
  moreover have "map g (take n rows) @ map g (drop n rows) = map g rows"
    by (simp flip: map_append)
  ultimately show ?case
    using row(1) now by (simp add: assms(1,2) batch_of_def)
qed simp

lemma read_written:
  assumes law: "codec_law env" and fit: "s \<noteq> []" "fits (length rows) s (cols rows)"
    and "\<And>n rs. map (arr_take n) (cols rs) = cols (take n rs)" "\<And>n rs. map (arr_drop n) (cols rs) = cols (drop n rs)"
    and "\<And>rs. \<exists>row. columns (batch_of s (cols rs) (length rs)) = Inr row \<and> (\<forall>i<length rs. row i = Inr (g (rs ! i)))"
  shows "\<exists>d. write_batch env s (cols rows) = Inr d \<and> read_rows env d columns = Inr (map g rows)"
proof -
  obtain w w' d p ns where new: "ce_try_new env s (cols rows) = Inr (batch_of s (cols rows) (length rows))"
    and io: "ce_writer_try_new env s writer_properties = Inr w"
    "ce_writer_write env w (batch_of s (cols rows) (length rows)) = Inr w'" "ce_writer_close env w' = Inr d"
    "ce_reader_try_new env d = Inr p" "sum_list ns = length rows"
    "ce_reader_build env p = Inr (map Inr (slices ns s (cols rows)))"
    using arrow_io [OF law fit] by blast
  obtain outs where outs: "traverse (\<lambda>batch. ebind (columns batch) (\<lambda>row. traverse row [0..<rb_num_rows batch]))
      (slices ns s (cols rows)) = Inr outs" "concat outs = map g rows"
    using read_slices [OF assms(4-6) io(5)] by blast
  have "traverse (or_parquet m) (map Inr bs) = Inr bs" for m and bs :: "record_batch list"
    by (induction bs) simp_all
  with io new outs show ?thesis
    by (intro exI [of _ d])
      (simp add: write_batch_def write_single_batch_def read_rows_def read_batches_def)
qed

section \<open>Cells\<close>

definition json_text :: "('a \<Rightarrow> string + string) \<Rightarrow> 'a \<Rightarrow> string" where
  "json_text to_json a = (case to_json a of Inr s \<Rightarrow> s | Inl e \<Rightarrow> e)"

lemma json_inverse_text: "json_inverse to_json from_json \<Longrightarrow> to_json a = Inr (json_text to_json a)"
  "json_inverse to_json from_json \<Longrightarrow> from_json (json_text to_json a) = Inr a"
  by (auto simp: json_inverse_def json_text_def split: sum.splits) (metis sum.distinct(1) sum.inject(2))+

lemma json_text_law:
  assumes "codec_law env"
  shows "ce_labels_to_json env l = Inr (json_text (ce_labels_to_json env) l)"
    "ce_labels_from_json env (json_text (ce_labels_to_json env) l) = Inr l"
    "ce_strings_to_json env x = Inr (json_text (ce_strings_to_json env) x)"
    "ce_strings_from_json env (json_text (ce_strings_to_json env) x) = Inr x"
    "ce_trigger_source_to_json env ts = Inr (json_text (ce_trigger_source_to_json env) ts)"
    "ce_trigger_source_from_json env (json_text (ce_trigger_source_to_json env) ts) = Inr ts"
    "ce_run_requests_to_json env rr = Inr (json_text (ce_run_requests_to_json env) rr)"
    "ce_run_requests_from_json env (json_text (ce_run_requests_to_json env) rr) = Inr rr"
    "ce_eval_status_to_json env es = Inr (json_text (ce_eval_status_to_json env) es)"
    "ce_eval_status_from_json env (json_text (ce_eval_status_to_json env) es) = Inr es"
    "ce_tick_status_to_json env st = Inr (json_text (ce_tick_status_to_json env) st)"
    "ce_tick_status_from_json env (json_text (ce_tick_status_to_json env) st) = Inr st"
    "ce_selector_to_json env ps = Inr (json_text (ce_selector_to_json env) ps)"
    "ce_selector_from_json env (json_text (ce_selector_to_json env) ps) = Inr ps"
  using assms by (auto simp: codec_law_def json_law_def intro: json_inverse_text)

lemma json_columns:
  assumes "\<And>a. to_json a = Inr (json_text to_json a)"
  shows "json_column (encode_some to_json \<circ> f) msg rows = Inr (map (\<lambda>r. Some (json_text to_json (f r))) rows)"
    and "json_column (encode_opt to_json \<circ> g) msg rows = Inr (map (\<lambda>r. map_option (json_text to_json) (g r)) rows)"
  using assms
  by (simp_all add: json_column_def traverse_map [where g = "\<lambda>r. Some (json_text to_json (f r))"]
      traverse_map [where g = "\<lambda>r. map_option (json_text to_json) (g r)"] encode_some_def encode_opt_def
      split: option.split)

lemma json_list_column:
  assumes "\<And>a. to_json a = Inr (json_text to_json a)"
  shows "json_column (skip_empty to_json \<circ> h) msg rows =
    Inr (map (\<lambda>r. if h r = [] then None else Some (json_text to_json (h r))) rows)"
  using assms
  by (simp add: json_column_def encode_some_def skip_empty_def
      traverse_map [where g = "\<lambda>r. if h r = [] then None else Some (json_text to_json (h r))"])

lemma millis_back: "codec_law env \<Longrightarrow> millis_to_datetime env (millis env t) = floor_ms t"
  by (simp add: codec_law_def chrono_law_def millis_to_datetime_def)

lemma run_state_back [simp]: "str_to_run_state (run_state_to_str a) = Inr a"
  by (cases a) (simp_all add: str_to_run_state_def)

lemma task_state_back [simp]: "str_to_task_state (task_state_to_str b) = Inr b"
  by (cases b) (simp_all add: str_to_task_state_def)

lemma output_visibility_state_back [simp]: "str_to_output_visibility_state (output_visibility_state_to_str c) = Inr c"
  by (cases c) (simp_all add: str_to_output_visibility_state_def)

lemma task_outcome_back [simp]: "str_to_task_outcome (task_outcome_to_str d) = Inr d"
  by (cases d) (simp_all add: str_to_task_outcome_def)

lemma dep_resolution_back [simp]: "str_to_dep_resolution (dep_resolution_to_str e) = Inr e"
  by (cases e) (simp_all add: str_to_dep_resolution_def)

lemma timer_type_back [simp]: "str_to_timer_type (timer_type_to_str f) = Inr f"
  by (cases f) (simp_all add: str_to_timer_type_def)

lemma timer_state_back [simp]: "str_to_timer_state (timer_state_to_str g) = Inr g"
  by (cases g) (simp_all add: str_to_timer_state_def)

lemma dispatch_status_back [simp]: "str_to_dispatch_status (dispatch_status_to_str h) = Inr h"
  by (cases h) (simp_all add: str_to_dispatch_status_def)

lemma sensor_status_back [simp]: "str_to_sensor_status (sensor_status_to_str i) = Inr i"
  by (cases i) (simp_all add: str_to_sensor_status_def)

lemma backfill_state_back [simp]: "str_to_backfill_state (backfill_state_to_str j) = Inr j"
  by (cases j) (simp_all add: str_to_backfill_state_def)

lemma chunk_state_back [simp]: "str_to_chunk_state (chunk_state_to_str k) = Inr k"
  by (cases k) (simp_all add: str_to_chunk_state_def)


lemma None_notin_Some [simp]: "None \<notin> (\<lambda>a. Some (f a)) ` A"
  by auto

lemmas cell_simps =
  string_value_def bool_value_def u32_value_def i64_value_def string_or_none_def datetime_or_none_def opt_string_def
  opt_datetime_def opt_i64_def opt_bool_def decode_nullable_def decode_opt_string_def decode_or_empty_def
  decode_present_def json_decode_def millis_back json_text_law option.map_comp o_def

lemmas row_columns = json_list_column json_columns json_text_law ebind_simps array_simps

section \<open>Tables\<close>

definition rn_ms :: "run_row \<Rightarrow> run_row" where
  "rn_ms r = r\<lparr>rn_triggered_at := floor_ms (rn_triggered_at r), rn_completed_at := map_option floor_ms (rn_completed_at r)\<rparr>"

definition tk_ms :: "task_row \<Rightarrow> task_row" where
  "tk_ms r = r\<lparr>tk_started_at := map_option floor_ms (tk_started_at r),
     tk_completed_at := map_option floor_ms (tk_completed_at r),
     tk_last_heartbeat_at := map_option floor_ms (tk_last_heartbeat_at r),
     tk_ready_at := map_option floor_ms (tk_ready_at r),
     tk_published_at := map_option floor_ms (tk_published_at r),
     tk_retry_not_before := map_option floor_ms (tk_retry_not_before r)\<rparr>"

definition ci_ms :: "catalog_run_index_row \<Rightarrow> catalog_run_index_row" where
  "ci_ms r = r\<lparr>ci_published_at := map_option floor_ms (ci_published_at r),
     ci_started_at := map_option floor_ms (ci_started_at r),
     ci_last_heartbeat_at := map_option floor_ms (ci_last_heartbeat_at r),
     ci_triggered_at := floor_ms (ci_triggered_at r),
     ci_completed_at := map_option floor_ms (ci_completed_at r), ci_updated_at := floor_ms (ci_updated_at r)\<rparr>"

definition dp_ms :: "dep_satisfaction_row \<Rightarrow> dep_satisfaction_row" where
  "dp_ms r = r\<lparr>dp_satisfied_at := map_option floor_ms (dp_satisfied_at r)\<rparr>"

definition tmr_ms :: "timer_row \<Rightarrow> timer_row" where
  "tmr_ms r = r\<lparr>tmr_fire_at := floor_ms (tmr_fire_at r)\<rparr>"

definition do_ms :: "dispatch_outbox_row \<Rightarrow> dispatch_outbox_row" where
  "do_ms r = r\<lparr>do_created_at := floor_ms (do_created_at r)\<rparr>"

definition sn_ms :: "sensor_state_row \<Rightarrow> sensor_state_row" where
  "sn_ms r = r\<lparr>sn_last_evaluation_at := map_option floor_ms (sn_last_evaluation_at r)\<rparr>"

definition se_ms :: "sensor_eval_row \<Rightarrow> sensor_eval_row" where
  "se_ms r = r\<lparr>se_evaluated_at := floor_ms (se_evaluated_at r)\<rparr>"

definition ri_ms :: "run_key_index_row \<Rightarrow> run_key_index_row" where
  "ri_ms r = r\<lparr>ri_created_at := floor_ms (ri_created_at r)\<rparr>"

definition rc_ms :: "run_key_conflict_row \<Rightarrow> run_key_conflict_row" where
  "rc_ms r = r\<lparr>rc_detected_at := floor_ms (rc_detected_at r)\<rparr>"

definition pt_ms :: "partition_status_row \<Rightarrow> partition_status_row" where
  "pt_ms r = r\<lparr>pt_last_materialization_at := map_option floor_ms (pt_last_materialization_at r),
     pt_last_attempt_at := map_option floor_ms (pt_last_attempt_at r),
     pt_stale_since := map_option floor_ms (pt_stale_since r)\<rparr>"

definition ik_ms :: "idempotency_key_row \<Rightarrow> idempotency_key_row" where
  "ik_ms r = r\<lparr>ik_recorded_at := floor_ms (ik_recorded_at r)\<rparr>"

definition sd_ms :: "schedule_definition_row \<Rightarrow> schedule_definition_row" where
  "sd_ms r = r\<lparr>sd_created_at := floor_ms (sd_created_at r)\<rparr>"

definition ss_ms :: "schedule_state_row \<Rightarrow> schedule_state_row" where
  "ss_ms r = r\<lparr>ss_last_scheduled_for := map_option floor_ms (ss_last_scheduled_for r)\<rparr>"

definition st_ms :: "schedule_tick_row \<Rightarrow> schedule_tick_row" where
  "st_ms r = r\<lparr>st_scheduled_for := floor_ms (st_scheduled_for r)\<rparr>"

definition bf_ms :: "backfill_row \<Rightarrow> backfill_row" where
  "bf_ms r = r\<lparr>bf_created_at := floor_ms (bf_created_at r)\<rparr>"

definition bc_ms :: "backfill_chunk_row \<Rightarrow> backfill_chunk_row" where
  "bc_ms r = r"

lemma runs_roundtrip:
  "codec_law env \<Longrightarrow> \<forall>rows. \<exists>d. write_runs env rows = Inr d \<and> read_runs env d = Inr (map rn_ms rows)"
  unfolding write_runs_def read_runs_def
  by (rule allI, simp only: row_columns, rule read_written, assumption)
    (simp_all add: runs_schema_def fits_def take_map drop_map column_simps cell_simps rn_ms_def split: option.split)

lemma tasks_roundtrip:
  "codec_law env \<Longrightarrow> \<forall>rows. \<exists>d. write_tasks env rows = Inr d \<and> read_tasks env d = Inr (map tk_ms rows)"
  unfolding write_tasks_def read_tasks_def
  by (rule allI, simp only: row_columns, rule read_written, assumption)
    (simp_all add: tasks_schema_def fits_def take_map drop_map column_simps cell_simps tk_ms_def split: option.split)

lemma catalog_run_index_roundtrip:
  "codec_law env \<Longrightarrow> \<forall>rows. \<exists>d. write_catalog_run_index env rows = Inr d \<and> read_catalog_run_index env d = Inr (map ci_ms rows)"
  unfolding write_catalog_run_index_def read_catalog_run_index_def
  by (rule allI, simp only: row_columns, rule read_written, assumption)
    (simp_all add: catalog_run_index_schema_def fits_def take_map drop_map column_simps cell_simps ci_ms_def split: option.split)

lemma dep_satisfaction_roundtrip:
  "codec_law env \<Longrightarrow> \<forall>rows. \<exists>d. write_dep_satisfaction env rows = Inr d \<and> read_dep_satisfaction env d = Inr (map dp_ms rows)"
  unfolding write_dep_satisfaction_def read_dep_satisfaction_def
  by (rule allI, simp only: row_columns, rule read_written, assumption)
    (simp_all add: dep_satisfaction_schema_def fits_def take_map drop_map column_simps cell_simps dp_ms_def split: option.split)

lemma timers_roundtrip:
  "codec_law env \<Longrightarrow> \<forall>rows. \<exists>d. write_timers env rows = Inr d \<and> read_timers env d = Inr (map tmr_ms rows)"
  unfolding write_timers_def read_timers_def
  by (rule allI, simp only: row_columns, rule read_written, assumption)
    (simp_all add: timers_schema_def fits_def take_map drop_map column_simps cell_simps tmr_ms_def split: option.split)

lemma dispatch_outbox_roundtrip:
  "codec_law env \<Longrightarrow> \<forall>rows. \<exists>d. write_dispatch_outbox env rows = Inr d \<and> read_dispatch_outbox env d = Inr (map do_ms rows)"
  unfolding write_dispatch_outbox_def read_dispatch_outbox_def
  by (rule allI, simp only: row_columns, rule read_written, assumption)
    (simp_all add: dispatch_outbox_schema_def fits_def take_map drop_map column_simps cell_simps do_ms_def split: option.split)

lemma sensor_state_roundtrip:
  "codec_law env \<Longrightarrow> \<forall>rows. \<exists>d. write_sensor_state env rows = Inr d \<and> read_sensor_state env d = Inr (map sn_ms rows)"
  unfolding write_sensor_state_def read_sensor_state_def
  by (rule allI, simp only: row_columns, rule read_written, assumption)
    (simp_all add: sensor_state_schema_def fits_def take_map drop_map column_simps cell_simps sn_ms_def split: option.split)

lemma sensor_evals_roundtrip:
  "codec_law env \<Longrightarrow> \<forall>rows. \<exists>d. write_sensor_evals env rows = Inr d \<and> read_sensor_evals env d = Inr (map se_ms rows)"
  unfolding write_sensor_evals_def read_sensor_evals_def
  by (rule allI, simp only: row_columns, rule read_written, assumption)
    (simp_all add: sensor_evals_schema_def fits_def take_map drop_map column_simps cell_simps se_ms_def split: option.split)

lemma run_key_index_roundtrip:
  "codec_law env \<Longrightarrow> \<forall>rows. \<exists>d. write_run_key_index env rows = Inr d \<and> read_run_key_index env d = Inr (map ri_ms rows)"
  unfolding write_run_key_index_def read_run_key_index_def
  by (rule allI, simp only: row_columns, rule read_written, assumption)
    (simp_all add: run_key_index_schema_def fits_def take_map drop_map column_simps cell_simps ri_ms_def split: option.split)

lemma run_key_conflicts_roundtrip:
  "codec_law env \<Longrightarrow> \<forall>rows. \<exists>d. write_run_key_conflicts env rows = Inr d \<and> read_run_key_conflicts env d = Inr (map rc_ms rows)"
  unfolding write_run_key_conflicts_def read_run_key_conflicts_def
  by (rule allI, simp only: row_columns, rule read_written, assumption)
    (simp_all add: run_key_conflicts_schema_def fits_def take_map drop_map column_simps cell_simps rc_ms_def split: option.split)

lemma partition_status_roundtrip:
  "codec_law env \<Longrightarrow> \<forall>rows. \<exists>d. write_partition_status env rows = Inr d \<and> read_partition_status env d = Inr (map pt_ms rows)"
  unfolding write_partition_status_def read_partition_status_def
  by (rule allI, simp only: row_columns, rule read_written, assumption)
    (simp_all add: partition_status_schema_def fits_def take_map drop_map column_simps cell_simps pt_ms_def split: option.split)

lemma idempotency_keys_roundtrip:
  "codec_law env \<Longrightarrow> \<forall>rows. \<exists>d. write_idempotency_keys env rows = Inr d \<and> read_idempotency_keys env d = Inr (map ik_ms rows)"
  unfolding write_idempotency_keys_def read_idempotency_keys_def
  by (rule allI, simp only: row_columns, rule read_written, assumption)
    (simp_all add: idempotency_keys_schema_def fits_def take_map drop_map column_simps cell_simps ik_ms_def split: option.split)

lemma schedule_definitions_roundtrip:
  "codec_law env \<Longrightarrow> \<forall>rows. \<exists>d. write_schedule_definitions env rows = Inr d \<and> read_schedule_definitions env d = Inr (map sd_ms rows)"
  unfolding write_schedule_definitions_def read_schedule_definitions_def
  by (rule allI, simp only: row_columns, rule read_written, assumption)
    (simp_all add: schedule_definitions_schema_def fits_def take_map drop_map column_simps cell_simps sd_ms_def split: option.split)

lemma schedule_state_roundtrip:
  "codec_law env \<Longrightarrow> \<forall>rows. \<exists>d. write_schedule_state env rows = Inr d \<and> read_schedule_state env d = Inr (map ss_ms rows)"
  unfolding write_schedule_state_def read_schedule_state_def
  by (rule allI, simp only: row_columns, rule read_written, assumption)
    (simp_all add: schedule_state_schema_def fits_def take_map drop_map column_simps cell_simps ss_ms_def split: option.split)

lemma schedule_ticks_roundtrip:
  "codec_law env \<Longrightarrow> \<forall>rows. \<exists>d. write_schedule_ticks env rows = Inr d \<and> read_schedule_ticks env d = Inr (map st_ms rows)"
  unfolding write_schedule_ticks_def read_schedule_ticks_def
  by (rule allI, simp only: row_columns, rule read_written, assumption)
    (simp_all add: schedule_ticks_schema_def fits_def take_map drop_map column_simps cell_simps st_ms_def split: option.split)

lemma backfills_roundtrip:
  "codec_law env \<Longrightarrow> \<forall>rows. \<exists>d. write_backfills env rows = Inr d \<and> read_backfills env d = Inr (map bf_ms rows)"
  unfolding write_backfills_def read_backfills_def
  by (rule allI, simp only: row_columns, rule read_written, assumption)
    (simp_all add: backfills_schema_def fits_def take_map drop_map column_simps cell_simps bf_ms_def split: option.split)

lemma backfill_chunks_roundtrip:
  "codec_law env \<Longrightarrow> \<forall>rows. \<exists>d. write_backfill_chunks env rows = Inr d \<and> read_backfill_chunks env d = Inr (map bc_ms rows)"
  unfolding write_backfill_chunks_def read_backfill_chunks_def
  by (rule allI, simp only: row_columns, rule read_written, assumption)
    (simp_all add: backfill_chunks_schema_def fits_def take_map drop_map column_simps cell_simps bc_ms_def split: option.split)

end
