(* ===== verification/State_Roundtrip.thy ===== *)
theory State_Roundtrip
  imports Parquet_Roundtrip "HOL-Library.Multiset"
begin

text \<open>
  Storing a fold state and loading it back. The files written for a state, read through the table paths
  recorded for them, give the state with every instant rounded down to the millisecond: first for the
  contents of the files alone, then for the programs \<^verbatim>\<open>write_state_parquet\<close> and
  \<^verbatim>\<open>load_snapshot_state\<close> running on the in-memory backend.
\<close>

section \<open>The rounded state\<close>

definition state_ms :: "fold_state \<Rightarrow> fold_state" where
  "state_ms s = s\<lparr>
     fs_runs := map (apsnd rn_ms) (fs_runs s), fs_tasks := map (apsnd tk_ms) (fs_tasks s),
     fs_catalog_run_index := map (apsnd ci_ms) (fs_catalog_run_index s),
     fs_dep_satisfaction := map (apsnd dp_ms) (fs_dep_satisfaction s),
     fs_timers := map (apsnd tmr_ms) (fs_timers s), fs_dispatch_outbox := map (apsnd do_ms) (fs_dispatch_outbox s),
     fs_sensor_state := map (apsnd sn_ms) (fs_sensor_state s), fs_sensor_evals := map (apsnd se_ms) (fs_sensor_evals s),
     fs_run_key_index := map (apsnd ri_ms) (fs_run_key_index s),
     fs_run_key_conflicts := map (apsnd rc_ms) (fs_run_key_conflicts s),
     fs_partition_status := map (apsnd pt_ms) (fs_partition_status s),
     fs_idempotency_keys := map (apsnd ik_ms) (fs_idempotency_keys s),
     fs_schedule_definitions := map (apsnd sd_ms) (fs_schedule_definitions s),
     fs_schedule_state := map (apsnd ss_ms) (fs_schedule_state s),
     fs_schedule_ticks := map (apsnd st_ms) (fs_schedule_ticks s),
     fs_backfills := map (apsnd bf_ms) (fs_backfills s), fs_backfill_chunks := map (apsnd bc_ms) (fs_backfill_chunks s)\<rparr>"

section \<open>Reading files\<close>

text \<open>The readers applied to the contents of the files, without the requests.\<close>

fun read_files :: "(string \<Rightarrow> 'd option) \<Rightarrow> 'd read_job list \<Rightarrow> fold_state \<Rightarrow> fold_state option" where
  "read_files obj [] s = Some s"
| "read_files obj ((a, ins) # jobs) s =
     (case obj (artifact_path a) of
        None \<Rightarrow> None
      | Some data \<Rightarrow> (case ins data s of Inl e \<Rightarrow> None | Inr s' \<Rightarrow> read_files obj jobs s'))"

lemma read_files_append:
  "read_files obj (jobs @ jobs') s = Option.bind (read_files obj jobs s) (read_files obj jobs')"
  by (induction obj jobs s rule: read_files.induct) (auto split: option.split sum.split)

text \<open>The files of a list of jobs have been written.\<close>

definition written :: "(string \<Rightarrow> 'd option) \<Rightarrow> 'd table_job list \<Rightarrow> (table_name \<times> table_artifact) list \<Rightarrow> bool" where
  "written obj = list_all2 (\<lambda>(name, file, encoded) (name', a).
     name' = name \<and> (\<exists>d. encoded = Inr d \<and> obj (artifact_path a) = Some d))"

lemma written_map_of:
  "written obj jobs out \<Longrightarrow>
   (case map_of jobs name of
      None \<Rightarrow> map_of out name = None
    | Some (file, encoded) \<Rightarrow> \<exists>a d. map_of out name = Some a \<and> encoded = Inr d \<and> obj (artifact_path a) = Some d)"
  unfolding written_def by (induction rule: list_all2_induct) (auto split: option.splits)

lemma insert_rows_new:
  assumes "distinct (map key rows)" "\<And>r. r \<in> set rows \<Longrightarrow> key r \<notin> fst ` set m"
  shows "fold (\<lambda>row. hm_insert (key row) row) rows m = m @ map (\<lambda>r. (key r, r)) rows"
  using assms
proof (induction rows arbitrary: m)
  case (Cons r rows)
  then have "hm_get m (key r) = None" by (simp add: map_of_eq_None_iff)
  then have "hm_insert (key r) r m = m @ [(key r, r)]" by (rule hm_keys_insert_new)
  moreover have "fold (\<lambda>row. hm_insert (key row) row) rows (m @ [(key r, r)]) = (m @ [(key r, r)]) @ map (\<lambda>r. (key r, r)) rows"
    using Cons.prems by (intro Cons.IH) (auto, metis image_eqI)
  ultimately show ?case by simp
qed simp

lemma insert_rows_keyed:
  assumes "keyed key m" "\<And>r. key (g r) = key r"
  shows "fold (\<lambda>row. hm_insert (key row) row) (map g (hm_values m)) [] = map (apsnd g) m"
proof -
  have "map key (map g (hm_values m)) = hm_keys m"
    using assms by (auto simp: keyed_def list_all_iff)
  then have "distinct (map key (map g (hm_values m)))" using keyed_wf [OF assms(1)] by (simp only:)
  then have "fold (\<lambda>row. hm_insert (key row) row) (map g (hm_values m)) [] = map (\<lambda>r. (key r, r)) (map g (hm_values m))"
    by (subst insert_rows_new) simp_all
  also have "\<dots> = map (apsnd g) m" using assms by (auto simp: keyed_def list_all_iff)
  finally show ?thesis .
qed

text \<open>One table: written, or left out because it is empty.\<close>

definition table_stored ::
  "(string \<Rightarrow> 'd option) \<Rightarrow> ('v list \<Rightarrow> flow_error + 'd) \<Rightarrow> ('k, 'v) hashmap \<Rightarrow> table_artifact option \<Rightarrow> bool" where
  "table_stored obj encode m art =
     (case art of None \<Rightarrow> m = [] | Some a \<Rightarrow> \<exists>d. encode (hm_values m) = Inr d \<and> obj (artifact_path a) = Some d)"

lemma table_read_back:
  assumes "table_stored obj encode m art" "keyed key m" "\<And>r. key (g r) = key r"
    and "\<forall>rows. \<exists>d. encode rows = Inr d \<and> decode d = Inr (map g rows)"
    and "upd (fold (\<lambda>row. hm_insert (key row) row) (map g (hm_values m))) s = upd (\<lambda>_. map (apsnd g) m) s"
    and "upd (\<lambda>_. []) s = s"
  shows "read_files obj (table_read_job art (insert_rows decode key upd) @ jobs) s =
    read_files obj jobs (upd (\<lambda>_. map (apsnd g) m) s)"
proof (cases art)
  case None
  with assms(1,6) show ?thesis by (simp add: table_read_job_def table_stored_def)
next
  case (Some a)
  with assms(1) obtain d where d: "encode (hm_values m) = Inr d" "obj (artifact_path a) = Some d"
    by (auto simp: table_stored_def)
  with assms(4) have "decode d = Inr (map g (hm_values m))" by (metis sum.inject(2))
  with Some d assms(5) show ?thesis by (simp add: table_read_job_def insert_rows_def)
qed


text \<open>The catalog index: one file per organisation.\<close>

lemma catalog_read_back:
  assumes "list_all2 (\<lambda>rows (org, a). \<exists>d. encode rows = Inr d \<and> obj (artifact_path a) = Some d) parts arts"
    and "\<forall>rows. \<exists>d. encode rows = Inr d \<and> decode d = Inr (map g rows)"
    and "\<And>f f' s. upd f (upd f' s) = upd (f \<circ> f') s" "\<And>s. upd (\<lambda>m. m) s = s"
  shows "read_files obj (map (\<lambda>(org, a). (a, insert_rows decode key upd)) arts @ jobs) s =
    read_files obj jobs (upd (fold (\<lambda>row. hm_insert (key row) row) (map g (concat parts))) s)"
  using assms(1)
proof (induction arbitrary: s rule: list_all2_induct)
  case Nil
  then show ?case using assms(4) by (simp add: id_def)
next
  case (Cons rows parts x arts)
  obtain org a where x: "x = (org, a)" by fastforce
  with Cons(1) obtain d where d: "encode rows = Inr d" "obj (artifact_path a) = Some d" by auto
  with assms(2) have "decode d = Inr (map g rows)" by (metis sum.inject(2))
  with x d Cons.IH show ?case by (simp add: insert_rows_def assms(3) fold_append o_def)
qed

lemma orgs_perm: "mset (concat (map (org_rows rows) (orgs_of rows))) = mset rows"
proof -
  have "mset (concat (map (org_rows rows) orgs)) = filter_mset (\<lambda>r. ci_org_id r \<in> set orgs) (mset rows)"
    if "distinct orgs" for orgs
    using that
  proof (induction orgs)
    case (Cons org orgs)
    have "filter_mset (\<lambda>r. ci_org_id r \<in> set (org # orgs)) (mset rows) =
      filter_mset (\<lambda>r. ci_org_id r = org) (mset rows) + filter_mset (\<lambda>r. ci_org_id r \<in> set orgs) (mset rows)"
      using Cons.prems by (induction rows) auto
    with Cons show ?case by (simp add: org_rows_def)
  qed simp
  moreover have "distinct (orgs_of rows)" "set (orgs_of rows) = ci_org_id ` set rows"
    by (simp_all add: orgs_of_def)
  moreover have "filter (\<lambda>r. ci_org_id r \<in> ci_org_id ` set rows) rows = rows"
    by (simp add: filter_id_conv)
  ultimately show ?thesis by (metis mset_filter)
qed

lemma catalog_insert:
  assumes "keyed ci_primary_key m"
  shows "hm_get (fold (\<lambda>row. hm_insert (ci_primary_key row) row)
      (map ci_ms (concat (map (org_rows (hm_values m)) (orgs_of (hm_values m))))) []) = hm_get (map (apsnd ci_ms) m)"
proof -
  define rs where "rs = concat (map (org_rows (hm_values m)) (orgs_of (hm_values m)))"
  have perm: "mset rs = mset (hm_values m)" unfolding rs_def by (rule orgs_perm)
  have key: "ci_primary_key (ci_ms r) = ci_primary_key r" for r by (simp add: ci_primary_key_def ci_ms_def)
  have keys: "map ci_primary_key (hm_values m) = hm_keys m" using assms by (auto simp: keyed_def list_all_iff)
  let ?row = "\<lambda>r. (ci_primary_key r, ci_ms r)"
  have "distinct (map ci_primary_key rs)"
    using perm keyed_wf [OF assms] keys by (metis mset_eq_imp_distinct_iff mset_map)
  then have "fold (\<lambda>row. hm_insert (ci_primary_key row) row) (map ci_ms rs) [] = map ?row rs"
    by (subst insert_rows_new) (simp_all add: key o_def)
  moreover have "map_of (map ?row rs) = map_of (map ?row (hm_values m))"
  proof (subst map_of_inject_set)
    show "distinct (map fst (map ?row rs))" using \<open>distinct (map ci_primary_key rs)\<close> by (simp add: o_def)
    have "map fst (map ?row (hm_values m)) = hm_keys m" using keys by (simp add: o_def)
    then show "distinct (map fst (map ?row (hm_values m)))" using keyed_wf [OF assms] by (simp only:)
  qed (simp only: set_map mset_eq_setD [OF perm])
  moreover have "map ?row (hm_values m) = map (apsnd ci_ms) m"
    using assms by (auto simp: keyed_def list_all_iff)
  ultimately show ?thesis by (simp only: rs_def)
qed


section \<open>Reading back a state\<close>

definition org_jobs :: "'d table_job list \<Rightarrow> (string \<times> (flow_error + 'd)) list" where
  "org_jobs jobs =
     List.map_filter (\<lambda>(name, file, encoded). case name of T_CatalogRunIndex org_id \<Rightarrow> Some (org_id, encoded) | _ \<Rightarrow> None) jobs"

lemma written_orgs:
  "written obj jobs out \<Longrightarrow>
   list_all2 (\<lambda>(org, encoded) (org', a). \<exists>d. encoded = Inr d \<and> obj (artifact_path a) = Some d) (org_jobs jobs) (org_artifacts out)"
  unfolding written_def org_jobs_def org_artifacts_def
  by (induction rule: list_all2_induct) (auto simp: List.map_filter_simps split: table_name.split)

fun is_catalog :: "table_name \<Rightarrow> bool" where
  "is_catalog (T_CatalogRunIndex org) = True"
| "is_catalog _ = False"

lemma map_of_map_table_job:
  "map_of (map_table_job ie name file rows encode) name' =
     (if name = name' \<and> (rows \<noteq> [] \<or> ie) then Some (file, encode (hm_values rows)) else None)"
  by (simp add: map_table_job_def)

lemma map_of_catalog_jobs:
  "\<not> is_catalog name \<Longrightarrow> map_of (catalog_run_index_jobs env sc ie rows) name = None"
  by (auto simp: catalog_run_index_jobs_def Let_def map_of_eq_None_iff)

lemma org_jobs_append: "org_jobs (a @ b) = org_jobs a @ org_jobs b"
  by (simp add: org_jobs_def List.map_filter_def)

lemma org_jobs_table: "\<not> is_catalog name \<Longrightarrow> org_jobs (map_table_job ie name file rows encode) = []"
  by (cases name) (simp_all add: org_jobs_def map_table_job_def List.map_filter_simps)

lemma org_jobs_catalog:
  "org_jobs (catalog_run_index_jobs env sc ie rows) =
     (if rows = [] then if ie then [(sco_tenant_id sc, pq_write_catalog_run_index (sv_parquet env) [])] else []
      else map (\<lambda>org. (org, pq_write_catalog_run_index (sv_parquet env) (org_rows (hm_values rows) org))) (orgs_of (hm_values rows)))"
  by (simp add: org_jobs_def catalog_run_index_jobs_def List.map_filter_simps List.map_filter_def Let_def o_def)

lemma org_jobs_state:
  "org_jobs (state_jobs env sc ie s) = org_jobs (catalog_run_index_jobs env sc ie (fs_catalog_run_index s))"
  by (simp add: state_jobs_def Let_def org_jobs_append org_jobs_table)

lemma written_table:
  assumes "written obj jobs out"
    and "\<exists>file. map_of jobs name = (if rows \<noteq> [] \<or> ie then Some (file, encode (hm_values rows)) else None)"
  shows "table_stored obj encode rows (map_of out name)"
  using written_map_of [OF assms(1), of name] assms(2)
  by (auto simp: table_stored_def split: if_splits option.splits)


lemma ms_key [simp]:
  "rn_run_id (rn_ms a) = rn_run_id a" "tk_run_id (tk_ms b) = tk_run_id b" "tk_task_key (tk_ms b) = tk_task_key b"
  "dp_run_id (dp_ms c) = dp_run_id c" "dp_upstream_task_key (dp_ms c) = dp_upstream_task_key c"
  "dp_downstream_task_key (dp_ms c) = dp_downstream_task_key c" "tmr_timer_id (tmr_ms d) = tmr_timer_id d"
  "do_dispatch_id (do_ms e) = do_dispatch_id e" "sn_sensor_id (sn_ms f) = sn_sensor_id f" "se_eval_id (se_ms g) = se_eval_id g"
  "ri_run_key (ri_ms h) = ri_run_key h" "conflict_key (rc_ms i) = conflict_key i" "pt_asset_key (pt_ms j) = pt_asset_key j"
  "pt_partition_key (pt_ms j) = pt_partition_key j" "ik_idempotency_key (ik_ms k) = ik_idempotency_key k"
  "sd_schedule_id (sd_ms l) = sd_schedule_id l" "ss_schedule_id (ss_ms m) = ss_schedule_id m" "st_tick_id (st_ms n) = st_tick_id n"
  "bf_backfill_id (bf_ms o') = bf_backfill_id o'" "bc_chunk_id (bc_ms p) = bc_chunk_id p"
  by (simp_all add: rn_ms_def tk_ms_def dp_ms_def tmr_ms_def do_ms_def sn_ms_def se_ms_def ri_ms_def rc_ms_def pt_ms_def
      ik_ms_def sd_ms_def ss_ms_def st_ms_def bf_ms_def bc_ms_def conflict_key_def)

lemmas table_lookups = map_add_def map_of_map_table_job map_of_catalog_jobs

lemma written_catalog:
  assumes "written obj (state_jobs env sc ie s) out"
  shows "\<exists>parts. concat parts = concat (map (org_rows (hm_values (fs_catalog_run_index s))) (orgs_of (hm_values (fs_catalog_run_index s))))
    \<and> list_all2 (\<lambda>rows (org, a). \<exists>d. pq_write_catalog_run_index (sv_parquet env) rows = Inr d \<and> obj (artifact_path a) = Some d)
        parts (org_artifacts out)"
proof (cases "fs_catalog_run_index s = []")
  case True
  then show ?thesis using written_orgs [OF assms]
    by (intro exI [of _ "if ie then [[]] else []"])
      (auto simp: org_jobs_state org_jobs_catalog list_all2_Cons1 orgs_of_def)
next
  case False
  then show ?thesis using written_orgs [OF assms]
    by (intro exI [of _ "map (org_rows (hm_values (fs_catalog_run_index s))) (orgs_of (hm_values (fs_catalog_run_index s)))"])
      (simp add: org_jobs_state org_jobs_catalog list_all2_map1 case_prod_beta')
qed


lemma table_read_last:
  assumes "table_stored obj encode m art" "keyed key m" "\<And>r. key (g r) = key r"
    and "\<forall>rows. \<exists>d. encode rows = Inr d \<and> decode d = Inr (map g rows)"
    and "upd (fold (\<lambda>row. hm_insert (key row) row) (map g (hm_values m))) s = upd (\<lambda>_. map (apsnd g) m) s"
    and "upd (\<lambda>_. []) s = s"
  shows "read_files obj (table_read_job art (insert_rows decode key upd)) s = Some (upd (\<lambda>_. map (apsnd g) m) s)"
  using table_read_back [of obj encode m art key g decode upd s "[]", OF assms] by simp

lemma state_tables_stored:
  assumes "sv_parquet env = flow_parquet ce" and files: "written obj (state_jobs env sc ie s) out"
  shows "table_stored obj (write_runs ce) (fs_runs s) (map_of out T_Runs)"
    "table_stored obj (write_tasks ce) (fs_tasks s) (map_of out T_Tasks)"
    "table_stored obj (write_dep_satisfaction ce) (fs_dep_satisfaction s) (map_of out T_DepSatisfaction)"
    "table_stored obj (write_timers ce) (fs_timers s) (map_of out T_Timers)"
    "table_stored obj (write_dispatch_outbox ce) (fs_dispatch_outbox s) (map_of out T_DispatchOutbox)"
    "table_stored obj (write_sensor_state ce) (fs_sensor_state s) (map_of out T_SensorState)"
    "table_stored obj (write_sensor_evals ce) (fs_sensor_evals s) (map_of out T_SensorEvals)"
    "table_stored obj (write_run_key_index ce) (fs_run_key_index s) (map_of out T_RunKeyIndex)"
    "table_stored obj (write_run_key_conflicts ce) (fs_run_key_conflicts s) (map_of out T_RunKeyConflicts)"
    "table_stored obj (write_partition_status ce) (fs_partition_status s) (map_of out T_PartitionStatus)"
    "table_stored obj (write_idempotency_keys ce) (fs_idempotency_keys s) (map_of out T_IdempotencyKeys)"
    "table_stored obj (write_schedule_definitions ce) (fs_schedule_definitions s) (map_of out T_ScheduleDefinitions)"
    "table_stored obj (write_schedule_state ce) (fs_schedule_state s) (map_of out T_ScheduleState)"
    "table_stored obj (write_schedule_ticks ce) (fs_schedule_ticks s) (map_of out T_ScheduleTicks)"
    "table_stored obj (write_backfills ce) (fs_backfills s) (map_of out T_Backfills)"
    "table_stored obj (write_backfill_chunks ce) (fs_backfill_chunks s) (map_of out T_BackfillChunks)"
  by (rule written_table [OF files, where ie = ie]; simp add: state_jobs_def Let_def table_lookups assms(1) flow_parquet_def)+

lemma files_back:
  assumes law: "codec_law ce" and pq: "sv_parquet env = flow_parquet ce" and keys: "rows_keyed s"
    and files: "written obj (state_jobs env sc ie s) out"
  shows "\<exists>s'. read_files obj (snapshot_read_jobs (sv_parquet env) (paths_of out)) new_fold_state = Some s' \<and> same_tables s' (state_ms s)"
proof -
  note stored = state_tables_stored [OF pq files]
  note reads = table_read_back [OF stored(1) _ _ runs_roundtrip [OF law]]
    table_read_back [OF stored(2) _ _ tasks_roundtrip [OF law]]
    table_read_back [OF stored(3) _ _ dep_satisfaction_roundtrip [OF law]]
    table_read_back [OF stored(4) _ _ timers_roundtrip [OF law]]
    table_read_back [OF stored(5) _ _ dispatch_outbox_roundtrip [OF law]]
    table_read_back [OF stored(6) _ _ sensor_state_roundtrip [OF law]]
    table_read_back [OF stored(7) _ _ sensor_evals_roundtrip [OF law]]
    table_read_back [OF stored(8) _ _ run_key_index_roundtrip [OF law]]
    table_read_back [OF stored(9) _ _ run_key_conflicts_roundtrip [OF law]]
    table_read_back [OF stored(10) _ _ partition_status_roundtrip [OF law]]
    table_read_back [OF stored(11) _ _ idempotency_keys_roundtrip [OF law]]
    table_read_back [OF stored(12) _ _ schedule_definitions_roundtrip [OF law]]
    table_read_back [OF stored(13) _ _ schedule_state_roundtrip [OF law]]
    table_read_back [OF stored(14) _ _ schedule_ticks_roundtrip [OF law]]
    table_read_back [OF stored(15) _ _ backfills_roundtrip [OF law]]
    table_read_back [OF stored(16) _ _ backfill_chunks_roundtrip [OF law]]
  note last = table_read_last [OF stored(14) _ _ schedule_ticks_roundtrip [OF law]]
  obtain parts where parts: "concat parts = concat (map (org_rows (hm_values (fs_catalog_run_index s))) (orgs_of (hm_values (fs_catalog_run_index s))))"
    "list_all2 (\<lambda>rows (org, a). \<exists>d. write_catalog_run_index ce rows = Inr d \<and> obj (artifact_path a) = Some d) parts (org_artifacts out)"
    using written_catalog [OF files] by (auto simp: pq flow_parquet_def)
  note catalog = catalog_read_back [OF parts(2) catalog_run_index_roundtrip [OF law]]
  have "keyed ci_primary_key (fs_catalog_run_index s)" using keys by (simp add: rows_keyed_def)
  note rows = catalog_insert [OF this] insert_rows_keyed [unfolded map_map]
  show ?thesis
    using keys
    by (simp add: snapshot_read_jobs_def schedule_read_jobs_def paths_of_def pq flow_parquet_def rows_keyed_def
        new_fold_state_def reads last catalog parts(1) same_tables_def state_ms_def rows)
qed

end
