(* ===== verification/Compactor_Service.thy ===== *)
theory Compactor_Service
  imports State_Files
begin

text \<open>
  The micro-compactor (\<^verbatim>\<open>compactor/service.rs\<close>) and the snapshot and pointer transaction it publishes
  with (\<^verbatim>\<open>arco-core/src/publish.rs\<close>), as storage programs: checking the fencing lock, reading the visible
  manifest, loading the state, folding a batch of ledger events, writing a delta or a new base, and
  publishing the next manifest by compare-and-swap on the pointer, with bounded retries.
\<close>

section \<open>Snapshot and pointer transaction\<close>

datatype snapshot_pointer_durability = SPD_Visible | SPD_Persisted

datatype snapshot_pointer_outcome = SPO_Visible string bool | SPO_PersistedNotVisible

definition publish_snapshot_pointer_transaction ::
  "scoped_storage \<Rightarrow> string \<Rightarrow> 'd \<Rightarrow> string \<Rightarrow> 'd \<Rightarrow> string option \<Rightarrow> (string \<times> 'd) option \<Rightarrow> snapshot_pointer_durability \<Rightarrow>
   ((core_error + unit \<Rightarrow> ('d, 'r) io) \<Rightarrow> ('d, 'r) io) \<Rightarrow>
   (core_error + snapshot_pointer_outcome \<Rightarrow> ('d, 'r) io) \<Rightarrow> ('d, 'r) io" where
  "publish_snapshot_pointer_transaction sc snapshot_path snapshot_payload pointer_path pointer_payload
     expected_pointer_version legacy_mirror durability before_pointer_publish k =
     put_raw sc snapshot_path snapshot_payload WP_DoesNotExist (\<lambda>r.
       case r of
         Inl e \<Rightarrow> k (Inl e)
       | Inr (WR_PreconditionFailed v) \<Rightarrow>
           k (Inl (CE_PreconditionFailed (''immutable manifest snapshot already exists: '' @ snapshot_path)))
       | Inr (WR_Success v) \<Rightarrow> before_pointer_publish (\<lambda>r.
           case r of
             Inl e \<Rightarrow> k (Inl e)
           | Inr _ \<Rightarrow>
               put_raw sc pointer_path pointer_payload
                 (case expected_pointer_version of None \<Rightarrow> WP_DoesNotExist | Some v \<Rightarrow> WP_MatchesVersion v) (\<lambda>r.
                 case r of
                   Inl e \<Rightarrow> k (Inl e)
                 | Inr (WR_Success version) \<Rightarrow>
                     (case legacy_mirror of
                        None \<Rightarrow> k (Inr (SPO_Visible version False))
                      | Some (legacy_path, legacy_payload) \<Rightarrow>
                          put_raw sc legacy_path legacy_payload WP_None (\<lambda>r.
                            k (Inr (SPO_Visible version (case r of Inl e \<Rightarrow> True | Inr w \<Rightarrow> False)))))
                 | Inr (WR_PreconditionFailed v) \<Rightarrow>
                     if durability = SPD_Persisted then k (Inr SPO_PersistedNotVisible)
                     else k (Inl (CE_PreconditionFailed ''manifest publish failed - concurrent write'')))))"

section \<open>The compactor\<close>

definition manifest_pointer_path :: string where
  "manifest_pointer_path = ''state/orchestration/manifest.pointer.json''"

definition manifest_snapshot_path :: "string \<Rightarrow> string" where
  "manifest_snapshot_path manifest_id = ''state/orchestration/manifests/'' @ manifest_id @ ''.json''"

definition compaction_lock_path :: string where
  "compaction_lock_path = ''locks/orchestration.compaction.lock.json''"

definition legacy_manifest_path :: string where
  "legacy_manifest_path = ''state/orchestration/manifest.json''"

definition l0_dir :: "string \<Rightarrow> string" where
  "l0_dir delta_id = ''state/orchestration/l0/'' @ delta_id"

definition base_snapshot_dir :: "string \<Rightarrow> string" where
  "base_snapshot_dir snapshot_id = ''state/orchestration/base/'' @ snapshot_id"

datatype durability_mode = DM_Visible | DM_Persisted

datatype compaction_visibility = CV_Visible | CV_PersistedNotVisible

datatype publish_manifest_error =
    PME_SnapshotConflict string
  | PME_ConcurrentWrite
  | PME_Other flow_error

record micro_compactor =
  mc_storage :: scoped_storage
  mc_tenant_secret :: "u8 list"
  mc_durability_mode :: durability_mode

record compaction_result =
  cr_events_processed :: u32
  cr_delta_id :: "string option"
  cr_manifest_id :: string
  cr_manifest_revision :: string
  cr_pointer_version :: string
  cr_visibility_status :: compaction_visibility
  cr_repair_pending :: bool

definition flow_error_of :: "publish_manifest_error \<Rightarrow> flow_error" where
  "flow_error_of e =
     (case e of
        PME_SnapshotConflict snapshot_path \<Rightarrow>
          FE_Storage (''immutable manifest snapshot already exists: '' @ snapshot_path)
      | PME_ConcurrentWrite \<Rightarrow> FE_Storage ''manifest publish failed - concurrent write''
      | PME_Other error \<Rightarrow> error)"

subsection \<open>Fencing\<close>

definition validate_fencing_lock ::
  "'d service_env \<Rightarrow> u64 option \<Rightarrow> string option \<Rightarrow> (flow_error + unit \<Rightarrow> ('d, 'r) io) \<Rightarrow> ('d, 'r) io" where
  "validate_fencing_lock env fencing_token lock_path k =
     (case (fencing_token, lock_path) of
        (Some token, Some path) \<Rightarrow>
          if path \<noteq> compaction_lock_path then k (Inl (FE_Core (CE_InvalidInput ''invalid lock_path'')))
          else Random (\<lambda>ulid. read_lock_info (sv_lock env) (lock_new ulid path) (\<lambda>r.
            case r of
              Inl e \<Rightarrow> k (Inl (FE_Core e))
            | Inr None \<Rightarrow> k (Inl (FE_FencingLockUnavailable path token))
            | Inr (Some lock_info) \<Rightarrow> is_expired lock_info (\<lambda>expired.
                if expired then k (Inl (FE_FencingLockUnavailable path token))
                else if li_sequence_number lock_info \<noteq> token
                then k (Inl (FE_StaleFencingToken (li_sequence_number lock_info) token))
                else k (Inr ()))))
      | _ \<Rightarrow> k (Inr ()))"

subsection \<open>Reading the manifest\<close>

record 'd visible_manifest =
  vm_manifest :: orchestration_manifest
  vm_pointer_version :: "string option"
  vm_pointer :: "manifest_pointer option"
  vm_pointer_bytes :: "'d option"

definition read_pointed_manifest ::
  "'d service_env \<Rightarrow> scoped_storage \<Rightarrow> string \<Rightarrow> (flow_error + 'd visible_manifest \<Rightarrow> ('d, 'r) io) \<Rightarrow> ('d, 'r) io" where
  "read_pointed_manifest env sc version k = get_raw sc manifest_pointer_path (\<lambda>r.
     case r of
       Inl e \<Rightarrow> k (Inl (FE_Core e))
     | Inr pointer_data \<Rightarrow>
         (case sv_pointer_from_json env pointer_data of
            Inl e \<Rightarrow> k (Inl (FE_Serialization (''failed to parse manifest pointer: '' @ e)))
          | Inr pointer \<Rightarrow> get_raw sc (mp_manifest_path pointer) (\<lambda>r.
              case r of
                Inl e \<Rightarrow> k (Inl (FE_Core e))
              | Inr manifest_data \<Rightarrow>
                  (case sv_manifest_from_json env manifest_data of
                     Inl e \<Rightarrow> k (Inl (FE_Serialization (''failed to parse manifest: '' @ e)))
                   | Inr manifest \<Rightarrow>
                       k (Inr \<lparr>vm_manifest = manifest\<lparr>om_manifest_id := mp_manifest_id pointer,
                              om_epoch := max (om_epoch manifest) (mp_epoch pointer)\<rparr>,
                            vm_pointer_version = Some version, vm_pointer = Some pointer,
                            vm_pointer_bytes = Some pointer_data\<rparr>)))))"

definition read_manifest_with_version ::
  "'d service_env \<Rightarrow> scoped_storage \<Rightarrow> (flow_error + 'd visible_manifest \<Rightarrow> ('d, 'r) io) \<Rightarrow> ('d, 'r) io" where
  "read_manifest_with_version env sc k = head_raw sc manifest_pointer_path (\<lambda>r.
     case r of
       Inl e \<Rightarrow> k (Inl (FE_Core e))
     | Inr (Some meta) \<Rightarrow> read_pointed_manifest env sc (om_version meta) k
     | Inr None \<Rightarrow> head_raw sc legacy_manifest_path (\<lambda>r.
         case r of
           Inl e \<Rightarrow> k (Inl (FE_Core e))
         | Inr (Some meta) \<Rightarrow> get_raw sc legacy_manifest_path (\<lambda>r.
             case r of
               Inl e \<Rightarrow> k (Inl (FE_Core e))
             | Inr manifest_data \<Rightarrow>
                 (case sv_manifest_from_json env manifest_data of
                    Inl e \<Rightarrow> k (Inl (FE_Serialization (''failed to parse legacy manifest: '' @ e)))
                  | Inr manifest \<Rightarrow>
                      k (Inr \<lparr>vm_manifest = manifest, vm_pointer_version = None, vm_pointer = None,
                           vm_pointer_bytes = None\<rparr>)))
         | Inr None \<Rightarrow> Random (\<lambda>ulid. Now (\<lambda>now.
             k (Inr \<lparr>vm_manifest = manifest_new now ulid, vm_pointer_version = None, vm_pointer = None,
                  vm_pointer_bytes = None\<rparr>)))))"

subsection \<open>Publishing\<close>

definition durability_of :: "durability_mode \<Rightarrow> snapshot_pointer_durability" where
  "durability_of m = (case m of DM_Visible \<Rightarrow> SPD_Visible | DM_Persisted \<Rightarrow> SPD_Persisted)"

definition publish_error_of :: "string \<Rightarrow> core_error \<Rightarrow> publish_manifest_error" where
  "publish_error_of snapshot_path e =
     (case e of
        CE_PreconditionFailed message \<Rightarrow>
          if message = ''immutable manifest snapshot already exists: '' @ snapshot_path
          then PME_SnapshotConflict snapshot_path
          else if message = ''manifest publish failed - concurrent write'' then PME_ConcurrentWrite
          else PME_Other (FE_Core e)
      | _ \<Rightarrow> PME_Other (FE_Core e))"

text \<open>The succession checks, made when there is a previous pointer.\<close>

definition check_succession ::
  "orchestration_manifest \<Rightarrow> orchestration_manifest option \<Rightarrow> manifest_pointer \<Rightarrow> manifest_pointer option \<Rightarrow> string option \<Rightarrow> flow_error + unit" where
  "check_succession manifest previous_manifest pointer previous_pointer parent_pointer_hash =
     (case (previous_manifest, previous_pointer, parent_pointer_hash) of
        (Some previous_manifest, Some previous_pointer, Some previous_pointer_hash) \<Rightarrow>
          (case manifest_validate_succession manifest previous_manifest of
             Inl message \<Rightarrow> Inl (FE_Core (CE_Validation message))
           | Inr _ \<Rightarrow>
               (case pointer_validate_succession pointer previous_pointer previous_pointer_hash of
                  Inl message \<Rightarrow> Inl (FE_Core (CE_Validation message))
                | Inr _ \<Rightarrow> Inr ()))
      | _ \<Rightarrow> Inr ())"

definition publish_pointer ::
  "'d service_env \<Rightarrow> micro_compactor \<Rightarrow> orchestration_manifest \<Rightarrow> 'd \<Rightarrow> orchestration_manifest option \<Rightarrow> string option \<Rightarrow>
   manifest_pointer option \<Rightarrow> string option \<Rightarrow> u64 option \<Rightarrow> string option \<Rightarrow> datetime \<Rightarrow>
   (publish_manifest_error + snapshot_pointer_outcome \<Rightarrow> ('d, 'r) io) \<Rightarrow> ('d, 'r) io" where
  "publish_pointer env mc manifest manifest_json previous_manifest current_pointer_version previous_pointer
     parent_pointer_hash fencing_token lock_path now k =
     (let snapshot_path = manifest_snapshot_path (om_manifest_id manifest);
          pointer = \<lparr>mp_manifest_id = om_manifest_id manifest, mp_manifest_path = snapshot_path,
            mp_epoch = om_epoch manifest, mp_parent_pointer_hash = parent_pointer_hash, mp_updated_at = now\<rparr>
      in case sv_pointer_to_json env pointer of
           Inl e \<Rightarrow> k (Inl (PME_Other (FE_Serialization (''failed to serialize manifest pointer: '' @ e))))
         | Inr pointer_json \<Rightarrow> validate_fencing_lock env fencing_token lock_path (\<lambda>r.
             case r of
               Inl e \<Rightarrow> k (Inl (PME_Other e))
             | Inr _ \<Rightarrow>
                 (case check_succession manifest previous_manifest pointer previous_pointer parent_pointer_hash of
                    Inl e \<Rightarrow> k (Inl (PME_Other e))
                  | Inr _ \<Rightarrow> publish_snapshot_pointer_transaction (mc_storage mc) snapshot_path manifest_json
                      manifest_pointer_path pointer_json current_pointer_version None
                      (durability_of (mc_durability_mode mc)) (\<lambda>k'. k' (Inr ())) (\<lambda>r.
                        case r of
                          Inr outcome \<Rightarrow> k (Inr outcome)
                        | Inl e \<Rightarrow> k (Inl (publish_error_of snapshot_path e))))))"

definition publish_manifest ::
  "'d service_env \<Rightarrow> micro_compactor \<Rightarrow> orchestration_manifest \<Rightarrow> orchestration_manifest option \<Rightarrow> string option \<Rightarrow>
   manifest_pointer option \<Rightarrow> 'd option \<Rightarrow> u64 option \<Rightarrow> string option \<Rightarrow>
   (publish_manifest_error + snapshot_pointer_outcome \<Rightarrow> ('d, 'r) io) \<Rightarrow> ('d, 'r) io" where
  "publish_manifest env mc manifest previous_manifest current_pointer_version previous_pointer
     previous_pointer_bytes fencing_token lock_path k =
     (case sv_manifest_to_json env manifest of
        Inl e \<Rightarrow> k (Inl (PME_Other (FE_Serialization (''failed to serialize manifest: '' @ e))))
      | Inr manifest_json \<Rightarrow>
          (case (previous_pointer, previous_pointer_bytes) of
             (Some _, None) \<Rightarrow> k (Inl (PME_Other (FE_Core (CE_Validation
               ''missing raw pointer bytes for pointer succession validation''))))
           | _ \<Rightarrow>
               let parent_pointer_hash = (case (previous_pointer, previous_pointer_bytes) of
                     (Some _, Some pointer_bytes) \<Rightarrow> Some (sha256_prefixed env pointer_bytes) | _ \<Rightarrow> None)
               in Now (\<lambda>now. publish_pointer env mc manifest manifest_json previous_manifest
                    current_pointer_version previous_pointer parent_pointer_hash fencing_token lock_path now k)))"

text \<open>\<^verbatim>\<open>COMPACTION_PUBLISH_RETRY_DELAYS_MS\<close>, and the errors that are retried.\<close>

definition publish_retry_delays_ms :: "nat list" where
  "publish_retry_delays_ms = [0, 5, 25]"

definition retry_delay :: "nat \<Rightarrow> nat option" where
  "retry_delay attempt =
     (if attempt < length publish_retry_delays_ms then Some (publish_retry_delays_ms ! attempt) else None)"

definition should_retry_publish_error :: "publish_manifest_error \<Rightarrow> nat \<Rightarrow> nat option" where
  "should_retry_publish_error e retry_attempt =
     (case e of PME_SnapshotConflict p \<Rightarrow> retry_delay retry_attempt | _ \<Rightarrow> None)"

definition should_retry_l0_write_conflict :: "flow_error \<Rightarrow> nat \<Rightarrow> nat option" where
  "should_retry_l0_write_conflict e retry_attempt =
     (case e of
        FE_Core (CE_PreconditionFailed message) \<Rightarrow>
          if starts_with message ''immutable parquet artifact already exists:'' then retry_delay retry_attempt else None
      | _ \<Rightarrow> None)"

subsection \<open>Compaction\<close>

definition validate_event_scope :: "'d service_env \<Rightarrow> scoped_storage \<Rightarrow> string \<Rightarrow> orchestration_event \<Rightarrow> flow_error + unit" where
  "validate_event_scope env sc path event =
     (if ev_tenant_id event = sco_tenant_id sc \<and> ev_workspace_id event = sco_workspace_id sc then Inr ()
      else Inl (FE_Core (CE_InvalidInput (''event scope mismatch at '' @ path @ '': expected tenant_id='' @
        sv_debug_str env (sco_tenant_id sc) @ '' workspace_id='' @ sv_debug_str env (sco_workspace_id sc) @
        '', got tenant_id='' @ sv_debug_str env (ev_tenant_id event) @ '' workspace_id='' @
        sv_debug_str env (ev_workspace_id event)))))"

fun read_events ::
  "'d service_env \<Rightarrow> scoped_storage \<Rightarrow> string list \<Rightarrow> (flow_error + (string \<times> orchestration_event) list \<Rightarrow> ('d, 'r) io) \<Rightarrow>
   ('d, 'r) io" where
  "read_events env sc [] k = k (Inr [])"
| "read_events env sc (path # paths) k = get_raw sc path (\<lambda>r.
     case r of
       Inl e \<Rightarrow> k (Inl (FE_Core e))
     | Inr data \<Rightarrow>
         (case sv_event_from_json env data of
            Inl e \<Rightarrow> k (Inl (FE_Serialization (''failed to parse event at '' @ path @ '': '' @ e)))
          | Inr event \<Rightarrow>
              (case validate_event_scope env sc path event of
                 Inl e \<Rightarrow> k (Inl e)
               | Inr _ \<Rightarrow> read_events env sc paths (\<lambda>r.
                   case r of Inl e \<Rightarrow> k (Inl e) | Inr events \<Rightarrow> k (Inr ((path, event) # events))))))"

definition row_counts_of :: "fold_state \<Rightarrow> row_counts" where
  "row_counts_of s = \<lparr>rc_runs = u32_of_len (length (fs_runs s)), rc_tasks = u32_of_len (length (fs_tasks s)),
     rc_catalog_run_index = u32_of_len (length (fs_catalog_run_index s)),
     rc_dep_satisfaction = u32_of_len (length (fs_dep_satisfaction s)),
     rc_timers = u32_of_len (length (fs_timers s)),
     rc_dispatch_outbox = u32_of_len (length (fs_dispatch_outbox s)),
     rc_sensor_state = u32_of_len (length (fs_sensor_state s)),
     rc_sensor_evals = u32_of_len (length (fs_sensor_evals s)),
     rc_run_key_index = u32_of_len (length (fs_run_key_index s)),
     rc_run_key_conflicts = u32_of_len (length (fs_run_key_conflicts s)),
     rc_partition_status = u32_of_len (length (fs_partition_status s)),
     rc_idempotency_keys = u32_of_len (length (fs_idempotency_keys s)),
     rc_schedule_definitions = u32_of_len (length (fs_schedule_definitions s)),
     rc_schedule_state = u32_of_len (length (fs_schedule_state s)),
     rc_schedule_ticks = u32_of_len (length (fs_schedule_ticks s)),
     rc_backfills = u32_of_len (length (fs_backfills s)),
     rc_backfill_chunks = u32_of_len (length (fs_backfill_chunks s))\<rparr>"

definition update_watermarks ::
  "datetime \<Rightarrow> (string \<times> orchestration_event) list \<Rightarrow> string \<Rightarrow> durability_mode \<Rightarrow> orchestration_manifest \<Rightarrow>
   orchestration_manifest \<times> bool" where
  "update_watermarks now events last_event_id durability_mode manifest =
     (let w = om_watermarks manifest;
          should_advance_committed = (case wm_last_committed_event_id w of
            None \<Rightarrow> True | Some current \<Rightarrow> last_event_id > current)
      in if events = [] \<or> \<not> should_advance_committed then (manifest, False)
         else
           let next_visible = (if durability_mode = DM_Visible then Some last_event_id else wm_last_visible_event_id w)
           in (manifest\<lparr>om_watermarks := \<lparr>wm_last_committed_event_id = Some last_event_id,
                  wm_last_visible_event_id = next_visible, wm_events_processed_through = next_visible,
                  wm_last_processed_file = Some (fst (last events)), wm_last_processed_at = now\<rparr>\<rparr>, True))"

text \<open>One pass of the loop of \<^verbatim>\<open>compact_events_internal\<close>. Its result is the value returned, or that the
  loop continues after a delay.\<close>

datatype attempt_outcome = Finished "flow_error + compaction_result" | Retry_After nat

definition publish_failed :: "publish_manifest_error \<Rightarrow> nat \<Rightarrow> attempt_outcome" where
  "publish_failed e retry_attempt =
     (case should_retry_publish_error e retry_attempt of
        Some delay_ms \<Rightarrow> Retry_After delay_ms
      | None \<Rightarrow> Finished (Inl (flow_error_of e)))"

definition write_failed :: "flow_error \<Rightarrow> nat \<Rightarrow> attempt_outcome" where
  "write_failed e retry_attempt =
     (case should_retry_l0_write_conflict e retry_attempt of
        Some delay_ms \<Rightarrow> Retry_After delay_ms
      | None \<Rightarrow> Finished (Inl e))"

definition visibility_status :: "snapshot_pointer_outcome \<Rightarrow> compaction_visibility" where
  "visibility_status outcome =
     (case outcome of SPO_Visible v r \<Rightarrow> CV_Visible | SPO_PersistedNotVisible \<Rightarrow> CV_PersistedNotVisible)"

definition repair_pending :: "snapshot_pointer_outcome \<Rightarrow> bool" where
  "repair_pending outcome = (case outcome of SPO_Visible v r \<Rightarrow> r | SPO_PersistedNotVisible \<Rightarrow> False)"

definition visible_pointer_version :: "string option \<Rightarrow> snapshot_pointer_outcome \<Rightarrow> string" where
  "visible_pointer_version previous outcome =
     (case outcome of SPO_Visible v r \<Rightarrow> v
      | SPO_PersistedNotVisible \<Rightarrow> (case previous of Some v \<Rightarrow> v | None \<Rightarrow> ''''))"

text \<open>The result when nothing is published.\<close>

definition unpublished_result ::
  "'d visible_manifest \<Rightarrow> orchestration_manifest \<Rightarrow> u32 \<Rightarrow> string option \<Rightarrow> compaction_result" where
  "unpublished_result vm manifest events_processed delta_id =
     \<lparr>cr_events_processed = events_processed, cr_delta_id = delta_id, cr_manifest_id = om_manifest_id manifest,
      cr_manifest_revision = om_revision_ulid manifest,
      cr_pointer_version = (case vm_pointer_version vm of Some v \<Rightarrow> v | None \<Rightarrow> ''''),
      cr_visibility_status = CV_Visible, cr_repair_pending = False\<rparr>"

definition publish_and_finish ::
  "'d service_env \<Rightarrow> micro_compactor \<Rightarrow> nat \<Rightarrow> 'd visible_manifest \<Rightarrow> orchestration_manifest \<Rightarrow> string option \<Rightarrow>
   u64 option \<Rightarrow> string option \<Rightarrow> u32 \<Rightarrow> string option \<Rightarrow> (attempt_outcome \<Rightarrow> ('d, 'r) io) \<Rightarrow> ('d, 'r) io" where
  "publish_and_finish env mc retry_attempt vm manifest expected_version fencing_token lock_path events_processed
     delta_id k =
     publish_manifest env mc manifest (Some (vm_manifest vm)) expected_version (vm_pointer vm)
       (vm_pointer_bytes vm) fencing_token lock_path (\<lambda>r.
       case r of
         Inl e \<Rightarrow> k (publish_failed e retry_attempt)
       | Inr outcome \<Rightarrow> k (Finished (Inr ((unpublished_result vm manifest events_processed delta_id)
           \<lparr>cr_pointer_version := visible_pointer_version (vm_pointer_version vm) outcome,
            cr_visibility_status := visibility_status outcome, cr_repair_pending := repair_pending outcome\<rparr>))))"

text \<open>The successor manifest: next id, parent path, epoch no smaller than the pointer's and the token.\<close>

definition successor_manifest ::
  "manifest_pointer option \<Rightarrow> u64 option \<Rightarrow> string \<Rightarrow> string \<Rightarrow> datetime \<Rightarrow> orchestration_manifest \<Rightarrow> orchestration_manifest" where
  "successor_manifest previous_pointer fencing_token manifest_id new_revision now manifest =
     (let e1 = max (om_epoch manifest) (case previous_pointer of Some p \<Rightarrow> mp_epoch p | None \<Rightarrow> 0);
          e2 = (case fencing_token of Some t \<Rightarrow> max e1 t | None \<Rightarrow> e1)
      in manifest\<lparr>om_manifest_id := manifest_id,
           om_previous_manifest_path := map_option mp_manifest_path previous_pointer,
           om_epoch := e2, om_revision_ulid := new_revision, om_published_at := now\<rparr>)"

definition advance_manifest ::
  "'d service_env \<Rightarrow> micro_compactor \<Rightarrow> nat \<Rightarrow> 'd visible_manifest \<Rightarrow> (string \<times> orchestration_event) list \<Rightarrow>
   u64 option \<Rightarrow> string option \<Rightarrow> orchestration_manifest \<Rightarrow> bool \<Rightarrow> string option \<Rightarrow>
   (attempt_outcome \<Rightarrow> ('d, 'r) io) \<Rightarrow> ('d, 'r) io" where
  "advance_manifest env mc retry_attempt vm events fencing_token lock_path manifest storage_changed delta_id k =
     Now (\<lambda>now.
       let last_event = (if events = [] then '''' else ev_event_id (snd (last events)));
           (manifest, watermark_changed) = update_watermarks now events last_event (mc_durability_mode mc) manifest;
           events_processed = u32_of_len (length events)
       in if storage_changed \<or> watermark_changed then
            (case next_manifest_id (om_manifest_id manifest) of
               Inl e \<Rightarrow> k (Finished (Inl (FE_Serialization e)))
             | Inr manifest_id \<Rightarrow> Random (\<lambda>new_revision. Now (\<lambda>now.
                 publish_and_finish env mc retry_attempt vm
                   (successor_manifest (vm_pointer vm) fencing_token manifest_id new_revision now manifest)
                   (vm_pointer_version vm) fencing_token lock_path events_processed delta_id k)))
          else k (Finished (Inr (unpublished_result vm manifest events_processed delta_id))))"

definition add_delta :: "l0_delta \<Rightarrow> orchestration_manifest \<Rightarrow> orchestration_manifest" where
  "add_delta delta manifest =
     manifest\<lparr>om_l0_deltas := om_l0_deltas manifest @ [delta], om_l0_count := om_l0_count manifest + 1\<rparr>"

definition replace_base :: "base_snapshot \<Rightarrow> orchestration_manifest \<Rightarrow> orchestration_manifest" where
  "replace_base base manifest = manifest\<lparr>om_base_snapshot := base, om_l0_deltas := [], om_l0_count := 0\<rparr>"

definition event_range_of :: "(string \<times> orchestration_event) list \<Rightarrow> event_range" where
  "event_range_of events =
     \<lparr>er_from_event = (if events = [] then '''' else ev_event_id (snd (hd events))),
      er_to_event = (if events = [] then '''' else ev_event_id (snd (last events))),
      er_event_count = u32_of_len (length events)\<rparr>"

text \<open>Writing a new base, a delta, or nothing.\<close>

definition store_batch ::
  "'d service_env \<Rightarrow> micro_compactor \<Rightarrow> nat \<Rightarrow> 'd visible_manifest \<Rightarrow> (string \<times> orchestration_event) list \<Rightarrow>
   fold_state \<Rightarrow> fold_state \<Rightarrow> u64 option \<Rightarrow> string option \<Rightarrow> (attempt_outcome \<Rightarrow> ('d, 'r) io) \<Rightarrow> ('d, 'r) io" where
  "store_batch env mc retry_attempt vm events state delta_state fencing_token lock_path k =
     (let manifest = vm_manifest vm;
          sc = mc_storage mc;
          has_delta = (\<not> delta_state_is_empty delta_state)
      in Now (\<lambda>delta_created_at. Now (\<lambda>now.
        let delta = (\<lambda>delta_id tables. \<lparr>ld_delta_id = delta_id, ld_created_at = delta_created_at,
              ld_event_range = event_range_of events, ld_tables = tables,
              ld_row_counts = row_counts_of delta_state\<rparr>);
            projected = (if has_delta then add_delta (delta ''pending'' table_paths_default) manifest else manifest)
        in if should_compact_l0 now projected then
             Random (\<lambda>snapshot_id.
               write_state_parquet env sc (base_snapshot_dir snapshot_id) state True (\<lambda>r.
                 case r of
                   Inl e \<Rightarrow> k (write_failed e retry_attempt)
                 | Inr base_tables \<Rightarrow> Now (\<lambda>now.
                     advance_manifest env mc retry_attempt vm events fencing_token lock_path
                       (replace_base \<lparr>bs_snapshot_id = Some snapshot_id, bs_published_at = now,
                          bs_tables = base_tables\<rparr> manifest)
                       (om_l0_deltas manifest \<noteq> [] \<or> has_delta) None k)))
           else if has_delta then
             Random (\<lambda>new_delta_id.
               write_state_parquet env sc (l0_dir new_delta_id) delta_state False (\<lambda>r.
                 case r of
                   Inl e \<Rightarrow> k (write_failed e retry_attempt)
                 | Inr delta_paths \<Rightarrow>
                     advance_manifest env mc retry_attempt vm events fencing_token lock_path
                       (add_delta (delta new_delta_id delta_paths) manifest) True (Some new_delta_id) k))
           else advance_manifest env mc retry_attempt vm events fencing_token lock_path manifest False None k)))"

definition compact_attempt ::
  "'d service_env \<Rightarrow> micro_compactor \<Rightarrow> string list \<Rightarrow> u64 option \<Rightarrow> string option \<Rightarrow> nat \<Rightarrow>
   (attempt_outcome \<Rightarrow> ('d, 'r) io) \<Rightarrow> ('d, 'r) io" where
  "compact_attempt env mc event_paths fencing_token lock_path retry_attempt k =
     validate_fencing_lock env fencing_token lock_path (\<lambda>r.
       case r of
         Inl e \<Rightarrow> k (Finished (Inl e))
       | Inr _ \<Rightarrow> read_manifest_with_version env (mc_storage mc) (\<lambda>r.
           case r of
             Inl e \<Rightarrow> k (Finished (Inl e))
           | Inr vm \<Rightarrow>
               if event_paths = [] then
                 if vm_pointer_version vm = None then
                   publish_and_finish env mc retry_attempt vm (vm_manifest vm) None fencing_token lock_path 0 None k
                 else k (Finished (Inr (unpublished_result vm (vm_manifest vm) 0 None)))
               else load_state_files env (mc_storage mc) (vm_manifest vm) (\<lambda>r.
                 case r of
                   Inl e \<Rightarrow> k (Finished (Inl e))
                 | Inr loaded \<Rightarrow> read_events env (mc_storage mc) event_paths (\<lambda>r.
                     case r of
                       Inl e \<Rightarrow> k (Finished (Inl e))
                     | Inr events \<Rightarrow>
                         let base_state = loaded\<lparr>fs_tenant_secret := mc_tenant_secret mc\<rparr>;
                             (state, delta_state) = compact_batch (sv_lib env) (map snd events) base_state
                         in store_batch env mc retry_attempt vm (sort_key (\<lambda>(path, event). ev_event_id event) events)
                              state delta_state fencing_token lock_path k))))"

text \<open>The loop over \<^verbatim>\<open>0..=COMPACTION_PUBLISH_RETRY_DELAYS_MS.len()\<close>. Running off its end is the
  \<^verbatim>\<open>unreachable!\<close> panic, the result \<open>None\<close>.\<close>

fun compact_loop ::
  "'d service_env \<Rightarrow> micro_compactor \<Rightarrow> string list \<Rightarrow> u64 option \<Rightarrow> string option \<Rightarrow> nat list \<Rightarrow>
   ((flow_error + compaction_result) option \<Rightarrow> ('d, 'r) io) \<Rightarrow> ('d, 'r) io" where
  "compact_loop env mc event_paths fencing_token lock_path [] k = k None"
| "compact_loop env mc event_paths fencing_token lock_path (retry_attempt # attempts) k =
     compact_attempt env mc event_paths fencing_token lock_path retry_attempt (\<lambda>outcome.
       case outcome of
         Finished r \<Rightarrow> k (Some r)
       | Retry_After delay_ms \<Rightarrow> Sleep (millis delay_ms)
           (compact_loop env mc event_paths fencing_token lock_path attempts k))"

definition compact_events_internal ::
  "'d service_env \<Rightarrow> micro_compactor \<Rightarrow> string list \<Rightarrow> u64 option \<Rightarrow> string option \<Rightarrow>
   ((flow_error + compaction_result) option \<Rightarrow> ('d, 'r) io) \<Rightarrow> ('d, 'r) io" where
  "compact_events_internal env mc event_paths fencing_token lock_path k =
     compact_loop env mc event_paths fencing_token lock_path [0..<Suc (length publish_retry_delays_ms)] k"

definition compact_events ::
  "'d service_env \<Rightarrow> micro_compactor \<Rightarrow> string list \<Rightarrow>
   ((flow_error + compaction_result) option \<Rightarrow> ('d, 'r) io) \<Rightarrow> ('d, 'r) io" where
  "compact_events env mc event_paths k = compact_events_internal env mc event_paths None None k"

definition compact_events_fenced ::
  "'d service_env \<Rightarrow> micro_compactor \<Rightarrow> string list \<Rightarrow> u64 \<Rightarrow> string \<Rightarrow>
   ((flow_error + compaction_result) option \<Rightarrow> ('d, 'r) io) \<Rightarrow> ('d, 'r) io" where
  "compact_events_fenced env mc event_paths fencing_token lock_path k =
     compact_events_internal env mc event_paths (Some fencing_token) (Some lock_path) k"

definition rebuild_from_ledger_manifest ::
  "'d service_env \<Rightarrow> micro_compactor \<Rightarrow> string list \<Rightarrow>
   ((flow_error + compaction_result) option \<Rightarrow> ('d, 'r) io) \<Rightarrow> ('d, 'r) io" where
  "rebuild_from_ledger_manifest env mc event_paths k = read_manifest_with_version env (mc_storage mc) (\<lambda>r.
     case r of
       Inl e \<Rightarrow> k (Some (Inl e))
     | Inr vm \<Rightarrow>
         (case select_rebuild_event_paths event_paths (om_watermarks (vm_manifest vm)) of
            Inl message \<Rightarrow> k (Some (Inl (FE_Core (CE_InvalidInput message))))
          | Inr paths \<Rightarrow> compact_events env mc paths k))"

definition rebuild_from_ledger_manifest_fenced ::
  "'d service_env \<Rightarrow> micro_compactor \<Rightarrow> string list \<Rightarrow> u64 \<Rightarrow> string \<Rightarrow>
   ((flow_error + compaction_result) option \<Rightarrow> ('d, 'r) io) \<Rightarrow> ('d, 'r) io" where
  "rebuild_from_ledger_manifest_fenced env mc event_paths fencing_token lock_path k =
     read_manifest_with_version env (mc_storage mc) (\<lambda>r.
       case r of
         Inl e \<Rightarrow> k (Some (Inl e))
       | Inr vm \<Rightarrow>
           (case select_rebuild_event_paths event_paths (om_watermarks (vm_manifest vm)) of
              Inl message \<Rightarrow> k (Some (Inl (FE_Core (CE_InvalidInput message))))
            | Inr paths \<Rightarrow> compact_events_fenced env mc paths fencing_token lock_path k))"

definition load_state ::
  "'d service_env \<Rightarrow> micro_compactor \<Rightarrow> (flow_error + orchestration_manifest \<times> fold_state \<Rightarrow> ('d, 'r) io) \<Rightarrow> ('d, 'r) io" where
  "load_state env mc k = read_manifest_with_version env (mc_storage mc) (\<lambda>r.
     case r of
       Inl e \<Rightarrow> k (Inl e)
     | Inr vm \<Rightarrow> load_state_files env (mc_storage mc) (vm_manifest vm) (\<lambda>r.
         case r of
           Inl e \<Rightarrow> k (Inl e)
         | Inr s \<Rightarrow> k (Inr (vm_manifest vm, s\<lparr>fs_tenant_secret := mc_tenant_secret mc\<rparr>))))"

end
