(* ===== verification/Lock_Pool.thy ===== *)
theory Lock_Pool
  imports Dist_Lock
begin

text \<open>
  Any number of holders using the distributed lock against one store: fencing tokens increase with
  every acquisition, and a record is replaced by another holder only after it has expired. The pool
  runs acquisitions, releases and drops; \<open>extend\<close> and \<open>force_break\<close> are left out of it, because neither
  keeps these properties (\<open>extend_overwrites_new_holder\<close> shows it for \<open>extend\<close>).
\<close>

section \<open>The pool\<close>

datatype lock_outcome =
    LO_Acquired "core_error + lock_guard"
  | LO_Released "core_error + lock_guard"
  | LO_Dropped
  | LO_Extended "core_error + lock_guard"
  | LO_Locked "core_error + bool"

inductive lock_starts ::
  "'d lock_env \<Rightarrow> string set \<Rightarrow> ('d, lock_outcome) io list \<Rightarrow> ('d, lock_outcome) io \<Rightarrow> bool"
  for env paths ps where
  LS_Acquire: "dl_lock_path l \<in> paths \<Longrightarrow>
    lock_starts env paths ps (acquire_with_operation env l ttl max_retries operation (\<lambda>r. Return (LO_Acquired r)))"
| LS_Release: "Return (LO_Acquired (Inr g)) \<in> set ps \<Longrightarrow>
    lock_starts env paths ps (do_release env g (\<lambda>r. Return (LO_Released r)))"
| LS_Drop: "Return (LO_Acquired (Inr g)) \<in> set ps \<Longrightarrow>
    lock_starts env paths ps (drop_guard env g (Return LO_Dropped))"
| LS_IsLocked: "lock_starts env paths ps (is_locked env l (\<lambda>r. Return (LO_Locked r)))"

definition lock_only :: "'d lock_env \<Rightarrow> int \<Rightarrow> string set \<Rightarrow> 'd stored_write list \<Rightarrow> 'd stored_write \<Rightarrow> bool" where
  "lock_only env skew paths L w \<longleftrightarrow> (fst (snd w) \<in> paths \<longrightarrow> lock_good env skew L w)"

definition lock_post :: "'d lock_env \<Rightarrow> string set \<Rightarrow> lock_outcome \<Rightarrow> 'd stored_write list \<Rightarrow> bool" where
  "lock_post env paths r L =
     (case r of LO_Acquired (Inr g) \<Rightarrow> lg_lock_path g \<in> paths \<and> issued env L g | _ \<Rightarrow> True)"

lemma issued_Cons: "issued env L g \<Longrightarrow> issued env (w # L) g"
  unfolding issued_def by (erule exE, rule exI [of _ "w # A" for A]) simp

lemma issued_version: "issued env L g \<Longrightarrow> lg_version g \<in> log_versions L"
  by (auto simp: issued_def log_versions_append)

lemma next_sequence_less: "n \<noteq> - 1 \<Longrightarrow> n < next_sequence n"
proof -
  assume n: "n \<noteq> - 1"
  then have "1 + n \<noteq> 0" by (metis add_eq_0_iff)
  then have "unat (1 + n) = Suc (unat n)" by (rule unatSuc)
  with n show "n < next_sequence n" by (simp add: next_sequence_def word_less_nat_alt add.commute)
qed

lemma next_sequence_le: "n \<le> next_sequence n"
  using next_sequence_less [of n] by (cases "n = - 1") (auto simp: next_sequence_def)

lemma next_sequence_mono:
  assumes "m \<noteq> - 1" and "m \<le> n"
  shows "m < next_sequence n"
proof (cases "n = - 1")
  case True
  with assms show ?thesis by (simp add: next_sequence_def order.strict_iff_order)
next
  case False
  then show ?thesis using assms(2) next_sequence_less by (blast intro: order.strict_trans1)
qed

text \<open>What a history that keeps \<open>lock_only\<close> says of the sequence numbers: they never go down.\<close>

lemma sequence_rises:
  assumes "history (lock_only env skew paths) (A @ (t, p, Some (v, d)) # B)" and "p \<in> paths"
    and "le_from_slice env d = Inr i"
  shows "\<exists>v' d' i'. log_object (A @ (t, p, Some (v, d)) # B) p = Some (v', d') \<and> le_from_slice env d' = Inr i' \<and>
    li_sequence_number i \<le> li_sequence_number i'"
  using assms(1)
proof (induction A)
  case Nil
  then show ?case using assms(3) by auto
next
  case (Cons w A)
  then obtain v' d' i' where i': "log_object (A @ (t, p, Some (v, d)) # B) p = Some (v', d')"
    "le_from_slice env d' = Inr i'" "li_sequence_number i \<le> li_sequence_number i'" by auto
  have up: "li_sequence_number i \<le> next_sequence (li_sequence_number i')"
    using i'(3) next_sequence_le [of "li_sequence_number i'"] by (rule order_trans)
  obtain t' q x where w: "w = (t', q, x)" by (cases w) auto
  show ?case
  proof (cases "q = p")
    case True
    with Cons.prems assms(2) w have "lock_good env skew (A @ (t, p, Some (v, d)) # B) (t', p, x)"
      by (simp add: lock_only_def)
    then show ?thesis using i' up by (auto simp: lock_good_def w True)
  qed (use i' w in auto)
qed

section \<open>Fencing\<close>

text \<open>The law of \<^verbatim>\<open>serde_json\<close> the lock relies on.\<close>

definition json_lock :: "'d lock_env \<Rightarrow> bool" where
  "json_lock env \<longleftrightarrow> (\<forall>i d. le_to_vec env i = Inr d \<longrightarrow> le_from_slice env d = Inr i)"

locale lock_pool = object_store sb inv used
  for sb :: "('s, 'd) storage_backend" and inv and used +
  fixes env :: "'d lock_env" and skew :: int and paths :: "string set"
  assumes json: "json_lock env"

sublocale lock_pool \<subseteq> lock_protocol env skew paths "lock_only env skew paths" "lock_post env paths"
  by unfold_locales (use json in \<open>auto simp: json_lock_def lock_only_def\<close>)

sublocale lock_pool \<subseteq> protocol sb inv used skew "lock_only env skew paths" "lock_post env paths" "lock_starts env paths"
proof (unfold_locales, goal_cases)
  case (1 r L w)
  then show ?case by (auto simp: lock_post_def issued_Cons split: lock_outcome.splits sum.splits)
next
  case (2 ps q L T)
  from 2(1) show ?case
  proof cases
    case (LS_Acquire l ttl max_retries operation)
    then show ?thesis unfolding acquire_with_operation_def
      by (auto intro!: acquire_loop_wp simp: lock_post_def split: sum.splits)
  next
    case (LS_Release g)
    then have "lg_lock_path g \<in> paths" "issued env L g" using 2(3) [OF LS_Release(2)] by (auto simp: lock_post_def)
    with 2(2) LS_Release show ?thesis
      by (auto intro!: do_release_wp issued_version simp: lock_post_def)
  next
    case (LS_Drop g)
    then have "lg_lock_path g \<in> paths" "issued env L g" using 2(3) [OF LS_Drop(2)] by (auto simp: lock_post_def)
    with 2(2) LS_Drop show ?thesis
      by (auto intro!: drop_guard_wp issued_version simp: lock_post_def)
  next
    case (LS_IsLocked l)
    then show ?thesis unfolding is_locked_def is_expired_def
      by (auto intro!: read_lock_wp wp_nowI simp: lock_post_def split: sum.split option.split)
  qed
qed

text \<open>The order of two versions in a history.\<close>

fun precedes :: "'d stored_write list \<Rightarrow> string \<Rightarrow> string \<Rightarrow> bool" where
  "precedes [] v1 v2 = False"
| "precedes ((t, p, x) # L) v1 v2 = (if map_option fst x = Some v2 then v1 \<in> log_versions L else precedes L v1 v2)"

lemma precedes_split:
  assumes "history good (A @ (t, p, Some (v2, d)) # B)" and "precedes (A @ (t, p, Some (v2, d)) # B) v1 v2"
  shows "v1 \<in> log_versions B"
  using assms
proof (induction A)
  case (Cons w A)
  obtain t' q x where w: "w = (t', q, x)" by (cases w) auto
  have "map_option fst x \<noteq> Some v2" using Cons.prems by (auto simp: w log_versions_append)
  with Cons show ?case by (simp add: w)
qed simp

lemma version_entry:
  assumes "history good (A @ B)" and "(t, p, Some (v, d)) \<in> set (A @ B)" and "v \<in> log_versions B"
  shows "(t, p, Some (v, d)) \<in> set B"
  using assms by (induction A) (auto simp: log_versions_append)

lemma issued_entry:
  assumes "issued env L g"
  obtains t d i where "(t, lg_lock_path g, Some (lg_version g, d)) \<in> set L" "le_from_slice env d = Inr i"
    "li_sequence_number i = lg_fencing_token g"
proof -
  from assms obtain A t d i B where "L = A @ (t, lg_lock_path g, Some (lg_version g, d)) # B"
    "le_from_slice env d = Inr i" "li_sequence_number i = lg_fencing_token g" by (auto simp: issued_def)
  then show thesis by (intro that [of t d i]) auto
qed

lemma issued_tokens:
  assumes "history (lock_only env skew paths) L" and "issued env L g1" "issued env L g2"
    and "lg_lock_path g1 = lg_lock_path g2" "lg_lock_path g2 \<in> paths"
    and "precedes L (lg_version g1) (lg_version g2)" and "lg_fencing_token g1 \<noteq> - 1"
  shows "lg_fencing_token g1 < lg_fencing_token g2"
proof -
  let ?p = "lg_lock_path g2"
  obtain A t2 d2 i2 B where B: "L = A @ (t2, ?p, Some (lg_version g2, d2)) # B"
    "case log_object B ?p of None \<Rightarrow> lg_fencing_token g2 = 1
      | Some (v0, d0) \<Rightarrow> \<exists>i0. le_from_slice env d0 = Inr i0 \<and> lg_fencing_token g2 = next_sequence (li_sequence_number i0)"
    using assms(3) by (auto simp: issued_def)
  obtain t1 d1 i1 where e1: "(t1, ?p, Some (lg_version g1, d1)) \<in> set L" "le_from_slice env d1 = Inr i1"
    "li_sequence_number i1 = lg_fencing_token g1"
    using issued_entry [OF assms(2)] assms(4) by metis
  have h: "history (lock_only env skew paths) ((A @ [(t2, ?p, Some (lg_version g2, d2))]) @ B)"
    using assms(1) B(1) by simp
  have "lg_version g1 \<in> log_versions B" using precedes_split [of _ A t2 ?p _ d2 B] assms(1,6) B(1) by simp
  then have "(t1, ?p, Some (lg_version g1, d1)) \<in> set B" using version_entry [OF h, of t1 ?p "lg_version g1" d1] e1(1) B(1) by auto
  then obtain C D where C: "B = C @ (t1, ?p, Some (lg_version g1, d1)) # D" by (auto dest: split_list)
  obtain v' d' i' where i': "log_object B ?p = Some (v', d')" "le_from_slice env d' = Inr i'"
    "lg_fencing_token g1 \<le> li_sequence_number i'"
    using sequence_rises [of env skew paths C t1 ?p "lg_version g1" d1 D] history_append [OF h] C assms(5) e1(2,3) by auto
  with B(2) have "lg_fencing_token g2 = next_sequence (li_sequence_number i')" by simp
  with i'(3) assms(7) show ?thesis using next_sequence_mono by simp
qed

text \<open>Every guard the pool returns was issued by a write of the history, so tokens are ordered as the
  acquisitions were written.\<close>

context lock_pool
begin

lemma pool_sound:
  "inv s \<Longrightarrow> sb_object sb s = (\<lambda>p. None) \<Longrightarrow>
   (sys_step sb skew (lock_starts env paths))\<^sup>*\<^sup>* (fresh_system T s) y \<Longrightarrow> sound y"
  by (rule reached_sound)

lemma tokens_ordered:
  assumes "sound y" "Return (LO_Acquired (Inr g1)) \<in> set (sy_pool y)" "Return (LO_Acquired (Inr g2)) \<in> set (sy_pool y)"
    and "lg_lock_path g1 = lg_lock_path g2" "precedes (sy_log y) (lg_version g1) (lg_version g2)"
    and "lg_fencing_token g1 \<noteq> - 1"
  shows "lg_fencing_token g1 < lg_fencing_token g2"
  using issued_tokens [OF sound_history [OF assms(1)] _ _ assms(4)]
    sound_result [OF assms(1,2)] sound_result [OF assms(1,3)] assms(5,6) by (simp add: lock_post_def)

lemma replaced_expired:
  assumes "sound y" and "sy_log y = A @ (t, p, Some (v, d)) # B" and "p \<in> paths"
    and "log_object B p = Some (v0, d0)" "le_from_slice env d0 = Inr i0" "le_from_slice env d = Inr i"
    and "li_holder_id i \<noteq> li_holder_id i0"
  shows "li_expires_at i0 \<le> t + skew \<and> li_sequence_number i = next_sequence (li_sequence_number i0)"
proof -
  have "lock_only env skew paths B (t, p, Some (v, d))"
    using sound_history [OF assms(1)] history_split unfolding assms(2) by blast
  then show ?thesis using assms(3-7) by (auto simp: lock_only_def lock_good_def)
qed

end

lemma memory_lock_pool: "json_lock env \<Longrightarrow> lock_pool memory_ops memory_inv memory_used env"
  by (intro lock_pool.intro memory.object_store_axioms lock_pool_axioms.intro)

lemma memory_new_empty [simp]:
  "memory_inv memory_new" "sb_object memory_ops memory_new = (\<lambda>p. None)"
  by (auto simp: memory_inv_def memory_new_def fun_eq_iff)

section \<open>An instance\<close>

text \<open>Lock records that are their own serialisation.\<close>

definition plain_lock :: "lock_info list lock_env" where
  "plain_lock = \<lparr>le_to_vec = (\<lambda>i. Inr [i]),
     le_from_slice = (\<lambda>d. case d of [i] \<Rightarrow> Inr i | _ \<Rightarrow> Inl ''expected one record''),
     le_from_std = (\<lambda>n. if n \<le> (2 ^ 63 - 1) * 10 ^ 6 then Some (int n) else None)\<rparr>"

lemma plain_lock_simps:
  "le_to_vec plain_lock i = Inr [i]" "le_from_slice plain_lock [i] = Inr i"
  "le_from_std plain_lock n = (if n \<le> (2 ^ 63 - 1) * 10 ^ 6 then Some (int n) else None)"
  by (simp_all add: plain_lock_def)

lemma plain_lock_json: "json_lock plain_lock"
  by (auto simp: json_lock_def plain_lock_def)

interpretation plain: lock_pool memory_ops memory_inv memory_used plain_lock skew paths for skew paths
  by (rule memory_lock_pool [OF plain_lock_json])

text \<open>A first holder acquires and releases the lock, then a second one acquires it.\<close>

definition holder_A :: distributed_lock where
  "holder_A = lock_new ''A'' ''locks/x''"

definition holder_B :: distributed_lock where
  "holder_B = lock_new ''B'' ''locks/x''"

definition acquires :: "distributed_lock \<Rightarrow> (lock_info list, lock_outcome) io" where
  "acquires l = acquire_with_operation plain_lock l (seconds 30) 1 None (\<lambda>r. Return (LO_Acquired r))"

definition releases :: "lock_guard \<Rightarrow> (lock_info list, lock_outcome) io" where
  "releases g = do_release plain_lock g (\<lambda>r. Return (LO_Released r))"

definition two_holders :: "(lock_info list, lock_outcome) schedule_op list" where
  "two_holders =
     [Op_Start (acquires holder_A), Op_Request 0, Op_Request 0,
      Op_Start (releases (guard_of holder_A ''1'' 1)), Op_Request 1, Op_Request 1, Op_Request 1,
      Op_Start (acquires holder_B), Op_Request 2, Op_Request 2, Op_Request 2, Op_Request 2, Op_Request 2,
      Op_Request 2, Op_Request 2]"

definition after_two_holders :: "(lock_info memory_backend, lock_info list, lock_outcome) system" where
  "after_two_holders = schedule_run memory_ops two_holders (fresh_system 0 memory_new)"

lemma acquires_allowed: "dl_lock_path l \<in> paths \<Longrightarrow> lock_starts plain_lock paths ps (acquires l)"
  unfolding acquires_def by (rule LS_Acquire)

lemma releases_allowed: "Return (LO_Acquired (Inr g)) \<in> set ps \<Longrightarrow> lock_starts plain_lock paths ps (releases g)"
  unfolding releases_def by (rule LS_Release)

lemma io_next_acquires: "io_next sb T s (acquires l) =
    io_next sb T s (acquire_with_operation plain_lock l (seconds 30) 1 None (\<lambda>r. Return (LO_Acquired r)))"
  by (simp add: acquires_def)

lemma io_next_releases: "io_next sb T s (releases g) =
    io_next sb T s (do_release plain_lock g (\<lambda>r. Return (LO_Released r)))"
  by (simp add: releases_def)

lemma digit_char_eval:
  "digit_char 0 = CHR ''0''" "digit_char (Suc 0) = CHR ''1''" "digit_char 2 = CHR ''2''" "digit_char 3 = CHR ''3''"
  "digit_char 4 = CHR ''4''" "digit_char 5 = CHR ''5''"
  by (code_simp, code_simp, code_simp, code_simp, code_simp, code_simp)

lemmas program_eval = fresh_system_def io_next_acquires io_next_releases acquires_allowed releases_allowed
  acquire_with_operation_def acquire_loop.simps try_acquire_def take_over_def replace_lock_def lock_info_new_def
  is_expired_def read_lock_def do_release_def drop_guard_def expired_record_def guard_of_def lock_new_def
  ttl_duration_def seconds_def millis_def plain_lock_simps next_sequence_def holder_A_def holder_B_def
  memory_new_def memory_get_def memory_head_def meta_of_def memory_put_def memory_conflict_def
  show_int_def show_nat.simps digit_char_eval parse_i64_def digit_of_def BACKOFF_BASE_def

lemma after_two_holders_reached:
  "(sys_step memory_ops 0 (lock_starts plain_lock {''locks/x''}))\<^sup>*\<^sup>* (fresh_system 0 memory_new) after_two_holders"
  unfolding after_two_holders_def
  by (rule schedule_sys) (simp_all add: two_holders_def program_eval)

lemma after_two_holders_state:
  "sy_pool after_two_holders = [Return (LO_Acquired (Inr (guard_of holder_A ''1'' 1))),
     Return (LO_Released (Inr ((guard_of holder_A ''1'' 1)\<lparr>lg_released := True\<rparr>))),
     Return (LO_Acquired (Inr (guard_of holder_B ''3'' 2)))]"
  "precedes (sy_log after_two_holders) ''1'' ''3''"
  by (simp_all add: after_two_holders_def two_holders_def program_eval)

definition released_A :: lock_info where
  "released_A = \<lparr>li_holder_id = ''A'', li_expires_at = - 1000000000, li_acquired_at = 0,
     li_sequence_number = 1, li_operation = None\<rparr>"

definition held_B :: lock_info where
  "held_B = \<lparr>li_holder_id = ''B'', li_expires_at = 30000000000, li_acquired_at = 0,
     li_sequence_number = 2, li_operation = None\<rparr>"

lemma after_two_holders_log:
  "sy_log after_two_holders = [] @ (0, ''locks/x'', Some (''3'', [held_B])) # tl (sy_log after_two_holders)"
  "log_object (tl (sy_log after_two_holders)) ''locks/x'' = Some (''2'', [released_A])"
  by (simp_all add: after_two_holders_def two_holders_def held_B_def released_A_def program_eval)

section \<open>Extension races with takeover\<close>

text \<open>The pool when holders may also extend their guards.\<close>

definition extend_starts ::
  "'d lock_env \<Rightarrow> string set \<Rightarrow> ('d, lock_outcome) io list \<Rightarrow> ('d, lock_outcome) io \<Rightarrow> bool" where
  "extend_starts env paths ps q \<longleftrightarrow> lock_starts env paths ps q \<or>
     (\<exists>g ttl. Return (LO_Acquired (Inr g)) \<in> set ps \<and> q = extend env g ttl (\<lambda>r. Return (LO_Extended r)))"

definition extends :: "lock_guard \<Rightarrow> (lock_info list, lock_outcome) io" where
  "extends g = extend plain_lock g (seconds 30) (\<lambda>r. Return (LO_Extended r))"

text \<open>The first holder starts to extend at second 29 and reads its record; its lock expires and the
  second holder takes it over at second 31; then the first holder reads the new version and writes.\<close>

definition extend_race :: "(lock_info list, lock_outcome) schedule_op list" where
  "extend_race =
     [Op_Start (acquires holder_A), Op_Request 0, Op_Request 0,
      Op_Clock (int (seconds 29)), Op_Start (extends (guard_of holder_A ''1'' 1)), Op_Request 1, Op_Request 1,
      Op_Clock (int (seconds 31)), Op_Start (acquires holder_B), Op_Request 2, Op_Request 2, Op_Request 2,
      Op_Request 2, Op_Request 2, Op_Request 2, Op_Request 2,
      Op_Request 1, Op_Request 1]"

definition after_extend_race :: "(lock_info memory_backend, lock_info list, lock_outcome) system" where
  "after_extend_race = schedule_run memory_ops extend_race (fresh_system 0 memory_new)"

lemma extends_allowed:
  "Return (LO_Acquired (Inr g)) \<in> set ps \<Longrightarrow> extend_starts plain_lock paths ps (extends g)"
  "dl_lock_path l \<in> paths \<Longrightarrow> extend_starts plain_lock paths ps (acquires l)"
  unfolding extends_def extend_starts_def by (blast intro: acquires_allowed)+

lemma io_next_extends: "io_next sb T s (extends g) =
    io_next sb T s (extend plain_lock g (seconds 30) (\<lambda>r. Return (LO_Extended r)))"
  by (simp add: extends_def)

section \<open>Running alone\<close>

text \<open>One acquisition attempt against a store nobody else uses.\<close>

lemma memory_get_object:
  "sb_object memory_ops m p = Some (v, d) \<Longrightarrow>
   memory_get m p = Inr d \<and> (\<exists>meta. memory_head m p = Some meta \<and> om_version meta = v)"
  by (auto simp: memory_get_def memory_head_def meta_of_def)

lemma run_try_held:
  assumes "\<And>i. \<exists>d. le_to_vec env i = Inr d" and "sb_object memory_ops m (dl_lock_path l) = Some (v, d)"
    and "le_from_slice env d = Inr i" and "now < li_expires_at i"
  shows "io_run memory_ops (try_acquire env l ttl operation k) now m =
    io_run memory_ops (k (Inl (LE_AlreadyHeld (li_holder_id i)))) now m"
proof -
  obtain obj where obj: "hm_get (mb_objects m) (dl_lock_path l) = Some obj" using assms(2) by auto
  have put: "memory_put now (dl_lock_path l) b WP_DoesNotExist m = (m, WR_PreconditionFailed (show_int (so_version obj)))" for b
    using obj by (simp add: memory_put_def memory_conflict_def)
  obtain b where b: "le_to_vec env \<lparr>li_holder_id = dl_holder_id l, li_expires_at = now + ttl_duration env ttl,
      li_acquired_at = now, li_sequence_number = 1, li_operation = operation\<rparr> = Inr b" using assms(1) by blast
  show ?thesis using memory_get_object [OF assms(2)] assms(3,4)
    by (auto simp: try_acquire_def lock_info_new_def b put take_over_def read_lock_def is_expired_def)
qed

lemma run_acquire_held:
  assumes "\<And>i. \<exists>d. le_to_vec env i = Inr d" and "sb_object memory_ops m (dl_lock_path l) = Some (v, d)"
    and "le_from_slice env d = Inr i"
    and "now + int ((max_retries - attempts) * (BACKOFF_MAX + millis 50)) < li_expires_at i"
  shows "io_run memory_ops (acquire_loop env l ttl max_retries operation attempts backoff Return) now m =
    (m, Inl (CE_PreconditionFailed
      (''lock held by '' @ li_holder_id i @ '' after '' @ show_nat max_retries @ '' retries'')))"
  using assms(4)
proof (induction "max_retries - attempts" arbitrary: attempts backoff now rule: less_induct)
  case less
  let ?w = "BACKOFF_MAX + millis 50"
  have now: "now < li_expires_at i" using less.prems by (simp add: order.strict_trans1 [rotated])
  show ?case
  proof (cases "attempts + 1 \<ge> max_retries")
    case True
    then show ?thesis
      by (simp add: acquire_loop.simps [of env l ttl max_retries] run_try_held [OF assms(1-3) now])
  next
    case False
    let ?d = "min backoff BACKOFF_MAX + millis (rand_jitter now)"
    have "rand_jitter now \<le> 50" by (simp add: rand_jitter_def less_imp_le)
    then have "?d \<le> ?w" by (intro add_mono) (auto simp: millis_def)
    moreover have "max_retries - attempts = Suc (max_retries - (attempts + 1))" using False by simp
    then have "(max_retries - attempts) * ?w = (max_retries - (attempts + 1)) * ?w + ?w" by simp
    ultimately have "?d + (max_retries - (attempts + 1)) * ?w \<le> (max_retries - attempts) * ?w" by simp
    then have "(now + int ?d) + int ((max_retries - (attempts + 1)) * ?w) < li_expires_at i"
      using less.prems by linarith
    with less.hyps [of "attempts + 1" "now + int ?d"] False show ?thesis
      by (simp add: acquire_loop.simps [of env l ttl max_retries operation attempts] run_try_held [OF assms(1-3) now])
  qed
qed

text \<open>A conditional write against the current version succeeds, as long as the version counter is in
  the range of \<^verbatim>\<open>i64\<close>.\<close>

lemma memory_put_current:
  assumes "memory_inv m" "mb_next_version m < 2 ^ 63" "sb_object memory_ops m p = Some (v, d0)"
  shows "memory_put now p d (WP_MatchesVersion v) m = memory_put now p d WP_None m"
proof -
  obtain obj where obj: "hm_get (mb_objects m) p = Some obj" "v = show_int (so_version obj)" using assms(3) by auto
  then have "0 \<le> so_version obj" "so_version obj \<le> mb_next_version m" using assms(1) by (auto simp: memory_inv_def)
  then have "- (2 ^ 63) \<le> so_version obj" "so_version obj < 2 ^ 63" using assms(2) by linarith+
  then have "parse_i64 v = Some (so_version obj)" using obj(2) parse_i64_show [of "so_version obj"] by simp
  with obj(1) show ?thesis by (simp add: memory_put_def memory_conflict_def)
qed

text \<open>The store after an unconditional write.\<close>

lemma memory_put_any:
  assumes "memory_inv m"
  obtains m' v where "memory_put now p d WP_None m = (m', WR_Success v)" "memory_inv m'"
    "sb_object memory_ops m' = (sb_object memory_ops m)(p \<mapsto> (v, d))" "mb_next_version m' = mb_next_version m + 1"
proof -
  obtain m' v where put: "memory_put now p d WP_None m = (m', WR_Success v)"
    by (simp add: memory_put_def memory_conflict_def Let_def)
  have "mb_next_version m' = mb_next_version m + 1" using put by (auto simp: memory_put_success)
  then show thesis
    using that [OF put] memory.put_inv [OF assms, of now p d WP_None] memory.put_object [OF assms, of now p d WP_None] put
    by simp
qed

definition lock_free :: "'b list lock_env \<Rightarrow> datetime \<Rightarrow> string \<Rightarrow> 'b memory_backend \<Rightarrow> u64 \<Rightarrow> bool" where
  "lock_free env now p m token \<longleftrightarrow>
     (case sb_object memory_ops m p of
        None \<Rightarrow> token = 1
      | Some (v, d) \<Rightarrow> (case le_from_slice env d of
          Inr i \<Rightarrow> li_expires_at i \<le> now \<and> token = next_sequence (li_sequence_number i)
        | Inl e \<Rightarrow> False))"

lemma run_try_free:
  assumes "\<And>i. \<exists>d. le_to_vec env i = Inr d" and "memory_inv m" "mb_next_version m < 2 ^ 63"
    and "lock_free env now (dl_lock_path l) m token"
  obtains m' v d where "\<And>k. io_run memory_ops (try_acquire env l ttl operation k) now m =
      io_run memory_ops (k (Inr (guard_of l v token))) now m'"
    "memory_inv m'" "mb_next_version m' = mb_next_version m + 1"
    "sb_object memory_ops m' = (sb_object memory_ops m)(dl_lock_path l \<mapsto> (v, d))"
    "le_to_vec env \<lparr>li_holder_id = dl_holder_id l, li_expires_at = now + ttl_duration env ttl,
      li_acquired_at = now, li_sequence_number = token, li_operation = operation\<rparr> = Inr d"
proof -
  let ?info = "\<lambda>n. \<lparr>li_holder_id = dl_holder_id l, li_expires_at = now + ttl_duration env ttl,
      li_acquired_at = now, li_sequence_number = n, li_operation = operation\<rparr>"
  obtain b where b: "le_to_vec env (?info 1) = Inr b" using assms(1) by blast
  show thesis
  proof (cases "sb_object memory_ops m (dl_lock_path l)")
    case None
    obtain m' v where m': "memory_put now (dl_lock_path l) b WP_None m = (m', WR_Success v)" "memory_inv m'"
      "sb_object memory_ops m' = (sb_object memory_ops m)(dl_lock_path l \<mapsto> (v, b))"
      "mb_next_version m' = mb_next_version m + 1" by (rule memory_put_any [OF assms(2)])
    have put: "memory_put now (dl_lock_path l) b WP_DoesNotExist m = (m', WR_Success v)"
      using None m'(1) by (simp add: memory_put_def memory_conflict_def)
    have "token = 1" using assms(4) None by (simp add: lock_free_def)
    then show thesis using that [OF _ m'(2,4,3)] b put by (simp add: try_acquire_def lock_info_new_def)
  next
    case (Some x)
    obtain v0 d0 where x0: "sb_object memory_ops m (dl_lock_path l) = Some (v0, d0)" using Some by (cases x) auto
    then obtain i where x: "sb_object memory_ops m (dl_lock_path l) = Some (v0, d0)" "le_from_slice env d0 = Inr i"
      "li_expires_at i \<le> now" "token = next_sequence (li_sequence_number i)"
      using assms(4) by (cases "le_from_slice env d0") (simp_all add: lock_free_def del: memory_object)
    obtain obj where obj: "hm_get (mb_objects m) (dl_lock_path l) = Some obj" using x(1) by auto
    have refused: "memory_put now (dl_lock_path l) b WP_DoesNotExist m = (m, WR_PreconditionFailed (show_int (so_version obj)))"
      using obj by (simp add: memory_put_def memory_conflict_def)
    obtain b' where b': "le_to_vec env (?info token) = Inr b'" using assms(1) by blast
    obtain m' v where m': "memory_put now (dl_lock_path l) b' WP_None m = (m', WR_Success v)" "memory_inv m'"
      "sb_object memory_ops m' = (sb_object memory_ops m)(dl_lock_path l \<mapsto> (v, b'))"
      "mb_next_version m' = mb_next_version m + 1" by (rule memory_put_any [OF assms(2)])
    have "memory_put now (dl_lock_path l) b' (WP_MatchesVersion v0) m = (m', WR_Success v)"
      using memory_put_current [OF assms(2,3) x(1)] m'(1) by simp
    with memory_get_object [OF x(1)] b' x(2-4) show thesis
      by (intro that [OF _ m'(2,4,3)])
        (auto simp: Let_def try_acquire_def take_over_def replace_lock_def lock_info_new_def is_expired_def read_lock_def b refused)
  qed
qed

section \<open>Properties\<close>

text \<open>C20: However many holders acquire, release and drop the lock concurrently, with requests
  interleaved in any order, failing or losing their responses, and with clocks off by any amount, two
  guards of one lock carry fencing tokens in the order their acquisitions were written: the later
  token is strictly larger, as long as the 64-bit counter has not saturated. The serialisation is
  assumed to read back what it wrote.\<close>

theorem fencing_tokens_increase:
  assumes "json_lock env"
    and "(sys_step memory_ops skew (lock_starts env paths))\<^sup>*\<^sup>* (fresh_system T memory_new) y"
    and "Return (LO_Acquired (Inr g1)) \<in> set (sy_pool y)" and "Return (LO_Acquired (Inr g2)) \<in> set (sy_pool y)"
    and "lg_lock_path g1 = lg_lock_path g2" and "precedes (sy_log y) (lg_version g1) (lg_version g2)"
    and "lg_fencing_token g1 \<noteq> - 1"
  shows "lg_fencing_token g1 < lg_fencing_token g2"
proof -
  note pool = memory_lock_pool [OF assms(1)]
  show ?thesis
    by (rule lock_pool.tokens_ordered [OF pool lock_pool.pool_sound [OF pool _ _ assms(2)] assms(3-7)]) simp_all
qed

theorem fencing_tokens_increase_witness:
  "lg_fencing_token (guard_of holder_A ''1'' 1) < lg_fencing_token (guard_of holder_B ''3'' 2)"
  by (rule fencing_tokens_increase [OF plain_lock_json after_two_holders_reached])
    (simp_all add: after_two_holders_state guard_of_def holder_A_def holder_B_def lock_new_def)




text \<open>C23: Acquiring a lock that stays held for the whole time of the retries fails with the holder's name
  and leaves the store as it was.\<close>

theorem held_lock_refused:
  assumes "\<And>i. \<exists>d. le_to_vec env i = Inr d" and "sb_object memory_ops m (dl_lock_path l) = Some (v, d)"
    and "le_from_slice env d = Inr i"
    and "now + int (max_retries * (BACKOFF_MAX + millis 50)) < li_expires_at i"
  shows "io_run memory_ops (acquire_with_operation env l ttl max_retries operation Return) now m =
    (m, Inl (CE_PreconditionFailed
      (''lock held by '' @ li_holder_id i @ '' after '' @ show_nat max_retries @ '' retries'')))"
  unfolding acquire_with_operation_def using assms by (intro run_acquire_held) auto

text \<open>A store whose lock is held by \<^verbatim>\<open>B\<close>.\<close>

definition held_store :: "lock_info memory_backend" where
  "held_store = fst (memory_put 0 ''locks/x'' [held_B] WP_None memory_new)"

theorem held_lock_refused_witness:
  "io_run memory_ops (acquire_with_operation plain_lock holder_A (seconds 30) 5 None Return) 0 held_store =
   (held_store, Inl (CE_PreconditionFailed ''lock held by B after 5 retries''))"
proof -
  have "io_run memory_ops (acquire_with_operation plain_lock holder_A (seconds 30) 5 None Return) 0 held_store =
    (held_store, Inl (CE_PreconditionFailed
      (''lock held by '' @ li_holder_id held_B @ '' after '' @ show_nat 5 @ '' retries'')))"
    by (rule held_lock_refused [where v = "''1''" and d = "[held_B]"])
      (simp_all add: held_store_def BACKOFF_MAX_def held_B_def program_eval)
  then show ?thesis by (simp add: held_B_def show_nat.simps digit_char_eval)
qed

text \<open>C24: Run alone, acquiring a lock that is absent or has expired succeeds at the first attempt with
  token 1 or the next sequence number, and releasing the guard leaves a record with that number that has
  already expired, so that the lock is free again and the next token is the one after; no other object
  changes.\<close>

theorem acquire_then_release:
  fixes env :: "'a list lock_env"
  assumes "json_lock env" and "\<And>i. \<exists>d. le_to_vec env i = Inr d"
    and "memory_inv m" and "mb_next_version m < 2 ^ 63 - 1" and "lock_free env now (dl_lock_path l) m token"
  shows "\<exists>m' v. io_run memory_ops (acquire_with_operation env l ttl max_retries operation
        (\<lambda>r. case r of Inl e \<Rightarrow> Return (Inl e) | Inr g \<Rightarrow> do_release env g Return)) now m =
      (m', Inr ((guard_of l v token)\<lparr>lg_released := True\<rparr>)) \<and>
    lock_free env now (dl_lock_path l) m' (next_sequence token) \<and>
    (\<forall>p. p \<noteq> dl_lock_path l \<longrightarrow> sb_object memory_ops m' p = sb_object memory_ops m p)"
proof -
  let ?p = "dl_lock_path l"
  let ?i = "\<lparr>li_holder_id = dl_holder_id l, li_expires_at = now + ttl_duration env ttl,
      li_acquired_at = now, li_sequence_number = token, li_operation = operation\<rparr>"
  obtain m1 v d where m1: "\<And>k :: lock_error + lock_guard \<Rightarrow> ('a list, core_error + lock_guard) io. io_run memory_ops (try_acquire env l ttl operation k) now m =
      io_run memory_ops (k (Inr (guard_of l v token))) now m1" "memory_inv m1"
    "mb_next_version m1 = mb_next_version m + 1" "sb_object memory_ops m1 = (sb_object memory_ops m)(?p \<mapsto> (v, d))"
    "le_to_vec env ?i = Inr d"
    by (rule run_try_free [OF assms(2,3) _ assms(5), of ttl operation]) (use assms(4) in auto)
  have o1: "sb_object memory_ops m1 ?p = Some (v, d)" using m1(4) by simp
  obtain d' where d': "le_to_vec env (expired_record (dl_holder_id l) ?i now) = Inr d'" using assms(2) by blast
  obtain m2 v2 where m2: "memory_put now ?p d' WP_None m1 = (m2, WR_Success v2)"
    "sb_object memory_ops m2 = (sb_object memory_ops m1)(?p \<mapsto> (v2, d'))"
    by (rule memory_put_any [OF m1(2)]) auto
  have "memory_put now ?p d' (WP_MatchesVersion v) m1 = (m2, WR_Success v2)"
    using memory_put_current [OF m1(2) _ o1] m1(3) m2(1) assms(4) by simp
  moreover have "le_from_slice env d = Inr ?i" using assms(1) m1(5) by (simp add: json_lock_def)
  ultimately have "io_run memory_ops (do_release env (guard_of l v token) Return) now m1 =
      (m2, Inr ((guard_of l v token)\<lparr>lg_released := True\<rparr>))"
    using memory_get_object [OF o1] d' by (simp add: do_release_def read_lock_def guard_of_def)
  moreover have "lock_free env now ?p m2 (next_sequence token)"
    using assms(1) d' m2(2) by (auto simp: json_lock_def lock_free_def expired_record_def seconds_def)
  ultimately show ?thesis using m1(4) m2(2)
    by (auto simp: acquire_with_operation_def acquire_loop.simps [of env l ttl max_retries operation 0 BACKOFF_BASE] m1(1)
      simp del: memory_object)
qed

theorem acquire_then_release_witness:
  "\<exists>m' v. io_run memory_ops (acquire_with_operation plain_lock holder_A (seconds 30) 5 None
        (\<lambda>r. case r of Inl e \<Rightarrow> Return (Inl e) | Inr g \<Rightarrow> do_release plain_lock g Return)) (int (seconds 31)) held_store =
      (m', Inr ((guard_of holder_A v 3)\<lparr>lg_released := True\<rparr>)) \<and>
    lock_free plain_lock (int (seconds 31)) ''locks/x'' m' 4"
proof -
  have "memory_inv held_store" "mb_next_version held_store < 2 ^ 63 - 1"
    "lock_free plain_lock (int (seconds 31)) (dl_lock_path holder_A) held_store 3"
    by (auto simp: held_store_def memory_inv_def lock_free_def held_B_def program_eval split: if_splits)
  from acquire_then_release [OF plain_lock_json _ this, of "seconds 30" 5 None]
  show ?thesis by (simp add: plain_lock_simps next_sequence_def holder_A_def lock_new_def del: memory_object) blast
qed

end
