(* ===== verification/Pointer_Chain.thy ===== *)
theory Pointer_Chain
  imports Compactor_Service Lock_Pool
begin

text \<open>
  Publication by the compactor keeps a guarantee on the history of the store: in a scope only the
  manifest pointer is overwritten, a pointer names a snapshot that is stored, and it succeeds the pointer
  it replaces. The proof rules follow the compactor's programs, from the readers up to the retry loop.
\<close>

section \<open>Programs that only read\<close>

lemma read_jobs_wp:
  assumes "history good (snd w)" and "\<And>w' r. grows good w w' \<Longrightarrow> wp skew good post (k r) w'"
  shows "wp skew good post (read_jobs sc jobs s k) w"
  using assms
proof (induction jobs arbitrary: s w)
  case Nil
  show ?case by (simp add: Nil.prems(2) grows_self [OF Nil.prems(1)])
next
  case (Cons j jobs)
  obtain a ins where j: "j = (a, ins)" by (cases j)
  show ?case unfolding j read_jobs.simps
  proof (rule get_raw_wp [OF Cons.prems(1)], goal_cases)
    case (1 w1 r)
    note g = grows_trans [OF 1(1)]
    show ?case using Cons.IH [OF grows_history [OF 1(1)]] Cons.prems(2) [OF g] Cons.prems(2) [OF 1(1)]
      by (auto split: sum.split)
  qed
qed

lemma apply_deltas_wp:
  assumes "history good (snd w)" and "\<And>w' r. grows good w w' \<Longrightarrow> wp skew good post (k r) w'"
  shows "wp skew good post (apply_deltas env sc deltas s k) w"
  using assms
proof (induction deltas arbitrary: s w)
  case Nil
  show ?case by (simp add: Nil.prems(2) grows_self [OF Nil.prems(1)])
next
  case (Cons d deltas)
  show ?case unfolding apply_deltas.simps load_snapshot_state_def
  proof (rule read_jobs_wp [OF Cons.prems(1)], goal_cases)
    case (1 w1 r)
    note g = grows_trans [OF 1(1)]
    show ?case using Cons.IH [OF grows_history [OF 1(1)]] Cons.prems(2) [OF g] Cons.prems(2) [OF 1(1)]
      by (auto split: sum.split)
  qed
qed

lemma load_state_files_wp:
  assumes "history good (snd w)" and k: "\<And>w' r. grows good w w' \<Longrightarrow> wp skew good post (k r) w'"
  shows "wp skew good post (load_state_files env sc m k) w"
proof -
  let ?deltas = "\<lambda>r. case r of Inl e \<Rightarrow> k (Inl e)
    | Inr s \<Rightarrow> apply_deltas env sc (om_l0_deltas m) s (\<lambda>r. case r of Inl e \<Rightarrow> k (Inl e) | Inr s \<Rightarrow> k (Inr (finish_load s)))"
  have d: "wp skew good post (?deltas r) w'" if g: "grows good w w'" for r w'
    using k [OF grows_trans [OF g]] k [OF g]
    by (auto split: sum.split intro!: apply_deltas_wp grows_history [OF g])
  show ?thesis unfolding load_state_files_def Let_def load_snapshot_state_def
    using d [OF grows_self [OF assms(1)], of "Inr new_fold_state"]
    by (cases "bs_snapshot_id (om_base_snapshot m)") (auto intro!: read_jobs_wp assms(1) d)
qed

lemma read_events_wp:
  assumes "history good (snd w)"
    and "\<And>w' r. grows good w w' \<Longrightarrow> (\<And>events. r = Inr events \<Longrightarrow> map fst events = paths) \<Longrightarrow> wp skew good post (k r) w'"
  shows "wp skew good post (read_events env sc paths k) w"
  using assms
proof (induction paths arbitrary: w k)
  case Nil
  show ?case by (auto intro!: Nil.prems(2) grows_self [OF Nil.prems(1)])
next
  case (Cons p paths)
  show ?case unfolding read_events.simps
  proof (rule get_raw_wp [OF Cons.prems(1)], goal_cases)
    case (1 w1 r)
    have "wp skew good post (read_events env sc paths (\<lambda>r. case r of Inl e \<Rightarrow> k (Inl e) |
        Inr events \<Rightarrow> k (Inr ((p, event) # events)))) w1" for event
      by (rule Cons.IH [OF grows_history [OF 1(1)]])
        (auto split: sum.split intro!: Cons.prems(2) grows_trans [OF 1(1)])
    then show ?case by (auto split: sum.split intro!: Cons.prems(2) 1(1))
  qed
qed

lemma validate_fencing_lock_wp:
  assumes "history good (snd w)" and k: "\<And>w' r. grows good w w' \<Longrightarrow> wp skew good post (k r) w'"
  shows "wp skew good post (validate_fencing_lock env token path k) w"
proof -
  have "wp skew good post (read_lock_info (sv_lock env) l (\<lambda>r. case r of
            Inl e \<Rightarrow> k (Inl (FE_Core e))
          | Inr None \<Rightarrow> k (Inl (FE_FencingLockUnavailable p t))
          | Inr (Some i) \<Rightarrow> is_expired i (\<lambda>expired.
              if expired then k (Inl (FE_FencingLockUnavailable p t))
              else if li_sequence_number i \<noteq> t then k (Inl (FE_StaleFencingToken (li_sequence_number i) t))
              else k (Inr ())))) w" for l p t
    unfolding read_lock_info_def read_lock_def is_expired_def
    by (auto split: sum.split option.split core_error.split intro!: wp_getI wp_nowI k) (erule (1) grows_trans)+
  then show ?thesis unfolding validate_fencing_lock_def
    by (auto split: option.split intro!: k grows_self [OF assms(1)])
qed

section \<open>The guarantee\<close>

text \<open>The laws of \<^verbatim>\<open>serde_json\<close> that publication relies on.\<close>

definition json_manifest :: "'d service_env \<Rightarrow> bool" where
  "json_manifest env \<longleftrightarrow>
     (\<forall>m d. sv_manifest_to_json env m = Inr d \<longrightarrow> sv_manifest_from_json env d = Inr m) \<and>
     (\<forall>p d. sv_pointer_to_json env p = Inr d \<longrightarrow> sv_pointer_from_json env d = Inr p)"

definition pointer_object :: "scoped_storage \<Rightarrow> string" where
  "pointer_object sc = scoped_path sc manifest_pointer_path"

text \<open>The snapshot a pointer names is stored.\<close>

definition snapshot_stored :: "'d service_env \<Rightarrow> scoped_storage \<Rightarrow> 'd stored_write list \<Rightarrow> manifest_pointer \<Rightarrow> bool" where
  "snapshot_stored env sc L p \<longleftrightarrow>
     mp_manifest_path p = manifest_snapshot_path (mp_manifest_id p) \<and>
     (\<exists>v d m. log_object L (scoped_path sc (mp_manifest_path p)) = Some (v, d) \<and> sv_manifest_from_json env d = Inr m \<and>
        om_manifest_id m = mp_manifest_id p \<and> om_epoch m = mp_epoch p)"

definition succeeds :: "'d service_env \<Rightarrow> 'd \<Rightarrow> manifest_pointer \<Rightarrow> bool" where
  "succeeds env d0 p \<longleftrightarrow> (\<exists>p0 n0 n. sv_pointer_from_json env d0 = Inr p0 \<and>
     parse_manifest_id (mp_manifest_id p0) = Inr n0 \<and> parse_manifest_id (mp_manifest_id p) = Inr n \<and> n0 < n \<and>
     mp_epoch p0 \<le> mp_epoch p \<and> mp_parent_pointer_hash p = Some (sha256_prefixed env d0))"

definition pointer_good :: "'d service_env \<Rightarrow> scoped_storage \<Rightarrow> 'd stored_write list \<Rightarrow> 'd \<Rightarrow> bool" where
  "pointer_good env sc L d \<longleftrightarrow> (\<exists>p. sv_pointer_from_json env d = Inr p \<and> snapshot_stored env sc L p \<and>
     (case log_object L (pointer_object sc) of
        None \<Rightarrow> mp_parent_pointer_hash p = None
      | Some (v0, d0) \<Rightarrow> succeeds env d0 p))"

text \<open>In the scope only the pointer is ever overwritten, nothing is deleted, and there is no manifest at
  the retired path. On the compaction lock, writers keep the lock's guarantee.\<close>

definition compaction_good ::
  "'d service_env \<Rightarrow> int \<Rightarrow> scoped_storage \<Rightarrow> 'd stored_write list \<Rightarrow> 'd stored_write \<Rightarrow> bool" where
  "compaction_good env skew sc L w \<longleftrightarrow>
     (starts_with (fst (snd w)) (sco_scope_prefix sc @ ''/'') \<longrightarrow>
        fst (snd w) \<noteq> scoped_path sc legacy_manifest_path \<and>
        (\<exists>v d. snd (snd w) = Some (v, d) \<and>
           (if fst (snd w) = pointer_object sc then pointer_good env sc L d else log_object L (fst (snd w)) = None))) \<and>
     (fst (snd w) = compaction_lock_path \<longrightarrow> lock_good (sv_lock env) skew L w)"

definition published :: "'d service_env \<Rightarrow> scoped_storage \<Rightarrow> 'd stored_write list \<Rightarrow> string \<Rightarrow> bool" where
  "published env sc L manifest_id \<longleftrightarrow> (\<exists>t v d p. (t, pointer_object sc, Some (v, d)) \<in> set L \<and>
     sv_pointer_from_json env d = Inr p \<and> mp_manifest_id p = manifest_id)"

lemma in_scope [simp]: "starts_with (scoped_path sc p) (sco_scope_prefix sc @ ''/'')"
  by (simp add: scoped_path_def starts_with_iff)

lemma in_scope_pointer [simp]: "starts_with (pointer_object sc) (sco_scope_prefix sc @ ''/'')"
  by (simp add: pointer_object_def)

lemma published_grows: "published env sc L i \<Longrightarrow> published env sc (A @ L) i"
  by (fastforce simp: published_def)

lemma published_now:
  "sv_pointer_from_json env d = Inr p \<Longrightarrow>
     published env sc ((T, pointer_object sc, Some (v, d)) # L) (mp_manifest_id p)"
  unfolding published_def by (intro exI [of _ T] exI [of _ v] exI [of _ d]) simp

lemma log_object_in: "log_object L p = Some (v, d) \<Longrightarrow> \<exists>t. (t, p, Some (v, d)) \<in> set L"
  by (induction L p rule: log_object.induct) (auto split: if_splits)

lemma snapshot_not_pointer [simp]: "manifest_snapshot_path i \<noteq> manifest_pointer_path"
  by (simp add: manifest_snapshot_path_def manifest_pointer_path_def)

lemma snapshot_not_legacy [simp]: "manifest_snapshot_path i \<noteq> legacy_manifest_path"
  by (simp add: manifest_snapshot_path_def legacy_manifest_path_def)

lemma good_new_object:
  assumes "compaction_good env skew sc L (t, scoped_path sc p, y)" and "p \<noteq> manifest_pointer_path"
  shows "log_object L (scoped_path sc p) = None"
  using assms by (auto simp: compaction_good_def pointer_object_def scoped_path_inj)

text \<open>An object of the scope other than the pointer keeps its contents.\<close>

lemma object_kept:
  assumes "history (compaction_good env skew sc) (A @ L)" and "log_object L (scoped_path sc p) = Some x"
    and "p \<noteq> manifest_pointer_path"
  shows "log_object (A @ L) (scoped_path sc p) = Some x"
  using assms(1)
proof (induction A)
  case (Cons w A)
  obtain t q y where w: "w = (t, q, y)" by (cases w) auto
  have "q \<noteq> scoped_path sc p"
    using Cons by (auto simp: w dest!: good_new_object [OF _ assms(3)])
  with Cons w show ?case by simp
qed (use assms(2) in simp)

lemma no_legacy:
  "history (compaction_good env skew sc) L \<Longrightarrow> log_object L (scoped_path sc legacy_manifest_path) = None"
  by (induction L) (auto simp: compaction_good_def)

lemma snapshot_kept:
  assumes "history (compaction_good env skew sc) (A @ L)" and "snapshot_stored env sc L p"
  shows "snapshot_stored env sc (A @ L) p"
  using assms(2) object_kept [OF assms(1)] by (fastforce simp: snapshot_stored_def)

section \<open>Publication keeps the guarantee\<close>

text \<open>What a compactor knows of the manifest it read: without a pointer it starts from the empty
  manifest, and otherwise a compare-and-swap on the version it took can only replace the pointer it read.\<close>

definition seen ::
  "'d service_env \<Rightarrow> int \<Rightarrow> scoped_storage \<Rightarrow> datetime \<times> 'd stored_write list \<Rightarrow> 'd visible_manifest \<Rightarrow> bool" where
  "seen env skew sc w vm \<longleftrightarrow>
     (case vm_pointer vm of
        None \<Rightarrow> vm_pointer_version vm = None \<and> vm_pointer_bytes vm = None \<and>
          (\<exists>now ulid. vm_manifest vm = manifest_new now ulid)
      | Some p \<Rightarrow> (\<exists>v d. vm_pointer_version vm = Some v \<and> vm_pointer_bytes vm = Some d \<and>
          sv_pointer_from_json env d = Inr p \<and> om_manifest_id (vm_manifest vm) = mp_manifest_id p \<and>
          published env sc (snd w) (mp_manifest_id p) \<and>
          (\<forall>T L. grows (compaction_good env skew sc) w (T, L) \<longrightarrow>
             allowed L (pointer_object sc) (WP_MatchesVersion v) \<longrightarrow> log_object L (pointer_object sc) = Some (v, d))))"

lemma seen_grows:
  assumes "seen env skew sc w vm" and "grows (compaction_good env skew sc) w w'"
  shows "seen env skew sc w' vm"
proof -
  have "published env sc (snd w') i" if "published env sc (snd w) i" for i
    using that assms(2) published_grows by (auto simp: grows_def)
  moreover have "grows (compaction_good env skew sc) w (T, L)" if "grows (compaction_good env skew sc) w' (T, L)" for T L
    using grows_trans [OF assms(2) that] .
  ultimately show ?thesis using assms(1) by (cases "vm_pointer vm") (simp_all add: seen_def, blast)
qed

lemma check_succession_ok:
  assumes "check_succession m (Some m0) p (Some p0) (Some h) = Inr ()"
  shows "\<exists>n0 n. parse_manifest_id (mp_manifest_id p0) = Inr n0 \<and> parse_manifest_id (mp_manifest_id p) = Inr n \<and> n0 < n \<and>
    mp_epoch p0 \<le> mp_epoch p \<and> mp_parent_pointer_hash p = Some h"
  using assms by (auto simp: check_succession_def pointer_validate_succession_def split: sum.splits if_splits option.splits)

locale publication =
  fixes env :: "'d service_env" and skew :: int and sc :: scoped_storage and post :: "'r \<Rightarrow> 'd stored_write list \<Rightarrow> bool"
  assumes json: "json_manifest env"
    and lock_outside: "\<not> starts_with compaction_lock_path (sco_scope_prefix sc @ ''/'')"
begin

abbreviation keeps :: "'d stored_write list \<Rightarrow> 'd stored_write \<Rightarrow> bool" where
  "keeps \<equiv> compaction_good env skew sc"

abbreviation covered :: "('d, 'r) io \<Rightarrow> datetime \<times> 'd stored_write list \<Rightarrow> bool" where
  "covered \<equiv> wp skew keeps post"

lemma scope_not_lock: "scoped_path sc p \<noteq> compaction_lock_path"
  using lock_outside in_scope [of sc p] by metis

text \<open>Writing a new object of the scope.\<close>

lemma new_object_good:
  assumes "allowed L (scoped_path sc p) WP_DoesNotExist" and "p \<noteq> manifest_pointer_path" "p \<noteq> legacy_manifest_path"
  shows "keeps L (T, scoped_path sc p, Some (v, d))"
  using assms scope_not_lock [of p]
  by (simp add: compaction_good_def allowed_def pointer_object_def scoped_path_inj)

lemma put_new_wp:
  assumes "history keeps (snd w)" and "p \<noteq> manifest_pointer_path" "p \<noteq> legacy_manifest_path"
    and k: "\<And>w' r. grows keeps w w' \<Longrightarrow>
      (\<And>v. r = Inr (WR_Success v) \<Longrightarrow> log_object (snd w') (scoped_path sc p) = Some (v, d)) \<Longrightarrow> covered (k r) w'"
  shows "covered (put_raw sc p d WP_DoesNotExist k) w"
  by (rule put_raw_wp [OF assms(1)]) (auto intro!: k new_object_good assms)

lemma pointer_put_good:
  assumes "grows keeps w (T, L)" and "seen env skew sc w vm"
    and "allowed L (pointer_object sc) (case vm_pointer_version vm of None \<Rightarrow> WP_DoesNotExist | Some v \<Rightarrow> WP_MatchesVersion v)"
    and "sv_pointer_from_json env d = Inr p" "snapshot_stored env sc (snd w) p"
    and parent: "mp_parent_pointer_hash p = (case vm_pointer_bytes vm of None \<Rightarrow> None | Some b \<Rightarrow> Some (sha256_prefixed env b))"
    and check: "check_succession m (Some m0) p (vm_pointer vm) (mp_parent_pointer_hash p) = Inr ()"
  shows "keeps L (T, pointer_object sc, Some (v, d))"
proof -
  obtain A where A: "L = A @ snd w" "history keeps L" using assms(1) by (auto simp: grows_def)
  have snap: "snapshot_stored env sc L p" using snapshot_kept [of env skew sc A] A assms(5) by simp
  have "case log_object L (pointer_object sc) of None \<Rightarrow> mp_parent_pointer_hash p = None | Some (v0, d0) \<Rightarrow> succeeds env d0 p"
  proof (cases "vm_pointer vm")
    case None
    then show ?thesis using assms(2,3) parent by (simp add: seen_def allowed_def)
  next
    case (Some p0)
    then obtain v0 b where b: "vm_pointer_version vm = Some v0" "vm_pointer_bytes vm = Some b"
      "sv_pointer_from_json env b = Inr p0" "log_object L (pointer_object sc) = Some (v0, b)"
      using assms(1-3) by (auto simp: seen_def)
    then show ?thesis using check_succession_ok [of m m0 p p0 "sha256_prefixed env b"] check parent Some
      by (auto simp: succeeds_def)
  qed
  then show ?thesis using snap assms(4) scope_not_lock [of manifest_pointer_path]
    by (auto simp: compaction_good_def pointer_good_def pointer_object_def legacy_manifest_path_def
        manifest_pointer_path_def scoped_path_inj)
qed

text \<open>A visible outcome means that the pointer was written.\<close>

definition announced :: "string \<Rightarrow> snapshot_pointer_outcome \<Rightarrow> 'd stored_write list \<Rightarrow> bool" where
  "announced i outcome L \<longleftrightarrow>
     (case outcome of SPO_Visible v r \<Rightarrow> published env sc L i | SPO_PersistedNotVisible \<Rightarrow> True)"

lemma transaction_wp:
  assumes "history keeps (snd w)" and "seen env skew sc w vm"
    and "sv_manifest_from_json env md = Inr m" "om_manifest_id m = mp_manifest_id p" "om_epoch m = mp_epoch p"
    and "mp_manifest_path p = manifest_snapshot_path (mp_manifest_id p)" "sv_pointer_from_json env d = Inr p"
    and "mp_parent_pointer_hash p = (case vm_pointer_bytes vm of None \<Rightarrow> None | Some b \<Rightarrow> Some (sha256_prefixed env b))"
    and "check_succession m' (Some m0) p (vm_pointer vm) (mp_parent_pointer_hash p) = Inr ()"
    and k: "\<And>w' r. grows keeps w w' \<Longrightarrow> (\<And>out. r = Inr out \<Longrightarrow> announced (mp_manifest_id p) out (snd w')) \<Longrightarrow> covered (k r) w'"
  shows "covered (publish_snapshot_pointer_transaction sc (mp_manifest_path p) md manifest_pointer_path d
    (vm_pointer_version vm) None durability (\<lambda>k'. k' (Inr ())) k) w"
  unfolding publish_snapshot_pointer_transaction_def
proof (rule put_new_wp [OF assms(1)], goal_cases)
  case (3 w1 r)
  note g = grows_trans [OF 3(1)]
  show ?case
  proof (cases "\<exists>v. r = Inr (WR_Success v)")
    case True
    then obtain v where v: "r = Inr (WR_Success v)" "log_object (snd w1) (scoped_path sc (mp_manifest_path p)) = Some (v, md)"
      using 3(2) by blast
    have snap: "snapshot_stored env sc (snd w1) p" using v(2) assms(3-6) by (auto simp: snapshot_stored_def)
    show ?thesis unfolding v(1) sum.case write_result.case option.case
    proof (rule put_raw_wp [OF grows_history [OF 3(1)]], goal_cases)
      case (3 T L v)
      then show ?case
        using pointer_put_good [OF 3(1) seen_grows [OF assms(2)] _ assms(7) snap assms(8,9)] \<open>grows keeps w w1\<close>
        by (simp add: pointer_object_def)
    next
      case (4 T L v)
      then show ?case using published_now [OF assms(7)]
        by (auto intro!: k g simp: announced_def pointer_object_def)
    qed (auto intro!: k g simp: announced_def split: snapshot_pointer_durability.split)
  next
    case False
    then show ?thesis using 3(1) by (auto intro!: k split: sum.split write_result.split)
  qed
qed (simp_all add: assms(6))

lemma publish_manifest_wp:
  assumes "history keeps (snd w)" and "seen env skew sc w vm" and "mc_storage mc = sc"
    and k: "\<And>w' r. grows keeps w w' \<Longrightarrow> (\<And>out. r = Inr out \<Longrightarrow> announced (om_manifest_id m) out (snd w')) \<Longrightarrow> covered (k r) w'"
  shows "covered (publish_manifest env mc m (Some m0) (vm_pointer_version vm) (vm_pointer vm) (vm_pointer_bytes vm)
    token path k) w"
proof -
  let ?hash = "case (vm_pointer vm, vm_pointer_bytes vm) of (Some _, Some b) \<Rightarrow> Some (sha256_prefixed env b) | _ \<Rightarrow> None"
  have hash: "?hash = (case vm_pointer_bytes vm of None \<Rightarrow> None | Some b \<Rightarrow> Some (sha256_prefixed env b))"
    using assms(2) by (auto simp: seen_def split: option.splits)
  have "covered (publish_pointer env mc m md (Some m0) (vm_pointer_version vm) (vm_pointer vm) ?hash token path now k) w1"
    if md: "sv_manifest_to_json env m = Inr md" and w1: "grows keeps w w1" for md now w1
  proof -
    let ?p = "\<lparr>mp_manifest_id = om_manifest_id m, mp_manifest_path = manifest_snapshot_path (om_manifest_id m),
      mp_epoch = om_epoch m, mp_parent_pointer_hash = ?hash, mp_updated_at = now\<rparr>"
    have m: "sv_manifest_from_json env md = Inr m" using json md by (simp add: json_manifest_def)
    show ?thesis
    proof (cases "sv_pointer_to_json env ?p")
      case (Inl e)
      show ?thesis unfolding publish_pointer_def Let_def Inl sum.case by (rule k [OF w1]) simp
    next
      case (Inr d)
      then have d: "sv_pointer_from_json env d = Inr ?p" using json by (simp add: json_manifest_def)
      show ?thesis unfolding publish_pointer_def Let_def Inr sum.case assms(3)
      proof (rule validate_fencing_lock_wp [OF grows_history [OF w1]], goal_cases)
        case (1 w2 r)
        note g = grows_trans [OF w1 1]
        have "covered (publish_snapshot_pointer_transaction sc (mp_manifest_path ?p) md manifest_pointer_path d
            (vm_pointer_version vm) None (durability_of (mc_durability_mode mc)) (\<lambda>k'. k' (Inr ()))
            (\<lambda>r. case r of Inr out \<Rightarrow> k (Inr out)
               | Inl e \<Rightarrow> k (Inl (publish_error_of (manifest_snapshot_path (om_manifest_id m)) e)))) w2"
          if "check_succession m (Some m0) ?p (vm_pointer vm) ?hash = Inr ()"
          by (rule transaction_wp [OF grows_history [OF 1] seen_grows [OF assms(2) g] m _ _ _ d])
            (use that hash in \<open>auto split: sum.split intro!: k grows_trans [OF g]\<close>)
        then show ?case using k [OF g] by (auto split: sum.split)
      qed
    qed
  qed
  note pub = this
  have "\<not> (\<exists>p. vm_pointer vm = Some p \<and> vm_pointer_bytes vm = None)"
    using assms(2) by (auto simp: seen_def split: option.splits)
  then have "publish_manifest env mc m (Some m0) (vm_pointer_version vm) (vm_pointer vm) (vm_pointer_bytes vm) token path k =
      (case sv_manifest_to_json env m of
         Inl e \<Rightarrow> k (Inl (PME_Other (FE_Serialization (''failed to serialize manifest: '' @ e))))
       | Inr md \<Rightarrow> Now (\<lambda>now. publish_pointer env mc m md (Some m0) (vm_pointer_version vm) (vm_pointer vm) ?hash token path now k))"
    by (auto simp: publish_manifest_def Let_def split: sum.split option.split)
  then show ?thesis using pub
    by (cases "sv_manifest_to_json env m") (auto intro!: wp_nowI k grows_self [OF assms(1)])
qed

text \<open>Reading the manifest.\<close>

lemma read_pointed_manifest_wp:
  assumes "history keeps (snd w)" and "version \<in> log_versions (snd w)"
    and k: "\<And>w' r. grows keeps w w' \<Longrightarrow> (\<And>vm. r = Inr vm \<Longrightarrow> seen env skew sc w' vm) \<Longrightarrow> covered (k r) w'"
  shows "covered (read_pointed_manifest env sc version k) w"
  unfolding read_pointed_manifest_def
proof (rule get_raw_wp [OF assms(1)], goal_cases)
  case (1 w1 r)
  show ?case
  proof (cases r)
    case (Inr d)
    then obtain v0 where d: "log_object (snd w1) (pointer_object sc) = Some (v0, d)"
      using 1(2) by (auto simp: pointer_object_def)
    have cas: "log_object L (pointer_object sc) = Some (version, d)"
      if "grows keeps w1 (T, L)" "allowed L (pointer_object sc) (WP_MatchesVersion version)" for T L
      using allowed_reads [OF that(2,1) grows_versions [OF 1(1) assms(2)] d] .
    have pub: "published env sc (snd w1) (mp_manifest_id p)" if "sv_pointer_from_json env d = Inr p" for p
      using log_object_in [OF d] that by (auto simp: published_def)
    have "seen env skew sc w1 \<lparr>vm_manifest = m\<lparr>om_manifest_id := mp_manifest_id p, om_epoch := e\<rparr>,
        vm_pointer_version = Some version, vm_pointer = Some p, vm_pointer_bytes = Some d\<rparr>"
      if "sv_pointer_from_json env d = Inr p" for p m e
      using that cas pub by (simp add: seen_def)
    note ok = seen_grows [OF this]
    show ?thesis unfolding Inr sum.case using 1(1)
      by (auto split: sum.split intro!: k get_raw_wp grows_history [OF 1(1)] ok intro: grows_trans)
  qed (use 1(1) in \<open>auto intro!: k\<close>)
qed

lemma read_manifest_wp:
  assumes "history keeps (snd w)"
    and k: "\<And>w' r. grows keeps w w' \<Longrightarrow> (\<And>vm. r = Inr vm \<Longrightarrow> seen env skew sc w' vm) \<Longrightarrow> covered (k r) w'"
  shows "covered (read_manifest_with_version env sc k) w"
  unfolding read_manifest_with_version_def
proof (rule head_raw_wp [OF assms(1)], goal_cases)
  case (2 w1)
  note g = grows_trans [OF 2(1)]
  have "covered (Random (\<lambda>ulid. Now (\<lambda>now. k (Inr \<lparr>vm_manifest = manifest_new now ulid, vm_pointer_version = None,
      vm_pointer = None, vm_pointer_bytes = None\<rparr>)))) w2" if "grows keeps w1 w2" for w2
    using g [OF grows_trans [OF that]] by (auto intro!: wp_nowI k simp: seen_def) blast
  moreover have "log_object (snd w2) (scoped_path sc legacy_manifest_path) = None" if "grows keeps w1 w2" for w2
    using no_legacy grows_history [OF that] by blast
  ultimately show ?case by (auto intro!: head_raw_wp [OF grows_history [OF 2(1)]] k g)
next
  case (3 w1 m d)
  then show ?case
    by (auto intro!: read_pointed_manifest_wp grows_history [OF 3(1)] log_object_version k grows_trans [OF 3(1)])
qed (auto intro!: k)

text \<open>Writing the tables.\<close>

lemma write_jobs_wp:
  assumes "history keeps (snd w)" and base: "\<And>x. base @ ''/'' @ x \<noteq> manifest_pointer_path \<and> base @ ''/'' @ x \<noteq> legacy_manifest_path"
    and k: "\<And>w' r. grows keeps w w' \<Longrightarrow> covered (k r) w'"
  shows "covered (write_jobs env sc base jobs k) w"
  using assms(1) k
proof (induction jobs arbitrary: w k)
  case Nil
  show ?case by (simp add: Nil.prems(2) grows_self [OF Nil.prems(1)])
next
  case (Cons j jobs)
  obtain name f enc where j: "j = (name, f, enc)" by (cases j) auto
  show ?case
  proof (cases enc)
    case (Inl e)
    show ?thesis by (simp add: j Inl Cons.prems(2) grows_self [OF Cons.prems(1)])
  next
    case (Inr bytes)
    have path: "\<exists>x. hash_suffixed_artifact_path base f c = base @ ''/'' @ x" for c
      by (auto simp: hash_suffixed_artifact_path_def Let_def split: option.split prod.split)
    have new: "hash_suffixed_artifact_path base f c \<noteq> manifest_pointer_path"
      "hash_suffixed_artifact_path base f c \<noteq> legacy_manifest_path" for c
      using path [of c] base by metis+
    have rest: "covered (write_jobs env sc base jobs (\<lambda>r. case r of Inl e \<Rightarrow> k (Inl e) | Inr out \<Rightarrow> k (Inr ((name, a) # out)))) w1"
      if "grows keeps w w1" for w1 a
      using Cons.prems(2) [OF grows_trans [OF that]] by (intro Cons.IH [OF grows_history [OF that]]) (auto split: sum.split)
    show ?thesis unfolding j write_jobs.simps Inr sum.case write_parquet_artifact_def write_parquet_file_def Let_def
      by (rule put_new_wp [OF Cons.prems(1) new]) (auto split: sum.split write_result.split intro!: Cons.prems(2) rest)
  qed
qed

lemma write_state_wp:
  assumes "history keeps (snd w)" and "base = l0_dir i \<or> base = base_snapshot_dir i"
    and k: "\<And>w' r. grows keeps w w' \<Longrightarrow> covered (k r) w'"
  shows "covered (write_state_parquet env sc base s ie k) w"
  unfolding write_state_parquet_def
proof (rule write_jobs_wp [OF assms(1)], goal_cases)
  case (1 x)
  show ?case using assms(2)
    by (auto simp: l0_dir_def base_snapshot_dir_def manifest_pointer_path_def legacy_manifest_path_def)
qed (auto intro!: k split: sum.split)

text \<open>An attempt: what is acknowledged as visible has been published, and only the attempts with a delay
  left are retried.\<close>

definition sound_outcome :: "nat \<Rightarrow> attempt_outcome \<Rightarrow> 'd stored_write list \<Rightarrow> bool" where
  "sound_outcome attempt out L \<longleftrightarrow>
     (case out of
        Finished (Inr r) \<Rightarrow> cr_visibility_status r = CV_Visible \<longrightarrow> published env sc L (cr_manifest_id r)
      | Finished (Inl e) \<Rightarrow> True
      | Retry_After delay \<Rightarrow> attempt < length publish_retry_delays_ms)"

lemma failed_outcomes [simp]:
  "sound_outcome attempt (publish_failed e attempt) L" "sound_outcome attempt (write_failed e' attempt) L"
  by (auto simp: sound_outcome_def publish_failed_def write_failed_def should_retry_publish_error_def
      should_retry_l0_write_conflict_def retry_delay_def
      split: option.splits publish_manifest_error.splits flow_error.splits core_error.splits if_splits)

lemma error_outcome [simp]: "sound_outcome attempt (Finished (Inl e)) L"
  by (simp add: sound_outcome_def)

lemma publish_and_finish_wp:
  assumes "history keeps (snd w)" and "seen env skew sc w vm" and "mc_storage mc = sc"
    and k: "\<And>w' out. grows keeps w w' \<Longrightarrow> sound_outcome attempt out (snd w') \<Longrightarrow> covered (k out) w'"
  shows "covered (publish_and_finish env mc attempt vm m (vm_pointer_version vm) token path n delta_id k) w"
  unfolding publish_and_finish_def
proof (rule publish_manifest_wp [OF assms(1-3)], goal_cases)
  case (1 w1 r)
  show ?case
  proof (cases r)
    case (Inr out)
    then show ?thesis using 1
      by (auto simp: sound_outcome_def announced_def unpublished_result_def visibility_status_def
          split: snapshot_pointer_outcome.splits intro!: k)
  qed (use 1(1) in \<open>auto intro!: k\<close>)
qed

lemma unchanged_published:
  assumes "seen env skew sc w vm" and "vm_pointer vm \<noteq> None" and "om_manifest_id m = om_manifest_id (vm_manifest vm)"
  shows "sound_outcome attempt (Finished (Inr (unpublished_result vm m n i))) (snd w)"
  using assms by (auto simp: sound_outcome_def seen_def unpublished_result_def)

text \<open>With no manifest yet, a batch advances the watermark and so is published.\<close>

lemma first_batch_advances:
  assumes "wm_last_committed_event_id (om_watermarks m) = None" and "events \<noteq> []"
  shows "snd (update_watermarks now events i mode m)"
  using assms by (simp add: update_watermarks_def Let_def)

lemma update_watermarks_id [simp]:
  "om_manifest_id (fst (update_watermarks now events i mode m)) = om_manifest_id m"
  by (simp add: update_watermarks_def Let_def)

lemma advance_manifest_wp:
  assumes "history keeps (snd w)" and "seen env skew sc w vm" and "mc_storage mc = sc" and "events \<noteq> []"
    and m: "om_manifest_id m = om_manifest_id (vm_manifest vm)" "om_watermarks m = om_watermarks (vm_manifest vm)"
    and k: "\<And>w' out. grows keeps w w' \<Longrightarrow> sound_outcome attempt out (snd w') \<Longrightarrow> covered (k out) w'"
  shows "covered (advance_manifest env mc attempt vm events token path m changed delta_id k) w"
  unfolding advance_manifest_def
proof (rule wp_nowI, goal_cases)
  case (1 w1 now)
  note g = grows_trans [OF 1(1)]
  let ?u = "update_watermarks now events (ev_event_id (snd (last events))) (mc_durability_mode mc) m"
  obtain m' c where u: "?u = (m', c)" by (cases ?u)
  have id: "om_manifest_id m' = om_manifest_id m" using update_watermarks_id u by (metis fst_conv)
  have pub: "covered (publish_and_finish env mc attempt vm m'' (vm_pointer_version vm) token path n delta_id k) w2"
    if "grows keeps w1 w2" for m'' n w2
    by (rule publish_and_finish_wp [OF grows_history [OF that] seen_grows [OF assms(2) g [OF that]] assms(3)])
      (auto intro!: k g grows_trans [OF that])
  show ?case
  proof (cases "changed \<or> c")
    case True
    then show ?thesis using assms(4) 1(1)
      by (auto simp: u Let_def split: sum.split intro!: k wp_nowI pub)
  next
    case False
    have "vm_pointer vm \<noteq> None"
    proof
      assume "vm_pointer vm = None"
      then have "wm_last_committed_event_id (om_watermarks m) = None"
        using assms(2) m(2) by (auto simp: seen_def manifest_new_def watermarks_default_def)
      with first_batch_advances [OF this assms(4)] u False show False by (metis snd_conv)
    qed
    then have "sound_outcome attempt (Finished (Inr (unpublished_result vm m' n delta_id))) (snd w1)" for n
      using unchanged_published [OF seen_grows [OF assms(2) 1(1)]] id m(1) by simp
    then show ?thesis using assms(4) False 1(1) by (auto simp: u Let_def intro!: k)
  qed
qed

lemma store_batch_wp:
  assumes "history keeps (snd w)" and "seen env skew sc w vm" and "mc_storage mc = sc" and "events \<noteq> []"
    and k: "\<And>w' out. grows keeps w w' \<Longrightarrow> sound_outcome attempt out (snd w') \<Longrightarrow> covered (k out) w'"
  shows "covered (store_batch env mc attempt vm events s delta token path k) w"
proof -
  have adv: "covered (advance_manifest env mc attempt vm events token path m changed delta_id k) w'"
    if "grows keeps w w'" "om_manifest_id m = om_manifest_id (vm_manifest vm)" "om_watermarks m = om_watermarks (vm_manifest vm)"
    for w' m changed delta_id
    by (rule advance_manifest_wp [OF grows_history [OF that(1)] seen_grows [OF assms(2) that(1)] assms(3,4) that(2,3)])
      (auto intro!: k grows_trans [OF that(1)])
  show ?thesis unfolding store_batch_def Let_def
  proof (rule wp_nowI, rule wp_nowI, goal_cases)
    case (1 w1 t1 w2 t2)
    have g: "grows keeps w w3" if "grows keeps w2 w3" for w3
      using grows_trans [OF 1(1) grows_trans [OF 1(3) that]] .
    have g2: "grows keeps w w2" using g [OF grows_self [OF grows_history [OF 1(3)]]] .
    show ?case unfolding assms(3)
      by (auto split: sum.split intro!: write_state_wp [OF grows_history [OF 1(3)]] wp_nowI adv k g g2
          simp: replace_base_def add_delta_def) (erule (1) grows_trans)+
  qed
qed

lemma fold_batch_wp:
  assumes "history keeps (snd w)" and "seen env skew sc w vm" and "mc_storage mc = sc" and "paths \<noteq> []"
    and k: "\<And>w' out. grows keeps w w' \<Longrightarrow> sound_outcome attempt out (snd w') \<Longrightarrow> covered (k out) w'"
  shows "covered (load_state_files env sc (vm_manifest vm) (\<lambda>r. case r of
      Inl e \<Rightarrow> k (Finished (Inl e))
    | Inr loaded \<Rightarrow> read_events env sc paths (\<lambda>r. case r of
        Inl e \<Rightarrow> k (Finished (Inl e))
      | Inr events \<Rightarrow>
          let base_state = loaded\<lparr>fs_tenant_secret := mc_tenant_secret mc\<rparr>;
              (state, delta_state) = compact_batch (sv_lib env) (map snd events) base_state
          in store_batch env mc attempt vm (sort_key (\<lambda>(path, event). ev_event_id event) events)
               state delta_state token path k))) w"
proof (rule load_state_files_wp [OF assms(1)], goal_cases)
  case (1 w1 r)
  show ?case
  proof (cases r)
    case (Inr loaded)
    show ?thesis unfolding Inr sum.case
    proof (rule read_events_wp [OF grows_history [OF 1]], goal_cases)
      case (1 w2 r)
      note g = grows_trans [OF \<open>grows keeps w w1\<close> 1(1)]
      show ?case
      proof (cases r)
        case (Inr events)
        have ne: "sort_key (\<lambda>(path, event). ev_event_id event) events \<noteq> []"
          using 1(2) [OF Inr] assms(4) by (metis length_0_conv length_map length_sort)
        show ?thesis unfolding Inr sum.case Let_def
          by (auto split: prod.split intro!: store_batch_wp [OF grows_history [OF 1(1)] seen_grows [OF assms(2) g] assms(3) ne]
              k grows_trans [OF g])
      qed (use g in \<open>auto intro!: k\<close>)
    qed
  qed (use 1 in \<open>auto intro!: k\<close>)
qed

lemma compact_attempt_wp:
  assumes "history keeps (snd w)" and "mc_storage mc = sc"
    and k: "\<And>w' out. grows keeps w w' \<Longrightarrow> sound_outcome attempt out (snd w') \<Longrightarrow> covered (k out) w'"
  shows "covered (compact_attempt env mc paths token path attempt k) w"
  unfolding compact_attempt_def
proof (rule validate_fencing_lock_wp [OF assms(1)], goal_cases)
  case (1 w1 r)
  note w1 = 1
  show ?case
  proof (cases r)
    case (Inr u)
    show ?thesis unfolding Inr sum.case assms(2)
    proof (rule read_manifest_wp [OF grows_history [OF w1]], goal_cases)
      case (1 w2 r)
      note g = grows_trans [OF w1 1(1)]
      show ?case
      proof (cases r)
        case (Inr vm)
        then have seen: "seen env skew sc w2 vm" using 1(2) by blast
        have none: "vm_pointer_version vm = None \<longleftrightarrow> vm_pointer vm = None"
          using seen by (auto simp: seen_def split: option.splits)
        have "covered (publish_and_finish env mc attempt vm m (vm_pointer_version vm) token path n i k) w2" for m n i
          by (rule publish_and_finish_wp [OF grows_history [OF 1(1)] seen assms(2)]) (auto intro!: k grows_trans [OF g])
        then have pub: "covered (publish_and_finish env mc attempt vm m None token path n i k) w2"
          if "vm_pointer_version vm = None" for m n i using that by metis
        show ?thesis
        proof (cases "paths = []")
          case True
          then show ?thesis unfolding Inr sum.case using pub
            by (auto intro!: k g unchanged_published [OF seen] simp: none)
        next
          case False
          show ?thesis unfolding Inr sum.case if_not_P [OF False]
            by (rule fold_batch_wp [OF grows_history [OF 1(1)] seen assms(2) False]) (auto intro!: k grows_trans [OF g])
        qed
      qed (use g in \<open>auto intro!: k\<close>)
    qed
  qed (use w1 in \<open>auto intro!: k\<close>)
qed

lemma compact_loop_wp:
  assumes "history keeps (snd w)" and "mc_storage mc = sc" and "attempts = [i..<Suc (length publish_retry_delays_ms)]"
    and "i \<le> length publish_retry_delays_ms"
    and k: "\<And>w' r. grows keeps w w' \<Longrightarrow> sound_outcome 0 (Finished r) (snd w') \<Longrightarrow> covered (k (Some r)) w'"
  shows "covered (compact_loop env mc paths token path attempts k) w"
  using assms
proof (induction attempts arbitrary: i w)
  case (Cons a attempts)
  have a: "a = i" "attempts = [Suc i..<Suc (length publish_retry_delays_ms)]"
    using Cons.prems(3,4) by (simp_all add: upt_conv_Cons del: upt_Suc)
  show ?case unfolding compact_loop.simps
  proof (rule compact_attempt_wp [OF Cons.prems(1,2)], goal_cases)
    case (1 w1 out)
    note g = grows_trans [OF 1(1)]
    show ?case
    proof (cases out)
      case (Finished r)
      then show ?thesis using 1 by (auto intro!: Cons.prems(5) simp: sound_outcome_def)
    next
      case (Retry_After delay)
      then have "Suc i \<le> length publish_retry_delays_ms" using 1(2) a(1) by (simp add: sound_outcome_def)
      then have "covered (compact_loop env mc paths token path attempts k) w1"
        using a(2) by (intro Cons.IH [OF grows_history [OF 1(1)] Cons.prems(2)]) (auto intro!: Cons.prems(5) g)
      then show ?thesis by (simp add: Retry_After)
    qed
  qed
qed simp

end

end
