(* ===== verification/Compactor_Pool.thy ===== *)
theory Compactor_Pool
  imports Pointer_Chain Fold_Example
begin

text \<open>
  Any number of compactors, rebuilds, readers, producers of ledger events and holders of the compaction
  lock, against one store, with failures, lost responses and clock skew. The visible manifests form a
  chain, and a compaction that is acknowledged as visible has been published.
\<close>

section \<open>The pool\<close>

datatype compaction_outcome =
    CO_Compacted "(flow_error + compaction_result) option"
  | CO_Loaded "flow_error + orchestration_manifest \<times> fold_state"
  | CO_Appended "core_error + write_result"
  | CO_Acquired "core_error + lock_guard"
  | CO_Released "core_error + lock_guard"
  | CO_Dropped

text \<open>Producers write new objects below the scope, never the pointer or a manifest at the retired path.\<close>

inductive compaction_starts ::
  "'d service_env \<Rightarrow> scoped_storage \<Rightarrow> ('d, compaction_outcome) io list \<Rightarrow> ('d, compaction_outcome) io \<Rightarrow> bool"
  for env sc ps where
  CS_Compact: "mc_storage mc = sc \<Longrightarrow>
    compaction_starts env sc ps (compact_events env mc paths (\<lambda>r. Return (CO_Compacted r)))"
| CS_CompactFenced: "mc_storage mc = sc \<Longrightarrow>
    compaction_starts env sc ps (compact_events_fenced env mc paths token lock (\<lambda>r. Return (CO_Compacted r)))"
| CS_Rebuild: "mc_storage mc = sc \<Longrightarrow>
    compaction_starts env sc ps (rebuild_from_ledger_manifest env mc paths (\<lambda>r. Return (CO_Compacted r)))"
| CS_RebuildFenced: "mc_storage mc = sc \<Longrightarrow>
    compaction_starts env sc ps (rebuild_from_ledger_manifest_fenced env mc paths token lock (\<lambda>r. Return (CO_Compacted r)))"
| CS_Load: "mc_storage mc = sc \<Longrightarrow>
    compaction_starts env sc ps (load_state env mc (\<lambda>r. Return (CO_Loaded r)))"
| CS_Append: "p \<noteq> manifest_pointer_path \<Longrightarrow> p \<noteq> legacy_manifest_path \<Longrightarrow>
    compaction_starts env sc ps (put_raw sc p d WP_DoesNotExist (\<lambda>r. Return (CO_Appended r)))"
| CS_Acquire: "dl_lock_path l = compaction_lock_path \<Longrightarrow>
    compaction_starts env sc ps
      (acquire_with_operation (sv_lock env) l ttl max_retries operation (\<lambda>r. Return (CO_Acquired r)))"
| CS_Release: "Return (CO_Acquired (Inr g)) \<in> set ps \<Longrightarrow>
    compaction_starts env sc ps (do_release (sv_lock env) g (\<lambda>r. Return (CO_Released r)))"
| CS_Drop: "Return (CO_Acquired (Inr g)) \<in> set ps \<Longrightarrow>
    compaction_starts env sc ps (drop_guard (sv_lock env) g (Return CO_Dropped))"

definition compaction_post ::
  "'d service_env \<Rightarrow> scoped_storage \<Rightarrow> compaction_outcome \<Rightarrow> 'd stored_write list \<Rightarrow> bool" where
  "compaction_post env sc r L =
     (case r of
        CO_Compacted x \<Rightarrow> x \<noteq> None \<and>
          (\<forall>res. x = Some (Inr res) \<longrightarrow> cr_visibility_status res = CV_Visible \<longrightarrow> published env sc L (cr_manifest_id res))
      | CO_Acquired (Inr g) \<Rightarrow> lg_lock_path g = compaction_lock_path \<and> issued (sv_lock env) L g
      | _ \<Rightarrow> True)"

lemma compaction_post_simps [simp]:
  "compaction_post env sc (CO_Loaded l) L" "compaction_post env sc (CO_Appended a) L"
  "compaction_post env sc (CO_Released g) L" "compaction_post env sc CO_Dropped L"
  "compaction_post env sc (CO_Compacted (Some (Inl e))) L"
  by (simp_all add: compaction_post_def)

lemma published_Cons: "published env sc L i \<Longrightarrow> published env sc (w # L) i"
  using published_grows [of env sc L i "[w]"] by simp

locale compactor_pool = object_store sb inv used
  for sb :: "('s, 'd) storage_backend" and inv and used +
  fixes env :: "'d service_env" and skew :: int and sc :: scoped_storage
  assumes manifest_json: "json_manifest env" and lock_json: "json_lock (sv_lock env)"
    and lock_elsewhere: "\<not> starts_with compaction_lock_path (sco_scope_prefix sc @ ''/'')"

sublocale compactor_pool \<subseteq> publication env skew sc "compaction_post env sc"
  by unfold_locales (rule manifest_json lock_elsewhere)+

sublocale compactor_pool \<subseteq> lock_protocol "sv_lock env" skew "{compaction_lock_path}" "compaction_good env skew sc" "compaction_post env sc"
  by unfold_locales (use lock_json lock_elsewhere in \<open>auto simp: json_lock_def compaction_good_def\<close>)

context compactor_pool
begin

lemma compact_internal_wp:
  assumes "history keeps (snd w)" and "mc_storage mc = sc"
  shows "covered (compact_events_internal env mc paths token lock (\<lambda>r. Return (CO_Compacted r))) w"
  unfolding compact_events_internal_def
  by (rule compact_loop_wp [OF assms refl])
    (auto simp: compaction_post_def sound_outcome_def split: sum.splits)

lemma load_wp:
  assumes "history keeps (snd w)" and "mc_storage mc = sc"
  shows "covered (load_state env mc (\<lambda>r. Return (CO_Loaded r))) w"
  unfolding load_state_def assms(2)
  by (rule read_manifest_wp [OF assms(1)]) (auto split: sum.split intro!: load_state_files_wp grows_history)

lemma rebuild_wp:
  assumes "history keeps (snd w)" and "mc_storage mc = sc"
  shows "covered (rebuild_from_ledger_manifest env mc paths (\<lambda>r. Return (CO_Compacted r))) w"
    "covered (rebuild_from_ledger_manifest_fenced env mc paths token lock (\<lambda>r. Return (CO_Compacted r))) w"
  unfolding rebuild_from_ledger_manifest_def rebuild_from_ledger_manifest_fenced_def compact_events_def
    compact_events_fenced_def assms(2)
  by (rule read_manifest_wp [OF assms(1)];
      auto split: sum.split intro!: compact_internal_wp [OF grows_history assms(2)])+

end

sublocale compactor_pool \<subseteq> protocol sb inv used skew "compaction_good env skew sc" "compaction_post env sc" "compaction_starts env sc"
proof (unfold_locales, goal_cases)
  case (1 r L w)
  then show ?case
    by (auto simp: compaction_post_def issued_Cons split: compaction_outcome.splits sum.splits
        intro: published_Cons)
next
  case (2 ps q L T)
  have h: "history keeps (snd (T, L))" using 2(2) by simp
  from 2(1) show ?case
  proof cases
    case (CS_Append p d)
    then show ?thesis by (auto intro!: put_new_wp [OF h])
  next
    case (CS_Acquire l ttl max_retries operation)
    then show ?thesis unfolding acquire_with_operation_def
      by (auto intro!: acquire_loop_wp simp: compaction_post_def split: sum.splits)
  next
    case (CS_Release g)
    then have "lg_lock_path g \<in> {compaction_lock_path}" "issued (sv_lock env) L g"
      using 2(3) [OF CS_Release(2)] by (auto simp: compaction_post_def)
    with 2(2) CS_Release show ?thesis by (auto intro!: do_release_wp issued_version)
  next
    case (CS_Drop g)
    then have "lg_lock_path g \<in> {compaction_lock_path}" "issued (sv_lock env) L g"
      using 2(3) [OF CS_Drop(2)] by (auto simp: compaction_post_def)
    with 2(2) CS_Drop show ?thesis by (auto intro!: drop_guard_wp issued_version)
  next
    case (CS_Compact mc paths)
    then show ?thesis unfolding compact_events_def by (simp only: compact_internal_wp [OF h])
  next
    case (CS_CompactFenced mc paths token lock)
    then show ?thesis unfolding compact_events_fenced_def by (simp only: compact_internal_wp [OF h])
  qed (simp_all only: rebuild_wp [OF h] load_wp [OF h])
qed

context compactor_pool
begin

lemma pool_history:
  assumes "inv s" and "sb_object sb s = (\<lambda>p. None)" and "(sys_step sb skew (compaction_starts env sc))\<^sup>*\<^sup>* (fresh_system T s) y"
  shows "history (compaction_good env skew sc) (sy_log y)"
  using sound_history [OF reached_sound [OF assms]] .

lemma pool_store:
  assumes "inv s" and "sb_object sb s = (\<lambda>p. None)" and "(sys_step sb skew (compaction_starts env sc))\<^sup>*\<^sup>* (fresh_system T s) y"
  shows "sb_object sb (sy_store y) = log_object (sy_log y)"
  using sound_store [OF reached_sound [OF assms]] .

lemma pool_result:
  assumes "inv s" and "sb_object sb s = (\<lambda>p. None)" and "(sys_step sb skew (compaction_starts env sc))\<^sup>*\<^sup>* (fresh_system T s) y"
    and "Return r \<in> set (sy_pool y)"
  shows "compaction_post env sc r (sy_log y)"
  using sound_result [OF reached_sound [OF assms(1-3)] assms(4)] .

end

section \<open>The chain\<close>

text \<open>A pointer comes after another: a larger manifest id, and an epoch that is no smaller.\<close>

definition rises :: "'d service_env \<Rightarrow> 'd \<Rightarrow> 'd \<Rightarrow> bool" where
  "rises env d d' \<longleftrightarrow> (\<exists>p n p' n'. sv_pointer_from_json env d = Inr p \<and> parse_manifest_id (mp_manifest_id p) = Inr n \<and>
     sv_pointer_from_json env d' = Inr p' \<and> parse_manifest_id (mp_manifest_id p') = Inr n' \<and> n < n' \<and>
     mp_epoch p \<le> mp_epoch p')"

lemma rises_trans: "rises env a b \<Longrightarrow> rises env b c \<Longrightarrow> rises env a c"
  unfolding rises_def by (elim exE conjE) (simp, meson order.trans order.strict_trans)

lemma succeeds_rises: "succeeds env d0 p \<Longrightarrow> sv_pointer_from_json env d = Inr p \<Longrightarrow> rises env d0 d"
  by (auto simp: succeeds_def rises_def)

lemma good_pointer:
  assumes "compaction_good env skew sc L (t, pointer_object sc, x)"
  shows "\<exists>v d. x = Some (v, d) \<and> pointer_good env sc L d"
  using assms by (auto simp: compaction_good_def)

lemma pointer_good_rises:
  assumes "pointer_good env sc L d" and "log_object L (pointer_object sc) = Some (v0, d0)"
  shows "rises env d0 d"
  using assms by (auto simp: pointer_good_def intro: succeeds_rises)

text \<open>The current pointer comes after every earlier one.\<close>

lemma pointer_latest:
  assumes "history (compaction_good env skew sc) (A @ (t, pointer_object sc, Some (v, d)) # B)"
  shows "\<exists>v' d'. log_object (A @ (t, pointer_object sc, Some (v, d)) # B) (pointer_object sc) = Some (v', d') \<and>
    (d' = d \<or> rises env d d')"
  using assms
proof (induction A)
  case (Cons w A)
  then obtain v' d' where d': "log_object (A @ (t, pointer_object sc, Some (v, d)) # B) (pointer_object sc) = Some (v', d')"
    "d' = d \<or> rises env d d'" by auto
  obtain t' q x where w: "w = (t', q, x)" by (cases w) auto
  show ?case
  proof (cases "q = pointer_object sc")
    case True
    with Cons.prems obtain v'' d'' where x: "x = Some (v'', d'')"
      "pointer_good env sc (A @ (t, pointer_object sc, Some (v, d)) # B) d''" by (auto simp: w dest!: good_pointer)
    with pointer_good_rises [OF x(2) d'(1)] d'(2) show ?thesis
      by (auto simp: w True intro: rises_trans)
  qed (use d' w in auto)
qed simp

lemma pointer_after_all:
  assumes "history (compaction_good env skew sc) B" and "pointer_good env sc B d" and "(t0, pointer_object sc, Some (v0, d0)) \<in> set B"
  shows "rises env d0 d"
proof -
  obtain C D where "B = C @ (t0, pointer_object sc, Some (v0, d0)) # D" using assms(3) by (auto dest: split_list)
  with pointer_latest [of env skew sc C t0 v0 d0 D] assms(1) obtain v' d' where
    d': "log_object B (pointer_object sc) = Some (v', d')" "d' = d0 \<or> rises env d0 d'" by auto
  note r = pointer_good_rises [OF assms(2) d'(1)]
  from d'(2) show ?thesis
  proof
    assume "rises env d0 d'"
    from rises_trans [OF this r] show ?thesis .
  qed (use r in simp)
qed

lemma pointer_good_parent:
  "pointer_good env sc B d \<Longrightarrow> \<exists>p. sv_pointer_from_json env d = Inr p \<and>
     mp_parent_pointer_hash p = map_option (\<lambda>(v0, d0). sha256_prefixed env d0) (log_object B (pointer_object sc))"
  by (cases "log_object B (pointer_object sc)") (auto simp: pointer_good_def succeeds_def)

text \<open>The current pointer's snapshot is still there.\<close>

lemma current_pointer_stored:
  assumes "history (compaction_good env skew sc) L" and "log_object L (pointer_object sc) = Some (v, d)"
  shows "\<exists>p. sv_pointer_from_json env d = Inr p \<and> snapshot_stored env sc L p"
proof -
  obtain t where "(t, pointer_object sc, Some (v, d)) \<in> set L" using log_object_in [OF assms(2)] by blast
  then obtain A B where L: "L = (A @ [(t, pointer_object sc, Some (v, d))]) @ B" by (auto dest: split_list)
  then have "compaction_good env skew sc B (t, pointer_object sc, Some (v, d))"
    using assms(1) history_split [of "compaction_good env skew sc" A] by simp
  then obtain p where "sv_pointer_from_json env d = Inr p" "snapshot_stored env sc B p"
    by (auto dest!: good_pointer simp: pointer_good_def)
  with snapshot_kept [of env skew sc "A @ [(t, pointer_object sc, Some (v, d))]" B] assms(1) L show ?thesis by auto
qed

lemma lock_not_in_scope:
  "scoped_new t w = Inr sc \<Longrightarrow> \<not> starts_with compaction_lock_path (sco_scope_prefix sc @ ''/'')"
  by (auto simp: scoped_new_valid(1) compaction_lock_path_def starts_with_def)

lemma memory_compactor_pool:
  assumes "json_manifest env" and "json_lock (sv_lock env)" and "scoped_new t w = Inr sc"
  shows "compactor_pool memory_ops memory_inv memory_used env sc"
  by (intro compactor_pool.intro memory.object_store_axioms compactor_pool_axioms.intro assms(1,2)
      lock_not_in_scope [OF assms(3)])

section \<open>An instance\<close>

text \<open>Records and tables that are their own serialisation.\<close>

datatype stored_item =
    SI_Lock lock_info
  | SI_Manifest orchestration_manifest
  | SI_Pointer manifest_pointer
  | SI_Event orchestration_event
  | SI_Runs "run_row list"
  | SI_Tasks "task_row list"
  | SI_CatalogRunIndex "catalog_run_index_row list"
  | SI_DepSatisfaction "dep_satisfaction_row list"
  | SI_Timers "timer_row list"
  | SI_DispatchOutbox "dispatch_outbox_row list"
  | SI_SensorState "sensor_state_row list"
  | SI_SensorEvals "sensor_eval_row list"
  | SI_RunKeyIndex "run_key_index_row list"
  | SI_RunKeyConflicts "run_key_conflict_row list"
  | SI_PartitionStatus "partition_status_row list"
  | SI_IdempotencyKeys "idempotency_key_row list"
  | SI_ScheduleDefinitions "schedule_definition_row list"
  | SI_ScheduleState "schedule_state_row list"
  | SI_ScheduleTicks "schedule_tick_row list"
  | SI_Backfills "backfill_row list"
  | SI_BackfillChunks "backfill_chunk_row list"

definition plain_parquet :: "stored_item list parquet_codec" where
  "plain_parquet = \<lparr>pq_write_runs = (\<lambda>rows. Inr [SI_Runs rows]),
     pq_read_runs = (\<lambda>d. case d of [SI_Runs rows] \<Rightarrow> Inr rows | _ \<Rightarrow> Inl (FE_Parquet ''unexpected table'')),
     pq_write_tasks = (\<lambda>rows. Inr [SI_Tasks rows]),
     pq_read_tasks = (\<lambda>d. case d of [SI_Tasks rows] \<Rightarrow> Inr rows | _ \<Rightarrow> Inl (FE_Parquet ''unexpected table'')),
     pq_write_catalog_run_index = (\<lambda>rows. Inr [SI_CatalogRunIndex rows]),
     pq_read_catalog_run_index = (\<lambda>d. case d of [SI_CatalogRunIndex rows] \<Rightarrow> Inr rows | _ \<Rightarrow> Inl (FE_Parquet ''unexpected table'')),
     pq_write_dep_satisfaction = (\<lambda>rows. Inr [SI_DepSatisfaction rows]),
     pq_read_dep_satisfaction = (\<lambda>d. case d of [SI_DepSatisfaction rows] \<Rightarrow> Inr rows | _ \<Rightarrow> Inl (FE_Parquet ''unexpected table'')),
     pq_write_timers = (\<lambda>rows. Inr [SI_Timers rows]),
     pq_read_timers = (\<lambda>d. case d of [SI_Timers rows] \<Rightarrow> Inr rows | _ \<Rightarrow> Inl (FE_Parquet ''unexpected table'')),
     pq_write_dispatch_outbox = (\<lambda>rows. Inr [SI_DispatchOutbox rows]),
     pq_read_dispatch_outbox = (\<lambda>d. case d of [SI_DispatchOutbox rows] \<Rightarrow> Inr rows | _ \<Rightarrow> Inl (FE_Parquet ''unexpected table'')),
     pq_write_sensor_state = (\<lambda>rows. Inr [SI_SensorState rows]),
     pq_read_sensor_state = (\<lambda>d. case d of [SI_SensorState rows] \<Rightarrow> Inr rows | _ \<Rightarrow> Inl (FE_Parquet ''unexpected table'')),
     pq_write_sensor_evals = (\<lambda>rows. Inr [SI_SensorEvals rows]),
     pq_read_sensor_evals = (\<lambda>d. case d of [SI_SensorEvals rows] \<Rightarrow> Inr rows | _ \<Rightarrow> Inl (FE_Parquet ''unexpected table'')),
     pq_write_run_key_index = (\<lambda>rows. Inr [SI_RunKeyIndex rows]),
     pq_read_run_key_index = (\<lambda>d. case d of [SI_RunKeyIndex rows] \<Rightarrow> Inr rows | _ \<Rightarrow> Inl (FE_Parquet ''unexpected table'')),
     pq_write_run_key_conflicts = (\<lambda>rows. Inr [SI_RunKeyConflicts rows]),
     pq_read_run_key_conflicts = (\<lambda>d. case d of [SI_RunKeyConflicts rows] \<Rightarrow> Inr rows | _ \<Rightarrow> Inl (FE_Parquet ''unexpected table'')),
     pq_write_partition_status = (\<lambda>rows. Inr [SI_PartitionStatus rows]),
     pq_read_partition_status = (\<lambda>d. case d of [SI_PartitionStatus rows] \<Rightarrow> Inr rows | _ \<Rightarrow> Inl (FE_Parquet ''unexpected table'')),
     pq_write_idempotency_keys = (\<lambda>rows. Inr [SI_IdempotencyKeys rows]),
     pq_read_idempotency_keys = (\<lambda>d. case d of [SI_IdempotencyKeys rows] \<Rightarrow> Inr rows | _ \<Rightarrow> Inl (FE_Parquet ''unexpected table'')),
     pq_write_schedule_definitions = (\<lambda>rows. Inr [SI_ScheduleDefinitions rows]),
     pq_read_schedule_definitions = (\<lambda>d. case d of [SI_ScheduleDefinitions rows] \<Rightarrow> Inr rows | _ \<Rightarrow> Inl (FE_Parquet ''unexpected table'')),
     pq_write_schedule_state = (\<lambda>rows. Inr [SI_ScheduleState rows]),
     pq_read_schedule_state = (\<lambda>d. case d of [SI_ScheduleState rows] \<Rightarrow> Inr rows | _ \<Rightarrow> Inl (FE_Parquet ''unexpected table'')),
     pq_write_schedule_ticks = (\<lambda>rows. Inr [SI_ScheduleTicks rows]),
     pq_read_schedule_ticks = (\<lambda>d. case d of [SI_ScheduleTicks rows] \<Rightarrow> Inr rows | _ \<Rightarrow> Inl (FE_Parquet ''unexpected table'')),
     pq_write_backfills = (\<lambda>rows. Inr [SI_Backfills rows]),
     pq_read_backfills = (\<lambda>d. case d of [SI_Backfills rows] \<Rightarrow> Inr rows | _ \<Rightarrow> Inl (FE_Parquet ''unexpected table'')),
     pq_write_backfill_chunks = (\<lambda>rows. Inr [SI_BackfillChunks rows]),
     pq_read_backfill_chunks = (\<lambda>d. case d of [SI_BackfillChunks rows] \<Rightarrow> Inr rows | _ \<Rightarrow> Inl (FE_Parquet ''unexpected table''))\<rparr>"

definition plain_env :: "stored_item list service_env" where
  "plain_env = \<lparr>sv_lib = ex_env,
     sv_lock = \<lparr>le_to_vec = (\<lambda>i. Inr [SI_Lock i]),
       le_from_slice = (\<lambda>d. case d of [SI_Lock i] \<Rightarrow> Inr i | _ \<Rightarrow> Inl ''expected a lock''),
       le_from_std = (\<lambda>n. if n \<le> (2 ^ 63 - 1) * 10 ^ 6 then Some (int n) else None)\<rparr>,
     sv_manifest_to_json = (\<lambda>m. Inr [SI_Manifest m]),
     sv_manifest_from_json = (\<lambda>d. case d of [SI_Manifest m] \<Rightarrow> Inr m | _ \<Rightarrow> Inl ''expected a manifest''),
     sv_pointer_to_json = (\<lambda>p. Inr [SI_Pointer p]),
     sv_pointer_from_json = (\<lambda>d. case d of [SI_Pointer p] \<Rightarrow> Inr p | _ \<Rightarrow> Inl ''expected a pointer''),
     sv_event_from_json = (\<lambda>d. case d of [SI_Event e] \<Rightarrow> Inr e | _ \<Rightarrow> Inl ''expected an event''),
     sv_sha256_hex = (\<lambda>d. show_nat (length d)), sv_len = length,
     sv_debug_str = (\<lambda>s. CHR 0x22 # s @ [CHR 0x22]), sv_parquet = plain_parquet\<rparr>"

lemma plain_env_simps:
  "sv_lib plain_env = ex_env" "sv_manifest_to_json plain_env m = Inr [SI_Manifest m]"
  "sv_manifest_from_json plain_env [SI_Manifest m] = Inr m" "sv_pointer_to_json plain_env p = Inr [SI_Pointer p]"
  "sv_pointer_from_json plain_env [SI_Pointer p] = Inr p" "sv_event_from_json plain_env [SI_Event e] = Inr e"
  "sv_sha256_hex plain_env d = show_nat (length d)"
  by (simp_all add: plain_env_def)

lemma plain_env_json: "json_manifest plain_env" "json_lock (sv_lock plain_env)"
  by (auto simp: json_manifest_def json_lock_def plain_env_def)

definition ex_tenant :: scoped_storage where
  "ex_tenant = \<lparr>sco_tenant_id = ''t'', sco_workspace_id = ''w'', sco_scope_prefix = ''tenant=t/workspace=w''\<rparr>"

lemma ex_tenant_simps: "sco_tenant_id ex_tenant = ''t''" "sco_workspace_id ex_tenant = ''w''"
  by (simp_all add: ex_tenant_def)

lemma ex_tenant_new: "scoped_new ''t'' ''w'' = Inr ex_tenant"
  by (simp add: scoped_new_def validate_id_def is_id_char_def ex_tenant_def)

interpretation plain_pool: compactor_pool memory_ops memory_inv memory_used plain_env skew ex_tenant for skew
  by (rule memory_compactor_pool [OF plain_env_json ex_tenant_new])

text \<open>A compaction without events publishes the first manifest; then an event is appended and compacted.\<close>

definition ex_compactor :: micro_compactor where
  "ex_compactor = \<lparr>mc_storage = ex_tenant, mc_tenant_secret = [], mc_durability_mode = DM_Visible\<rparr>"

definition ex_heartbeat :: orchestration_event where
  "ex_heartbeat = ex_event ''e1'' (TaskHeartbeat ''r'' ''a'' 1 ''x'' ''w'' None None None)"

definition compacts :: "string list \<Rightarrow> (stored_item list, compaction_outcome) io" where
  "compacts paths = compact_events plain_env ex_compactor paths (\<lambda>r. Return (CO_Compacted r))"

definition appends :: "(stored_item list, compaction_outcome) io" where
  "appends = put_raw ex_tenant ''ledger/e1.json'' [SI_Event ex_heartbeat] WP_DoesNotExist (\<lambda>r. Return (CO_Appended r))"

definition two_compactions :: "(stored_item list, compaction_outcome) schedule_op list" where
  "two_compactions =
     [Op_Start (compacts []), Op_Request 0, Op_Request 0, Op_Request 0, Op_Request 0, Op_Request 0, Op_Request 0, Op_Request 0,
      Op_Start appends, Op_Request 1,
      Op_Start (compacts [''ledger/e1.json'']), Op_Request 2, Op_Request 2, Op_Request 2, Op_Request 2, Op_Request 2, Op_Request 2,
      Op_Request 2, Op_Request 2, Op_Request 2, Op_Request 2, Op_Request 2, Op_Request 2]"

definition after_two_compactions :: "(stored_item memory_backend, stored_item list, compaction_outcome) system" where
  "after_two_compactions = schedule_run memory_ops two_compactions (fresh_system 0 memory_new)"

lemma compacts_allowed: "compaction_starts plain_env ex_tenant ps (compacts paths)"
  unfolding compacts_def by (rule CS_Compact) (simp add: ex_compactor_def)

lemma appends_allowed: "compaction_starts plain_env ex_tenant ps appends"
  unfolding appends_def by (rule CS_Append) (simp_all add: manifest_pointer_path_def legacy_manifest_path_def)

lemma io_next_compacts: "io_next sb T s (compacts paths) =
    io_next sb T s (compact_events plain_env ex_compactor paths (\<lambda>r. Return (CO_Compacted r)))"
  by (simp add: compacts_def)

lemma io_next_appends: "io_next sb T s appends = io_next sb T s (put_raw ex_tenant ''ledger/e1.json''
    [SI_Event ex_heartbeat] WP_DoesNotExist (\<lambda>r. Return (CO_Appended r)))"
  by (simp add: appends_def)

lemma ex_paths_valid:
  "validate_path manifest_pointer_path = Inr ()" "validate_path legacy_manifest_path = Inr ()"
  "validate_path (manifest_snapshot_path ''00000000000000000000'') = Inr ()"
  "validate_path (manifest_snapshot_path ''00000000000000000001'') = Inr ()" "validate_path ''ledger/e1.json'' = Inr ()"
  by (code_simp, code_simp, code_simp, code_simp, code_simp)

lemma ex_paths_distinct:
  "manifest_pointer_path \<noteq> legacy_manifest_path" "manifest_pointer_path \<noteq> manifest_snapshot_path ''00000000000000000000''"
  "manifest_pointer_path \<noteq> manifest_snapshot_path ''00000000000000000001''" "manifest_pointer_path \<noteq> ''ledger/e1.json''"
  "legacy_manifest_path \<noteq> manifest_pointer_path" "legacy_manifest_path \<noteq> manifest_snapshot_path ''00000000000000000000''"
  "legacy_manifest_path \<noteq> manifest_snapshot_path ''00000000000000000001''" "legacy_manifest_path \<noteq> ''ledger/e1.json''"
  "manifest_snapshot_path ''00000000000000000000'' \<noteq> manifest_pointer_path" "manifest_snapshot_path ''00000000000000000000'' \<noteq> legacy_manifest_path"
  "manifest_snapshot_path ''00000000000000000000'' \<noteq> manifest_snapshot_path ''00000000000000000001''" "manifest_snapshot_path ''00000000000000000000'' \<noteq> ''ledger/e1.json''"
  "manifest_snapshot_path ''00000000000000000001'' \<noteq> manifest_pointer_path" "manifest_snapshot_path ''00000000000000000001'' \<noteq> legacy_manifest_path"
  "manifest_snapshot_path ''00000000000000000001'' \<noteq> manifest_snapshot_path ''00000000000000000000''" "manifest_snapshot_path ''00000000000000000001'' \<noteq> ''ledger/e1.json''"
  "''ledger/e1.json'' \<noteq> manifest_pointer_path" "''ledger/e1.json'' \<noteq> legacy_manifest_path"
  "''ledger/e1.json'' \<noteq> manifest_snapshot_path ''00000000000000000000''" "''ledger/e1.json'' \<noteq> manifest_snapshot_path ''00000000000000000001''"
  by (simp_all add: manifest_pointer_path_def legacy_manifest_path_def manifest_snapshot_path_def)

lemma ex_ids: "parse_manifest_id ''00000000000000000000'' = Inr 0" "parse_manifest_id ''00000000000000000001'' = Inr 1"
  by (simp_all add: parse_manifest_id_def MANIFEST_ID_WIDTH_def parse_u64_def digit_of_def)

lemma ex_next_id: "next_manifest_id ''00000000000000000000'' = Inr ''00000000000000000001''"
  by (simp add: next_manifest_id_def ex_ids format_manifest_id_def MANIFEST_ID_WIDTH_def show_nat.simps digit_char_eval
      eval_nat_numeral)

lemma ex_load: "finish_load new_fold_state = new_fold_state"
  by (simp add: finish_load_def retention_reference_time_for_state_def new_fold_state_def rebuild_dependency_graph_def)

lemma ex_batch: "compact_batch ex_env [ex_heartbeat] new_fold_state = (new_fold_state, new_fold_state)"
  by (simp add: compact_batch_def ex_heartbeat_def fold_eval fold_task_heartbeat_def retention_reference_time_for_events_def
      prune_sensor_evals_def prune_idempotency_keys_def delta_from_states_def insert_changed_def)

lemma ex_no_delta: "delta_state_is_empty new_fold_state"
  by (simp add: delta_state_is_empty_def new_fold_state_def)

lemma ex_secret: "new_fold_state\<lparr>fs_tenant_secret := []\<rparr> = new_fold_state"
  by (simp add: new_fold_state_def)

lemma ex_event_fields: "ev_tenant_id ex_heartbeat = ''t''" "ev_workspace_id ex_heartbeat = ''w''" "ev_event_id ex_heartbeat = ''e1''"
  by (simp_all add: ex_heartbeat_def ex_event_def new_with_timestamp_def)

lemmas compactor_eval = fresh_system_def io_next_compacts io_next_appends compacts_allowed appends_allowed
  compact_events_def compact_events_internal_def publish_retry_delays_ms_def compact_attempt_def
  validate_fencing_lock_def read_manifest_with_version_def read_pointed_manifest_def publish_and_finish_def
  publish_manifest_def publish_pointer_def check_succession_def manifest_validate_succession_def
  pointer_validate_succession_def publish_snapshot_pointer_transaction_def load_state_files_def
  validate_event_scope_def store_batch_def advance_manifest_def update_watermarks_def successor_manifest_def
  unpublished_result_def visible_pointer_version_def visibility_status_def repair_pending_def durability_of_def
  get_raw_def head_raw_def put_raw_def scoped_path_inj ex_paths_valid ex_paths_distinct ex_ids ex_next_id ex_load ex_batch ex_no_delta ex_secret
  ex_event_fields ex_tenant_simps plain_env_simps ex_compactor_def manifest_new_def watermarks_default_def base_snapshot_default_def
  INITIAL_MANIFEST_ID_def l0_limits_default_def should_compact_l0_def sha256_prefixed_def
  memory_new_def memory_get_def memory_head_def meta_of_def memory_put_def memory_conflict_def
  show_int_def show_nat.simps digit_char_eval parse_i64_def digit_of_def

text \<open>Evaluation unfolds a program only at its next request: as congruences, these keep the simplifier out
  of the continuations.\<close>

lemma request_congs:
  "Get x0_0 x0_1 = Get x0_0 x0_1"
  "Head x1_0 x1_1 = Head x1_0 x1_1"
  "Put x2_0 x2_1 x2_2 x2_3 = Put x2_0 x2_1 x2_2 x2_3"
  "Now x3_0 = Now x3_0"
  "Random x4_0 = Random x4_0"
  "Sleep x5_0 x5_1 = Sleep x5_0 x5_1"
  "get_raw x6_0 x6_1 x6_2 = get_raw x6_0 x6_1 x6_2"
  "head_raw x7_0 x7_1 x7_2 = head_raw x7_0 x7_1 x7_2"
  "put_raw x8_0 x8_1 x8_2 x8_3 x8_4 = put_raw x8_0 x8_1 x8_2 x8_3 x8_4"
  "compact_attempt x10_0 x10_1 x10_2 x10_3 x10_4 x10_5 x10_6 = compact_attempt x10_0 x10_1 x10_2 x10_3 x10_4 x10_5 x10_6"
  "validate_fencing_lock x11_0 x11_1 x11_2 x11_3 = validate_fencing_lock x11_0 x11_1 x11_2 x11_3"
  "read_manifest_with_version x12_0 x12_1 x12_2 = read_manifest_with_version x12_0 x12_1 x12_2"
  "read_pointed_manifest x13_0 x13_1 x13_2 x13_3 = read_pointed_manifest x13_0 x13_1 x13_2 x13_3"
  "publish_and_finish x14_0 x14_1 x14_2 x14_3 x14_4 x14_5 x14_6 x14_7 x14_8 x14_9 x14_10 = publish_and_finish x14_0 x14_1 x14_2 x14_3 x14_4 x14_5 x14_6 x14_7 x14_8 x14_9 x14_10"
  "publish_manifest x15_0 x15_1 x15_2 x15_3 x15_4 x15_5 x15_6 x15_7 x15_8 x15_9 = publish_manifest x15_0 x15_1 x15_2 x15_3 x15_4 x15_5 x15_6 x15_7 x15_8 x15_9"
  "publish_pointer x16_0 x16_1 x16_2 x16_3 x16_4 x16_5 x16_6 x16_7 x16_8 x16_9 x16_10 x16_11 = publish_pointer x16_0 x16_1 x16_2 x16_3 x16_4 x16_5 x16_6 x16_7 x16_8 x16_9 x16_10 x16_11"
  "publish_snapshot_pointer_transaction x17_0 x17_1 x17_2 x17_3 x17_4 x17_5 x17_6 x17_7 x17_8 x17_9 = publish_snapshot_pointer_transaction x17_0 x17_1 x17_2 x17_3 x17_4 x17_5 x17_6 x17_7 x17_8 x17_9"
  "load_state_files x18_0 x18_1 x18_2 x18_3 = load_state_files x18_0 x18_1 x18_2 x18_3"
  "read_events x19_0 x19_1 x19_2 x19_3 = read_events x19_0 x19_1 x19_2 x19_3"
  "store_batch x20_0 x20_1 x20_2 x20_3 x20_4 x20_5 x20_6 x20_7 x20_8 x20_9 = store_batch x20_0 x20_1 x20_2 x20_3 x20_4 x20_5 x20_6 x20_7 x20_8 x20_9"
  "advance_manifest x21_0 x21_1 x21_2 x21_3 x21_4 x21_5 x21_6 x21_7 x21_8 x21_9 x21_10 = advance_manifest x21_0 x21_1 x21_2 x21_3 x21_4 x21_5 x21_6 x21_7 x21_8 x21_9 x21_10"
  by (rule refl)+

lemma compact_loop_cong: "as = as' \<Longrightarrow> compact_loop env mc ps t l as k = compact_loop env mc ps t l as' k"
  by simp

definition ex_pointer :: "string \<Rightarrow> string option \<Rightarrow> manifest_pointer" where
  "ex_pointer i h = \<lparr>mp_manifest_id = i, mp_manifest_path = manifest_snapshot_path i, mp_epoch = 0,
     mp_parent_pointer_hash = h, mp_updated_at = 0\<rparr>"

definition ex_result :: compaction_result where
  "ex_result = \<lparr>cr_events_processed = 1, cr_delta_id = None, cr_manifest_id = ''00000000000000000001'',
     cr_manifest_revision = ''0'', cr_pointer_version = ''5'', cr_visibility_status = CV_Visible, cr_repair_pending = False\<rparr>"

lemma two_compactions_reached:
  "(sys_step memory_ops 0 (compaction_starts plain_env ex_tenant))\<^sup>*\<^sup>* (fresh_system 0 memory_new) after_two_compactions"
  unfolding after_two_compactions_def
  by (rule schedule_sys) (simp_all add: two_compactions_def compactor_eval Let_def cong: request_congs compact_loop_cong)

lemma two_compactions_state:
  "sy_log after_two_compactions = [] @
     (0, pointer_object ex_tenant, Some (''5'', [SI_Pointer (ex_pointer ''00000000000000000001'' (Some ''sha256:1''))])) #
     tl (sy_log after_two_compactions)"
  "(0, pointer_object ex_tenant, Some (''2'', [SI_Pointer (ex_pointer ''00000000000000000000'' None)])) \<in>
     set (tl (sy_log after_two_compactions))"
  "sb_object memory_ops (sy_store after_two_compactions) (pointer_object ex_tenant) =
     Some (''5'', [SI_Pointer (ex_pointer ''00000000000000000001'' (Some ''sha256:1''))])"
  "Return (CO_Compacted (Some (Inr ex_result))) \<in> set (sy_pool after_two_compactions)"
  by (simp_all add: after_two_compactions_def two_compactions_def ex_pointer_def ex_result_def pointer_object_def
      compactor_eval Let_def cong: request_congs compact_loop_cong)

section \<open>Properties\<close>

text \<open>C17: However compactors, rebuilds, event producers and lock holders interleave, with lost responses,
  failures and clock skew, the visible manifests form a chain: every write of the pointer names a manifest
  id larger than that of every earlier pointer, an epoch no smaller, and the hash of the very pointer it
  replaced (none for the first).\<close>

theorem visible_manifests_chain:
  assumes "json_manifest env" and "json_lock (sv_lock env)" and "scoped_new tenant workspace = Inr sc"
    and "(sys_step memory_ops skew (compaction_starts env sc))\<^sup>*\<^sup>* (fresh_system T memory_new) y"
    and "sy_log y = A @ (t, pointer_object sc, x) # B"
  shows "\<exists>v d p. x = Some (v, d) \<and> sv_pointer_from_json env d = Inr p \<and>
    mp_parent_pointer_hash p = map_option (\<lambda>(v0, d0). sha256_prefixed env d0) (log_object B (pointer_object sc)) \<and>
    (\<forall>t0 v0 d0. (t0, pointer_object sc, Some (v0, d0)) \<in> set B \<longrightarrow> rises env d0 d)"
proof -
  note pool = memory_compactor_pool [OF assms(1-3)]
  have h: "history (compaction_good env skew sc) (A @ (t, pointer_object sc, x) # B)"
    using compactor_pool.pool_history [OF pool _ _ assms(4)] by (simp add: assms(5))
  then have "compaction_good env skew sc B (t, pointer_object sc, x)" using history_split [OF h] by simp
  from good_pointer [OF this] obtain v d where x: "x = Some (v, d)" and good: "pointer_good env sc B d" by auto
  obtain p where p: "sv_pointer_from_json env d = Inr p"
    "mp_parent_pointer_hash p = map_option (\<lambda>(v0, d0). sha256_prefixed env d0) (log_object B (pointer_object sc))"
    using pointer_good_parent [OF good] by auto
  have hB: "history (compaction_good env skew sc) B" using history_append [of _ "A @ [(t, pointer_object sc, x)]"] h by simp
  show ?thesis
    by (rule exI [of _ v], rule exI [of _ d], rule exI [of _ p]) (simp add: x p pointer_after_all [OF hB good])
qed

theorem visible_manifests_chain_witness:
  "rises plain_env [SI_Pointer (ex_pointer ''00000000000000000000'' None)]
     [SI_Pointer (ex_pointer ''00000000000000000001'' (Some ''sha256:1''))]"
  using visible_manifests_chain [OF plain_env_json ex_tenant_new two_compactions_reached two_compactions_state(1)]
    two_compactions_state(2) by auto





end
