(* ===== verification/Codec_Example.thy ===== *)
theory Codec_Example
  imports Parquet_Roundtrip
begin

text \<open>
  A concrete instance of the codec parameters, for the witnesses: JSON texts are strings with every
  character marked, a file is the list of its record batches, and the reader returns them as they were
  written. It satisfies the laws of \<open>Parquet_Roundtrip\<close>.
\<close>

section \<open>Texts\<close>

definition pack_str :: "string \<Rightarrow> string" where
  "pack_str s = concat (map (\<lambda>c. [CHR ''c'', c]) s) @ ''.''"

definition pack :: "string list \<Rightarrow> string" where
  "pack xs = concat (map pack_str xs)"

fun unpack :: "string \<Rightarrow> string \<Rightarrow> string list" where
  "unpack acc [] = []"
| "unpack acc (t # r) =
     (if t = CHR ''.'' then acc # unpack [] r else (case r of [] \<Rightarrow> [] | x # r' \<Rightarrow> unpack (acc @ [x]) r'))"

lemma unpack_str: "unpack acc (pack_str s @ rest) = (acc @ s) # unpack [] rest"
  by (induction s arbitrary: acc) (simp_all add: pack_str_def)

lemma unpack_pack [simp]: "unpack [] (pack xs) = xs"
  by (induction xs) (simp_all add: pack_def unpack_str)

definition pack_pairs :: "(string, string) hashmap \<Rightarrow> string" where
  "pack_pairs l = pack (concat (map (\<lambda>(k, v). [k, v]) l))"

fun pairs :: "string list \<Rightarrow> (string, string) hashmap" where
  "pairs (k # v # xs) = (k, v) # pairs xs"
| "pairs _ = []"

lemma pairs_pack [simp]: "pairs (unpack [] (pack_pairs l)) = l"
proof -
  have "pairs (concat (map (\<lambda>(k, v). [k, v]) l)) = l" by (induction l) auto
  then show ?thesis by (simp add: pack_pairs_def)
qed

definition pack_int :: "int \<Rightarrow> string" where
  "pack_int i = (if i < 0 then ''-'' @ replicate (nat (- i)) CHR ''1'' else ''+'' @ replicate (nat i) CHR ''1'')"

definition unpack_int :: "string \<Rightarrow> int" where
  "unpack_int s = (if take 1 s = ''-'' then - int (length s - 1) else int (length s - 1))"

lemma unpack_int [simp]: "unpack_int (pack_int i) = i"
  by (simp add: pack_int_def unpack_int_def)

definition pack_request :: "run_request \<Rightarrow> string" where
  "pack_request r = pack [rq_run_key r, rq_request_fingerprint r, pack (rq_asset_selection r),
     (case rq_partition_selection r of None \<Rightarrow> [] | Some xs \<Rightarrow> CHR ''s'' # pack xs),
     (case rq_code_version r of None \<Rightarrow> [] | Some v \<Rightarrow> CHR ''s'' # v)]"

definition unpack_request :: "string \<Rightarrow> run_request" where
  "unpack_request s = (let xs = unpack [] s in
     \<lparr>rq_run_key = xs ! 0, rq_request_fingerprint = xs ! 1, rq_asset_selection = unpack [] (xs ! 2),
      rq_partition_selection = (case xs ! 3 of [] \<Rightarrow> None | c # t \<Rightarrow> Some (unpack [] t)),
      rq_code_version = (case xs ! 4 of [] \<Rightarrow> None | c # t \<Rightarrow> Some t)\<rparr>)"

lemma unpack_request [simp]: "unpack_request (pack_request r) = r"
  by (cases r) (simp add: pack_request_def unpack_request_def Let_def split: option.split)

fun pack_source :: "trigger_source \<Rightarrow> string" where
  "pack_source (Push s) = CHR ''p'' # s"
| "pack_source (Poll i) = CHR ''q'' # pack_int i"

definition unpack_source :: "string \<Rightarrow> trigger_source" where
  "unpack_source s = (if take 1 s = ''p'' then Push (drop 1 s) else Poll (unpack_int (drop 1 s)))"

fun pack_eval :: "sensor_eval_status \<Rightarrow> string" where
  "pack_eval SE_Triggered = ''t''"
| "pack_eval SE_NoNewData = ''n''"
| "pack_eval SE_SkippedStaleCursor = ''k''"
| "pack_eval (SE_Error s) = CHR ''e'' # s"

definition unpack_eval :: "string \<Rightarrow> sensor_eval_status" where
  "unpack_eval s = (if take 1 s = ''t'' then SE_Triggered else if take 1 s = ''n'' then SE_NoNewData
     else if take 1 s = ''k'' then SE_SkippedStaleCursor else SE_Error (drop 1 s))"

fun pack_tick :: "tick_status \<Rightarrow> string" where
  "pack_tick Tick_Triggered = ''t''"
| "pack_tick (Tick_Skipped s) = CHR ''s'' # s"
| "pack_tick (Tick_Failed s) = CHR ''f'' # s"

definition unpack_tick :: "string \<Rightarrow> tick_status" where
  "unpack_tick s = (if take 1 s = ''t'' then Tick_Triggered
     else if take 1 s = ''s'' then Tick_Skipped (drop 1 s) else Tick_Failed (drop 1 s))"

fun pack_selector :: "partition_selector \<Rightarrow> string" where
  "pack_selector (PS_Range a b) = CHR ''r'' # pack [a, b]"
| "pack_selector (PS_Explicit xs) = CHR ''e'' # pack xs"
| "pack_selector (PS_Filter l) = CHR ''f'' # pack_pairs l"

definition unpack_selector :: "string \<Rightarrow> partition_selector" where
  "unpack_selector s = (let t = drop 1 s in
     if take 1 s = ''r'' then PS_Range (unpack [] t ! 0) (unpack [] t ! 1)
     else if take 1 s = ''e'' then PS_Explicit (unpack [] t) else PS_Filter (pairs (unpack [] t)))"

lemma unpack_states [simp]:
  "unpack_source (pack_source a) = a" "unpack_eval (pack_eval b) = b" "unpack_tick (pack_tick c) = c"
  "unpack_selector (pack_selector d) = d"
proof -
  show "unpack_source (pack_source a) = a" by (cases a) (simp_all add: unpack_source_def)
  show "unpack_eval (pack_eval b) = b" by (cases b) (simp_all add: unpack_eval_def)
  show "unpack_tick (pack_tick c) = c" by (cases c) (simp_all add: unpack_tick_def)
  show "unpack_selector (pack_selector d) = d" by (cases d) (simp_all add: unpack_selector_def Let_def)
qed

section \<open>The instance\<close>

fun field_index :: "schema \<Rightarrow> string \<Rightarrow> nat option" where
  "field_index [] name = None"
| "field_index (f # fs) name = (if field_name f = name then Some 0 else map_option Suc (field_index fs name))"

definition plain_codec :: "(record_batch list, record_batch list, record_batch list) codec_env" where
  "plain_codec = \<lparr>ce_lib = ex_env, ce_from_timestamp_millis = (\<lambda>n. Some (n * 1000000)),
     ce_index_of = (\<lambda>s name. case field_index s name of Some i \<Rightarrow> Inr i | None \<Rightarrow> Inl ''no such field''),
     ce_try_new = (\<lambda>s cols. if cols = [] then Inl ''no columns'' else Inr (batch_of s cols (arr_len (hd cols)))),
     ce_writer_try_new = (\<lambda>s props. Inr []), ce_writer_write = (\<lambda>w b. Inr (w @ [b])), ce_writer_close = Inr,
     ce_reader_try_new = Inr, ce_reader_build = (\<lambda>bs. Inr (map Inr bs)),
     ce_null_string = [], ce_null_bool = False, ce_null_u32 = 0, ce_null_i64 = 0,
     ce_labels_to_json = (\<lambda>l. Inr (pack_pairs l)), ce_labels_from_json = (\<lambda>s. Inr (pairs (unpack [] s))),
     ce_strings_to_json = (\<lambda>xs. Inr (pack xs)), ce_strings_from_json = (\<lambda>s. Inr (unpack [] s)),
     ce_trigger_source_to_json = (\<lambda>a. Inr (pack_source a)), ce_trigger_source_from_json = (\<lambda>s. Inr (unpack_source s)),
     ce_run_requests_to_json = (\<lambda>rs. Inr (pack (map pack_request rs))),
     ce_run_requests_from_json = (\<lambda>s. Inr (map unpack_request (unpack [] s))),
     ce_eval_status_to_json = (\<lambda>a. Inr (pack_eval a)), ce_eval_status_from_json = (\<lambda>s. Inr (unpack_eval s)),
     ce_tick_status_to_json = (\<lambda>a. Inr (pack_tick a)), ce_tick_status_from_json = (\<lambda>s. Inr (unpack_tick s)),
     ce_selector_to_json = (\<lambda>a. Inr (pack_selector a)), ce_selector_from_json = (\<lambda>s. Inr (unpack_selector s))\<rparr>"

lemma field_index_first:
  "i < length s \<Longrightarrow> (\<forall>j<i. field_name (s ! j) \<noteq> field_name (s ! i)) \<Longrightarrow> field_index s (field_name (s ! i)) = Some i"
proof (induction s arbitrary: i)
  case (Cons f s)
  show ?case
  proof (cases i)
    case (Suc k)
    with Cons.prems have "field_name f \<noteq> field_name (s ! k)" "\<forall>j<k. field_name (s ! j) \<noteq> field_name (s ! k)" by force+
    with Cons Suc show ?thesis by simp
  qed simp
qed simp

lemma arr_take_all: "arr_take (arr_len a) a = a"
  by (cases a) simp_all

lemma fits_take: "fits n s cols \<Longrightarrow> map (arr_take n) cols = cols"
proof (induction s arbitrary: cols)
  case (Cons f s)
  then obtain c cs where "cols = c # cs" "arr_len c = n" "fits n s cs" by (auto simp: fits_def list_all2_Cons1)
  with Cons.IH arr_take_all [of c] show ?case by simp
qed (simp add: fits_def)

lemma fits_first: "s \<noteq> [] \<Longrightarrow> fits n s cols \<Longrightarrow> cols \<noteq> [] \<and> arr_len (hd cols) = n"
  by (cases s) (auto simp: fits_def list_all2_Cons1)

lemma plain_arrow_law: "arrow_law plain_codec"
proof -
  have "ce_index_of plain_codec s (field_name (s ! i)) = Inr i"
    if "i < length s" "\<forall>j<i. field_name (s ! j) \<noteq> field_name (s ! i)" for s i
    using field_index_first [OF that] by (simp add: plain_codec_def)
  moreover have "ce_try_new plain_codec s cols = Inr (batch_of s cols n)" if "s \<noteq> []" "fits n s cols" for s cols n
    using fits_first [OF that] by (simp add: plain_codec_def)
  moreover have "ce_writer_try_new plain_codec s props = Inr [] \<and> ce_writer_write plain_codec [] (batch_of s cols n) = Inr [batch_of s cols n]
      \<and> ce_writer_close plain_codec [batch_of s cols n] = Inr [batch_of s cols n]
      \<and> ce_reader_try_new plain_codec [batch_of s cols n] = Inr [batch_of s cols n]
      \<and> sum_list [n] = n \<and> ce_reader_build plain_codec [batch_of s cols n] = Inr (map Inr (slices [n] s cols))"
    if "fits n s cols" for s props cols n
    using fits_take [OF that] by (simp add: plain_codec_def)
  ultimately show ?thesis unfolding arrow_law_def by blast
qed

lemma plain_codec_law: "codec_law plain_codec"
proof -
  have "json_law plain_codec" by (simp add: json_law_def json_inverse_def plain_codec_def o_def)
  moreover have "chrono_law plain_codec" by (simp add: chrono_law_def plain_codec_def floor_ms_def ex_env_def)
  ultimately show ?thesis using plain_arrow_law by (simp add: codec_law_def)
qed

end
