(* ===== verification/State_Storage.thy ===== *)
theory State_Storage
  imports State_Roundtrip Compactor_Pool Codec_Example
begin

text \<open>
  The programs that store a state and load it, running alone on the in-memory backend. Into a directory
  that holds nothing yet, \<^verbatim>\<open>write_state_parquet\<close> succeeds, and \<^verbatim>\<open>load_snapshot_state\<close> on the table
  paths it returns gives the state back.
\<close>

section \<open>Artifact paths\<close>

definition is_hex :: "char \<Rightarrow> bool" where
  "is_hex c \<longleftrightarrow> (let n = of_char c :: nat in 48 \<le> n \<and> n \<le> 57 \<or> 97 \<le> n \<and> n \<le> 102)"

text \<open>\<^verbatim>\<open>hex::encode\<close> gives lower-case hexadecimal digits.\<close>

definition hex_law :: "'d service_env \<Rightarrow> bool" where
  "hex_law env \<longleftrightarrow> (\<forall>d. list_all is_hex (sv_sha256_hex env d)) \<and> (\<forall>s. list_all is_hex (sha256_hex (sv_lib env) s))"

definition path_char :: "char \<Rightarrow> bool" where
  "path_char c \<longleftrightarrow> c \<noteq> CHR ''/'' \<and> c \<noteq> CHR 0x5C \<and> c \<noteq> CHR ''%'' \<and> c \<noteq> CHR 0x0A \<and> c \<noteq> CHR 0x0D \<and> c \<noteq> CHR 0x00"

lemma hex_path_char: "is_hex c \<Longrightarrow> path_char c \<and> c \<noteq> CHR ''.''"
  by (auto simp: is_hex_def path_char_def Let_def)

lemma split_on_split: "split_on c (a @ c # b) = split_on c a @ split_on c b"
  by (induction a) (auto split: list.split)

lemma validate_path_segment:
  assumes "validate_path base = Inr ()" "base \<noteq> []" "list_all path_char seg" "seg \<noteq> ''.''" "seg \<noteq> ''..''"
  shows "validate_path (base @ CHR ''/'' # seg) = Inr ()"
proof -
  have "CHR ''/'' \<notin> set seg" "CHR 0x5C \<notin> set seg" "CHR ''%'' \<notin> set seg"
    "CHR 0x0A \<notin> set seg" "CHR 0x0D \<notin> set seg" "CHR 0x00 \<notin> set seg"
    using assms(3) by (auto simp: list_all_iff path_char_def)
  with assms(1,2,4,5) show ?thesis
    by (auto simp: validate_path_def split_on_split split: if_splits)
qed

fun table_stem :: "lib_env \<Rightarrow> table_name \<Rightarrow> string" where
  "table_stem lib T_Runs = ''runs''"
| "table_stem lib T_Tasks = ''tasks''"
| "table_stem lib (T_CatalogRunIndex org) = ''catalog_run_index/org-'' @ get_prefix 32 (sha256_hex lib org)"
| "table_stem lib T_DepSatisfaction = ''dep_satisfaction''"
| "table_stem lib T_Timers = ''timers''"
| "table_stem lib T_DispatchOutbox = ''dispatch_outbox''"
| "table_stem lib T_SensorState = ''sensor_state''"
| "table_stem lib T_SensorEvals = ''sensor_evals''"
| "table_stem lib T_RunKeyIndex = ''run_key_index''"
| "table_stem lib T_RunKeyConflicts = ''run_key_conflicts''"
| "table_stem lib T_PartitionStatus = ''partition_status''"
| "table_stem lib T_IdempotencyKeys = ''idempotency_keys''"
| "table_stem lib T_ScheduleDefinitions = ''schedule_definitions''"
| "table_stem lib T_ScheduleState = ''schedule_state''"
| "table_stem lib T_ScheduleTicks = ''schedule_ticks''"
| "table_stem lib T_Backfills = ''backfills''"
| "table_stem lib T_BackfillChunks = ''backfill_chunks''"

definition artifact_file :: "'d service_env \<Rightarrow> string \<Rightarrow> table_name \<Rightarrow> 'd \<Rightarrow> string" where
  "artifact_file env base_path name d =
     base_path @ ''/'' @ table_stem (sv_lib env) name @ ''.'' @ take 12 (sv_sha256_hex env d) @ ''.parquet''"

lemma hash_path:
  "hash_suffixed_artifact_path base_path (table_stem (sv_lib env) name @ ''.parquet'') (sha256_prefixed env d) =
     artifact_file env base_path name d"
proof -
  have "split_once CHR ''.'' (rev ''parquet'' @ CHR ''.'' # rev stem) = Some (rev ''parquet'', rev stem)" for stem
    by (rule split_once_append) simp
  then have "rsplit_once CHR ''.'' (stem @ ''.parquet'') = Some (stem, ''parquet'')" for stem
    by (simp add: rsplit_once_def)
  moreover have "take (min (length h) 12) h = take 12 h" for h :: string
    by (simp add: min_def)
  ultimately show ?thesis
    by (simp add: hash_suffixed_artifact_path_def artifact_file_def sha256_prefixed_def strip_prefix_def starts_with_def Let_def)
qed

lemma get_prefix_set: "set (get_prefix n s) \<subseteq> set s"
  by (auto simp: get_prefix_def dest: in_set_takeD)

lemma sha_prefix_hex:
  assumes "hex_law env"
  shows "list_all is_hex (get_prefix n (sha256_hex (sv_lib env) s))"
  using assms get_prefix_set [of n "sha256_hex (sv_lib env) s"] by (auto simp: hex_law_def list_all_iff)

lemma stem_no_dot: "hex_law env \<Longrightarrow> CHR ''.'' \<notin> set (table_stem (sv_lib env) name)"
  using sha_prefix_hex [of env 32] by (cases name) (auto simp: list_all_iff dest: hex_path_char)

lemma hex_path_chars: "list_all is_hex s \<Longrightarrow> list_all path_char s"
  using hex_path_char by (auto simp: list_all_iff)

lemma artifact_file_valid:
  assumes hex: "hex_law env" and base: "validate_path base_path = Inr ()" "base_path \<noteq> []"
  shows "validate_path (artifact_file env base_path name d) = Inr ()"
proof -
  let ?tail = "CHR ''.'' # take 12 (sv_sha256_hex env d) @ ''.parquet''"
  have "list_all is_hex (take 12 (sv_sha256_hex env d))"
    using hex by (auto simp: hex_law_def list_all_iff dest!: in_set_takeD)
  then have h: "list_all path_char ?tail" using hex_path_chars by (simp add: path_char_def)
  show ?thesis
  proof (cases "is_catalog name")
    case True
    then obtain org where org: "name = T_CatalogRunIndex org" by (cases name) auto
    have "list_all path_char (''org-'' @ get_prefix 32 (sha256_hex (sv_lib env) org) @ ?tail)"
      unfolding list_all_append using hex_path_chars [OF sha_prefix_hex [OF hex]] h by (simp add: path_char_def)
    moreover have "validate_path (base_path @ CHR ''/'' # ''catalog_run_index'') = Inr ()"
      by (rule validate_path_segment [OF base]) (simp_all add: path_char_def)
    ultimately show ?thesis
      using validate_path_segment [of "base_path @ CHR ''/'' # ''catalog_run_index''"
          "''org-'' @ get_prefix 32 (sha256_hex (sv_lib env) org) @ ?tail"]
      by (simp add: artifact_file_def org)
  next
    case False
    then have stem: "list_all path_char (table_stem (sv_lib env) name)" "\<exists>c cs. table_stem (sv_lib env) name = c # cs \<and> c \<noteq> CHR ''.''"
      by (cases name; simp add: path_char_def)+
    then have "validate_path (base_path @ CHR ''/'' # (table_stem (sv_lib env) name @ ?tail)) = Inr ()"
      using h by (intro validate_path_segment [OF base]) auto
    then show ?thesis by (simp add: artifact_file_def)
  qed
qed

text \<open>Two tables never share a file; two organisations do only if their hashes collide.\<close>

definition orgs_apart :: "lib_env \<Rightarrow> fold_state \<Rightarrow> bool" where
  "orgs_apart lib s \<longleftrightarrow>
     distinct (map (\<lambda>org. get_prefix 32 (sha256_hex lib org)) (orgs_of (hm_values (fs_catalog_run_index s))))"

lemma artifact_file_inj:
  assumes "hex_law env" "artifact_file env base name d = artifact_file env base name' d'"
  shows "table_stem (sv_lib env) name = table_stem (sv_lib env) name'"
proof -
  have "table_stem (sv_lib env) name @ CHR ''.'' # take 12 (sv_sha256_hex env d) @ ''.parquet'' =
    table_stem (sv_lib env) name' @ CHR ''.'' # take 12 (sv_sha256_hex env d') @ ''.parquet''"
    using assms(2) by (simp add: artifact_file_def)
  from sep_first_eq [OF this stem_no_dot [OF assms(1)] stem_no_dot [OF assms(1)]] show ?thesis by (rule conjunct1)
qed


section \<open>Writing\<close>

text \<open>The files a scope holds.\<close>

definition mem_view :: "scoped_storage \<Rightarrow> 'b memory_backend \<Rightarrow> string \<Rightarrow> 'b list option" where
  "mem_view sc m p =
     (if validate_path p = Inr () then map_option so_data (hm_get (mb_objects m) (scoped_path sc p)) else None)"

definition mem_added :: "datetime \<Rightarrow> string \<Rightarrow> 'b list \<Rightarrow> 'b memory_backend \<Rightarrow> 'b memory_backend" where
  "mem_added now p d m = m\<lparr>mb_next_version := mb_next_version m + 1, mb_objects := hm_insert p
     \<lparr>so_data = d, so_version = mb_next_version m + 1, so_last_modified = now\<rparr> (mb_objects m)\<rparr>"

lemma put_absent_run:
  assumes "validate_path p = Inr ()" "hm_get (mb_objects m) (scoped_path sc p) = None"
  shows "io_run memory_ops (put_raw sc p d WP_DoesNotExist k) now m =
    io_run memory_ops (k (Inr (WR_Success (show_int (mb_next_version m + 1))))) now (mem_added now (scoped_path sc p) d m)"
  using assms by (simp add: put_raw_def memory_put_def memory_conflict_def mem_added_def Let_def)

lemma write_jobs_run:
  assumes hex: "hex_law env" and base: "validate_path base = Inr ()" "base \<noteq> []"
    and "\<forall>(name, file, encoded) \<in> set jobs. file = table_stem (sv_lib env) name @ ''.parquet'' \<and> (\<exists>d. encoded = Inr d)"
    and "distinct (map (\<lambda>j. table_stem (sv_lib env) (fst j)) jobs)"
    and "\<forall>j \<in> set jobs. \<forall>d. hm_get (mb_objects m) (scoped_path sc (artifact_file env base (fst j) d)) = None"
  shows "\<exists>m' out. (\<forall>k :: flow_error + (table_name \<times> table_artifact) list \<Rightarrow> ('b list, 'r) io. io_run memory_ops (write_jobs env sc base jobs k) now m = io_run memory_ops (k (Inr out)) now m')
    \<and> written (mem_view sc m') jobs out \<and> (\<forall>p. hm_get (mb_objects m) p \<noteq> None \<longrightarrow> hm_get (mb_objects m') p = hm_get (mb_objects m) p)"
  using assms(4-6)
proof (induction jobs arbitrary: m)
  case Nil
  then show ?case by (intro exI [of _ m] exI [of _ "[]"]) (simp add: written_def)
next
  case (Cons j jobs)
  then obtain name d where j: "j = (name, table_stem (sv_lib env) name @ ''.parquet'', Inr d)" by (cases j) auto
  let ?p = "artifact_file env base name d"
  note valid = artifact_file_valid [OF hex base]
  define m1 where "m1 = mem_added now (scoped_path sc ?p) d m"
  have put: "io_run memory_ops (put_raw sc ?p d WP_DoesNotExist k) now m =
      io_run memory_ops (k (Inr (WR_Success (show_int (mb_next_version m + 1))))) now m1" for k
    unfolding m1_def using Cons.prems(3) by (intro put_absent_run valid) (simp add: j)
  have "artifact_file env base (fst j') d' \<noteq> ?p" if "j' \<in> set jobs" for j' d'
    using artifact_file_inj [OF hex, of base "fst j'" d' name d] Cons.prems(2) that by (auto simp: j rev_image_eqI)
  then have "\<forall>j \<in> set jobs. \<forall>d. hm_get (mb_objects m1) (scoped_path sc (artifact_file env base (fst j) d)) = None"
    using Cons.prems(3) by (simp add: m1_def mem_added_def hm_simps scoped_path_inj)
  then obtain m' out where rest: "\<forall>k :: flow_error + (table_name \<times> table_artifact) list \<Rightarrow> ('b list, 'r) io. io_run memory_ops (write_jobs env sc base jobs k) now m1 = io_run memory_ops (k (Inr out)) now m'"
    "written (mem_view sc m') jobs out" "\<forall>p. hm_get (mb_objects m1) p \<noteq> None \<longrightarrow> hm_get (mb_objects m') p = hm_get (mb_objects m1) p"
    using Cons.IH [of m1] Cons.prems(1,2) by auto
  define a where "a = table_artifact_new ?p (sha256_prefixed env d) (u64_of_len (sv_len env d))"
  have "mem_view sc m' (artifact_path a) = Some d"
    using rest(3) by (simp add: a_def mem_view_def valid m1_def mem_added_def hm_simps table_artifact_new_def artifact_path_def)
  with rest(2) have "written (mem_view sc m') (j # jobs) ((name, a) # out)" by (simp add: written_def j)
  moreover have "io_run memory_ops (write_jobs env sc base (j # jobs) k) now m = io_run memory_ops (k (Inr ((name, a) # out))) now m'"
    for k :: "flow_error + (table_name \<times> table_artifact) list \<Rightarrow> ('b list, 'r) io"
    using rest(1) by (simp add: j write_parquet_artifact_def write_parquet_file_def hash_path put a_def Let_def)
  moreover have "hm_get (mb_objects m) p \<noteq> None \<longrightarrow> hm_get (mb_objects m') p = hm_get (mb_objects m) p" for p
    using rest(3) Cons.prems(3) by (auto simp: m1_def mem_added_def hm_simps j split: if_splits)
  ultimately show ?case by (intro exI [of _ m'] exI [of _ "(name, a) # out"] conjI allI) simp_all
qed

section \<open>Reading\<close>

lemma read_jobs_run:
  "read_files (mem_view sc m) jobs s = Some s' \<Longrightarrow>
   io_run memory_ops (read_jobs sc jobs s k) now m = io_run memory_ops (k (Inr s')) now m"
proof (induction jobs arbitrary: s)
  case (Cons j jobs)
  obtain a ins where j: "j = (a, ins)" by fastforce
  with Cons.prems obtain d s1 where "mem_view sc m (artifact_path a) = Some d" "ins d s = Inr s1"
    "read_files (mem_view sc m) jobs s1 = Some s'" by (auto split: option.splits sum.splits)
  then show ?case using Cons.IH [of s1]
    by (cases "validate_path (artifact_path a)") (auto simp: j get_raw_def mem_view_def [of sc m "artifact_path a"] memory_get_def split: if_splits)
qed simp


section \<open>The files of a state\<close>

lemma table_job_mem: "(n, f, e) \<in> set (map_table_job ie name file rows encode) \<longleftrightarrow>
    (rows \<noteq> [] \<or> ie) \<and> n = name \<and> f = file \<and> e = encode (hm_values rows)"
  by (auto simp: map_table_job_def)

lemma catalog_job_mem: "(n, f, e) \<in> set (catalog_run_index_jobs env sc ie rows) \<Longrightarrow>
    \<exists>org rs. n = T_CatalogRunIndex org \<and> f = catalog_run_index_org_file (sv_lib env) org
      \<and> e = pq_write_catalog_run_index (sv_parquet env) rs"
  by (auto simp: catalog_run_index_jobs_def Let_def split: if_splits)

lemma state_job_file:
  "(name, file, encoded) \<in> set (state_jobs env sc ie s) \<Longrightarrow> file = table_stem (sv_lib env) name @ ''.parquet''"
  by (auto simp: state_jobs_def Let_def table_job_mem catalog_run_index_org_file_def dest!: catalog_job_mem)

lemma state_job_encoded:
  assumes law: "codec_law ce" and "sv_parquet env = flow_parquet ce" and "(name, file, encoded) \<in> set (state_jobs env sc ie s)"
  shows "\<exists>d. encoded = Inr d"
proof -
  have rt: "\<exists>d. encode rows = Inr d" if "\<forall>rows. \<exists>d. encode rows = Inr d \<and> Q d rows" for encode rows Q
    using that by blast
  from assms(2,3) show ?thesis
    by (auto simp: state_jobs_def Let_def table_job_mem flow_parquet_def dest!: catalog_job_mem
        intro: rt [OF runs_roundtrip [OF law]] rt [OF tasks_roundtrip [OF law]] rt [OF catalog_run_index_roundtrip [OF law]]
          rt [OF dep_satisfaction_roundtrip [OF law]] rt [OF timers_roundtrip [OF law]] rt [OF dispatch_outbox_roundtrip [OF law]]
          rt [OF sensor_state_roundtrip [OF law]] rt [OF sensor_evals_roundtrip [OF law]] rt [OF run_key_index_roundtrip [OF law]]
          rt [OF run_key_conflicts_roundtrip [OF law]] rt [OF partition_status_roundtrip [OF law]]
          rt [OF idempotency_keys_roundtrip [OF law]] rt [OF schedule_definitions_roundtrip [OF law]]
          rt [OF schedule_state_roundtrip [OF law]] rt [OF schedule_ticks_roundtrip [OF law]]
          rt [OF backfills_roundtrip [OF law]] rt [OF backfill_chunks_roundtrip [OF law]])
qed

definition table_stems :: "lib_env \<Rightarrow> 'd table_job list \<Rightarrow> string list" where
  "table_stems lib jobs = map (\<lambda>j. table_stem lib (fst j)) jobs"

lemma table_stems_append: "table_stems lib (a @ b) = table_stems lib a @ table_stems lib b"
  by (simp add: table_stems_def)

lemma table_stems_job: "set (table_stems lib (map_table_job ie name file rows encode)) \<subseteq> {table_stem lib name}"
  by (simp add: table_stems_def map_table_job_def)

lemma distinct_job:
  "distinct (table_stems lib (map_table_job ie name file rows encode))"
  "table_stem lib name \<notin> set xs \<Longrightarrow> distinct xs \<Longrightarrow> distinct (table_stems lib (map_table_job ie name file rows encode) @ xs)"
  by (auto simp: table_stems_def map_table_job_def)

lemma notin_job:
  "x \<noteq> table_stem lib name \<Longrightarrow> x \<notin> set (table_stems lib (map_table_job ie name file rows encode))"
  "x \<noteq> table_stem lib name \<Longrightarrow> x \<notin> set xs \<Longrightarrow> x \<notin> set (table_stems lib (map_table_job ie name file rows encode) @ xs)"
  by (auto dest!: subsetD [OF table_stems_job])

lemma table_stems_catalog:
  "x \<in> set (table_stems lib (catalog_run_index_jobs env sc ie rows)) \<Longrightarrow> take 18 x = ''catalog_run_index/''"
  by (auto simp: table_stems_def dest!: catalog_job_mem)

lemma distinct_catalog:
  assumes "orgs_apart (sv_lib env) s" "distinct xs" "list_all (\<lambda>x. take 18 x \<noteq> ''catalog_run_index/'') xs"
  shows "distinct (table_stems (sv_lib env) (catalog_run_index_jobs env sc ie (fs_catalog_run_index s)) @ xs)"
proof -
  have "distinct (table_stems (sv_lib env) (catalog_run_index_jobs env sc ie (fs_catalog_run_index s)))"
    using assms(1)
    by (auto simp: table_stems_def orgs_apart_def catalog_run_index_jobs_def Let_def distinct_map inj_on_def o_def)
  with assms(2,3) show ?thesis by (auto simp: list_all_iff dest: table_stems_catalog)
qed

lemma notin_catalog:
  "take 18 x \<noteq> ''catalog_run_index/'' \<Longrightarrow> x \<notin> set xs \<Longrightarrow>
   x \<notin> set (table_stems lib (catalog_run_index_jobs env sc ie rows) @ xs)"
  using table_stems_catalog [of x] by auto

lemma all_job:
  "P (table_stem lib name) \<Longrightarrow> list_all P (table_stems lib (map_table_job ie name file rows encode))"
  "P (table_stem lib name) \<Longrightarrow> list_all P xs \<Longrightarrow> list_all P (table_stems lib (map_table_job ie name file rows encode) @ xs)"
  by (auto simp: list_all_iff dest!: subsetD [OF table_stems_job])

lemma state_jobs_apart:
  assumes "orgs_apart (sv_lib env) s"
  shows "distinct (map (\<lambda>j. table_stem (sv_lib env) (fst j)) (state_jobs env sc ie s))"
  unfolding table_stems_def [symmetric] state_jobs_def Let_def table_stems_append
  by (intro distinct_job distinct_catalog [OF assms] notin_job notin_catalog all_job) simp_all

text \<open>C10: A state written to storage loads back. Into a directory that holds no object, with hexadecimal
  file hashes that tell the organisations of the catalog index apart, \<^verbatim>\<open>write_state_parquet\<close> succeeds, and
  \<^verbatim>\<open>load_snapshot_state\<close> on the table paths it returns succeeds and gives the same rows under the same
  keys in all seventeen tables, with every instant rounded down to the millisecond.\<close>

theorem state_files_roundtrip:
  assumes "codec_law ce" "sv_parquet env = flow_parquet ce" "hex_law env"
    and "rows_keyed s" "orgs_apart (sv_lib env) s"
    and "validate_path base_path = Inr ()" "base_path \<noteq> []"
    and "\<forall>p \<in> set (hm_keys (mb_objects m)). \<not> starts_with p (scoped_path sc (base_path @ ''/''))"
  shows "\<exists>m' paths loaded.
    io_run memory_ops (write_state_parquet env sc base_path s include_empty Return) now m = (m', Inr paths)
    \<and> io_run memory_ops (load_snapshot_state env sc paths Return) later m' = (m', Inr loaded)
    \<and> same_tables loaded (state_ms s)"
proof -
  let ?jobs = "state_jobs env sc include_empty s"
  have "hm_get (mb_objects m) (scoped_path sc (artifact_file env base_path name d)) = None" for name d
    using assms(8) by (force simp: artifact_file_def scoped_path_def starts_with_iff map_of_eq_None_iff)
  then obtain m' out where w: "\<forall>k :: _ \<Rightarrow> (_, flow_error + table_paths) io.
      io_run memory_ops (write_jobs env sc base_path ?jobs k) now m = io_run memory_ops (k (Inr out)) now m'"
    "written (mem_view sc m') ?jobs out"
    using write_jobs_run [OF assms(3,6,7), of ?jobs m sc now] state_job_file state_job_encoded [OF assms(1,2)]
      state_jobs_apart [OF assms(5)] by blast
  from files_back [OF assms(1,2,4) w(2)] obtain loaded where
    "read_files (mem_view sc m') (snapshot_read_jobs (sv_parquet env) (paths_of out)) new_fold_state = Some loaded"
    "same_tables loaded (state_ms s)" by blast
  with w(1) show ?thesis
    by (intro exI [of _ m'] exI [of _ "paths_of out"] exI [of _ loaded])
      (simp add: write_state_parquet_def load_snapshot_state_def read_jobs_run)
qed

text \<open>An instance: the state after one triggered run, into an empty bucket.\<close>

definition table_env :: "record_batch list service_env" where
  "table_env = \<lparr>sv_lib = ex_env,
     sv_lock = \<lparr>le_to_vec = (\<lambda>i. Inl ''no locks''), le_from_slice = (\<lambda>d. Inl ''no locks''), le_from_std = (\<lambda>n. None)\<rparr>,
     sv_manifest_to_json = (\<lambda>m. Inl ''no manifests''), sv_manifest_from_json = (\<lambda>d. Inl ''no manifests''),
     sv_pointer_to_json = (\<lambda>p. Inl ''no pointers''), sv_pointer_from_json = (\<lambda>d. Inl ''no pointers''),
     sv_event_from_json = (\<lambda>d. Inl ''no events''),
     sv_sha256_hex = (\<lambda>d. show_nat (length d)), sv_len = length,
     sv_debug_str = (\<lambda>s. CHR 0x22 # s @ [CHR 0x22]), sv_parquet = flow_parquet plain_codec\<rparr>"

lemma show_nat_hex: "list_all is_hex (show_nat n)"
  using show_nat_digits by (fastforce simp: list_all_iff is_hex_def digit_of_def Let_def split: if_splits)

lemma table_env_hex: "hex_law table_env"
  using show_nat_hex by (auto simp: hex_law_def table_env_def sha256_hex_def ex_env_def list_all_iff)

definition triggered_state :: fold_state where
  "triggered_state = fold_event ex_env ex_trigger new_fold_state"

lemma triggered_state_orgs: "orgs_apart ex_env triggered_state"
  by (simp add: orgs_apart_def triggered_state_def fold_eval orgs_of_def)

theorem state_files_roundtrip_witness:
  "codec_law plain_codec \<and> hex_law table_env \<and> rows_keyed triggered_state \<and>
   (\<exists>m' paths loaded.
      io_run memory_ops (write_state_parquet table_env ex_tenant ''state'' triggered_state True Return) 5 memory_new = (m', Inr paths)
      \<and> io_run memory_ops (load_snapshot_state table_env ex_tenant paths Return) 6 m' = (m', Inr loaded)
      \<and> same_tables loaded (state_ms triggered_state))"
proof -
  have keyed: "rows_keyed triggered_state"
    using keyed_states.event [of new_fold_state ex_env ex_trigger] by (simp add: triggered_state_def new_fold_state_keyed)
  show ?thesis
    using state_files_roundtrip [OF plain_codec_law _ table_env_hex keyed, of "''state''" memory_new ex_tenant True 5 6]
      plain_codec_law table_env_hex keyed triggered_state_orgs
    by (simp add: table_env_def validate_path_def memory_new_def)
qed

end
