(* ===== verification/Spec2Isabelle.thy ===== *)
theory Spec2Isabelle
  imports Fold_Graph State_Storage
begin

text \<open>
  \<^bold>\<open>A verification development for the Arco orchestration core.\<close>

  Arco is a serverless data platform. Its orchestration half (\<^verbatim>\<open>crates/arco-flow\<close>) is event
  sourced: controllers and worker callbacks append immutable events to a ledger, and a compactor
  folds the events into a relational read model (runs, tasks, dependency edges, dispatch outbox,
  timers, schedules, sensors, backfills, partition status, run keys, catalog run index,
  idempotency keys) that the controllers read to decide what to do next. Delivery is at least
  once and out of order, so every fold handler has to be idempotent and tolerant of reordering.
  The development models that fold in full and proves what the rest of the platform relies on.

  \<^bold>\<open>Theories and the code they model\<close> (paths below \<^verbatim>\<open>src/crates/arco-flow/src/orchestration\<close>
  unless said otherwise).
  \<^item> \<open>Arco_Prelude\<close>: machine integers, strings, the hash map, decimal printing and parsing.
  \<^item> \<open>Arco_Env\<close>: the record \<^typ>\<open>lib_env\<close> of third-party functions, and \<^verbatim>\<open>ids.rs\<close>.
  \<^item> \<open>Orch_Events\<close>: \<^verbatim>\<open>events/*.rs\<close> and the payload types of \<^verbatim>\<open>arco-worker-contract\<close>.
  \<^item> \<open>Orch_Rows\<close>: the row types and \<^typ>\<open>fold_state\<close> of \<^verbatim>\<open>compactor/fold.rs\<close>, ids and paths.
  \<^item> \<open>Fold_Tasks\<close>, \<open>Fold_Finish\<close>, \<open>Fold_Dispatch\<close>, \<open>Fold_Automation\<close>, \<open>Fold_Event\<close>: the
    handlers of \<^verbatim>\<open>compactor/fold.rs\<close>, one definition per function of the source, and
    \<^const>\<open>fold_event\<close> on top. A handler takes the event's fields and the state and returns the
    new state with the boolean the Rust method returns.
  \<^item> \<open>Fold_Core\<close>: the step relation \<^const>\<open>core_step\<close> on the run/task/edge tables that every
    handler refines, and the locales that lift a step invariant to whole ledgers.
  \<^item> \<open>Fold_Monotone\<close>, \<open>Fold_Index\<close>, \<open>Fold_Counters\<close>, \<open>Fold_Deps\<close>: the invariants and
    the properties.

  \<^bold>\<open>Conventions.\<close> A Rust \<^verbatim>\<open>HashMap\<close> is an association list, \<^verbatim>\<open>String\<close> a character list with
  bytewise order, \<^verbatim>\<open>u32\<close> a 32-bit word whose addition wraps (the release-build behaviour),
  \<^verbatim>\<open>DateTime\<close> an integer. Mutation through \<^verbatim>\<open>&mut self\<close> is state passing.

  \<^bold>\<open>Bounds and fuel.\<close> The queue loop of \<^const>\<open>propagate_loop\<close> is a total function with a measure.
  \<^const>\<open>count_contiguous\<close> carries fuel, one round more than there are chunks. Counter statements
  assume plans of fewer than \<^term>\<open>2 ^ 32 :: nat\<close> tasks, which is where the source's
  \<^verbatim>\<open>u32::try_from\<close> is exact.

  \<^bold>\<open>Not modelled.\<close> Metrics and tracing calls, Parquet encoding, object-store access, the HTTP
  layers, and the crates outside the orchestration core.
\<close>

end
